(* ===== verification/Prelude.thy ===== *)
theory Prelude
  imports Main "HOL-Library.Word"
begin

text \<open>
  What every component of the development shares: the C integer types, byte buffers with
  indeterminate cells, the ways a C computation can stop other than by returning, the
  computations themselves (functions of a world of an arbitrary type \<open>'w\<close>: the kernel, the
  devices behind it and the C library), and the rules that reduce a statement about a composed
  computation to statements about its parts.

  A computation returns \<open>None\<close> when it never comes back, \<open>Some (Inl s)\<close> when it stops with
  \<open>s\<close> (undefined behaviour caught at the access that causes it, or a call of
  \<^verbatim>\<open>exit\<close>), and \<open>Some (Inr (a, w))\<close> when it returns \<open>a\<close> in the world \<open>w\<close>.
\<close>

unbundle bit_operations_syntax

named_theorems cmd_simps \<open>rewriting a judgement about a computation into its parts\<close>
named_theorems buf_simps \<open>lengths and contents of buffers\<close>

section \<open>Integers\<close>

type_synonym u8 = "8 word"
type_synonym u16 = "16 word"
type_synonym u32 = "32 word"

text \<open>The value of an \<^verbatim>\<open>int\<close> computation (two's complement, wrapping at 32 bits).\<close>

definition cint :: "int \<Rightarrow> int" where
  "cint i = signed_take_bit 31 i"

text \<open>The conversion of an \<^verbatim>\<open>int\<close> to a 64-bit \<^verbatim>\<open>size_t\<close>: a negative value becomes huge.\<close>

definition size_of_int :: "int \<Rightarrow> nat" where
  "size_of_int i = nat (i mod 2 ^ 64)"

lemma cint_small [simp]: "- (2 ^ 31) \<le> i \<Longrightarrow> i < 2 ^ 31 \<Longrightarrow> cint i = i"
  by (simp add: cint_def signed_take_bit_int_eq_self)

lemma size_of_int_small [simp]: "0 \<le> i \<Longrightarrow> i < 2 ^ 64 \<Longrightarrow> size_of_int i = nat i"
  by (simp add: size_of_int_def)

lemma size_of_int_of_nat [simp]: "n < 2 ^ 64 \<Longrightarrow> size_of_int (int n) = n"
  by (simp add: size_of_int_def)

lemma size_of_int_minus_one: "size_of_int (- 1) = 18446744073709551615"
  by (simp add: size_of_int_def)

lemma unat_of_nat_u32: "n < 2 ^ 32 \<Longrightarrow> unat (of_nat n :: u32) = n"
  by (simp add: unat_of_nat take_bit_eq_mod)

lemma unat_ucast_byte: "unat (ucast (x :: u8) :: u32) = unat x"
  using unsigned_less [of x, where 'a = nat]
  by (simp add: unsigned_ucast_eq take_bit_nat_eq_self)

section \<open>Ways to stop\<close>

datatype stop =
    Out_of_bounds
  | Uninitialised
  | Null_pointer
  | Bad_free
  | Exited int

type_synonym 'a checked = "stop + 'a"

definition sbind :: "'a checked \<Rightarrow> ('a \<Rightarrow> 'b checked) \<Rightarrow> 'b checked" where
  "sbind m k = (case m of Inl s \<Rightarrow> Inl s | Inr a \<Rightarrow> k a)"

lemma sbind_simps [simp]:
  "sbind (Inl s) k = Inl s"
  "sbind (Inr a) k = k a"
  by (simp_all add: sbind_def)

lemma sbind_eq_Inr: "sbind m k = Inr b \<longleftrightarrow> (\<exists>a. m = Inr a \<and> k a = Inr b)"
  by (cases m) auto

section \<open>Buffers\<close>

text \<open>
  A buffer is the list of its bytes; \<open>None\<close> is an indeterminate byte (storage that was never
  written). Copying an indeterminate byte is allowed, as it is for \<^verbatim>\<open>memcpy\<close>; using its
  value is not.
\<close>

type_synonym buf = "u8 option list"

definition load8 :: "buf \<Rightarrow> nat \<Rightarrow> u8 checked" where
  "load8 b i =
     (if i < length b
      then (case b ! i of None \<Rightarrow> Inl Uninitialised | Some x \<Rightarrow> Inr x)
      else Inl Out_of_bounds)"

text \<open>\<^verbatim>\<open>memcpy(dst + d, src + s, n)\<close>.\<close>

definition memcpy :: "buf \<Rightarrow> nat \<Rightarrow> buf \<Rightarrow> nat \<Rightarrow> nat \<Rightarrow> buf checked" where
  "memcpy dst d src s n =
     (if d + n \<le> length dst \<and> s + n \<le> length src
      then Inr (take d dst @ take n (drop s src) @ drop (d + n) dst)
      else Inl Out_of_bounds)"

definition uninit :: "nat \<Rightarrow> buf" where
  "uninit n = replicate n None"

definition known :: "u8 list \<Rightarrow> buf" where
  "known bs = map Some bs"

lemma length_uninit [simp, buf_simps]: "length (uninit n) = n"
  by (simp add: uninit_def)

lemma length_known [simp, buf_simps]: "length (known bs) = length bs"
  by (simp add: known_def)

lemma nth_uninit [simp, buf_simps]: "i < n \<Longrightarrow> uninit n ! i = None"
  by (simp add: uninit_def)

lemma nth_known [simp, buf_simps]: "i < length bs \<Longrightarrow> known bs ! i = Some (bs ! i)"
  by (simp add: known_def)

lemma known_append [simp]: "known (xs @ ys) = known xs @ known ys"
  by (simp add: known_def)

lemma known_Nil [simp]: "known [] = []"
  by (simp add: known_def)

lemma known_inject [simp]: "known xs = known ys \<longleftrightarrow> xs = ys"
  by (simp add: known_def inj_map_eq_map)

lemma take_known [simp]: "take n (known bs) = known (take n bs)"
  by (simp add: known_def take_map)

lemma drop_known [simp]: "drop n (known bs) = known (drop n bs)"
  by (simp add: known_def drop_map)

lemma load8_known [simp]: "i < length bs \<Longrightarrow> load8 (known bs @ b) i = Inr (bs ! i)"
  by (simp add: load8_def nth_append)

lemma load8_known_all [simp]: "i < length bs \<Longrightarrow> load8 (known bs) i = Inr (bs ! i)"
  by (simp add: load8_def)

lemma load8_uninit [simp]: "i < n \<Longrightarrow> load8 (uninit n) i = Inl Uninitialised"
  by (simp add: load8_def)

lemma memcpy_Inr_iff:
  "memcpy dst d src s n = Inr r \<longleftrightarrow>
     d + n \<le> length dst \<and> s + n \<le> length src \<and>
     r = take d dst @ take n (drop s src) @ drop (d + n) dst"
  by (auto simp: memcpy_def)

lemma memcpy_fits:
  "d + n \<le> length dst \<Longrightarrow> s + n \<le> length src \<Longrightarrow>
   memcpy dst d src s n = Inr (take d dst @ take n (drop s src) @ drop (d + n) dst)"
  by (simp add: memcpy_def)

lemma memcpy_nothing [simp]: "memcpy b 0 s 0 0 = Inr b"
  by (simp add: memcpy_def)

lemma memcpy_overflow:
  "length dst < d + n \<Longrightarrow> memcpy dst d src s n = Inl Out_of_bounds"
  by (simp add: memcpy_def)

lemma memcpy_length: "memcpy dst d src s n = Inr r \<Longrightarrow> length r = length dst"
  by (auto simp: memcpy_def split: if_splits)

text \<open>A buffer after its first bytes have been written.\<close>

definition overwrite :: "u8 list \<Rightarrow> buf \<Rightarrow> buf" where
  "overwrite bs b = known bs @ drop (length bs) b"

lemma length_overwrite [simp, buf_simps]:
  "length bs \<le> length b \<Longrightarrow> length (overwrite bs b) = length b"
  by (simp add: overwrite_def)

lemma overwrite_Nil [simp]: "overwrite [] b = b"
  by (simp add: overwrite_def)

lemma load8_overwrite:
  "length bs \<le> length b \<Longrightarrow>
   load8 (overwrite bs b) i = (if i < length bs then Inr (bs ! i) else load8 b i)"
  by (simp add: overwrite_def load8_def nth_append)

lemma memcpy_overwrite [simp]:
  "length bs \<le> length b \<Longrightarrow>
   memcpy b 0 (known bs) 0 (length bs) = Inr (overwrite bs b)"
  by (simp add: overwrite_def memcpy_fits)

lemma memcpy_from_overwrite:
  "d + length bs \<le> length dst \<Longrightarrow> length bs \<le> length b \<Longrightarrow>
   memcpy dst d (overwrite bs b) 0 (length bs) =
   Inr (take d dst @ known bs @ drop (d + length bs) dst)"
  by (simp add: memcpy_def overwrite_def)

lemma memcpy_from_overwrite_front:
  "length bs \<le> length dst \<Longrightarrow> length bs \<le> length b \<Longrightarrow>
   memcpy dst 0 (overwrite bs b) 0 (length bs) = Inr (overwrite bs dst)"
  by (simp add: memcpy_def overwrite_def)

lemma overwrite_append:
  "length xs + length ys \<le> length b \<Longrightarrow>
   take (length xs) (overwrite xs b) @ known ys @ drop (length xs + length ys) (overwrite xs b) =
   overwrite (xs @ ys) b"
  by (simp add: overwrite_def add.commute)

lemma None_notin_overwrite: "None \<notin> set b \<Longrightarrow> None \<notin> set (overwrite bs b)"
  by (auto simp: overwrite_def known_def dest: in_set_dropD)

lemma load8_initialised:
  "None \<notin> set b \<Longrightarrow> i < length b \<Longrightarrow> \<exists>x. load8 b i = Inr x"
  by (metis load8_def nth_mem option.case_eq_if)

text \<open>\<^verbatim>\<open>strlen\<close>: the bytes before the first zero byte.\<close>

fun c_strlen :: "buf \<Rightarrow> nat checked" where
  "c_strlen [] = Inl Out_of_bounds"
| "c_strlen (None # b) = Inl Uninitialised"
| "c_strlen (Some x # b) = (if x = 0 then Inr 0 else sbind (c_strlen b) (\<lambda>n. Inr (Suc n)))"

definition c_string :: "u8 list \<Rightarrow> buf" where
  "c_string s = known (s @ [0])"

lemma c_strlen_append: "0 \<notin> set s \<Longrightarrow> c_strlen (known s @ Some 0 # b) = Inr (length s)"
  by (induction s) (auto simp: known_def)

lemma c_strlen_c_string [simp]: "0 \<notin> set s \<Longrightarrow> c_strlen (c_string s) = Inr (length s)"
  using c_strlen_append [of s "[]"] by (simp add: c_string_def known_def)

lemma c_strlen_bound: "c_strlen b = Inr n \<Longrightarrow> n < length b"
  by (induction b arbitrary: n rule: c_strlen.induct)
    (auto simp: sbind_eq_Inr split: if_splits)

section \<open>Little-endian encoding\<close>

definition le16 :: "u8 \<Rightarrow> u8 \<Rightarrow> u16" where
  "le16 b0 b1 = push_bit 8 (ucast b1) OR ucast b0"

definition le32 :: "u8 \<Rightarrow> u8 \<Rightarrow> u8 \<Rightarrow> u8 \<Rightarrow> u32" where
  "le32 b0 b1 b2 b3 =
     push_bit 24 (ucast b3) OR push_bit 16 (ucast b2) OR push_bit 8 (ucast b1) OR ucast b0"

definition enc16 :: "u16 \<Rightarrow> u8 list" where
  "enc16 x = [ucast x, ucast (drop_bit 8 x)]"

definition enc32 :: "u32 \<Rightarrow> u8 list" where
  "enc32 x = [ucast x, ucast (drop_bit 8 x), ucast (drop_bit 16 x), ucast (drop_bit 24 x)]"

definition load_le16 :: "buf \<Rightarrow> nat \<Rightarrow> u16 checked" where
  "load_le16 b i =
     sbind (load8 b i) (\<lambda>b0. sbind (load8 b (i + 1)) (\<lambda>b1. Inr (le16 b0 b1)))"

definition load_le32 :: "buf \<Rightarrow> nat \<Rightarrow> u32 checked" where
  "load_le32 b i =
     sbind (load8 b i) (\<lambda>b0. sbind (load8 b (i + 1)) (\<lambda>b1.
     sbind (load8 b (i + 2)) (\<lambda>b2. sbind (load8 b (i + 3)) (\<lambda>b3.
       Inr (le32 b0 b1 b2 b3)))))"

lemma length_enc16 [simp, buf_simps]: "length (enc16 x) = 2"
  by (simp add: enc16_def)

lemma length_enc32 [simp, buf_simps]: "length (enc32 x) = 4"
  by (simp add: enc32_def)

lemma le16_enc16 [simp]: "le16 (ucast x) (ucast (drop_bit 8 x)) = x"
  unfolding le16_def by (rule bit_word_eqI) (auto simp: bit_simps)

lemma le32_enc32 [simp]:
  "le32 (ucast x) (ucast (drop_bit 8 x)) (ucast (drop_bit 16 x)) (ucast (drop_bit 24 x)) = x"
proof (rule bit_word_eqI)
  fix n assume "n < LENGTH(32)"
  then consider "n < 8" | "8 \<le> n" "n < 16" | "16 \<le> n" "n < 24" | "24 \<le> n" "n < 32"
    by fastforce
  then show "bit (le32 (ucast x) (ucast (drop_bit 8 x)) (ucast (drop_bit 16 x))
      (ucast (drop_bit 24 x))) n = bit x n"
    by cases (auto simp: le32_def bit_simps)
qed

text \<open>Reading back what was written, at the front of a buffer or behind other bytes.\<close>

lemma load8_skip [simp]: "load8 (known xs @ b) (length xs + i) = load8 b i"
  by (simp add: load8_def nth_append)

lemma load_le16_skip [simp]: "load_le16 (known xs @ b) (length xs + i) = load_le16 b i"
  by (simp only: load_le16_def add.assoc load8_skip)

lemma load_le32_skip [simp]: "load_le32 (known xs @ b) (length xs + i) = load_le32 b i"
  by (simp only: load_le32_def add.assoc load8_skip)

lemma load8_Cons [simp]:
  "load8 (c # b) 0 = (case c of None \<Rightarrow> Inl Uninitialised | Some x \<Rightarrow> Inr x)"
  "load8 (c # b) (Suc i) = load8 b i"
  "load8 (c # b) (numeral k) = load8 b (pred_numeral k)"
  by (simp_all add: load8_def numeral_eq_Suc)

lemma load8_Nil [simp]: "load8 [] i = Inl Out_of_bounds"
  by (simp add: load8_def)

lemma load_le16_enc16 [simp]: "load_le16 (known (enc16 x) @ b) 0 = Inr x"
  by (simp add: load_le16_def enc16_def known_def)

lemma load_le32_enc32 [simp]: "load_le32 (known (enc32 x) @ b) 0 = Inr x"
  by (simp add: load_le32_def enc32_def known_def)

lemma load_le16_overwrite:
  "i + 2 \<le> length bs \<Longrightarrow> length bs \<le> length b \<Longrightarrow>
   load_le16 (overwrite bs b) i = load_le16 (known bs) i"
  by (simp add: load_le16_def load8_overwrite)

lemma load_le32_overwrite:
  "i + 4 \<le> length bs \<Longrightarrow> length bs \<le> length b \<Longrightarrow>
   load_le32 (overwrite bs b) i = load_le32 (known bs) i"
  by (simp add: load_le32_def load8_overwrite)

lemma load_le32_known: "i + 4 \<le> length bs \<Longrightarrow>
   load_le32 (known bs) i = Inr (le32 (bs ! i) (bs ! (i + 1)) (bs ! (i + 2)) (bs ! (i + 3)))"
  by (simp add: load_le32_def)

lemma load_le32_front:
  "i + 4 \<le> length bs \<Longrightarrow> load_le32 (known bs @ b) i = load_le32 (known bs) i"
  by (simp add: load_le32_def)

lemma enc16_inject [simp]: "enc16 x = enc16 y \<longleftrightarrow> x = y"
proof
  assume eq: "enc16 x = enc16 y"
  have "x = le16 (enc16 x ! 0) (enc16 x ! 1)" by (simp add: enc16_def)
  also have "\<dots> = y" unfolding eq by (simp add: enc16_def)
  finally show "x = y" .
qed simp

lemma enc32_inject [simp]: "enc32 x = enc32 y \<longleftrightarrow> x = y"
proof
  assume eq: "enc32 x = enc32 y"
  have "x = le32 (enc32 x ! 0) (enc32 x ! 1) (enc32 x ! 2) (enc32 x ! 3)"
    by (simp add: enc32_def)
  also have "\<dots> = y" unfolding eq by (simp add: enc32_def)
  finally show "x = y" .
qed simp

section \<open>Computations\<close>

type_synonym ('w, 'a) cmd = "'w \<Rightarrow> ('a \<times> 'w) checked option"

definition ret :: "'a \<Rightarrow> ('w, 'a) cmd" where
  "ret a = (\<lambda>w. Some (Inr (a, w)))"

definition halt :: "stop \<Rightarrow> ('w, 'a) cmd" where
  "halt s = (\<lambda>w. Some (Inl s))"

definition lift :: "'a checked \<Rightarrow> ('w, 'a) cmd" where
  "lift c = (case c of Inl s \<Rightarrow> halt s | Inr a \<Rightarrow> ret a)"

definition bnd :: "('w, 'a) cmd \<Rightarrow> ('a \<Rightarrow> ('w, 'b) cmd) \<Rightarrow> ('w, 'b) cmd" where
  "bnd m k =
     (\<lambda>w. Option.bind (m w) (\<lambda>r. case r of Inl s \<Rightarrow> Some (Inl s) | Inr (a, w') \<Rightarrow> k a w'))"

text \<open>
  The judgement \<open>runs D F Q m w\<close>: started in \<open>w\<close>, the computation \<open>m\<close> may go on for ever only
  if \<open>D\<close> holds, may stop only in a way that satisfies \<open>F\<close>, and when it returns, the result and
  the world satisfy \<open>Q\<close>. Total correctness is \<open>runs False\<close>; a fault-free run has the empty
  predicate \<open>F\<close>.
\<close>

definition runs ::
    "bool \<Rightarrow> (stop \<Rightarrow> bool) \<Rightarrow> ('a \<Rightarrow> 'w \<Rightarrow> bool) \<Rightarrow> ('w, 'a) cmd \<Rightarrow> 'w \<Rightarrow> bool" where
  "runs D F Q m w =
     (case m w of None \<Rightarrow> D | Some (Inl s) \<Rightarrow> F s | Some (Inr (a, w')) \<Rightarrow> Q a w')"

definition never :: "stop \<Rightarrow> bool" where
  "never s = False"

lemma never [simp]: "\<not> never s"
  by (simp add: never_def)

lemma bnd_apply [simp]:
  "m w = None \<Longrightarrow> bnd m k w = None"
  "m w = Some (Inl s) \<Longrightarrow> bnd m k w = Some (Inl s)"
  "m w = Some (Inr (a, w')) \<Longrightarrow> bnd m k w = k a w'"
  by (simp_all add: bnd_def)

lemma ret_bnd [simp]: "bnd (ret a) k = k a"
  by (simp add: bnd_def ret_def)

lemma halt_bnd [simp]: "bnd (halt s) k = halt s"
  by (simp add: bnd_def halt_def fun_eq_iff)

lemma bnd_ret [simp]: "bnd m ret = m"
  by (auto simp: bnd_def ret_def fun_eq_iff split: sum.splits Option.bind_splits)

lemma bnd_assoc: "bnd (bnd m k) h = bnd m (\<lambda>a. bnd (k a) h)"
  by (auto simp: bnd_def fun_eq_iff Option.bind_eq_None_conv
      split: Option.bind_splits sum.splits)

lemma lift_simps [simp]:
  "lift (Inl s) = halt s"
  "lift (Inr a) = ret a"
  by (simp_all add: lift_def)

lemma ret_apply: "ret a w = Some (Inr (a, w))"
  by (simp add: ret_def)

lemma halt_apply: "halt s w = Some (Inl s)"
  by (simp add: halt_def)

lemma runs_ret [cmd_simps]: "runs D F Q (ret a) w \<longleftrightarrow> Q a w"
  by (simp add: runs_def ret_def)

lemma runs_halt [cmd_simps]: "runs D F Q (halt s) w \<longleftrightarrow> F s"
  by (simp add: runs_def halt_def)

lemma runs_lift [cmd_simps]:
  "runs D F Q (lift c) w \<longleftrightarrow> (case c of Inl s \<Rightarrow> F s | Inr a \<Rightarrow> Q a w)"
  by (cases c) (simp_all add: cmd_simps)

lemma runs_bnd [cmd_simps]:
  "runs D F Q (bnd m k) w \<longleftrightarrow> runs D F (\<lambda>a w'. runs D F Q (k a) w') m w"
  by (simp add: runs_def bnd_def split: option.splits sum.splits)

lemma runs_if [cmd_simps]:
  "runs D F Q (if b then m else m') w \<longleftrightarrow>
     (if b then runs D F Q m w else runs D F Q m' w)"
  by simp

lemma runs_prod [cmd_simps]:
  "runs D F Q (case p of (x, y) \<Rightarrow> m x y) w \<longleftrightarrow> runs D F Q (m (fst p) (snd p)) w"
  by (cases p) simp

lemma runs_mono:
  assumes "runs D F Q m w" and "\<And>a w'. Q a w' \<Longrightarrow> Q' a w'"
    and "\<And>s. F s \<Longrightarrow> F' s" and "D \<Longrightarrow> D'"
  shows "runs D' F' Q' m w"
  using assms by (auto simp: runs_def split: option.splits sum.splits)

lemma runs_bndI:
  "runs D F P m w \<Longrightarrow> (\<And>a w'. P a w' \<Longrightarrow> runs D F Q (k a) w') \<Longrightarrow>
   runs D F Q (bnd m k) w"
  by (auto simp: runs_bnd elim: runs_mono)

lemma runs_conj:
  "runs D F Q m w \<Longrightarrow> runs D' F' Q' m w \<Longrightarrow>
   runs (D \<and> D') (\<lambda>s. F s \<and> F' s) (\<lambda>a w'. Q a w' \<and> Q' a w') m w"
  by (auto simp: runs_def split: option.splits sum.splits)

lemma runs_totalD:
  "runs False never Q m w \<Longrightarrow> \<exists>a w'. m w = Some (Inr (a, w')) \<and> Q a w'"
  by (auto simp: runs_def split: option.splits sum.splits prod.splits)

lemma runs_partial_fixp:
  "(\<And>r. m w = Some r \<Longrightarrow> (case r of Inl s \<Rightarrow> F s | Inr (a, w') \<Rightarrow> Q a w')) \<Longrightarrow>
   runs True F Q m w"
  by (auto simp: runs_def split: option.splits sum.splits)

text \<open>
  What a memory access may stop with, and rules for the accesses where any such stop is allowed.
\<close>

definition pointer_fault :: "stop \<Rightarrow> bool" where
  "pointer_fault s \<longleftrightarrow> s = Null_pointer \<or> s = Uninitialised \<or> s = Out_of_bounds"

lemma pointer_fault [simp]:
  "pointer_fault Null_pointer" "pointer_fault Uninitialised" "pointer_fault Out_of_bounds"
  by (simp_all add: pointer_fault_def)

lemma load8_faults: "load8 b i = Inl s \<Longrightarrow> pointer_fault s"
  by (auto simp: load8_def pointer_fault_def split: if_splits option.splits)

lemma memcpy_faults: "memcpy d i b j n = Inl s \<Longrightarrow> pointer_fault s"
  by (auto simp: memcpy_def split: if_splits)

lemma runs_load8:
  assumes "\<And>x. load8 b i = Inr x \<Longrightarrow> runs D pointer_fault Q (k x) s"
  shows "runs D pointer_fault Q (bnd (lift (load8 b i)) k) s"
  using assms by (cases "load8 b i") (auto simp: cmd_simps dest: load8_faults)

lemma runs_load_le16:
  assumes "\<And>x. runs D pointer_fault Q (k x) s"
  shows "runs D pointer_fault Q (bnd (lift (load_le16 b i)) k) s"
  using assms
  by (cases "load8 b i"; cases "load8 b (i + 1)")
    (auto simp: load_le16_def cmd_simps dest: load8_faults)

lemma runs_memcpy:
  assumes "\<And>x. memcpy d i b j n = Inr x \<Longrightarrow> runs D pointer_fault Q (k x) s"
  shows "runs D pointer_fault Q (bnd (lift (memcpy d i b j n)) k) s"
  using assms by (cases "memcpy d i b j n") (auto simp: cmd_simps dest: memcpy_faults)

lemma runs_load_le32:
  assumes "\<And>x. runs D pointer_fault Q (k x) s"
  shows "runs D pointer_fault Q (bnd (lift (load_le32 b i)) k) s"
  using assms
  by (cases "load8 b i"; cases "load8 b (i + 1)"; cases "load8 b (i + 2)"; cases "load8 b (i + 3)")
    (auto simp: load_le32_def cmd_simps dest: load8_faults)

text \<open>Monotonicity of the constructs, for definitions by \<^theory_text>\<open>partial_function\<close>.\<close>

lemma bnd_mono [partial_function_mono]:
  assumes "\<And>w. mono_option (\<lambda>f. m f w)" and "\<And>a w. mono_option (\<lambda>f. k f a w)"
  shows "mono_option (\<lambda>f. bnd (m f) (k f) w)"
proof -
  have "mono_option (\<lambda>f. case r of Inl s \<Rightarrow> Some (Inl s) | Inr p \<Rightarrow> k f (fst p) (snd p))" for r
    by (cases r) (use assms(2) in \<open>auto intro: option.const_mono\<close>)
  from bind_mono [OF assms(1) this] show ?thesis
    by (simp add: bnd_def case_prod_beta')
qed

lemma if_apply_mono [partial_function_mono]:
  "mono_option (\<lambda>f. m f w) \<Longrightarrow> mono_option (\<lambda>f. m' f w) \<Longrightarrow>
   mono_option (\<lambda>f. (if b then m f else m' f) w)"
  by (cases b) simp_all

end
