(* ===== verification/Transport.thy ===== *)
theory Transport
  imports Prelude
begin

text \<open>
  The interface between the protocols (\<^verbatim>\<open>lib/adb\<close>, \<^verbatim>\<open>lib/ptp\<close>) and the bulk
  transfers of \<^verbatim>\<open>lib/usb\<close>: the two operations they call, and what they may rely on.
\<close>

text \<open>
  Both operations take a file descriptor, an endpoint, a buffer and its length, and return a
  count (or \<open>-1\<close>) with the buffer.
\<close>

record 'w usb_ops =
  bulk_send :: "int \<Rightarrow> u16 \<Rightarrow> buf \<Rightarrow> u32 \<Rightarrow> ('w, int \<times> buf) cmd"
  bulk_recv :: "int \<Rightarrow> u16 \<Rightarrow> buf \<Rightarrow> u32 \<Rightarrow> ('w, int \<times> buf) cmd"

text \<open>
  What a receive may leave behind: a failure with the buffer as it was, or \<open>length bs\<close> bytes
  \<open>bs\<close> at its front, never more than was asked for.
\<close>

definition received :: "nat \<Rightarrow> buf \<Rightarrow> int \<times> buf \<Rightarrow> bool" where
  "received len b r \<longleftrightarrow>
     r = (-1, b) \<or> (\<exists>bs. length bs \<le> len \<and> r = (int (length bs), overwrite bs b))"

lemma receivedE:
  assumes "received len b (n, b')"
  obtains (failure) "n = -1" "b' = b"
  | (bytes) bs where "length bs \<le> len" "n = int (length bs)" "b' = overwrite bs b"
  using assms by (auto simp: received_def)

text \<open>
  The contract: \<open>ok e\<close> says that the provider \<open>e\<close> behaves as documented, \<open>live e\<close> that its
  calls return. A call that does not return is possible only where \<open>live e\<close> fails.
\<close>

locale bulk_transport =
  fixes ok :: "'e \<Rightarrow> bool" and live :: "'e \<Rightarrow> bool" and ops :: "'e \<Rightarrow> 'w usb_ops"
  assumes send_law:
    "ok e \<Longrightarrow> unat len \<le> length data \<Longrightarrow> unat len < 2 ^ 31 \<Longrightarrow> \<not> bit ep 7 \<Longrightarrow>
     runs (\<not> live e) never
       (\<lambda>r w'. snd r = data \<and> (fst r = -1 \<or> 0 \<le> fst r \<and> fst r \<le> uint len))
       (bulk_send (ops e) fd ep data len) w"
  and recv_law:
    "ok e \<Longrightarrow> unat len \<le> length b \<Longrightarrow> unat len < 2 ^ 31 \<Longrightarrow>
     runs (\<not> live e) never (\<lambda>r w'. received (unat len) b r) (bulk_recv (ops e) fd ep b len) w"
begin

text \<open>The laws as rules for a call and what is done with its result.\<close>

lemma send_runs:
  assumes "ok e" and "unat len \<le> length data" and "unat len < 2 ^ 31" and "\<not> bit ep 7"
    and k: "\<And>n w'. n = -1 \<or> 0 \<le> n \<and> n \<le> uint len \<Longrightarrow> runs (\<not> live e) F Q (k (n, data)) w'"
  shows "runs (\<not> live e) F Q (bnd (bulk_send (ops e) fd ep data len) k) w"
proof (rule runs_bndI)
  show "runs (\<not> live e) F
      (\<lambda>r w'. snd r = data \<and> (fst r = -1 \<or> 0 \<le> fst r \<and> fst r \<le> uint len))
      (bulk_send (ops e) fd ep data len) w"
    by (rule runs_mono [OF send_law [OF assms(1-4)]]) auto
qed (auto intro: k)

lemma recv_runs:
  assumes "ok e" and "unat len \<le> length b" and "unat len < 2 ^ 31"
    and failure: "\<And>w'. runs (\<not> live e) F Q (k (-1, b)) w'"
    and bytes: "\<And>bs w'. length bs \<le> unat len \<Longrightarrow>
      runs (\<not> live e) F Q (k (int (length bs), overwrite bs b)) w'"
  shows "runs (\<not> live e) F Q (bnd (bulk_recv (ops e) fd ep b len) k) w"
proof (rule runs_bndI)
  show "runs (\<not> live e) F (\<lambda>r w'. received (unat len) b r) (bulk_recv (ops e) fd ep b len) w"
    by (rule runs_mono [OF recv_law [OF assms(1-3)]]) auto
qed (auto simp: received_def intro: failure bytes)

end

text \<open>
  A transport whose device has its answers ready in packets: \<open>queue\<close> is what it will answer,
  \<open>set_queue\<close> replaces it, and \<open>deliver\<close> is what a transfer does to the world. Exact
  exchanges are proved once over such a transport.
\<close>

locale packet_transport =
  fixes ops :: "'w usb_ops" and queue :: "'w \<Rightarrow> u8 list list"
    and set_queue :: "u8 list list \<Rightarrow> 'w \<Rightarrow> 'w" and deliver :: "buf \<Rightarrow> 'w \<Rightarrow> 'w"
  assumes recv_packet:
    "queue w = p # ps \<Longrightarrow> length p \<le> 512 \<Longrightarrow> length b = 512 \<Longrightarrow>
     bulk_recv ops fd ep b 512 w = Some (Inr ((int (length p), overwrite p b), set_queue ps w))"
  and send_packet:
    "\<not> bit ep 7 \<Longrightarrow> unat len \<le> length data \<Longrightarrow> unat len < 2 ^ 31 \<Longrightarrow>
     bulk_send ops fd ep data len w =
       Some (Inr ((uint len, data), deliver (take (unat len) data) w))"
  and queue_set_queue: "queue (set_queue ps w) = ps"
  and set_queue_set_queue: "set_queue qs (set_queue ps w) = set_queue qs w"

end
