(* ===== verification/Usb.thy ===== *)
theory Usb
  imports Transport
begin

text \<open>
  The requests of \<^verbatim>\<open>lib/usb/usb.c\<close> to the Linux usbdevfs driver: one definition per
  function, each building the structure it passes to \<^verbatim>\<open>ioctl\<close>. The kernel is a parameter:
  the field \<open>sys_ioctl\<close> of an environment \<open>E\<close> answers a request with a \<open>reply\<close> and a new
  world. \<open>usbdevfs_ok\<close> is what usbdevfs documents about its answers, \<open>usbdevfs_live\<close> that
  signals do not interrupt a call for ever.

  Constants carry the names and the values of \<^verbatim>\<open>linux/usb/ch9.h\<close> and
  \<^verbatim>\<open>linux/usbdevice_fs.h\<close>. A structure member that a function never assigns is \<open>None\<close>;
  passing it to the kernel where the kernel uses it stops with \<open>Uninitialised\<close>.
\<close>

section \<open>Constants\<close>

abbreviation (input) TIMEOUT :: u32 where "TIMEOUT \<equiv> 1000"

abbreviation (input) EINTR :: int where "EINTR \<equiv> 4"

abbreviation (input) USB_DIR_OUT :: u8 where "USB_DIR_OUT \<equiv> 0x00"
abbreviation (input) USB_DIR_IN :: u8 where "USB_DIR_IN \<equiv> 0x80"
abbreviation (input) USB_TYPE_STANDARD :: u8 where "USB_TYPE_STANDARD \<equiv> 0x00"
abbreviation (input) USB_RECIP_DEVICE :: u8 where "USB_RECIP_DEVICE \<equiv> 0x00"
abbreviation (input) USB_RECIP_INTERFACE :: u8 where "USB_RECIP_INTERFACE \<equiv> 0x01"
abbreviation (input) USB_RECIP_ENDPOINT :: u8 where "USB_RECIP_ENDPOINT \<equiv> 0x02"

abbreviation (input) USB_REQ_GET_STATUS :: u8 where "USB_REQ_GET_STATUS \<equiv> 0x00"
abbreviation (input) USB_REQ_CLEAR_FEATURE :: u8 where "USB_REQ_CLEAR_FEATURE \<equiv> 0x01"
abbreviation (input) USB_REQ_SET_ADDRESS :: u8 where "USB_REQ_SET_ADDRESS \<equiv> 0x05"
abbreviation (input) USB_REQ_GET_DESCRIPTOR :: u8 where "USB_REQ_GET_DESCRIPTOR \<equiv> 0x06"
abbreviation (input) USB_REQ_SET_DESCRIPTOR :: u8 where "USB_REQ_SET_DESCRIPTOR \<equiv> 0x07"
abbreviation (input) USB_REQ_GET_CONFIGURATION :: u8 where "USB_REQ_GET_CONFIGURATION \<equiv> 0x08"
abbreviation (input) USB_REQ_SET_CONFIGURATION :: u8 where "USB_REQ_SET_CONFIGURATION \<equiv> 0x09"
abbreviation (input) USB_REQ_GET_INTERFACE :: u8 where "USB_REQ_GET_INTERFACE \<equiv> 0x0A"
abbreviation (input) USB_REQ_SYNCH_FRAME :: u8 where "USB_REQ_SYNCH_FRAME \<equiv> 0x0C"

abbreviation (input) USB_ENDPOINT_HALT :: u16 where "USB_ENDPOINT_HALT \<equiv> 0"
abbreviation (input) USB_DEVICE_REMOTE_WAKEUP :: u16 where "USB_DEVICE_REMOTE_WAKEUP \<equiv> 1"
abbreviation (input) USB_DEVICE_TEST_MODE :: u16 where "USB_DEVICE_TEST_MODE \<equiv> 2"

abbreviation (input) USB_DT_DEVICE :: u8 where "USB_DT_DEVICE \<equiv> 0x01"
abbreviation (input) USB_DT_CONFIG :: u8 where "USB_DT_CONFIG \<equiv> 0x02"
abbreviation (input) USB_DT_STRING :: u8 where "USB_DT_STRING \<equiv> 0x03"
abbreviation (input) USB_DT_INTERFACE :: u8 where "USB_DT_INTERFACE \<equiv> 0x04"
abbreviation (input) USB_DT_ENDPOINT :: u8 where "USB_DT_ENDPOINT \<equiv> 0x05"
abbreviation (input) USB_DT_DEVICE_QUALIFIER :: u8 where "USB_DT_DEVICE_QUALIFIER \<equiv> 0x06"
abbreviation (input) USB_DT_OTHER_SPEED_CONFIG :: u8 where "USB_DT_OTHER_SPEED_CONFIG \<equiv> 0x07"
abbreviation (input) USB_DT_INTERFACE_ASSOCIATION :: u8 where "USB_DT_INTERFACE_ASSOCIATION \<equiv> 0x0B"

abbreviation (input) USB_DT_DEVICE_SIZE :: nat where "USB_DT_DEVICE_SIZE \<equiv> 18"
abbreviation (input) USB_DT_CONFIG_SIZE :: nat where "USB_DT_CONFIG_SIZE \<equiv> 9"
abbreviation (input) USB_DT_INTERFACE_SIZE :: nat where "USB_DT_INTERFACE_SIZE \<equiv> 9"
abbreviation (input) USB_DT_ENDPOINT_SIZE :: nat where "USB_DT_ENDPOINT_SIZE \<equiv> 7"
abbreviation (input) USB_DT_INTERFACE_ASSOCIATION_SIZE :: nat where
  "USB_DT_INTERFACE_ASSOCIATION_SIZE \<equiv> 8"
abbreviation (input) USB_MAX_STRING_LEN :: nat where "USB_MAX_STRING_LEN \<equiv> 126"

abbreviation (input) USBDEVFS_URB_TYPE_BULK :: u8 where "USBDEVFS_URB_TYPE_BULK \<equiv> 3"
abbreviation (input) USBDEVFS_DISCONNECT :: int where "USBDEVFS_DISCONNECT \<equiv> 0x5516"
abbreviation (input) USBDEVFS_MAXDRIVERNAME :: nat where "USBDEVFS_MAXDRIVERNAME \<equiv> 255"

section \<open>The kernel interface\<close>

record ctrltransfer =
  bRequestType :: u8
  bRequest :: u8
  wValue :: u16
  wIndex :: u16
  wLength :: "u16 option"
  timeout :: u32
  ct_data :: "buf option"

record urb =
  urb_type :: u8
  urb_endpoint :: u8
  urb_status :: int
  urb_buffer :: buf
  urb_buffer_length :: int
  urb_actual_length :: int

text \<open>
  \<open>Reap_urb u\<close> carries the request block that is outstanding: the kernel finds it by the
  address it was submitted under, and writes its buffer and its \<open>urb_actual_length\<close>.
\<close>

datatype request =
    Control ctrltransfer
  | Set_interface u32 u32
  | Driver_ioctl int int
  | Claim_interface int
  | Release_interface int
  | Get_driver u32
  | Submit_urb urb
  | Reap_urb urb

text \<open>
  The answer of an \<^verbatim>\<open>ioctl\<close>: its result, the value of \<^verbatim>\<open>errno\<close>, the bytes written
  through the data pointer of the request, and the actual length of a reaped request block.
\<close>

record reply =
  rp_ret :: int
  rp_errno :: int
  rp_bytes :: "u8 list"
  rp_actual :: int

text \<open>The environment: the kernel, and what the code uses of the C library.\<close>

record 'w env =
  sys_ioctl :: "int \<Rightarrow> request \<Rightarrow> 'w \<Rightarrow> reply \<times> 'w"
  sys_rand :: "'w \<Rightarrow> int \<times> 'w"
  sys_malloc :: "nat \<Rightarrow> 'w \<Rightarrow> bool \<times> 'w"

definition interrupted :: "reply \<Rightarrow> bool" where
  "interrupted r \<longleftrightarrow> rp_ret r = -1 \<and> rp_errno r = EINTR"

definition reply_ok :: "request \<Rightarrow> reply \<Rightarrow> bool" where
  "reply_ok q r =
     (case q of
        Control t \<Rightarrow>
          length (rp_bytes r) \<le> (case wLength t of None \<Rightarrow> 0 | Some n \<Rightarrow> unat n)
      | Get_driver i \<Rightarrow>
          rp_ret r = -1 \<or> length (rp_bytes r) \<le> USBDEVFS_MAXDRIVERNAME + 1 \<and> 0 \<in> set (rp_bytes r)
      | Reap_urb u \<Rightarrow>
          rp_ret r < 0 \<or>
          0 \<le> rp_actual r \<and> rp_actual r \<le> max 0 (urb_buffer_length u) \<and>
          int (length (rp_bytes r)) = (if bit (urb_endpoint u) 7 then rp_actual r else 0)
      | _ \<Rightarrow> True)"

definition usbdevfs_ok :: "'w env \<Rightarrow> bool" where
  "usbdevfs_ok E \<longleftrightarrow> (\<forall>fd q w. reply_ok q (fst (sys_ioctl E fd q w)))"

definition usbdevfs_live :: "'w env \<Rightarrow> bool" where
  "usbdevfs_live E \<longleftrightarrow>
     (\<exists>m :: 'w \<Rightarrow> nat. \<forall>fd q w. interrupted (fst (sys_ioctl E fd q w)) \<longrightarrow>
        m (snd (sys_ioctl E fd q w)) < m w)"

definition ioctl :: "'w env \<Rightarrow> int \<Rightarrow> request \<Rightarrow> ('w, reply) cmd" where
  "ioctl E fd q = (\<lambda>w. Some (Inr (sys_ioctl E fd q w)))"

lemma runs_ioctl [cmd_simps]:
  "runs D F Q (ioctl E fd q) w \<longleftrightarrow>
     Q (fst (sys_ioctl E fd q w)) (snd (sys_ioctl E fd q w))"
  by (simp add: runs_def ioctl_def split: prod.splits)

text \<open>
  A control transfer: the kernel reads \<open>wLength\<close> bytes of the data stage from the buffer, or
  writes at most that many to it.
\<close>

definition control :: "'w env \<Rightarrow> int \<Rightarrow> ctrltransfer \<Rightarrow> ('w, int \<times> buf) cmd" where
  "control E fd t =
     (case (wLength t, ct_data t) of
        (None, _) \<Rightarrow> halt Uninitialised
      | (Some n, None) \<Rightarrow>
          if n \<noteq> 0 then halt Uninitialised
          else bnd (ioctl E fd (Control t)) (\<lambda>r. ret (rp_ret r, []))
      | (Some n, Some b) \<Rightarrow>
          if \<not> bit (bRequestType t) 7 \<and> length b < unat n then halt Out_of_bounds
          else bnd (ioctl E fd (Control t)) (\<lambda>r.
               bnd (lift (memcpy b 0 (known (rp_bytes r)) 0 (length (rp_bytes r)))) (\<lambda>b'.
               ret (rp_ret r, b'))))"

section \<open>Standard requests\<close>

text \<open>The common last lines of the functions: 1 when the call failed, 0 otherwise.\<close>

definition failed :: "int \<Rightarrow> int" where
  "failed r = (if r = -1 then 1 else 0)"

definition usb_clear_feature :: "'w env \<Rightarrow> int \<Rightarrow> u16 \<Rightarrow> u16 \<Rightarrow> ('w, int) cmd" where
  "usb_clear_feature E fd feature_selector w_index =
     (let rt = USB_DIR_OUT OR USB_TYPE_STANDARD;
          rt' = (if feature_selector = USB_DEVICE_REMOTE_WAKEUP then rt OR USB_RECIP_DEVICE
                 else if feature_selector = USB_ENDPOINT_HALT then rt OR USB_RECIP_ENDPOINT
                 else if feature_selector = USB_DEVICE_TEST_MODE then rt OR USB_RECIP_DEVICE
                 else rt)
      in bnd (control E fd
           \<lparr>bRequestType = rt', bRequest = USB_REQ_CLEAR_FEATURE, wValue = feature_selector,
            wIndex = w_index, wLength = Some 0, timeout = TIMEOUT, ct_data = None\<rparr>)
         (\<lambda>(r, _). ret (failed r)))"

text \<open>
  An \<^verbatim>\<open>int*\<close> argument is an \<open>int option\<close>: \<open>None\<close> is the null pointer. A function that
  stores through it without a test stops with \<open>Null_pointer\<close>.
\<close>

definition store_int :: "int option \<Rightarrow> int \<Rightarrow> ('w, int option) cmd" where
  "store_int p v = (case p of None \<Rightarrow> halt Null_pointer | Some _ \<Rightarrow> ret (Some v))"

definition usb_get_configuration ::
    "'w env \<Rightarrow> int \<Rightarrow> buf \<Rightarrow> int option \<Rightarrow> ('w, int \<times> buf \<times> int option) cmd" where
  "usb_get_configuration E fd buff wlen =
     (let t = \<lparr>bRequestType = USB_DIR_IN, bRequest = USB_REQ_GET_CONFIGURATION, wValue = 0,
               wIndex = 0, wLength = Some 1, timeout = TIMEOUT, ct_data = Some buff\<rparr>
      in bnd (store_int wlen 1) (\<lambda>wlen'.
         bnd (control E fd t) (\<lambda>(r, buff'). ret (failed r, buff', wlen'))))"

text \<open>
  The length of the data stage is chosen by the descriptor type; a type that is not listed
  leaves it unassigned.
\<close>

definition descriptor_request_length :: "u8 \<Rightarrow> u16 option" where
  "descriptor_request_length ty =
     (if ty = USB_DT_DEVICE then Some (of_nat USB_DT_DEVICE_SIZE)
      else if ty = USB_DT_CONFIG then Some (of_nat USB_DT_CONFIG_SIZE)
      else if ty = USB_DT_STRING then Some (of_nat USB_MAX_STRING_LEN)
      else if ty = USB_DT_INTERFACE then Some (of_nat USB_DT_INTERFACE_SIZE)
      else if ty = USB_DT_ENDPOINT then Some (of_nat USB_DT_ENDPOINT_SIZE)
      else if ty = USB_DT_DEVICE_QUALIFIER then Some 32
      else if ty = USB_DT_OTHER_SPEED_CONFIG then Some 32
      else None)"

definition usb_get_descriptor ::
    "'w env \<Rightarrow> int \<Rightarrow> u8 \<Rightarrow> u8 \<Rightarrow> u16 \<Rightarrow> buf \<Rightarrow> int option \<Rightarrow>
     ('w, int \<times> buf \<times> int option) cmd" where
  "usb_get_descriptor E fd ty index langid buff wlen =
     (let t = \<lparr>bRequestType = USB_DIR_IN, bRequest = USB_REQ_GET_DESCRIPTOR,
               wValue = push_bit 8 (ucast ty) OR ucast index, wIndex = langid,
               wLength = descriptor_request_length ty, timeout = TIMEOUT,
               ct_data = Some buff\<rparr>;
          finish = (\<lambda>buff.
            case wlen of
              None \<Rightarrow> ret (0, buff, None)
            | Some _ \<Rightarrow> bnd (lift (load8 buff 0)) (\<lambda>n. ret (0, buff, Some (uint n))))
      in bnd (control E fd t) (\<lambda>(r, buff1).
         if r = -1 then ret (1, buff1, wlen)
         else if ty = USB_DT_CONFIG then
           bnd (lift (load_le16 buff1 2)) (\<lambda>total.
           bnd (control E fd (t\<lparr>wLength := Some total, ct_data := Some buff1\<rparr>)) (\<lambda>(r2, buff2).
           if r2 = -1 then ret (1, buff2, wlen) else finish buff2))
         else finish buff1))"

definition usb_get_interface ::
    "'w env \<Rightarrow> int \<Rightarrow> u16 \<Rightarrow> buf \<Rightarrow> int option \<Rightarrow> ('w, int \<times> buf \<times> int option) cmd" where
  "usb_get_interface E fd interface buff wlen =
     bnd (control E fd
       \<lparr>bRequestType = USB_DIR_IN OR USB_TYPE_STANDARD OR USB_RECIP_INTERFACE,
        bRequest = USB_REQ_GET_INTERFACE, wValue = 0, wIndex = interface, wLength = Some 1,
        timeout = TIMEOUT, ct_data = Some buff\<rparr>)
     (\<lambda>(r, buff').
       if r = -1 then ret (1, buff', wlen)
       else ret (0, buff', map_option (\<lambda>_. 1) wlen))"

definition usb_get_status ::
    "'w env \<Rightarrow> int \<Rightarrow> u8 \<Rightarrow> u8 \<Rightarrow> buf \<Rightarrow> int option \<Rightarrow> ('w, int \<times> buf \<times> int option) cmd" where
  "usb_get_status E fd recipient w_index buff wlen =
     (let t = \<lparr>bRequestType = USB_DIR_IN OR USB_TYPE_STANDARD OR recipient,
               bRequest = USB_REQ_GET_STATUS, wValue = 0, wIndex = ucast w_index,
               wLength = Some 2, timeout = TIMEOUT, ct_data = Some buff\<rparr>
      in bnd (store_int wlen 2) (\<lambda>wlen'.
         bnd (control E fd t) (\<lambda>(r, buff'). ret (failed r, buff', wlen'))))"

definition usb_set_address :: "'w env \<Rightarrow> int \<Rightarrow> u16 \<Rightarrow> ('w, int) cmd" where
  "usb_set_address E fd address =
     bnd (control E fd
       \<lparr>bRequestType = USB_DIR_OUT OR USB_TYPE_STANDARD OR USB_RECIP_DEVICE,
        bRequest = USB_REQ_SET_ADDRESS, wValue = address, wIndex = 0, wLength = Some 0,
        timeout = TIMEOUT, ct_data = None\<rparr>)
     (\<lambda>(r, _). ret (failed r))"

definition usb_set_configuration :: "'w env \<Rightarrow> int \<Rightarrow> u16 \<Rightarrow> ('w, int) cmd" where
  "usb_set_configuration E fd config =
     bnd (control E fd
       \<lparr>bRequestType = USB_DIR_OUT, bRequest = USB_REQ_SET_CONFIGURATION, wValue = config,
        wIndex = 0, wLength = Some 0, timeout = TIMEOUT, ct_data = None\<rparr>)
     (\<lambda>(r, _). ret (failed r))"

text \<open>The function takes a buffer but never stores it in the request.\<close>

definition usb_set_descriptor ::
    "'w env \<Rightarrow> int \<Rightarrow> u8 \<Rightarrow> u8 \<Rightarrow> u16 \<Rightarrow> buf \<Rightarrow> int option \<Rightarrow> ('w, int) cmd" where
  "usb_set_descriptor E fd ty index langid buff wlen =
     bnd (control E fd
       \<lparr>bRequestType = USB_DIR_OUT OR USB_TYPE_STANDARD, bRequest = USB_REQ_SET_DESCRIPTOR,
        wValue = push_bit 8 (ucast ty) OR ucast index, wIndex = langid, wLength = Some 126,
        timeout = TIMEOUT, ct_data = None\<rparr>)
     (\<lambda>(r, _). ret (failed r))"

definition usb_set_interface :: "'w env \<Rightarrow> int \<Rightarrow> u16 \<Rightarrow> u16 \<Rightarrow> ('w, int) cmd" where
  "usb_set_interface E fd interface alternate_setting =
     bnd (ioctl E fd (Set_interface (ucast interface) (ucast alternate_setting)))
     (\<lambda>r. ret (failed (rp_ret r)))"

definition usb_synch_frame :: "'w env \<Rightarrow> int \<Rightarrow> u8 \<Rightarrow> buf \<Rightarrow> ('w, int \<times> buf) cmd" where
  "usb_synch_frame E fd endpoint buff =
     bnd (control E fd
       \<lparr>bRequestType = USB_DIR_IN OR USB_TYPE_STANDARD OR USB_RECIP_ENDPOINT,
        bRequest = USB_REQ_SYNCH_FRAME, wValue = 0, wIndex = ucast endpoint,
        wLength = Some 2, timeout = TIMEOUT, ct_data = Some buff\<rparr>)
     (\<lambda>(r, buff'). ret (failed r, buff'))"

section \<open>Interfaces and their drivers\<close>

definition usb_detach_interface :: "'w env \<Rightarrow> int \<Rightarrow> u16 \<Rightarrow> ('w, int) cmd" where
  "usb_detach_interface E fd interface =
     bnd (ioctl E fd (Driver_ioctl (uint interface) USBDEVFS_DISCONNECT))
     (\<lambda>r. ret (failed (rp_ret r)))"

definition usb_claim_interface :: "'w env \<Rightarrow> int \<Rightarrow> u16 \<Rightarrow> ('w, int) cmd" where
  "usb_claim_interface E fd interface =
     bnd (ioctl E fd (Claim_interface (uint interface))) (\<lambda>r. ret (failed (rp_ret r)))"

definition usb_release_interface :: "'w env \<Rightarrow> int \<Rightarrow> u16 \<Rightarrow> ('w, int) cmd" where
  "usb_release_interface E fd interface =
     bnd (ioctl E fd (Release_interface (uint interface))) (\<lambda>r. ret (failed (rp_ret r)))"

definition usb_get_driver ::
    "'w env \<Rightarrow> int \<Rightarrow> u16 \<Rightarrow> buf \<Rightarrow> nat \<Rightarrow> ('w, int \<times> buf) cmd" where
  "usb_get_driver E fd interface driver len =
     bnd (ioctl E fd (Get_driver (ucast interface))) (\<lambda>r.
       if rp_ret r = -1 then ret (1, driver)
       else
         bnd (lift (memcpy (uninit (USBDEVFS_MAXDRIVERNAME + 1)) 0
                      (known (rp_bytes r)) 0 (length (rp_bytes r)))) (\<lambda>name.
         bnd (lift (c_strlen name)) (\<lambda>n.
         let dlen = n + 1; l = (if len < dlen then len else dlen) in
         bnd (lift (memcpy driver 0 name 0 l)) (\<lambda>driver'. ret (0, driver')))))"

section \<open>Bulk transfers\<close>

text \<open>The calls repeated while a signal interrupts them; they may be repeated for ever.\<close>

partial_function (option) ioctl_retry ::
    "'w env \<Rightarrow> int \<Rightarrow> request \<Rightarrow> 'w \<Rightarrow> (reply \<times> 'w) checked option" where
  "ioctl_retry E fd q w =
     (let (r, w') = sys_ioctl E fd q w
      in if interrupted r then ioctl_retry E fd q w' else Some (Inr (r, w')))"

text \<open>The kernel completes a request block in the memory of the process.\<close>

definition complete_urb :: "urb \<Rightarrow> reply \<Rightarrow> urb checked" where
  "complete_urb u r =
     sbind (memcpy (urb_buffer u) 0 (known (rp_bytes r)) 0 (length (rp_bytes r)))
       (\<lambda>b. Inr (u\<lparr>urb_buffer := b, urb_actual_length := rp_actual r\<rparr>))"

text \<open>
  The request block is submitted and then reaped. Reaping gives back any completed block of the
  file descriptor; the program has never more than one, so it is the one submitted, unless an
  earlier reap failed and left its block behind, which is not modelled.
\<close>

definition usb_bulk_msg :: "'w env \<Rightarrow> int \<Rightarrow> urb \<Rightarrow> ('w, int \<times> urb) cmd" where
  "usb_bulk_msg E fd uurb =
     (if \<not> bit (urb_endpoint uurb) 7 \<and> int (length (urb_buffer uurb)) < urb_buffer_length uurb
      then halt Out_of_bounds
      else
        bnd (ioctl_retry E fd (Submit_urb uurb)) (\<lambda>res.
        if rp_ret res < 0 then ret (1, uurb)
        else
          bnd (ioctl_retry E fd (Reap_urb uurb)) (\<lambda>res.
          if rp_ret res < 0 then ret (1, uurb)
          else bnd (lift (complete_urb uurb res)) (\<lambda>uurb'. ret (0, uurb')))))"

definition usb_bulk_send ::
    "'w env \<Rightarrow> int \<Rightarrow> u16 \<Rightarrow> buf \<Rightarrow> u32 \<Rightarrow> ('w, int \<times> buf) cmd" where
  "usb_bulk_send E fd endpoint data len =
     bnd (usb_bulk_msg E fd
       \<lparr>urb_type = USBDEVFS_URB_TYPE_BULK, urb_endpoint = ucast (ucast USB_DIR_OUT OR endpoint),
        urb_status = -1, urb_buffer = data, urb_buffer_length = sint len,
        urb_actual_length = 0\<rparr>)
     (\<lambda>(r, uurb). ret (if r \<noteq> 0 then -1 else urb_actual_length uurb, urb_buffer uurb))"

definition usb_bulk_recv ::
    "'w env \<Rightarrow> int \<Rightarrow> u16 \<Rightarrow> buf \<Rightarrow> u32 \<Rightarrow> ('w, int \<times> buf) cmd" where
  "usb_bulk_recv E fd endpoint data len =
     bnd (usb_bulk_msg E fd
       \<lparr>urb_type = USBDEVFS_URB_TYPE_BULK, urb_endpoint = ucast (ucast USB_DIR_IN OR endpoint),
        urb_status = -1, urb_buffer = data, urb_buffer_length = sint len,
        urb_actual_length = 0\<rparr>)
     (\<lambda>(r, uurb). ret (if r \<noteq> 0 then -1 else urb_actual_length uurb, urb_buffer uurb))"

section \<open>Laws of the kernel calls\<close>

lemma usbdevfs_okD: "usbdevfs_ok E \<Longrightarrow> reply_ok q (fst (sys_ioctl E fd q w))"
  by (simp add: usbdevfs_ok_def)

lemma ioctl_retry_returned:
  assumes "usbdevfs_ok E" and "ioctl_retry E fd q w = Some r"
  shows "\<exists>a w'. r = Inr (a, w') \<and> reply_ok q a \<and> \<not> interrupted a"
proof (rule ioctl_retry.raw_induct
    [where P = "\<lambda>E fd q w r. usbdevfs_ok E \<longrightarrow>
       (\<exists>a w'. r = Inr (a, w') \<and> reply_ok q a \<and> \<not> interrupted a)",
      OF _ assms(2), THEN mp])
  fix f :: "'a env \<Rightarrow> int \<Rightarrow> request \<Rightarrow> 'a \<Rightarrow> (reply \<times> 'a) checked option"
  fix E :: "'a env" and fd q w r
  assume IH: "\<And>E fd q w r. f E fd q w = Some r \<Longrightarrow> usbdevfs_ok E \<longrightarrow>
       (\<exists>a w'. r = Inr (a, w') \<and> reply_ok q a \<and> \<not> interrupted a)"
    and step: "(let (r, w') = sys_ioctl E fd q w
      in if interrupted r then f E fd q w' else Some (Inr (r, w'))) = Some r"
  show "usbdevfs_ok E \<longrightarrow> (\<exists>a w'. r = Inr (a, w') \<and> reply_ok q a \<and> \<not> interrupted a)"
    using IH step usbdevfs_okD [of E q fd w] by (auto split: prod.splits if_splits)
qed (rule assms(1))

lemma ioctl_retry_returns:
  assumes "usbdevfs_live E"
  shows "\<exists>r. ioctl_retry E fd q w = Some r"
proof -
  from assms obtain m :: "'a \<Rightarrow> nat" where
    m: "\<And>fd q w. interrupted (fst (sys_ioctl E fd q w)) \<Longrightarrow> m (snd (sys_ioctl E fd q w)) < m w"
    by (auto simp: usbdevfs_live_def)
  show ?thesis
  proof (induction w rule: measure_induct_rule [of m])
    case (less w)
    show ?case
      by (subst ioctl_retry.simps)
        (use less m [of fd q w] in \<open>auto split: prod.splits\<close>)
  qed
qed

lemma runs_ioctl_retry:
  "usbdevfs_ok E \<Longrightarrow>
   runs (\<not> usbdevfs_live E) never (\<lambda>r w'. reply_ok q r \<and> \<not> interrupted r) (ioctl_retry E fd q) w"
  using ioctl_retry_returned [of E fd q w] ioctl_retry_returns [of E fd q w]
  by (cases "ioctl_retry E fd q w") (auto simp: runs_def)

lemma runs_control_data:
  assumes "usbdevfs_ok E" and "wLength t = Some n" and "ct_data t = Some b"
    and "unat n \<le> length b"
  shows "runs False never
    (\<lambda>r w'. \<exists>bs. length bs \<le> unat n \<and> snd r = overwrite bs b) (control E fd t) w"
  using usbdevfs_okD [OF assms(1), of "Control t" fd w] assms(2-)
  by (auto simp: control_def cmd_simps reply_ok_def)

lemma runs_control_nodata:
  "wLength t = Some 0 \<Longrightarrow> ct_data t = None \<Longrightarrow>
   runs D F Q (control E fd t) w \<longleftrightarrow>
   Q (rp_ret (fst (sys_ioctl E fd (Control t) w)), []) (snd (sys_ioctl E fd (Control t) w))"
  by (simp add: control_def cmd_simps)

section \<open>The bulk transport\<close>

text \<open>
  A request block after it was completed: a failure, or an actual length within the buffer
  length with as many bytes written when the endpoint is an input.
\<close>

definition urb_done :: "urb \<Rightarrow> int \<times> urb \<Rightarrow> bool" where
  "urb_done u r \<longleftrightarrow>
     r = (1, u) \<or>
     (\<exists>bs n. r = (0, u\<lparr>urb_buffer := overwrite bs (urb_buffer u), urb_actual_length := n\<rparr>) \<and>
        0 \<le> n \<and> n \<le> urb_buffer_length u \<and>
        int (length bs) = (if bit (urb_endpoint u) 7 then n else 0))"

lemma urb_done_failure [simp]: "urb_done u (1, u)"
  by (simp add: urb_done_def)

lemma urb_doneI:
  "0 \<le> n \<Longrightarrow> n \<le> urb_buffer_length u \<Longrightarrow>
   int (length bs) = (if bit (urb_endpoint u) 7 then n else 0) \<Longrightarrow>
   urb_done u (0, u\<lparr>urb_buffer := overwrite bs (urb_buffer u), urb_actual_length := n\<rparr>)"
  unfolding urb_done_def by blast

lemma complete_urb_fits:
  "length (rp_bytes r) \<le> length (urb_buffer u) \<Longrightarrow>
   complete_urb u r = Inr (u\<lparr>urb_buffer := overwrite (rp_bytes r) (urb_buffer u),
     urb_actual_length := rp_actual r\<rparr>)"
  by (simp add: complete_urb_def)

lemma runs_usb_bulk_msg:
  assumes ok: "usbdevfs_ok E"
    and len: "0 \<le> urb_buffer_length u" "urb_buffer_length u \<le> int (length (urb_buffer u))"
  shows "runs (\<not> usbdevfs_live E) never (\<lambda>r w'. urb_done u r) (usb_bulk_msg E fd u) w"
proof -
  have reap: "runs (\<not> usbdevfs_live E) never (\<lambda>r w'. urb_done u r)
      (if rp_ret r < 0 then ret (1, u)
       else bnd (lift (complete_urb u r)) (\<lambda>u'. ret (0, u'))) w'"
    if "reply_ok (Reap_urb u) r" for r w'
  proof (cases "rp_ret r < 0")
    case True
    then show ?thesis by (simp add: cmd_simps)
  next
    case False
    with that have r: "0 \<le> rp_actual r" "rp_actual r \<le> max 0 (urb_buffer_length u)"
      "int (length (rp_bytes r)) = (if bit (urb_endpoint u) 7 then rp_actual r else 0)"
      by (auto simp: reply_ok_def)
    with len have "length (rp_bytes r) \<le> length (urb_buffer u)"
      by (auto split: if_splits)
    with False r len show ?thesis
      by (simp add: cmd_simps complete_urb_fits urb_doneI)
  qed
  have submit: "runs (\<not> usbdevfs_live E) never (\<lambda>r w'. urb_done u r)
      (if rp_ret r < 0 then ret (1, u)
       else bnd (ioctl_retry E fd (Reap_urb u)) (\<lambda>r.
         if rp_ret r < 0 then ret (1, u)
         else bnd (lift (complete_urb u r)) (\<lambda>u'. ret (0, u')))) w'"
    if "reply_ok (Submit_urb u) r" for r w'
    by (auto simp: runs_ret intro: runs_bndI [OF runs_ioctl_retry [OF ok]] reap)
  show ?thesis
    using len by (auto simp: usb_bulk_msg_def intro: runs_bndI [OF runs_ioctl_retry [OF ok]] submit)
qed

definition usb_ops :: "'w env \<Rightarrow> 'w usb_ops" where
  "usb_ops E = \<lparr>bulk_send = usb_bulk_send E, bulk_recv = usb_bulk_recv E\<rparr>"

lemma usb_ops_simps [simp]:
  "bulk_send (usb_ops E) = usb_bulk_send E"
  "bulk_recv (usb_ops E) = usb_bulk_recv E"
  by (simp_all add: usb_ops_def)

lemma uint_bound: "unat (len :: u32) < 2 ^ 31 \<Longrightarrow> uint len < 2 ^ 31"
  using of_nat_less_iff [of "unat len" "2 ^ 31", where 'a = int] by simp

lemma uint_le_length: "unat (len :: u32) \<le> length b \<Longrightarrow> uint len \<le> int (length b)"
  using of_nat_le_iff [of "unat len" "length b", where 'a = int] by simp

lemma int_le_uint: "int k \<le> uint (len :: u32) \<longleftrightarrow> k \<le> unat len"
  using of_nat_le_iff [of k "unat len", where 'a = int] by simp

lemma sint_eq_uint: "unat (len :: u32) < 2 ^ 31 \<Longrightarrow> sint len = uint len"
proof -
  assume "unat len < 2 ^ 31"
  then have "uint len < 2 ^ 31" by (rule uint_bound)
  moreover have "- (2 ^ 31) \<le> uint len" by (rule order_trans [OF _ uint_ge_0]) simp
  ultimately show ?thesis
    by (subst sint_uint) (simp add: signed_take_bit_int_eq_self)
qed

lemma runs_usb_bulk_send:
  assumes "usbdevfs_ok E" and "unat len \<le> length data" and "unat len < 2 ^ 31"
    and "\<not> bit ep 7"
  shows "runs (\<not> usbdevfs_live E) never
    (\<lambda>r w'. snd r = data \<and> (fst r = -1 \<or> 0 \<le> fst r \<and> fst r \<le> uint len))
    (usb_bulk_send E fd ep data len) w"
proof -
  let ?u = "\<lparr>urb_type = USBDEVFS_URB_TYPE_BULK, urb_endpoint = ucast (ucast USB_DIR_OUT OR ep),
    urb_status = -1, urb_buffer = data, urb_buffer_length = sint len, urb_actual_length = 0\<rparr>"
  have "\<not> bit (urb_endpoint ?u) 7" using assms(4) by (simp add: bit_simps)
  moreover have "runs (\<not> usbdevfs_live E) never (\<lambda>r w'. urb_done ?u r) (usb_bulk_msg E fd ?u) w"
    by (rule runs_usb_bulk_msg [OF assms(1)])
      (simp_all add: sint_eq_uint [OF assms(3)] uint_le_length [OF assms(2)])
  ultimately show ?thesis
    unfolding usb_bulk_send_def
    by (elim runs_bndI) (auto simp: cmd_simps urb_done_def sint_eq_uint [OF assms(3)])
qed

lemma runs_usb_bulk_recv:
  assumes "usbdevfs_ok E" and "unat len \<le> length b" and "unat len < 2 ^ 31"
  shows "runs (\<not> usbdevfs_live E) never (\<lambda>r w'. received (unat len) b r)
    (usb_bulk_recv E fd ep b len) w"
proof -
  let ?u = "\<lparr>urb_type = USBDEVFS_URB_TYPE_BULK, urb_endpoint = ucast (ucast USB_DIR_IN OR ep),
    urb_status = -1, urb_buffer = b, urb_buffer_length = sint len, urb_actual_length = 0\<rparr>"
  have "bit (urb_endpoint ?u) 7" by (simp add: bit_simps)
  moreover have "runs (\<not> usbdevfs_live E) never (\<lambda>r w'. urb_done ?u r) (usb_bulk_msg E fd ?u) w"
    by (rule runs_usb_bulk_msg [OF assms(1)])
      (simp_all add: sint_eq_uint [OF assms(3)] uint_le_length [OF assms(2)])
  ultimately show ?thesis
    unfolding usb_bulk_recv_def
    by (elim runs_bndI)
      (auto simp: cmd_simps urb_done_def received_def sint_eq_uint [OF assms(3)] int_le_uint)
qed

interpretation usb: bulk_transport usbdevfs_ok usbdevfs_live usb_ops
proof unfold_locales
  fix E :: "'a env" and len :: u32 and data :: buf and ep :: u16 and fd :: int and w :: 'a
  assume *: "usbdevfs_ok E" "unat len \<le> length data" "unat len < 2 ^ 31"
  show "runs (\<not> usbdevfs_live E) never (\<lambda>r w'. received (unat len) data r)
      (bulk_recv (usb_ops E) fd ep data len) w"
    unfolding usb_ops_simps by (rule runs_usb_bulk_recv [OF *])
  assume "\<not> bit ep 7"
  with * show "runs (\<not> usbdevfs_live E) never
      (\<lambda>r w'. snd r = data \<and> (fst r = -1 \<or> 0 \<le> fst r \<and> fst r \<le> uint len))
      (bulk_send (usb_ops E) fd ep data len) w"
    unfolding usb_ops_simps by (rule runs_usb_bulk_send)
qed

end
