(* ===== verification/Adb_Checksum.thy ===== *)
theory Adb_Checksum
  imports Prelude
begin

text \<open>
  The checksums of \<^verbatim>\<open>lib/adb/adb.c\<close>: the byte sum that the messages carry, the two CRC
  routines, and the two searches for a CRC polynomial. The CRC step is stated once for words of
  any width, as the code's macro is used at 16 and at 32 bits.
\<close>

section \<open>The byte sum\<close>

function checksum_loop :: "buf \<Rightarrow> nat \<Rightarrow> nat \<Rightarrow> u32 \<Rightarrow> u32 checked" where
  "checksum_loop payload i len acc =
     (if i < len
      then sbind (load8 payload i) (\<lambda>x. checksum_loop payload (Suc i) len (acc + ucast x))
      else Inr acc)"
  by pat_completeness auto
termination
  by (relation "measure (\<lambda>(payload, i, len, acc). len - i)") auto

declare checksum_loop.simps [simp del]

definition checksum :: "buf \<Rightarrow> u32 \<Rightarrow> u32 checked" where
  "checksum payload len = checksum_loop payload 0 (unat len) 0"

section \<open>The CRC routines\<close>

text \<open>One round of \<^verbatim>\<open>CRC_CHECK_BITS\<close>, and its eight rounds.\<close>

definition crc_bit :: "'a::len word \<Rightarrow> 'a word \<Rightarrow> 'a word" where
  "crc_bit polynomial val =
     (if val AND 1 \<noteq> 0 then drop_bit 1 val XOR polynomial else drop_bit 1 val)"

definition crc_check_bits :: "'a::len word \<Rightarrow> 'a word \<Rightarrow> 'a word" where
  "crc_check_bits polynomial val = (crc_bit polynomial ^^ 8) val"

text \<open>The body of the loops over the bytes.\<close>

definition crc_update :: "'a::len word \<Rightarrow> 'a word \<Rightarrow> u8 \<Rightarrow> 'a word" where
  "crc_update polynomial crc x =
     (let val = (crc XOR ucast x) AND 0xFF
      in crc_check_bits polynomial val XOR drop_bit 8 crc)"

function crc_loop :: "'a::len word \<Rightarrow> buf \<Rightarrow> nat \<Rightarrow> nat \<Rightarrow> 'a word \<Rightarrow> 'a word checked" where
  "crc_loop polynomial b i len crc =
     (if i < len
      then sbind (load8 b i)
             (\<lambda>x. crc_loop polynomial b (Suc i) len (crc_update polynomial crc x))
      else Inr crc)"
  by pat_completeness auto
termination
  by (relation "measure (\<lambda>(polynomial, b, i, len, crc). len - i)") auto

declare crc_loop.simps [simp del]

definition crc16 :: "buf \<Rightarrow> u32 \<Rightarrow> u16 checked" where
  "crc16 b len = sbind (crc_loop 0x93FC b 0 (unat len) 0) (\<lambda>crc. Inr (crc XOR 0xFFFF))"

definition crc32 :: "buf \<Rightarrow> u32 \<Rightarrow> u32 checked" where
  "crc32 b len = sbind (crc_loop 0x93FC b 0 (unat len) 0) (\<lambda>crc. Inr (crc XOR 0xFFFFFFFF))"

text \<open>
  The searches: each tries the polynomials in ascending order. The first prints every hit (the
  register, its complement and the polynomial) and goes on, the second prints the first hit and
  stops there. The printed values are the second component of the result.
\<close>

function crc16_2_loop ::
    "buf \<Rightarrow> nat \<Rightarrow> u16 \<Rightarrow> u16 \<Rightarrow> (u16 \<times> u16 \<times> u16) list \<Rightarrow>
     (u16 \<times> (u16 \<times> u16 \<times> u16) list) checked" where
  "crc16_2_loop b len poly crc out =
     (if poly < 0xFFFF then
        sbind (crc_loop poly b 0 len 0) (\<lambda>crc'.
          crc16_2_loop b len (poly + 1) crc'
            (if crc' XOR 0xFFFF = 0x232 then out @ [(crc', crc' XOR 0xFFFF, poly)] else out))
      else Inr (crc, out))"
  by pat_completeness auto
termination
proof (relation "measure (\<lambda>(b, len, poly, crc, out). 65535 - unat poly)")
  fix b :: buf and len :: nat and poly crc :: u16 and out :: "(u16 \<times> u16 \<times> u16) list"
  fix crc' :: u16
  assume less: "poly < 0xFFFF"
  then have "unat (poly + 1) = unat poly + 1" and "unat poly < 65535"
    by (simp_all add: word_less_nat_alt unat_word_ariths)
  then show "((b, len, poly + 1, crc',
        if crc' XOR 0xFFFF = 0x232 then out @ [(crc', crc' XOR 0xFFFF, poly)] else out),
      b, len, poly, crc, out)
    \<in> measure (\<lambda>(b, len, poly, crc, out). 65535 - unat poly)"
    by simp
qed simp

declare crc16_2_loop.simps [simp del]

definition crc16_2 :: "buf \<Rightarrow> u32 \<Rightarrow> (u32 \<times> (u16 \<times> u16 \<times> u16) list) checked" where
  "crc16_2 b len =
     sbind (crc16_2_loop b (unat len) 0 0 []) (\<lambda>(crc, out). Inr (ucast (crc XOR 0xFFFF), out))"

function crc32_2_loop ::
    "buf \<Rightarrow> nat \<Rightarrow> u32 \<Rightarrow> u32 \<Rightarrow> (u32 \<times> u32 option) checked" where
  "crc32_2_loop b len poly crc =
     (if poly < 0xFFFFFFFF then
        sbind (crc_loop poly b 0 len 0) (\<lambda>crc'.
          if crc' XOR 0xFFFFFFFF = 0x232 then Inr (crc', Some poly)
          else crc32_2_loop b len (poly + 1) crc')
      else Inr (crc, None))"
  by pat_completeness auto
termination
proof (relation "measure (\<lambda>(b, len, poly, crc). 4294967295 - unat poly)")
  fix b :: buf and len :: nat and poly crc crc' :: u32
  assume less: "poly < 0xFFFFFFFF"
  then have "unat (poly + 1) = unat poly + 1" and "unat poly < 4294967295"
    by (simp_all add: word_less_nat_alt unat_word_ariths)
  then show "((b, len, poly + 1, crc'), b, len, poly, crc)
    \<in> measure (\<lambda>(b, len, poly, crc). 4294967295 - unat poly)"
    by simp
qed simp

declare crc32_2_loop.simps [simp del]

definition crc32_2 :: "buf \<Rightarrow> u32 \<Rightarrow> (u32 \<times> u32 option) checked" where
  "crc32_2 b len =
     sbind (crc32_2_loop b (unat len) 0 0) (\<lambda>(crc, out). Inr (crc XOR 0xFFFFFFFF, out))"

section \<open>The byte sum over the payload\<close>

lemma checksum_loop_known:
  "i \<le> length bs \<Longrightarrow> length bs = len \<Longrightarrow>
   checksum_loop (known bs @ b) i len acc = Inr (acc + sum_list (map ucast (drop i bs)))"
proof (induction "len - i" arbitrary: i acc)
  case 0
  then show ?case by (subst checksum_loop.simps) simp
next
  case (Suc n)
  then have "i < length bs" by simp
  with Suc show ?case
    by (subst checksum_loop.simps) (simp add: Cons_nth_drop_Suc [symmetric] ac_simps)
qed

lemma checksum_known:
  "length bs < 2 ^ 32 \<Longrightarrow>
   checksum (known bs @ b) (of_nat (length bs)) = Inr (sum_list (map ucast bs))"
  by (simp add: checksum_def checksum_loop_known unat_of_nat_u32)

section \<open>The CRC as a shift register\<close>

text \<open>
  The reference: the byte is added to the low end of the whole register, which then makes eight
  shifts. The code shifts the low byte only and adds the rest of the register at the end.
\<close>

definition crc_reference :: "'a::len word \<Rightarrow> 'a word \<Rightarrow> u8 \<Rightarrow> 'a word" where
  "crc_reference polynomial crc x = (crc_bit polynomial ^^ 8) (crc XOR ucast x)"

lemma crc_bit_alt:
  "crc_bit p v = drop_bit 1 v XOR (if bit v 0 then p else 0)"
  by (simp add: crc_bit_def and_one_eq mod2_eq_if bit_0)

lemma crc_bit_xor: "crc_bit p (a XOR b) = crc_bit p a XOR crc_bit p b"
  by (rule bit_word_eqI) (auto simp: crc_bit_alt bit_simps)

lemma crc_bits_xor: "(crc_bit p ^^ n) (a XOR b) = (crc_bit p ^^ n) a XOR (crc_bit p ^^ n) b"
  by (induction n) (simp_all add: crc_bit_xor)

lemma crc_bits_high:
  "(\<And>k. k < n \<Longrightarrow> \<not> bit v k) \<Longrightarrow> (crc_bit p ^^ n) v = drop_bit n v"
proof (induction n)
  case 0
  then show ?case by simp
next
  case (Suc n)
  then have "(crc_bit p ^^ n) v = drop_bit n v" and "\<not> bit v n" by auto
  then show ?case by (simp add: crc_bit_alt [of p "drop_bit n v"] bit_simps)
qed

lemma split_low_byte: "(v :: 'a::len word) = (v AND 0xFF) XOR (v AND NOT 0xFF)"
  by (rule bit_word_eqI) (auto simp: bit_simps)

lemma bit_0xFF: "bit (255 :: int) k \<longleftrightarrow> k < 8"
proof -
  have "(255 :: int) = mask 8" by (simp add: mask_eq_exp_minus_1)
  then show ?thesis by (simp only: bit_mask_iff) simp
qed

lemma bit_ones_16: "bit (65535 :: int) k \<longleftrightarrow> k < 16"
proof -
  have "(65535 :: int) = mask 16" by (simp add: mask_eq_exp_minus_1)
  then show ?thesis by (simp only: bit_mask_iff) simp
qed

lemma bit_ones_32: "bit (4294967295 :: int) k \<longleftrightarrow> k < 32"
proof -
  have "(4294967295 :: int) = mask 32" by (simp add: mask_eq_exp_minus_1)
  then show ?thesis by (simp only: bit_mask_iff) simp
qed

lemma bit_ones_high: "bit (4294901760 :: int) k \<longleftrightarrow> 16 \<le> k \<and> k < 32"
proof -
  have "(4294901760 :: int) = push_bit 16 (mask 16)"
    by (simp add: mask_eq_exp_minus_1 push_bit_eq_mult)
  then show ?thesis by (simp only: bit_push_bit_iff bit_mask_iff) auto
qed

lemma drop_8_xor_byte: "drop_bit 8 (crc XOR ucast (x :: u8) :: 'a::len word) = drop_bit 8 crc"
  by (rule bit_word_eqI) (auto simp: bit_simps dest: bit_imp_le_length)

lemma crc_update_reference: "crc_update p crc x = crc_reference p crc x"
proof -
  let ?v = "crc XOR ucast x"
  have low: "\<not> bit (?v AND NOT 0xFF) k" if "k < 8" for k
    using that by (auto simp: bit_simps bit_0xFF dest: bit_imp_le_length)
  have "crc_reference p crc x = (crc_bit p ^^ 8) ((?v AND 0xFF) XOR (?v AND NOT 0xFF))"
    by (simp only: crc_reference_def flip: split_low_byte)
  also have "\<dots> = (crc_bit p ^^ 8) (?v AND 0xFF) XOR drop_bit 8 (?v AND NOT 0xFF)"
    by (simp only: crc_bits_xor crc_bits_high [OF low])
  also have "drop_bit 8 (?v AND NOT 0xFF) = drop_bit 8 crc"
    unfolding drop_8_xor_byte [of crc x, symmetric]
    by (rule bit_word_eqI) (auto simp: bit_simps bit_0xFF dest: bit_imp_le_length)
  finally show ?thesis
    by (simp add: crc_update_def crc_check_bits_def Let_def)
qed

section \<open>The 32-bit routine\<close>

text \<open>At 32 bits the code uses the same 16-bit polynomial, so the upper half never changes.\<close>

lemma crc_bit_ucast: "crc_bit (ucast (p :: u16)) (ucast v :: u32) = ucast (crc_bit p v)"
  by (rule bit_word_eqI)
    (auto simp: crc_bit_alt bit_simps unsigned_or_eq dest: bit_imp_le_length)

lemma crc_bits_ucast:
  "(crc_bit (ucast (p :: u16)) ^^ n) (ucast v :: u32) = ucast ((crc_bit p ^^ n) v)"
  by (induction n) (simp_all add: crc_bit_ucast)

lemma ucast_xor_byte: "(ucast (c :: u16) :: u32) XOR ucast (x :: u8) = ucast (c XOR ucast x)"
  by (rule bit_word_eqI) (auto simp: bit_simps dest: bit_imp_le_length)

lemma crc_update_ucast:
  "crc_update (ucast (p :: u16)) (ucast c :: u32) x = ucast (crc_update p c x)"
  by (simp add: crc_update_reference crc_reference_def ucast_xor_byte crc_bits_ucast)

lemma crc_loop_ucast:
  "crc_loop (ucast (p :: u16)) b i len (ucast c :: u32) =
   sbind (crc_loop p b i len c) (\<lambda>c. Inr (ucast c))"
proof (induction p b i len c rule: crc_loop.induct)
  case (1 p b i len c)
  show ?case
  proof (cases "i < len")
    case True
    then show ?thesis
      using "1" by (cases "load8 b i")
        (simp_all add: crc_loop.simps [of _ b i] crc_update_ucast)
  next
    case False
    then show ?thesis by (simp add: crc_loop.simps)
  qed
qed

section \<open>Runs over a known buffer\<close>

lemma crc_loop_known:
  "i \<le> length bs \<Longrightarrow> length bs = len \<Longrightarrow>
   crc_loop p (known bs @ b) i len crc = Inr (foldl (crc_update p) crc (drop i bs))"
proof (induction "len - i" arbitrary: i crc)
  case 0
  then show ?case by (subst crc_loop.simps) simp
next
  case (Suc n)
  then have "i < length bs" by simp
  with Suc show ?case
    by (subst crc_loop.simps) (simp add: Cons_nth_drop_Suc [symmetric])
qed

lemma crc16_known:
  "length bs < 2 ^ 32 \<Longrightarrow>
   crc16 (known bs) (of_nat (length bs)) = Inr (foldl (crc_update 0x93FC) 0 bs XOR 0xFFFF)"
  using crc_loop_known [of 0 bs "length bs" "0x93FC :: u16" "[]" 0]
  by (simp add: crc16_def unat_of_nat_u32)

text \<open>A polynomial with its top bit set makes the shift reversible.\<close>

lemma crc_bit_inj:
  assumes "bit (p :: 'a::len word) (LENGTH('a) - 1)"
  shows "inj (crc_bit p)"
proof (rule injI)
  fix a b :: "'a word"
  assume eq: "crc_bit p a = crc_bit p b"
  let ?d = "a XOR b"
  have zero: "crc_bit p ?d = 0" by (simp add: crc_bit_xor eq)
  have "bit (crc_bit p ?d) (LENGTH('a) - 1) \<longleftrightarrow> bit ?d 0"
    using assms by (auto simp: crc_bit_alt bit_simps dest: bit_imp_le_length)
  then have low: "\<not> bit ?d 0" unfolding zero by simp
  have "\<not> bit ?d n" for n
  proof (cases n)
    case 0
    with low show ?thesis by simp
  next
    case (Suc m)
    have "bit (crc_bit p ?d) m = bit ?d (Suc m)"
      using low by (simp add: crc_bit_alt bit_simps)
    then show ?thesis unfolding zero Suc by simp
  qed
  then have "?d = 0" by (intro bit_word_eqI) simp
  then show "a = b" by (metis xor.left_neutral xor.right_neutral xor.assoc xor_self_eq)
qed

lemma crc_update_inj:
  assumes "bit (p :: 'a::len word) (LENGTH('a) - 1)"
    and "crc_update p c x = crc_update p c' x'"
  shows "c XOR ucast x = c' XOR ucast x'"
proof -
  have "inj (crc_bit p ^^ 8)" by (rule inj_fn [OF crc_bit_inj [OF assms(1)]])
  with assms(2) show ?thesis
    by (auto simp: crc_update_reference crc_reference_def dest: injD)
qed

lemma xor_right_cancel: "(a :: 'a::len word) XOR z = b XOR z \<longleftrightarrow> a = b"
  by (metis xor.assoc xor.right_neutral xor_self_eq)

lemma xor_left_cancel: "(z :: 'a::len word) XOR a = z XOR b \<longleftrightarrow> a = b"
  by (metis xor.commute xor_right_cancel)

lemma foldl_crc_inj:
  assumes "bit (p :: 'a::len word) (LENGTH('a) - 1)"
  shows "foldl (crc_update p) c xs = foldl (crc_update p) c' xs \<Longrightarrow> c = c'"
proof (induction xs arbitrary: c c')
  case (Cons x xs)
  then have "crc_update p c x = crc_update p c' x" by (simp add: Cons.IH)
  then have "c XOR ucast x = c' XOR ucast x" by (rule crc_update_inj [OF assms])
  then show ?case by (simp only: xor_right_cancel)
qed simp

text \<open>A change of one byte changes the CRC.\<close>

lemma foldl_crc_one_byte:
  assumes "bit (p :: u16) 15" and "x \<noteq> x'"
  shows "foldl (crc_update p) c (xs @ x # ys) \<noteq> foldl (crc_update p) c (xs @ x' # ys)"
proof
  have top: "bit p (LENGTH(16) - 1)" using assms(1) by simp
  let ?c = "foldl (crc_update p) c xs"
  assume "foldl (crc_update p) c (xs @ x # ys) = foldl (crc_update p) c (xs @ x' # ys)"
  then have "crc_update p ?c x = crc_update p ?c x'"
    by (simp add: foldl_crc_inj [OF top])
  then have "?c XOR ucast x = ?c XOR ucast x'" by (rule crc_update_inj [OF top])
  then have "(ucast x :: u16) = ucast x'" by (simp only: xor_left_cancel)
  then have eq: "bit (ucast x :: u16) n = bit (ucast x' :: u16) n" for n by simp
  have "x = x'"
  proof (rule bit_word_eqI)
    fix n assume "n < LENGTH(8)"
    then show "bit x n = bit x' n" using eq [of n] by (simp add: bit_unsigned_iff)
  qed
  with assms(2) show False by simp
qed

section \<open>The searches\<close>

abbreviation crc_register :: "'a::len word \<Rightarrow> u8 list \<Rightarrow> 'a word" where
  "crc_register p bs \<equiv> foldl (crc_update p) 0 bs"

lemma of_nat_less_top: "k \<le> 65535 \<Longrightarrow> (of_nat k :: u16) < 0xFFFF \<longleftrightarrow> k < 65535"
  by (simp add: word_less_nat_alt unat_of_nat take_bit_eq_mod)

lemma crc16_2_loop_known:
  assumes "length bs = len" and "k \<le> 65535"
  shows "crc16_2_loop (known bs) len (of_nat k) crc out =
    Inr (if k = 65535 then crc else crc_register 0xFFFE bs,
      out @ map (\<lambda>q. let c = crc_register (of_nat q) bs in (c, c XOR 0xFFFF, of_nat q))
        (filter (\<lambda>q. crc_register (of_nat q :: u16) bs XOR 0xFFFF = 0x232) [k ..< 65535]))"
  using assms(2)
proof (induction "65535 - k" arbitrary: k crc out)
  case 0
  then show ?case by (subst crc16_2_loop.simps) simp
next
  case (Suc n)
  then have k: "k < 65535" by simp
  then have range: "[k ..< 65535] = k # [Suc k ..< 65535]" by (simp add: upt_rec)
  let ?c = "crc_register (of_nat k :: u16) bs"
  let ?out = "if ?c XOR 0xFFFF = 0x232 then out @ [(?c, ?c XOR 0xFFFF, of_nat k)] else out"
  have "crc16_2_loop (known bs) len (of_nat k) crc out =
      crc16_2_loop (known bs) len (of_nat (Suc k)) ?c ?out"
    using crc_loop_known [of 0 bs len "of_nat k :: u16" "[]" 0] assms(1) k
    by (subst crc16_2_loop.simps) (simp add: of_nat_less_top ac_simps)
  also have "\<dots> = Inr (if Suc k = 65535 then ?c else crc_register 0xFFFE bs,
      ?out @ map (\<lambda>q. let c = crc_register (of_nat q) bs in (c, c XOR 0xFFFF, of_nat q))
        (filter (\<lambda>q. crc_register (of_nat q :: u16) bs XOR 0xFFFF = 0x232) [Suc k ..< 65535]))"
    using Suc k by (intro Suc.hyps) simp_all
  finally show ?case
    using k by (cases "k = 65534") (simp_all add: range Let_def)
qed

lemma of_nat_less_top32: "k \<le> 4294967295 \<Longrightarrow> (of_nat k :: u32) < 0xFFFFFFFF \<longleftrightarrow> k < 4294967295"
  by (simp add: word_less_nat_alt unat_of_nat take_bit_eq_mod)

lemma crc32_2_loop_known:
  assumes "length bs = len" and "k \<le> 4294967295"
  shows "crc32_2_loop (known bs) len (of_nat k) crc =
    Inr (case find (\<lambda>q. crc_register (of_nat q :: u32) bs XOR 0xFFFFFFFF = 0x232)
           [k ..< 4294967295] of
        Some q \<Rightarrow> (crc_register (of_nat q) bs, Some (of_nat q))
      | None \<Rightarrow> (if k = 4294967295 then crc else crc_register 0xFFFFFFFE bs, None))"
  using assms(2)
proof (induction "4294967295 - k" arbitrary: k crc)
  case 0
  then show ?case by (subst crc32_2_loop.simps) simp
next
  case (Suc n)
  then have k: "k < 4294967295" by simp
  then have range: "[k ..< 4294967295] = k # [Suc k ..< 4294967295]" by (simp add: upt_rec)
  let ?c = "crc_register (of_nat k :: u32) bs"
  have unfold: "crc32_2_loop (known bs) len (of_nat k) crc =
      (if ?c XOR 0xFFFFFFFF = 0x232 then Inr (?c, Some (of_nat k))
       else crc32_2_loop (known bs) len (of_nat (Suc k)) ?c)"
    using crc_loop_known [of 0 bs len "of_nat k :: u32" "[]" 0] assms(1) k
    by (subst crc32_2_loop.simps) (simp add: of_nat_less_top32 ac_simps)
  have rest: "crc32_2_loop (known bs) len (of_nat (Suc k)) ?c =
    Inr (case find (\<lambda>q. crc_register (of_nat q :: u32) bs XOR 0xFFFFFFFF = 0x232)
           [Suc k ..< 4294967295] of
        Some q \<Rightarrow> (crc_register (of_nat q) bs, Some (of_nat q))
      | None \<Rightarrow> (if Suc k = 4294967295 then ?c else crc_register 0xFFFFFFFE bs, None))"
    using Suc k by (intro Suc.hyps) simp_all
  have end_case: "Suc k = 4294967295 \<Longrightarrow> (of_nat k :: u32) = 0xFFFFFFFE"
    by (simp add: eq_numeral_Suc)
  show ?case
    unfolding unfold rest range
    using k end_case by (auto split: option.splits)
qed

section \<open>What the routines compute\<close>

text \<open>
  The checksum of a payload is the sum of its bytes; a payload of up to 16843009 bytes cannot
  make it wrap around.
\<close>

lemma checksum_is_byte_sum:
  assumes "length bs \<le> 16843009"
  shows "\<exists>s. checksum (known bs @ b) (of_nat (length bs)) = Inr s \<and>
    unat s = sum_list (map unat bs)"
proof -
  have "unat (sum_list (map ucast bs) :: u32) = sum_list (map unat bs) \<and>
      sum_list (map unat bs) \<le> 255 * length bs" if "length bs \<le> 16843009" for bs :: "u8 list"
    using that
  proof (induction bs)
    case (Cons x bs)
    have x: "unat x \<le> 255" using unsigned_less [of x, where 'a = nat] by simp
    with Cons have "unat (ucast x :: u32) + unat (sum_list (map ucast bs) :: u32) < 2 ^ 32"
      by (simp add: unat_ucast_byte)
    with Cons x show ?case
      by (simp add: unat_word_ariths unat_ucast_byte)
  qed simp
  with assms show ?thesis by (simp add: checksum_known)
qed

lemma checksum_is_byte_sum_witness:
  "\<exists>s. checksum (known [1, 255, 255]) 3 = Inr s \<and> unat s = 511"
  using checksum_is_byte_sum [of "[1, 255, 255]" "[]"] by simp

lemma crc16_shift_register:
  assumes "length bs < 2 ^ 32"
  shows "crc16 (known bs) (of_nat (length bs)) =
    Inr (foldl (crc_reference 0x93FC) 0 bs XOR 0xFFFF)"
proof -
  have "crc_update (0x93FC :: u16) = crc_reference 0x93FC"
    by (intro ext) (rule crc_update_reference)
  with crc16_known [OF assms] show ?thesis by simp
qed

text \<open>
  \<^verbatim>\<open>crc32\<close> is not a 32-bit CRC: on every buffer and length it is \<^verbatim>\<open>crc16\<close> with the
  upper 16 bits set, and it reads out of bounds exactly where \<^verbatim>\<open>crc16\<close> does.
\<close>

lemma crc32_is_crc16:
  "crc32 b len = sbind (crc16 b len) (\<lambda>c. Inr (0xFFFF0000 OR ucast c))"
proof -
  have "(ucast c :: u32) XOR 0xFFFFFFFF = 0xFFFF0000 OR ucast (c XOR 0xFFFF)" for c :: u16
    by (rule bit_word_eqI)
      (auto simp: bit_simps bit_ones_16 bit_ones_32 bit_ones_high dest: bit_imp_le_length)
  then show ?thesis
    using crc_loop_ucast [of "0x93FC" b 0 "unat len" 0]
    by (cases "crc_loop (0x93FC :: u16) b 0 (unat len) 0") (simp_all add: crc32_def crc16_def)
qed

text \<open>
  C30: \<^verbatim>\<open>crc16\<close> is the complement of a 16-bit shift register with polynomial 0x93FC fed
  with whole bytes, although the code shifts only the low byte of the register; and
  \<^verbatim>\<open>crc32\<close> is no 32-bit CRC but the same value with the upper 16 bits set.
\<close>

theorem crc_shift_register:
  assumes "length bs < 2 ^ 32" and "c = foldl (crc_reference 0x93FC) 0 bs XOR 0xFFFF"
  shows "crc16 (known bs) (of_nat (length bs)) = Inr c \<and>
    crc32 (known bs) (of_nat (length bs)) = Inr (0xFFFF0000 OR ucast c)"
  using crc16_shift_register [OF assms(1)] by (simp add: crc32_is_crc16 assms(2))

theorem crc_shift_register_witness:
  "crc16 (known [0x31, 0x32]) 2 = Inr (foldl (crc_reference 0x93FC) 0 [0x31, 0x32] XOR 0xFFFF)"
  using crc_shift_register [of "[0x31, 0x32]", OF _ refl] by simp

text \<open>
  \<^verbatim>\<open>crc16\<close> detects every change of a single byte of a message.
\<close>

lemma crc16_detects_one_byte:
  assumes "x \<noteq> x'" and "length (xs @ x # ys) < 2 ^ 32"
  shows "crc16 (known (xs @ x # ys)) (of_nat (length (xs @ x # ys))) \<noteq>
    crc16 (known (xs @ x' # ys)) (of_nat (length (xs @ x' # ys)))"
proof -
  have "bit (0x93FC :: u16) 15" by simp
  then show ?thesis
    using foldl_crc_one_byte [OF _ assms(1), of "0x93FC" 0 xs ys] assms(2)
      crc16_known [of "xs @ x # ys"] crc16_known [of "xs @ x' # ys"]
    by (simp add: xor_right_cancel)
qed

lemma crc16_detects_one_byte_witness:
  "crc16 (known [7, 8, 9]) 3 \<noteq> crc16 (known [7, 0, 9]) 3"
  using crc16_detects_one_byte [of 8 0 "[7]" "[9]"] by simp

end
