(* ===== verification/Adb.thy ===== *)
theory Adb
  imports Usb Adb_Checksum
begin

text \<open>
  The Android debug bridge messages of \<^verbatim>\<open>lib/adb/adb.c\<close>: a message is a packed header of
  six 32-bit words and a payload pointer; a request sends the header and the payload as two bulk
  transfers and reads one or two transfers back. The functions take the bulk operations \<open>B\<close>
  (\<open>usb_ops E\<close> in the program) and the environment \<open>E\<close> for \<^verbatim>\<open>malloc\<close>. What they print to
  the standard output is not modelled.
\<close>

section \<open>Messages\<close>

record message =
  command :: u32
  arg0 :: u32
  arg1 :: u32
  data_length :: u32
  data_crc32 :: u32
  magic :: u32

record adb_message =
  header :: message
  payload :: "buf option"

record adb_dev =
  dev_fd :: int
  in_endp :: int
  out_endp :: int

record adb_res =
  res_length :: u32
  res_code :: u32

abbreviation (input) ADB_COMMAND_A_CNXN :: u32 where "ADB_COMMAND_A_CNXN \<equiv> 0x4e584e43"
abbreviation (input) ADB_COMMAND_A_AUTH :: u32 where "ADB_COMMAND_A_AUTH \<equiv> 0x48545541"
abbreviation (input) ADB_COMMAND_A_OPEN :: u32 where "ADB_COMMAND_A_OPEN \<equiv> 0x4e45504f"
abbreviation (input) ADB_COMMAND_A_OKAY :: u32 where "ADB_COMMAND_A_OKAY \<equiv> 0x59414b4f"
abbreviation (input) ADB_COMMAND_A_CLSE :: u32 where "ADB_COMMAND_A_CLSE \<equiv> 0x45534c43"
abbreviation (input) ADB_COMMAND_A_WRTE :: u32 where "ADB_COMMAND_A_WRTE \<equiv> 0x45545257"
abbreviation (input) ADB_COMMAND_A_STLS :: u32 where "ADB_COMMAND_A_STLS \<equiv> 0x534C5453"

abbreviation (input) ADB_HEADER_LEN :: nat where "ADB_HEADER_LEN \<equiv> 0x18"
abbreviation (input) RESPONSE_BUFFER_LEN :: nat where "RESPONSE_BUFFER_LEN \<equiv> 2048"

definition ADB_MAGIC :: "u32 \<Rightarrow> u32" where
  "ADB_MAGIC cmd = cmd XOR 0xFFFFFFFF"

text \<open>\<^verbatim>\<open>ADB_SET_MESSAGE\<close>.\<close>

definition adb_set_message ::
    "u32 \<Rightarrow> u32 \<Rightarrow> u32 \<Rightarrow> u32 \<Rightarrow> buf option \<Rightarrow> adb_message checked" where
  "adb_set_message ucmd uarg0 uarg1 udata_len upayload =
     sbind (case upayload of None \<Rightarrow> Inr 0 | Some p \<Rightarrow> checksum p udata_len) (\<lambda>crc.
       Inr \<lparr>header =
              \<lparr>command = ucmd, arg0 = uarg0, arg1 = uarg1,
               data_length = (case upayload of None \<Rightarrow> 0 | Some _ \<Rightarrow> udata_len),
               data_crc32 = crc, magic = ADB_MAGIC ucmd\<rparr>,
            payload = upayload\<rparr>)"

text \<open>The bytes of a packed header, and the two fields read out of a response.\<close>

definition header_bytes :: "message \<Rightarrow> u8 list" where
  "header_bytes m =
     enc32 (command m) @ enc32 (arg0 m) @ enc32 (arg1 m) @ enc32 (data_length m) @
     enc32 (data_crc32 m) @ enc32 (magic m)"

definition ADB_COMMAND_MASK :: "buf \<Rightarrow> u32 checked" where
  "ADB_COMMAND_MASK stream = load_le32 stream 0"

definition ADB_DATA_LEN_MASK :: "buf \<Rightarrow> u32 checked" where
  "ADB_DATA_LEN_MASK stream = load_le32 stream 12"

section \<open>Requests\<close>

text \<open>
  The receive loop of \<^verbatim>\<open>__send_request\<close>: \<open>incoming\<close> is \<^verbatim>\<open>__incomming_data\<close>, set when
  the first transfer announces a payload; the transfer read then ends the loop.
\<close>

function adb_recv_loop ::
    "'w usb_ops \<Rightarrow> adb_dev \<Rightarrow> bool \<Rightarrow> nat \<Rightarrow> buf \<Rightarrow> buf \<Rightarrow> adb_res \<Rightarrow>
     ('w, int \<times> buf \<times> adb_res) cmd" where
  "adb_recv_loop B dev incoming offset rbuffer data res =
     bnd (bulk_recv B (dev_fd dev) (word_of_int (in_endp dev)) rbuffer 512) (\<lambda>(recv_bytes, rbuffer).
     if recv_bytes < 0 then ret (-1, data, res)
     else
       bnd (lift (memcpy data offset rbuffer 0 (size_of_int recv_bytes))) (\<lambda>data.
       let res = res\<lparr>res_length := res_length res + word_of_int recv_bytes\<rparr> in
       if incoming then ret (0, data, res)
       else
         bnd (lift (ADB_COMMAND_MASK rbuffer)) (\<lambda>code.
         bnd (lift (ADB_DATA_LEN_MASK rbuffer)) (\<lambda>dlen.
         let res = res\<lparr>res_code := code\<rparr> in
         if dlen \<noteq> 0
         then adb_recv_loop B dev True (offset + nat recv_bytes) rbuffer data res
         else ret (0, data, res)))))"
  by pat_completeness auto
termination
  by (relation "measure (\<lambda>(B, dev, incoming, r). if incoming then 0 else 1)") auto

declare adb_recv_loop.simps [simp del]

definition adb_send_request ::
    "'w usb_ops \<Rightarrow> adb_dev \<Rightarrow> buf \<Rightarrow> u32 \<Rightarrow> buf \<Rightarrow> adb_res option \<Rightarrow>
     ('w, int \<times> buf \<times> adb_res option) cmd" where
  "adb_send_request B dev req len data res =
     bnd (bulk_send B (dev_fd dev) (word_of_int (out_endp dev)) req 0x18)
       (\<lambda>(sent_bytes, _).
     if sent_bytes < 0 then ret (-1, data, res)
     else
       bnd (if 0x18 < len
            then bulk_send B (dev_fd dev) (word_of_int (out_endp dev)) (drop ADB_HEADER_LEN req)
                   (len - 0x18)
            else ret (sent_bytes, [])) (\<lambda>(sent_bytes, _).
       if sent_bytes < 0 then ret (-1, data, res)
       else
         bnd (adb_recv_loop B dev False 0 (uninit 512) data \<lparr>res_length = 0, res_code = 0\<rparr>)
           (\<lambda>(r, data, res').
         if r < 0 then ret (-1, data, res)
         else
           (case res of
              None \<Rightarrow> halt Null_pointer
            | Some _ \<Rightarrow> ret (0, data, Some res')))))"

definition malloc :: "'w env \<Rightarrow> nat \<Rightarrow> ('w, buf option) cmd" where
  "malloc E n =
     (\<lambda>w. case sys_malloc E n w of (ok, w') \<Rightarrow>
        Some (Inr (if ok then Some (uninit n) else None, w')))"

text \<open>The stream that \<^verbatim>\<open>__handle_request\<close> sends: the header, then the payload.\<close>

definition adb_fill_stream :: "adb_message \<Rightarrow> buf \<Rightarrow> buf checked" where
  "adb_fill_stream msg mstream =
     sbind (memcpy mstream 0 (known (header_bytes (header msg))) 0 ADB_HEADER_LEN) (\<lambda>mstream.
       if data_length (header msg) \<noteq> 0
       then (case payload msg of
               None \<Rightarrow> Inl Null_pointer
             | Some p \<Rightarrow> memcpy mstream ADB_HEADER_LEN p 0 (unat (data_length (header msg))))
       else Inr mstream)"

text \<open>The end of \<^verbatim>\<open>__handle_request\<close>: the response is cut to the caller's buffer.\<close>

definition adb_copy_response ::
    "buf option \<Rightarrow> u32 \<Rightarrow> int \<times> buf \<times> adb_res option \<Rightarrow>
     ('w, int \<times> buf option \<times> adb_res option) cmd" where
  "adb_copy_response data len r =
     (case r of (n, rstream, res) \<Rightarrow>
        case data of
          None \<Rightarrow> ret (n, None, res)
        | Some d \<Rightarrow>
            if n = 0
            then (case res of
                    None \<Rightarrow> halt Null_pointer
                  | Some rs \<Rightarrow>
                      let k = (if len < res_length rs then len else res_length rs) in
                      bnd (lift (memcpy d 0 rstream 0 (unat k))) (\<lambda>d. ret (n, Some d, res)))
            else ret (n, Some d, res))"

text \<open>
  \<^verbatim>\<open>__handle_request\<close>: the caller's buffer \<open>data\<close> may be null, and then the response is
  only reported in \<open>res\<close>.
\<close>

definition adb_handle_request ::
    "'w usb_ops \<Rightarrow> 'w env \<Rightarrow> adb_dev \<Rightarrow> adb_message \<Rightarrow> buf option \<Rightarrow> u32 \<Rightarrow> adb_res option \<Rightarrow>
     ('w, int \<times> buf option \<times> adb_res option) cmd" where
  "adb_handle_request B E dev msg data len res =
     (let bytes_len = sint (0x18 + data_length (header msg)) in
      bnd (malloc E (size_of_int bytes_len)) (\<lambda>mstream.
      case mstream of
        None \<Rightarrow> ret (-1, data, res)
      | Some mstream \<Rightarrow>
          bnd (lift (adb_fill_stream msg mstream)) (\<lambda>mstream.
          bnd (adb_send_request B dev mstream (word_of_int bytes_len)
                (uninit RESPONSE_BUFFER_LEN) res)
            (adb_copy_response data len))))"

section \<open>The operations\<close>

type_synonym 'w adb_reply = "('w, int \<times> buf option \<times> adb_res option) cmd"

definition adb_request ::
    "'w usb_ops \<Rightarrow> 'w env \<Rightarrow> adb_dev \<Rightarrow> adb_message checked \<Rightarrow> buf option \<Rightarrow> u32 \<Rightarrow>
     adb_res option \<Rightarrow> 'w adb_reply" where
  "adb_request B E dev msg data len res =
     bnd (lift msg) (\<lambda>msg. adb_handle_request B E dev msg data len res)"

definition adb_connect ::
    "'w usb_ops \<Rightarrow> 'w env \<Rightarrow> adb_dev \<Rightarrow> u32 \<Rightarrow> u32 \<Rightarrow> buf \<Rightarrow> buf option \<Rightarrow> u32 \<Rightarrow>
     adb_res option \<Rightarrow> 'w adb_reply" where
  "adb_connect B E dev version maxdata system_id data len res =
     adb_request B E dev
       (sbind (c_strlen system_id) (\<lambda>n.
          adb_set_message ADB_COMMAND_A_CNXN version maxdata (of_nat n) (Some system_id)))
       data len res"

definition adb_stls ::
    "'w usb_ops \<Rightarrow> 'w env \<Rightarrow> adb_dev \<Rightarrow> u32 \<Rightarrow> u32 \<Rightarrow> buf option \<Rightarrow> u32 \<Rightarrow>
     adb_res option \<Rightarrow> 'w adb_reply" where
  "adb_stls B E dev ty version data len res =
     adb_request B E dev
       (adb_set_message ADB_COMMAND_A_STLS ty version 0 (Some (c_string []))) data len res"

definition adb_auth ::
    "'w usb_ops \<Rightarrow> 'w env \<Rightarrow> adb_dev \<Rightarrow> u32 \<Rightarrow> buf option \<Rightarrow> u32 \<Rightarrow> buf option \<Rightarrow> u32 \<Rightarrow>
     adb_res option \<Rightarrow> 'w adb_reply" where
  "adb_auth B E dev ty auth_data auth_len data len res =
     adb_request B E dev
       (adb_set_message ADB_COMMAND_A_AUTH ty 0 auth_len auth_data) data len res"

definition adb_open ::
    "'w usb_ops \<Rightarrow> 'w env \<Rightarrow> adb_dev \<Rightarrow> u32 \<Rightarrow> buf \<Rightarrow> buf option \<Rightarrow> u32 \<Rightarrow>
     adb_res option \<Rightarrow> 'w adb_reply" where
  "adb_open B E dev local_id destination data len res =
     adb_request B E dev
       (sbind (c_strlen destination) (\<lambda>n.
          adb_set_message ADB_COMMAND_A_OPEN local_id 0 (of_nat n) (Some destination)))
       data len res"

definition adb_ready ::
    "'w usb_ops \<Rightarrow> 'w env \<Rightarrow> adb_dev \<Rightarrow> u32 \<Rightarrow> u32 \<Rightarrow> buf option \<Rightarrow> u32 \<Rightarrow>
     adb_res option \<Rightarrow> 'w adb_reply" where
  "adb_ready B E dev local_id remote_id data len res =
     adb_request B E dev
       (adb_set_message ADB_COMMAND_A_OKAY local_id remote_id 0 (Some (c_string []))) data len res"

definition adb_write ::
    "'w usb_ops \<Rightarrow> 'w env \<Rightarrow> adb_dev \<Rightarrow> u32 \<Rightarrow> u32 \<Rightarrow> buf \<Rightarrow> buf option \<Rightarrow> u32 \<Rightarrow>
     adb_res option \<Rightarrow> 'w adb_reply" where
  "adb_write B E dev local_id remote_id pl data len res =
     adb_request B E dev
       (sbind (c_strlen pl) (\<lambda>n.
          adb_set_message ADB_COMMAND_A_WRTE local_id remote_id (of_nat n) (Some pl)))
       data len res"

definition adb_close ::
    "'w usb_ops \<Rightarrow> 'w env \<Rightarrow> adb_dev \<Rightarrow> u32 \<Rightarrow> u32 \<Rightarrow> buf option \<Rightarrow> u32 \<Rightarrow>
     adb_res option \<Rightarrow> 'w adb_reply" where
  "adb_close B E dev local_id remote_id data len res =
     adb_request B E dev (adb_set_message ADB_COMMAND_A_CLSE local_id remote_id 0 None) data len res"

section \<open>The header on the wire\<close>

text \<open>The inverse of \<open>header_bytes\<close>, and the check the protocol asks of a receiver.\<close>

definition parse_header :: "buf \<Rightarrow> message checked" where
  "parse_header b =
     sbind (load_le32 b 0) (\<lambda>c. sbind (load_le32 b 4) (\<lambda>a0. sbind (load_le32 b 8) (\<lambda>a1.
     sbind (load_le32 b 12) (\<lambda>n. sbind (load_le32 b 16) (\<lambda>s. sbind (load_le32 b 20) (\<lambda>m.
       Inr \<lparr>command = c, arg0 = a0, arg1 = a1, data_length = n, data_crc32 = s, magic = m\<rparr>))))))"

definition adb_valid :: "message \<Rightarrow> u8 list \<Rightarrow> bool" where
  "adb_valid m p \<longleftrightarrow>
     magic m = NOT (command m) \<and> data_length m = of_nat (length p) \<and>
     data_crc32 m = sum_list (map ucast p)"

lemma length_header_bytes [simp]: "length (header_bytes m) = ADB_HEADER_LEN"
  by (simp add: header_bytes_def)

lemma load_le32_at:
  "n = length xs \<Longrightarrow> load_le32 (known xs @ known (enc32 x) @ b) n = Inr x"
  using load_le32_skip [of xs "known (enc32 x) @ b" 0] by simp

lemma parse_header_bytes: "parse_header (known (header_bytes m) @ b) = Inr m"
proof -
  let ?e = "\<lambda>x. known (enc32 x)"
  have "load_le32 (known (header_bytes m) @ b) 0 = Inr (command m)"
    using load_le32_at [of 0 "[]" "command m"] by (simp add: header_bytes_def)
  moreover have "load_le32 (known (header_bytes m) @ b) 4 = Inr (arg0 m)"
    using load_le32_at [of 4 "enc32 (command m)" "arg0 m"] by (simp add: header_bytes_def)
  moreover have "load_le32 (known (header_bytes m) @ b) 8 = Inr (arg1 m)"
    using load_le32_at [of 8 "enc32 (command m) @ enc32 (arg0 m)" "arg1 m"]
    by (simp add: header_bytes_def)
  moreover have "load_le32 (known (header_bytes m) @ b) 12 = Inr (data_length m)"
    using load_le32_at
      [of 12 "enc32 (command m) @ enc32 (arg0 m) @ enc32 (arg1 m)" "data_length m"]
    by (simp add: header_bytes_def)
  moreover have "load_le32 (known (header_bytes m) @ b) 16 = Inr (data_crc32 m)"
    using load_le32_at
      [of 16 "enc32 (command m) @ enc32 (arg0 m) @ enc32 (arg1 m) @ enc32 (data_length m)"
        "data_crc32 m"]
    by (simp add: header_bytes_def)
  moreover have "load_le32 (known (header_bytes m) @ b) 20 = Inr (magic m)"
    using load_le32_at
      [of 20 "enc32 (command m) @ enc32 (arg0 m) @ enc32 (arg1 m) @ enc32 (data_length m) @
         enc32 (data_crc32 m)" "magic m"]
    by (simp add: header_bytes_def)
  ultimately show ?thesis by (simp add: parse_header_def)
qed

lemma xor_all_ones: "(x :: u32) XOR 0xFFFFFFFF = NOT x"
  by (rule bit_word_eqI) (auto simp: bit_simps bit_ones_32)

lemma adb_set_message_valid:
  assumes "length p < 2 ^ 32"
  shows "\<exists>m. adb_set_message c a0 a1 (of_nat (length p)) (Some (known p @ b)) =
      Inr \<lparr>header = m, payload = Some (known p @ b)\<rparr> \<and>
    adb_valid m p \<and> command m = c \<and> arg0 m = a0 \<and> arg1 m = a1"
  using assms
  by (simp add: adb_set_message_def checksum_known adb_valid_def ADB_MAGIC_def xor_all_ones)

lemma adb_set_message_null:
  "\<exists>m. adb_set_message c a0 a1 n None = Inr \<lparr>header = m, payload = None\<rparr> \<and>
    adb_valid m [] \<and> command m = c \<and> arg0 m = a0 \<and> arg1 m = a1"
  by (simp add: adb_set_message_def adb_valid_def ADB_MAGIC_def xor_all_ones)

section \<open>Requests over any transport\<close>

text \<open>
  What a successful request leaves in the response buffer \<open>d0\<close>: between 16 and 1024 received
  bytes at its front, the first of which are the reported command.
\<close>

definition adb_response :: "buf \<Rightarrow> int \<times> buf \<times> adb_res \<Rightarrow> bool" where
  "adb_response d0 r \<longleftrightarrow>
     (case r of (n, d, rs) \<Rightarrow>
        n = -1 \<and> length d = length d0 \<or>
        n = 0 \<and> (\<exists>bs. 16 \<le> length bs \<and> length bs \<le> 1024 \<and> d = overwrite bs d0 \<and>
          res_length rs = of_nat (length bs) \<and> load_le32 (known bs) 0 = Inr (res_code rs)))"

definition adb_payload_part :: "buf \<Rightarrow> nat \<Rightarrow> adb_res \<Rightarrow> int \<times> buf \<times> adb_res \<Rightarrow> bool" where
  "adb_payload_part d offset res r \<longleftrightarrow>
     (case r of (n, d', rs) \<Rightarrow>
        n = -1 \<and> length d' = length d \<or>
        n = 0 \<and> (\<exists>bs. length bs \<le> 512 \<and>
          d' = take offset d @ known bs @ drop (offset + length bs) d \<and>
          rs = res\<lparr>res_length := res_length res + of_nat (length bs)\<rparr>))"

lemma load8_fresh:
  "i < n \<Longrightarrow> length bs \<le> n \<Longrightarrow>
   load8 (overwrite bs (uninit n)) i =
   (if i < length bs then Inr (bs ! i) else Inl Uninitialised)"
  by (simp add: load8_overwrite)

lemma load_le32_fresh:
  assumes "i + 4 \<le> n" and "length bs \<le> n"
  shows "load_le32 (overwrite bs (uninit n)) i =
    (if i + 4 \<le> length bs then load_le32 (known bs) i else Inl Uninitialised)"
  using assms by (auto simp: load_le32_def load8_fresh)

lemma load_le32_known_append: "i + 4 \<le> length bs \<Longrightarrow>
   load_le32 (known bs @ b) i = Inr (le32 (bs ! i) (bs ! (i + 1)) (bs ! (i + 2)) (bs ! (i + 3)))"
  by (simp add: load_le32_def)

lemma word_512 [simp]: "unat (512 :: u32) = 512"
  by simp

lemma adb_recv_loop_payload:
  "adb_recv_loop B dev True offset rbuffer data res =
     bnd (bulk_recv B (dev_fd dev) (word_of_int (in_endp dev)) rbuffer 512) (\<lambda>(n, rbuffer).
     if n < 0 then ret (-1, data, res)
     else
       bnd (lift (memcpy data offset rbuffer 0 (size_of_int n))) (\<lambda>data.
       ret (0, data, res\<lparr>res_length := res_length res + word_of_int n\<rparr>)))"
  by (subst adb_recv_loop.simps) (simp add: Let_def case_prod_beta' cong: if_cong)

lemma adb_recv_loop_header:
  "adb_recv_loop B dev False offset rbuffer data res =
     bnd (bulk_recv B (dev_fd dev) (word_of_int (in_endp dev)) rbuffer 512) (\<lambda>(n, rbuffer).
     if n < 0 then ret (-1, data, res)
     else
       bnd (lift (memcpy data offset rbuffer 0 (size_of_int n))) (\<lambda>data.
       bnd (lift (ADB_COMMAND_MASK rbuffer)) (\<lambda>code.
       bnd (lift (ADB_DATA_LEN_MASK rbuffer)) (\<lambda>dlen.
       let res = res\<lparr>res_length := res_length res + word_of_int n, res_code := code\<rparr> in
       if dlen \<noteq> 0 then adb_recv_loop B dev True (offset + nat n) rbuffer data res
       else ret (0, data, res)))))"
  by (subst adb_recv_loop.simps) (simp add: Let_def case_prod_beta' cong: if_cong)

definition adb_result :: "buf \<Rightarrow> adb_res option \<Rightarrow> int \<times> buf \<times> adb_res option \<Rightarrow> bool" where
  "adb_result d0 res r \<longleftrightarrow>
     (case r of (n, d, res') \<Rightarrow>
        n = -1 \<and> res' = res \<and> length d = length d0 \<or>
        n = 0 \<and> (\<exists>rs. res' = Some rs \<and> adb_response d0 (0, d, rs)))"

lemma adb_result_failure [simp]: "adb_result d res (-1, d, res)"
  by (simp add: adb_result_def)

text \<open>
  The same for the caller of an operation: a failure that changes neither its buffer nor its
  result, or the response cut to the length of the buffer.
\<close>

definition adb_delivered ::
    "buf option \<Rightarrow> u32 \<Rightarrow> adb_res option \<Rightarrow> int \<times> buf option \<times> adb_res option \<Rightarrow> bool" where
  "adb_delivered data len res r \<longleftrightarrow>
     r = (-1, data, res) \<or>
     (\<exists>bs rs. r = (0, map_option (overwrite (take (unat len) bs)) data, Some rs) \<and>
        16 \<le> length bs \<and> length bs \<le> 1024 \<and> res_length rs = of_nat (length bs) \<and>
        load_le32 (known bs) 0 = Inr (res_code rs))"

lemma runs_malloc [cmd_simps]:
  "runs D F Q (malloc E n) w \<longleftrightarrow>
     Q (if fst (sys_malloc E n w) then Some (uninit n) else None) (snd (sys_malloc E n w))"
  by (simp add: runs_def malloc_def split: prod.splits)

text \<open>A message whose header describes its payload.\<close>

definition adb_message_ok :: "adb_message \<Rightarrow> u8 list \<Rightarrow> bool" where
  "adb_message_ok msg p \<longleftrightarrow>
     adb_valid (header msg) p \<and> length p + 24 < 2 ^ 31 \<and>
     (case payload msg of None \<Rightarrow> p = [] | Some q \<Rightarrow> \<exists>b. q = known p @ b)"

lemma adb_stream_length:
  assumes "length p + 24 < 2 ^ 31"
  shows "sint (24 + of_nat (length p) :: u32) = 24 + int (length p)"
    and "unat (24 + of_nat (length p) :: u32) = 24 + length p"
proof -
  show u: "unat (24 + of_nat (length p) :: u32) = 24 + length p"
    using assms by (simp add: unat_word_ariths unat_of_nat take_bit_eq_mod)
  have "uint (24 + of_nat (length p) :: u32) = int (unat (24 + of_nat (length p) :: u32))"
    by simp
  then show "sint (24 + of_nat (length p) :: u32) = 24 + int (length p)"
    using sint_eq_uint [of "24 + of_nat (length p)"] assms unfolding u by simp
qed

lemma adb_fill_stream:
  assumes "adb_message_ok msg p"
  shows "adb_fill_stream msg (uninit (24 + length p)) = Inr (known (header_bytes (header msg) @ p))"
proof -
  from assms have n: "data_length (header msg) = of_nat (length p)" "length p + 24 < 2 ^ 31"
    by (auto simp: adb_message_ok_def adb_valid_def)
  then have dlen: "unat (data_length (header msg)) = length p"
    by (simp add: unat_of_nat take_bit_eq_mod)
  have head: "memcpy (uninit (24 + length p)) 0 (known (header_bytes (header msg))) 0 24 =
      Inr (known (header_bytes (header msg)) @ uninit (length p))"
    by (simp add: memcpy_def uninit_def known_def)
  show ?thesis
  proof (cases "p = []")
    case True
    with n head show ?thesis by (simp add: adb_fill_stream_def uninit_def)
  next
    case False
    then have "data_length (header msg) \<noteq> 0" using dlen by (metis length_0_conv unat_0)
    moreover from False assms obtain b where "payload msg = Some (known p @ b)"
      by (auto simp: adb_message_ok_def split: option.splits)
    ultimately show ?thesis
      using head by (simp add: adb_fill_stream_def dlen memcpy_def)
  qed
qed

lemma adb_delivered_failure [simp]: "adb_delivered data len res (-1, data, res)"
  by (simp add: adb_delivered_def)

lemma runs_adb_copy_response:
  assumes r: "adb_result (uninit 2048) res r"
    and data: "\<And>d. data = Some d \<Longrightarrow> unat len \<le> length d"
  shows "runs D F (\<lambda>r w'. adb_delivered data len res r) (adb_copy_response data len r) w"
proof -
  from r consider d where "r = (-1, d, res)"
    | bs rs where "r = (0, overwrite bs (uninit 2048), Some rs)" "16 \<le> length bs"
      "length bs \<le> 1024" "res_length rs = of_nat (length bs)"
      "load_le32 (known bs) 0 = Inr (res_code rs)"
    by (auto simp: adb_result_def adb_response_def)
  then show ?thesis
  proof cases
    case 1
    then show ?thesis
      by (cases data) (simp_all add: cmd_simps adb_delivered_def adb_copy_response_def)
  next
    case 2
    let ?k = "if len < res_length rs then len else res_length rs"
    have k: "unat ?k = min (unat len) (length bs)"
      using 2 by (simp add: word_less_nat_alt unat_of_nat take_bit_eq_mod min_def)
    show ?thesis
    proof (cases data)
      case None
      with 2 show ?thesis by (auto simp: cmd_simps adb_delivered_def adb_copy_response_def)
    next
      case (Some d)
      have "memcpy d 0 (overwrite bs (uninit 2048)) 0 (unat ?k) =
          Inr (overwrite (take (unat len) bs) d)"
        unfolding k using data [OF Some] 2 by (auto simp: memcpy_def overwrite_def min_def)
      with Some 2 show ?thesis
        by (auto simp: cmd_simps adb_delivered_def adb_copy_response_def Let_def)
    qed
  qed
qed

context bulk_transport
begin

lemma adb_recv_payload:
  assumes "ok e" and "length rb = 512" and "offset + 512 \<le> length d"
  shows "runs (\<not> live e) never (\<lambda>r w'. adb_payload_part d offset res r)
    (adb_recv_loop (ops e) dev True offset rb d res) w"
  unfolding adb_recv_loop_payload
  by (rule recv_runs) (use assms in \<open>auto simp: adb_payload_part_def cmd_simps memcpy_from_overwrite\<close>)

lemma adb_recv_response:
  assumes "ok e" and "1024 \<le> length d"
  shows "runs (\<not> live e) (\<lambda>s. s = Uninitialised) (\<lambda>r w'. adb_response d r)
    (adb_recv_loop (ops e) dev False 0 (uninit 512) d \<lparr>res_length = 0, res_code = 0\<rparr>) w"
  unfolding adb_recv_loop_header
proof (rule recv_runs, goal_cases)
  case (5 bs w')
  then have bs: "length bs \<le> 512" by simp
  let ?c = "le32 (bs ! 0) (bs ! 1) (bs ! 2) (bs ! 3)"
  let ?res = "\<lparr>res_length = of_nat (length bs), res_code = ?c\<rparr>"
  have next_part: "runs (\<not> live e) (\<lambda>s. s = Uninitialised) (\<lambda>r w'. adb_response d r)
      (adb_recv_loop (ops e) dev True (length bs) (overwrite bs (uninit 512)) (overwrite bs d) ?res) w''"
    if "16 \<le> length bs" for w''
  proof (rule runs_mono [OF adb_recv_payload [OF assms(1)]])
    fix r :: "int \<times> buf \<times> adb_res" and v
    assume "adb_payload_part (overwrite bs d) (length bs) ?res r"
    then show "adb_response d r"
      using bs that assms(2)
      by (auto simp: adb_payload_part_def adb_response_def overwrite_append load_le32_known_append load_le32_known
          numeral_2_eq_2
          intro!: exI [where x = "bs @ _"])
  qed (use bs assms(2) in auto)
  show ?case
    using bs assms(2) next_part [of w']
    by (auto simp: cmd_simps memcpy_from_overwrite ADB_COMMAND_MASK_def ADB_DATA_LEN_MASK_def
        load_le32_fresh load_le32_known adb_response_def Let_def numeral_2_eq_2
        simp flip: overwrite_def)
qed (use assms in \<open>auto simp: cmd_simps adb_response_def\<close>)

lemma adb_send_request_result:
  assumes "ok e" and "24 \<le> length req" and "unat len \<le> length req" and "unat len < 2 ^ 31"
    and "\<not> bit (word_of_int (out_endp dev) :: u16) 7" and "1024 \<le> length d" and "res \<noteq> None"
  shows "runs (\<not> live e) (\<lambda>s. s = Uninitialised) (\<lambda>r w'. adb_result d res r)
    (adb_send_request (ops e) dev req len d res) w"
proof -
  let ?F = "\<lambda>s. s = Uninitialised" and ?Q = "\<lambda>r w'. adb_result d res r"
  let ?recv = "bnd (adb_recv_loop (ops e) dev False 0 (uninit 512) d \<lparr>res_length = 0, res_code = 0\<rparr>)
      (\<lambda>(r, data, res'). if r < 0 then ret (-1, data, res)
         else (case res of None \<Rightarrow> halt Null_pointer | Some _ \<Rightarrow> ret (0, data, Some res')))"
  have recv: "runs (\<not> live e) ?F ?Q ?recv w'" for w'
    using assms(7)
    by (intro runs_bndI [OF adb_recv_response [OF assms(1,6)]])
      (auto simp: cmd_simps adb_response_def adb_result_def)
  have payload: "runs (\<not> live e) ?F ?Q
      (bnd (if 24 < len then bulk_send (ops e) (dev_fd dev) (word_of_int (out_endp dev)) (drop 24 req)
              (len - 24) else ret (n, [])) (\<lambda>(n, _). if n < 0 then ret (-1, d, res) else R)) w'"
    if "0 \<le> n" and R: "\<And>w'. runs (\<not> live e) ?F ?Q R w'" for n w' R
  proof (cases "24 < len")
    case True
    then have "unat (len - 24) = unat len - 24"
      by (subst unat_sub) (simp_all add: word_le_nat_alt word_less_nat_alt)
    with True assms show ?thesis
      by (simp, intro send_runs) (auto simp: runs_ret R)
  next
    case False
    with that show ?thesis by simp
  qed
  show ?thesis
    unfolding adb_send_request_def
  proof (rule send_runs, goal_cases)
    case (5 n w')
    then show ?case using payload [OF _ recv, of n w'] by (cases "n < 0") (simp_all add: runs_ret split del: if_split)
  qed (use assms in simp_all)
qed

lemma adb_handle_request_delivered:
  assumes "ok e" and msg: "adb_message_ok msg p"
    and ep: "\<not> bit (word_of_int (out_endp dev) :: u16) 7" and "res \<noteq> None"
    and data: "\<And>d. data = Some d \<Longrightarrow> unat len \<le> length d"
  shows "runs (\<not> live e) (\<lambda>s. s = Uninitialised) (\<lambda>r w'. adb_delivered data len res r)
    (adb_handle_request (ops e) E dev msg data len res) w"
proof -
  from msg have n: "data_length (header msg) = of_nat (length p)" "length p + 24 < 2 ^ 31"
    by (auto simp: adb_message_ok_def adb_valid_def)
  note len = adb_stream_length [OF n(2)]
  have size: "size_of_int (24 + int (length p)) = 24 + length p"
    using n(2) by (simp add: size_of_int_def)
  have word: "(word_of_int (24 + int (length p)) :: u32) = 24 + of_nat (length p)"
    by simp
  have "runs (\<not> live e) (\<lambda>s. s = Uninitialised) (\<lambda>r w'. adb_delivered data len res r)
      (bnd (adb_send_request (ops e) dev (known (header_bytes (header msg) @ p))
        (24 + of_nat (length p)) (uninit 2048) res) (adb_copy_response data len)) w'" for w'
    by (rule runs_bndI [OF adb_send_request_result [OF assms(1) _ _ _ ep _ assms(4)]])
      (use n(2) in \<open>auto simp: len intro!: runs_adb_copy_response data\<close>)
  then show ?thesis
    using assms(4)
    by (simp add: adb_handle_request_def Let_def n(1) len(1) size word runs_bnd [of _ _ _ "malloc _ _"]
        runs_malloc runs_ret adb_fill_stream [OF msg])
qed

end

end
