(* ===== verification/Device.thy ===== *)
theory Device
  imports Usb
begin

text \<open>
  A simulated kernel with one device, as a concrete environment: bulk transfers go to an outbox
  and come from an inbox of packets, control transfers with an input data stage take the next of
  a list of answers, and every other request is recorded. Pending signals interrupt calls. It
  satisfies the contract of \<open>Usb\<close>, which shows that the contract can be met, and it is the world
  in which the functional theorems about whole exchanges are stated.
\<close>

record device =
  inbox :: "u8 list list"
  outbox :: "buf list"
  answers :: "u8 list list"
  driver_name :: "u8 list option"
  calls :: "request list"
  signals :: nat
  seed :: int

definition idle :: device where
  "idle = \<lparr>inbox = [], outbox = [], answers = [], driver_name = None, calls = [],
     signals = 0, seed = 0\<rparr>"

definition success :: "u8 list \<Rightarrow> int \<Rightarrow> reply" where
  "success bs n = \<lparr>rp_ret = 0, rp_errno = 0, rp_bytes = bs, rp_actual = n\<rparr>"

definition failure :: "int \<Rightarrow> reply" where
  "failure e = \<lparr>rp_ret = -1, rp_errno = e, rp_bytes = [], rp_actual = 0\<rparr>"

text \<open>
  A receive with nothing to be received fails, as it does when the device is gone; Linux would let
  the call wait when the device is only silent. The contract \<open>usbdevfs_ok\<close> admits both a failure and,
  through its retries, a call that never returns.
\<close>

fun device_ioctl :: "int \<Rightarrow> request \<Rightarrow> device \<Rightarrow> reply \<times> device" where
  "device_ioctl fd (Submit_urb u) d =
     (if signals d \<noteq> 0 then (failure EINTR, d\<lparr>signals := signals d - 1\<rparr>)
      else if bit (urb_endpoint u) 7 then (success [] 0, d)
      else (success [] 0,
        d\<lparr>outbox := outbox d @ [take (nat (urb_buffer_length u)) (urb_buffer u)]\<rparr>))"
| "device_ioctl fd (Reap_urb u) d =
     (if signals d \<noteq> 0 then (failure EINTR, d\<lparr>signals := signals d - 1\<rparr>)
      else if bit (urb_endpoint u) 7 then
        (case inbox d of
           [] \<Rightarrow> (failure 110, d)
         | p # ps \<Rightarrow>
             if int (length p) \<le> urb_buffer_length u
             then (success p (int (length p)), d\<lparr>inbox := ps\<rparr>)
             else (failure 75, d))
      else (success [] (max 0 (urb_buffer_length u)), d))"
| "device_ioctl fd (Control t) d =
     (let d' = d\<lparr>calls := calls d @ [Control t]\<rparr> in
      if bit (bRequestType t) 7 then
        (case answers d of
           [] \<Rightarrow> (failure 32, d')
         | a # as \<Rightarrow>
             (success (take (case wLength t of None \<Rightarrow> 0 | Some n \<Rightarrow> unat n) a) 0,
              d'\<lparr>answers := as\<rparr>))
      else (success [] 0, d'))"
| "device_ioctl fd (Get_driver i) d =
     (case driver_name d of
        None \<Rightarrow> (failure 61, d)
      | Some s \<Rightarrow> (success (take 255 s @ [0]) 0, d))"
| "device_ioctl fd q d = (success [] 0, d\<lparr>calls := calls d @ [q]\<rparr>)"

definition device_env :: "device env" where
  "device_env =
     \<lparr>sys_ioctl = device_ioctl,
      sys_rand = (\<lambda>d. (seed d mod 2147483648, d\<lparr>seed := seed d + 1\<rparr>)),
      sys_malloc = (\<lambda>n d. (True, d))\<rparr>"

lemma device_env_simps [simp]:
  "sys_ioctl device_env = device_ioctl"
  "sys_rand device_env = (\<lambda>d. (seed d mod 2147483648, d\<lparr>seed := seed d + 1\<rparr>))"
  "sys_malloc device_env = (\<lambda>n d. (True, d))"
  by (simp_all add: device_env_def)

lemma usbdevfs_ok_device [simp]: "usbdevfs_ok device_env"
  unfolding usbdevfs_ok_def device_env_simps
proof (intro allI)
  fix fd q and w :: device
  show "reply_ok q (fst (device_ioctl fd q w))"
    by (cases q) (auto simp: reply_ok_def success_def failure_def Let_def
        split: list.splits option.splits)
qed

lemma usbdevfs_live_device [simp]: "usbdevfs_live device_env"
  unfolding usbdevfs_live_def device_env_simps
proof (intro exI [where x = signals] allI impI)
  fix fd q and w :: device
  assume "interrupted (fst (device_ioctl fd q w))"
  then show "signals (snd (device_ioctl fd q w)) < signals w"
    by (cases q) (auto simp: interrupted_def success_def failure_def Let_def
        split: list.splits option.splits if_splits)
qed

section \<open>Bulk transfers of the simulated device\<close>

text \<open>Interrupted calls are repeated until the signals are used up.\<close>

lemma device_not_interrupted:
  "signals d = 0 \<Longrightarrow> \<not> interrupted (fst (device_ioctl fd q d))"
  by (cases q) (auto simp: interrupted_def success_def failure_def Let_def
      split: list.splits option.splits)

lemma device_interrupted:
  "signals d \<noteq> 0 \<Longrightarrow> q = Submit_urb u \<or> q = Reap_urb u \<Longrightarrow>
   device_ioctl fd q d = (failure EINTR, d\<lparr>signals := signals d - 1\<rparr>)"
  by auto

lemma ioctl_retry_device:
  assumes "q = Submit_urb u \<or> q = Reap_urb u"
  shows "ioctl_retry device_env fd q d = Some (Inr (device_ioctl fd q (d\<lparr>signals := 0\<rparr>)))"
proof (induction "signals d" arbitrary: d)
  case 0
  then have eq: "d\<lparr>signals := 0\<rparr> = d" by simp
  show ?case
    unfolding eq using 0 device_not_interrupted [of d fd q]
    by (subst ioctl_retry.simps) (auto split: prod.splits)
next
  case (Suc n)
  have "interrupted (failure EINTR)" by (simp add: interrupted_def failure_def)
  with Suc device_interrupted [OF _ assms, of d fd] show ?case
    by (subst ioctl_retry.simps) simp
qed

lemma device_send:
  assumes "\<not> bit ep 7" and "unat len \<le> length data" and "unat len < 2 ^ 31"
  shows "usb_bulk_send device_env fd ep data len d =
    Some (Inr ((uint len, data),
      d\<lparr>signals := 0, outbox := outbox d @ [take (unat len) data]\<rparr>))"
proof -
  have ep: "\<not> bit (ucast (ucast USB_DIR_OUT OR ep) :: u8) 7"
    using assms(1) by (simp add: bit_simps)
  have "sint len = int (unat len)" using sint_eq_uint [OF assms(3)] by simp
  then show ?thesis
    using ep uint_le_length [OF assms(2)]
    by (simp add: usb_bulk_send_def usb_bulk_msg_def bnd_def ret_def lift_def
        ioctl_retry_device success_def complete_urb_def)
qed

lemma device_recv:
  assumes "inbox d = p # ps" and "length p \<le> unat len" and "unat len \<le> length b"
    and "unat len < 2 ^ 31"
  shows "usb_bulk_recv device_env fd ep b len d =
    Some (Inr ((int (length p), overwrite p b), d\<lparr>signals := 0, inbox := ps\<rparr>))"
proof -
  have ep: "bit (ucast (ucast USB_DIR_IN OR ep) :: u8) 7" by (simp add: bit_simps)
  have "sint len = int (unat len)" using sint_eq_uint [OF assms(4)] by simp
  then show ?thesis
    using ep assms(1-3) int_le_uint [of "length p" len]
    by (simp add: usb_bulk_recv_def usb_bulk_msg_def bnd_def ret_def lift_def
        ioctl_retry_device success_def complete_urb_fits)
qed

lemma device_recv_empty:
  assumes "inbox d = []" and "unat len < 2 ^ 31"
  shows "usb_bulk_recv device_env fd ep b len d = Some (Inr ((-1, b), d\<lparr>signals := 0\<rparr>))"
proof -
  have ep: "bit (ucast (ucast USB_DIR_IN OR ep) :: u8) 7" by (simp add: bit_simps)
  show ?thesis
    using ep assms
    by (simp add: usb_bulk_recv_def usb_bulk_msg_def bnd_def ret_def
        ioctl_retry_device success_def failure_def)
qed

interpretation sim: packet_transport "usb_ops device_env" inbox
    "\<lambda>ps d. d\<lparr>signals := 0, inbox := ps\<rparr>" "\<lambda>b d. d\<lparr>signals := 0, outbox := outbox d @ [b]\<rparr>"
proof
  fix d :: device and p ps and b :: buf and fd :: int and ep :: u16
  assume "inbox d = p # ps" and "length p \<le> 512" and "length b = 512"
  then show "bulk_recv (usb_ops device_env) fd ep b 512 d =
      Some (Inr ((int (length p), overwrite p b), d\<lparr>signals := 0, inbox := ps\<rparr>))"
    unfolding usb_ops_simps by (intro device_recv) simp_all
next
  fix ep :: u16 and len :: u32 and data :: buf and fd :: int and d :: device
  assume "\<not> bit ep 7" and "unat len \<le> length data" and "unat len < 2 ^ 31"
  then show "bulk_send (usb_ops device_env) fd ep data len d =
      Some (Inr ((uint len, data),
        d\<lparr>signals := 0, outbox := outbox d @ [take (unat len) data]\<rparr>))"
    unfolding usb_ops_simps by (rule device_send)
qed simp_all

end
