(* ===== verification/Usb_Props.thy ===== *)
theory Usb_Props
  imports Device
begin

text \<open>
  What the functions of \<^verbatim>\<open>lib/usb/usb.c\<close> do: the requests they make, their memory safety
  over every kernel that keeps the usbdevfs contract, and where they have none.
\<close>

section \<open>Requests made\<close>

definition dev_request :: "u8 \<Rightarrow> u8 \<Rightarrow> u16 \<Rightarrow> u16 \<Rightarrow> u16 \<Rightarrow> buf option \<Rightarrow> request" where
  "dev_request rt r v i n b = Control
     \<lparr>bRequestType = rt, bRequest = r, wValue = v, wIndex = i, wLength = Some n,
      timeout = 1000, ct_data = b\<rparr>"

lemma control_nodata_device:
  assumes "wLength t = Some 0" and "ct_data t = None" and "\<not> bit (bRequestType t) 7"
  shows "control device_env fd t d = Some (Inr ((0, []), d\<lparr>calls := calls d @ [Control t]\<rparr>))"
  using assms by (simp add: control_def bnd_def ioctl_def ret_def Let_def success_def)

lemma control_in_device:
  assumes "wLength t = Some n" and "ct_data t = Some b" and "bit (bRequestType t) 7"
    and "answers d = a # as" and "unat n \<le> length b"
  shows "control device_env fd t d =
    Some (Inr ((0, overwrite (take (unat n) a) b),
      d\<lparr>calls := calls d @ [Control t], answers := as\<rparr>))"
proof -
  have "memcpy b 0 (known (take (unat n) a)) 0 (length (take (unat n) a)) =
      Inr (overwrite (take (unat n) a) b)"
    by (rule memcpy_overwrite) (use assms(5) in simp)
  then show ?thesis
    using assms
    by (simp add: control_def bnd_def ioctl_def ret_def lift_def Let_def success_def)
qed

lemma control_in_overrun_device:
  assumes "wLength t = Some n" and "ct_data t = Some b" and "bit (bRequestType t) 7"
    and "answers d = a # as" and "length b < unat n" and "unat n \<le> length a"
  shows "control device_env fd t d = Some (Inl Out_of_bounds)"
proof -
  have "memcpy b 0 (known (take (unat n) a)) 0 (length (take (unat n) a)) = Inl Out_of_bounds"
    by (rule memcpy_overflow) (use assms(5,6) in simp)
  then show ?thesis
    using assms
    by (simp add: control_def bnd_def ioctl_def ret_def halt_def lift_def Let_def success_def)
qed

lemmas control_device = bnd_apply(2) [OF control_in_overrun_device]
  bnd_apply(3) [OF control_in_device] bnd_apply(3) [OF control_nodata_device]

text \<open>
  The requests without a data stage are the standard ones of the USB specification: the
  recipient of CLEAR_FEATURE follows from the feature, and SET_ADDRESS, SET_CONFIGURATION and
  the interface requests carry their argument. A call that succeeds returns 0.
\<close>

lemma usb_plain_requests:
  shows "usb_clear_feature device_env fd sel i d = Some (Inr (0, d\<lparr>calls := calls d @
      [dev_request (if sel = 0 then 2 else 0) 1 sel i 0 None]\<rparr>)) \<and>
    usb_set_address device_env fd a d =
      Some (Inr (0, d\<lparr>calls := calls d @ [dev_request 0 5 a 0 0 None]\<rparr>)) \<and>
    usb_set_configuration device_env fd c d =
      Some (Inr (0, d\<lparr>calls := calls d @ [dev_request 0 9 c 0 0 None]\<rparr>)) \<and>
    usb_set_interface device_env fd i s d =
      Some (Inr (0, d\<lparr>calls := calls d @ [Set_interface (ucast i) (ucast s)]\<rparr>)) \<and>
    usb_detach_interface device_env fd i d =
      Some (Inr (0, d\<lparr>calls := calls d @ [Driver_ioctl (uint i) 0x5516]\<rparr>)) \<and>
    usb_claim_interface device_env fd i d =
      Some (Inr (0, d\<lparr>calls := calls d @ [Claim_interface (uint i)]\<rparr>)) \<and>
    usb_release_interface device_env fd i d =
      Some (Inr (0, d\<lparr>calls := calls d @ [Release_interface (uint i)]\<rparr>))"
  by (simp add: usb_clear_feature_def usb_set_address_def usb_set_configuration_def
      usb_set_interface_def usb_detach_interface_def usb_claim_interface_def
      usb_release_interface_def bnd_def control_nodata_device dev_request_def ret_def
      failed_def ioctl_def success_def)

text \<open>
  C27: the requests with an input data stage ask for exactly the bytes they announce: one byte
  for the configuration and the interface setting, two for a status and a frame number, written
  to the front of the caller's buffer, whose length is reported through the pointer given.
\<close>

theorem usb_input_requests:
  assumes "answers d = a # as" and "2 \<le> length b"
  shows "usb_get_configuration device_env fd b (Some l) d =
      Some (Inr ((0, overwrite (take 1 a) b, Some 1),
        d\<lparr>calls := calls d @ [dev_request 0x80 8 0 0 1 (Some b)], answers := as\<rparr>)) \<and>
    usb_get_interface device_env fd i b wl d =
      Some (Inr ((0, overwrite (take 1 a) b, map_option (\<lambda>_. 1) wl),
        d\<lparr>calls := calls d @ [dev_request 0x81 10 0 i 1 (Some b)], answers := as\<rparr>)) \<and>
    usb_get_status device_env fd rc w b (Some l) d =
      Some (Inr ((0, overwrite (take 2 a) b, Some 2),
        d\<lparr>calls := calls d @ [dev_request (0x80 OR rc) 0 0 (ucast w) 2 (Some b)], answers := as\<rparr>)) \<and>
    usb_synch_frame device_env fd ep b d =
      Some (Inr ((0, overwrite (take 2 a) b),
        d\<lparr>calls := calls d @ [dev_request 0x82 12 0 (ucast ep) 2 (Some b)], answers := as\<rparr>))"
  using assms
  by (auto simp: usb_get_configuration_def usb_get_interface_def usb_get_status_def
      usb_synch_frame_def bnd_def control_in_device dev_request_def ret_def failed_def
      store_int_def bit_simps)

theorem usb_input_requests_witness:
  "usb_get_configuration device_env 3 (uninit 2) (Some 0) (idle\<lparr>answers := [[1]]\<rparr>) =
      Some (Inr ((0, [Some 1, None], Some 1),
        idle\<lparr>calls := [dev_request 0x80 8 0 0 1 (Some (uninit 2))]\<rparr>))"
  using usb_input_requests [of "idle\<lparr>answers := [[1]]\<rparr>" "[1]" "[]" "uninit 2" 3 0]
  by (simp add: idle_def overwrite_def known_def uninit_def numeral_2_eq_2)

section \<open>Descriptors\<close>

text \<open>The descriptor request, as it goes to the device.\<close>

definition descriptor_request :: "u8 \<Rightarrow> u8 \<Rightarrow> u16 \<Rightarrow> u16 \<Rightarrow> buf \<Rightarrow> request" where
  "descriptor_request ty index langid n b =
     dev_request 0x80 6 (push_bit 8 (ucast ty) OR ucast index) langid n (Some b)"

text \<open>
  C14: whatever a kernel answers, reading a descriptor of a listed type other than CONFIG into an
  initialised buffer of at least 126 bytes never accesses memory out of bounds: the call returns,
  at most 126 bytes at the front of the buffer have changed, and a result of 0 reports the first
  byte of the buffer as the length.
\<close>

theorem usb_get_descriptor_safe:
  assumes "usbdevfs_ok E" and "ty \<in> {1, 3, 4, 5, 6, 7}" and "126 \<le> length b" and "None \<notin> set b"
  shows "runs False never
    (\<lambda>(r, b', wl) w'. (\<exists>bs. length bs \<le> 126 \<and> b' = overwrite bs b) \<and>
       (r = 1 \<and> wl = Some l \<or> (\<exists>n. r = 0 \<and> load8 b' 0 = Inr n \<and> wl = Some (uint n))))
    (usb_get_descriptor E fd ty index langid b (Some l)) w"
proof -
  obtain n where n: "descriptor_request_length ty = Some n" "unat n \<le> 126"
    using assms(2) by (auto simp: descriptor_request_length_def)
  have "ty \<noteq> 2" using assms(2) by auto
  let ?t = "\<lparr>bRequestType = 0x80, bRequest = 6, wValue = push_bit 8 (ucast ty) OR ucast index,
    wIndex = langid, wLength = descriptor_request_length ty, timeout = 1000, ct_data = Some b\<rparr>"
  have "runs False never (\<lambda>r w'. \<exists>bs. length bs \<le> unat n \<and> snd r = overwrite bs b)
      (control E fd ?t) w"
    by (rule runs_control_data [OF assms(1)]) (use n assms(3) in auto)
  then show ?thesis
    unfolding usb_get_descriptor_def Let_def
  proof (rule runs_bndI)
    fix r :: "int \<times> buf" and w'
    assume "\<exists>bs. length bs \<le> unat n \<and> snd r = overwrite bs b"
    then obtain bs where bs: "length bs \<le> 126" "snd r = overwrite bs b"
      using le_trans [OF _ n(2)] by blast
    then obtain x where "load8 (overwrite bs b) 0 = Inr x"
      using load8_initialised [OF None_notin_overwrite [OF assms(4)], of 0 bs] assms(3)
      by (metis length_overwrite less_le_trans order_trans zero_less_numeral)
    with bs \<open>ty \<noteq> 2\<close> show "runs False never
      (\<lambda>(r, b', wl) w'. (\<exists>bs. length bs \<le> 126 \<and> b' = overwrite bs b) \<and>
         (r = 1 \<and> wl = Some l \<or> (\<exists>n. r = 0 \<and> load8 b' 0 = Inr n \<and> wl = Some (uint n))))
      (case r of (r, buff1) \<Rightarrow>
         if r = - 1 then ret (1, buff1, Some l)
         else if ty = 2 then
           bnd (lift (load_le16 buff1 2)) (\<lambda>total.
           bnd (control E fd (?t\<lparr>wLength := Some total, ct_data := Some buff1\<rparr>)) (\<lambda>(r2, buff2).
             if r2 = - 1 then ret (1, buff2, Some l)
             else (case Some l of None \<Rightarrow> ret (0, buff2, None)
               | Some _ \<Rightarrow> bnd (lift (load8 buff2 0)) (\<lambda>n. ret (0, buff2, Some (uint n))))))
         else (case Some l of None \<Rightarrow> ret (0, buff1, None)
               | Some _ \<Rightarrow> bnd (lift (load8 buff1 0)) (\<lambda>n. ret (0, buff1, Some (uint n))))) w'"
      by (auto simp: cmd_simps split: prod.splits)
  qed
qed

theorem usb_get_descriptor_safe_witness:
  "runs False never
    (\<lambda>(r, b', wl) w'. (\<exists>bs. length bs \<le> 126 \<and> b' = overwrite bs (known (replicate 128 0))) \<and>
       (r = 1 \<and> wl = Some 0 \<or> (\<exists>n. r = 0 \<and> load8 b' 0 = Inr n \<and> wl = Some (uint n))))
    (usb_get_descriptor device_env 3 1 0 0 (known (replicate 128 0)) (Some 0)) idle"
  by (rule usb_get_descriptor_safe) (auto simp: known_def)

lemma usb_get_config_descriptor_device:
  assumes "answers d = a1 # a2 # as" and "9 \<le> length a1" and "9 \<le> length b"
    and "n = le16 (a1 ! 2) (a1 ! 3)" and "unat n \<le> length a2" and "a2 \<noteq> []"
  shows "usb_get_descriptor device_env fd 2 i langid b (Some l) d =
    (if length b < unat n then Some (Inl Out_of_bounds)
     else Some (Inr ((0, overwrite (take (unat n) a2) (overwrite (take 9 a1) b),
         Some (uint (if n = 0 then a1 ! 0 else a2 ! 0))),
       d\<lparr>calls := calls d @ [descriptor_request 2 i langid 9 b,
           descriptor_request 2 i langid n (overwrite (take 9 a1) b)], answers := as\<rparr>)))"
proof -
  let ?b = "overwrite (take 9 a1) b"
  have b: "length ?b = length b" using assms(3) by simp
  have n: "load_le16 ?b 2 = Inr n"
    using assms(2-4) by (simp add: load_le16_def load8_overwrite numeral_eq_Suc)
  show ?thesis
  proof (cases "length b < unat n")
    case True
    with b n assms(1-3,5) show ?thesis
      by (simp add: usb_get_descriptor_def Let_def control_device descriptor_request_length_def)
  next
    case False
    have "load8 (overwrite (take (unat n) a2) ?b) 0 = Inr (if n = 0 then a1 ! 0 else a2 ! 0)"
      using False b assms(2,3,6) by (auto simp: load8_overwrite unat_eq_0)
    with False b n assms(1-3) show ?thesis
      by (simp add: usb_get_descriptor_def Let_def control_device
          descriptor_request_length_def dev_request_def descriptor_request_def ret_def)
  qed
qed

text \<open>
  C15: a configuration descriptor is read in two steps, the nine bytes of its header and then as
  many bytes as the header announces. With an answer that announces what the buffer holds the
  whole descriptor is delivered; one that announces and delivers more overruns the buffer.
\<close>

theorem usb_get_config_descriptor:
  assumes "answers d = a1 # a2 # as" and "9 \<le> length a1" and "9 \<le> length b"
    and "n = le16 (a1 ! 2) (a1 ! 3)" and "unat n \<le> length a2" and "a2 \<noteq> []"
  shows "usb_get_descriptor device_env fd 2 i langid b (Some l) d =
    (if length b < unat n then Some (Inl Out_of_bounds)
     else Some (Inr ((0, overwrite (take (unat n) a2) (overwrite (take 9 a1) b),
         Some (uint (if n = 0 then a1 ! 0 else a2 ! 0))),
       d\<lparr>calls := calls d @ [descriptor_request 2 i langid 9 b,
           descriptor_request 2 i langid n (overwrite (take 9 a1) b)], answers := as\<rparr>)))"
  by (rule usb_get_config_descriptor_device [OF assms])

theorem usb_get_config_descriptor_witness:
  "usb_get_descriptor device_env 3 2 0 0 (known (replicate 9 0)) (Some 0)
      (idle\<lparr>answers := [[9, 2, 10, 0, 1, 1, 0, 128, 50], [9, 2, 10, 0, 1, 1, 0, 128, 50, 0]]\<rparr>) =
    Some (Inl Out_of_bounds)"
proof -
  have "le16 10 0 = 10" by (simp add: le16_def)
  then show ?thesis
    using usb_get_config_descriptor [of
        "idle\<lparr>answers := [[9, 2, 10, 0, 1, 1, 0, 128, 50], [9, 2, 10, 0, 1, 1, 0, 128, 50, 0]]\<rparr>"
        "[9, 2, 10, 0, 1, 1, 0, 128, 50]" "[9, 2, 10, 0, 1, 1, 0, 128, 50, 0]" "[]"
        "known (replicate 9 0)" 10 3 0 0 0]
    by simp
qed

text \<open>
  C28: whatever the kernel, asking for a descriptor of a type the function does not list, or
  setting a descriptor of any type, uses a member of the request that was never assigned: the
  length of the data stage, or the pointer to its data.
\<close>

theorem usb_descriptor_unassigned_member:
  shows "(ty \<in> {1, 2, 3, 4, 5, 6, 7} \<or>
      usb_get_descriptor E fd ty index langid b wl w = Some (Inl Uninitialised)) \<and>
    usb_set_descriptor E fd ty' index langid b wl w = Some (Inl Uninitialised)"
  by (auto simp: usb_get_descriptor_def usb_set_descriptor_def descriptor_request_length_def
      control_def bnd_def halt_def)

section \<open>The driver of an interface\<close>

text \<open>
  On every kernel, reading a driver name into a buffer of the length given never accesses
  memory out of bounds. A call that succeeds has copied the name with its final zero byte, cut to
  the length of the buffer; a name that is too long is cut without a final zero.
\<close>

lemma usb_get_driver_copies:
  assumes "usbdevfs_ok E" and "len \<le> length b"
  shows "runs False never
    (\<lambda>(r, b') w'. r = 1 \<and> b' = b \<or>
       (\<exists>s. 0 \<notin> set s \<and> r = 0 \<and> b' = overwrite (take len (s @ [0])) b))
    (usb_get_driver E fd i b len) w"
proof -
  let ?q = "Get_driver (ucast i)"
  let ?r = "fst (sys_ioctl E fd ?q w)"
  show ?thesis
  proof (cases "rp_ret ?r = -1")
    case True
    then show ?thesis by (simp add: usb_get_driver_def cmd_simps)
  next
    case False
    with usbdevfs_okD [OF assms(1), of ?q fd w]
    have r: "length (rp_bytes ?r) \<le> 256" "0 \<in> set (rp_bytes ?r)"
      by (auto simp: reply_ok_def)
    from split_list_first [OF r(2)] obtain s rest
      where s: "rp_bytes ?r = s @ 0 # rest" "0 \<notin> set s" by auto
    let ?name = "overwrite (rp_bytes ?r) (uninit 256)"
    let ?l = "if len < length s + 1 then len else length s + 1"
    have name: "?name = known (s @ [0]) @ known rest @ uninit (256 - length (rp_bytes ?r))"
      using s by (simp add: overwrite_def uninit_def known_def)
    have "c_strlen ?name = Inr (length s)"
      unfolding name using c_strlen_append [OF s(2)] by (simp add: known_def)
    moreover have "memcpy b 0 ?name 0 ?l = Inr (overwrite (take len (s @ [0])) b)"
      unfolding name using assms(2)
      by (auto simp: memcpy_def overwrite_def min_def less_Suc_eq_le dest: le_antisym)
    ultimately have "runs False never
      (\<lambda>(r, b') w'. r = 0 \<and> b' = overwrite (take len (s @ [0])) b) (usb_get_driver E fd i b len) w"
      using False r
      by (cases "len < length s + 1") (simp_all add: usb_get_driver_def cmd_simps Let_def)
    then show ?thesis by (rule runs_mono) (use s(2) in auto)
  qed
qed

lemma usb_get_driver_copies_example:
  "runs False never
    (\<lambda>(r, b') w'. r = 1 \<and> b' = uninit 4 \<or>
       (\<exists>s. 0 \<notin> set s \<and> r = 0 \<and> b' = overwrite (take 4 (s @ [0])) (uninit 4)))
    (usb_get_driver device_env 3 0 (uninit 4) 4) (idle\<lparr>driver_name := Some [117, 115, 98, 102, 115]\<rparr>)"
  by (rule usb_get_driver_copies) simp_all

section \<open>Bulk transfers\<close>

text \<open>
  C13: over a kernel that keeps the usbdevfs contract and does not interrupt calls for ever, a
  bulk receive returns: it fails with the buffer as it was, or reports the number of bytes
  written to the front of the buffer, never more than the length given.
\<close>

theorem usb_bulk_recv_total:
  assumes "usbdevfs_ok E" and "usbdevfs_live E" and "unat len \<le> length b" and "unat len < 2 ^ 31"
  shows "\<exists>n b' w'. usb_bulk_recv E fd ep b len w = Some (Inr ((n, b'), w')) \<and>
    (n = -1 \<and> b' = b \<or>
     (\<exists>bs. length bs \<le> unat len \<and> n = int (length bs) \<and> b' = overwrite bs b))"
proof -
  have "runs False never (\<lambda>r w'. received (unat len) b r) (usb_bulk_recv E fd ep b len) w"
    by (rule runs_mono [OF runs_usb_bulk_recv]) (use assms in auto)
  from runs_totalD [OF this] show ?thesis by (auto simp: received_def)
qed

theorem usb_bulk_recv_total_witness:
  "\<exists>n b' w'. usb_bulk_recv device_env 3 5 (uninit 512) 512 idle = Some (Inr ((n, b'), w')) \<and>
    (n = -1 \<and> b' = uninit 512 \<or>
     (\<exists>bs. length bs \<le> 512 \<and> n = int (length bs) \<and> b' = overwrite bs (uninit 512)))"
  using usb_bulk_recv_total [of device_env 512 "uninit 512" 3 5 idle] by simp

text \<open>
  The retry loop has no bound of its own: a kernel whose calls are always interrupted keeps
  a bulk transfer in either direction from ever returning.
\<close>

lemma usb_bulk_interrupted_diverges:
  assumes "\<And>fd q w. interrupted (fst (sys_ioctl E fd q w))" and "unat len \<le> length b"
    and "unat len < 2 ^ 31"
  shows "usb_bulk_send E fd ep b len w = None \<and> usb_bulk_recv E fd ep b len w = None"
proof -
  have none: "ioctl_retry E fd q w = None" for fd q w
  proof (rule ccontr)
    assume "ioctl_retry E fd q w \<noteq> None"
    then obtain r where r: "ioctl_retry E fd q w = Some r" by auto
    have "(\<forall>fd q w. interrupted (fst (sys_ioctl E fd q w))) \<longrightarrow> False"
    proof (rule ioctl_retry.raw_induct
        [where P = "\<lambda>E fd q w r. (\<forall>fd q w. interrupted (fst (sys_ioctl E fd q w))) \<longrightarrow> False",
          OF _ r])
      fix f :: "'a env \<Rightarrow> int \<Rightarrow> request \<Rightarrow> 'a \<Rightarrow> (reply \<times> 'a) checked option"
      fix E :: "'a env" and fd q w r
      assume IH: "\<And>E fd q w r. f E fd q w = Some r \<Longrightarrow>
          (\<forall>fd q w. interrupted (fst (sys_ioctl E fd q w))) \<longrightarrow> False"
        and step: "(let (r, w') = sys_ioctl E fd q w
          in if interrupted r then f E fd q w' else Some (Inr (r, w'))) = Some r"
      show "(\<forall>fd q w. interrupted (fst (sys_ioctl E fd q w))) \<longrightarrow> False"
      proof
        assume all: "\<forall>fd q w. interrupted (fst (sys_ioctl E fd q w))"
        then have "interrupted (fst (sys_ioctl E fd q w))" by blast
        then have "f E fd q (snd (sys_ioctl E fd q w)) = Some r"
          using step by (simp add: case_prod_beta)
        with IH all show False by blast
      qed
    qed
    with assms(1) show False by blast
  qed
  have "sint len \<le> int (length b)"
    using sint_eq_uint [OF assms(3)] uint_le_length [OF assms(2)] by simp
  then show ?thesis
    by (simp add: usb_bulk_send_def usb_bulk_recv_def usb_bulk_msg_def none)
qed

lemma usb_bulk_interrupted_diverges_witness:
  "usb_bulk_send (device_env\<lparr>sys_ioctl := \<lambda>fd q d. (failure EINTR, d)\<rparr>) 3 5 (uninit 8) 8 idle = None \<and>
   usb_bulk_recv (device_env\<lparr>sys_ioctl := \<lambda>fd q d. (failure EINTR, d)\<rparr>) 3 5 (uninit 8) 8 idle = None"
  by (rule usb_bulk_interrupted_diverges) (simp_all add: interrupted_def failure_def)

end
