(* ===== verification/Usb_Text.thy ===== *)
theory Usb_Text
  imports Prelude
begin

text \<open>
  The text that \<^verbatim>\<open>lib/usb/usb.c\<close> prints about descriptors: the structures of
  \<^verbatim>\<open>linux/usb/ch9.h\<close> as they are read from the bytes of a descriptor, the
  \<^verbatim>\<open>printf\<close> conversions used, and the functions that decode endpoint attributes and
  class codes.
\<close>

section \<open>Conversions\<close>

definition hex_digit :: "nat \<Rightarrow> char" where
  "hex_digit n = char_of (if n < 10 then 48 + n else 55 + n)"

fun hex_digits :: "nat \<Rightarrow> string" where
  "hex_digits n =
     (if n < 16 then [hex_digit n] else hex_digits (n div 16) @ [hex_digit (n mod 16)])"

fun dec_digits :: "nat \<Rightarrow> string" where
  "dec_digits n =
     (if n < 10 then [hex_digit n] else dec_digits (n div 10) @ [hex_digit (n mod 10)])"

declare hex_digits.simps [simp del] dec_digits.simps [simp del]

text \<open>\<^verbatim>\<open>%.2X\<close> and \<^verbatim>\<open>%.4X\<close> with the precision \<open>p\<close>, and \<^verbatim>\<open>%d\<close>.\<close>

definition fmt_X :: "nat \<Rightarrow> nat \<Rightarrow> string" where
  "fmt_X p n = replicate (p - length (hex_digits n)) CHR ''0'' @ hex_digits n"

definition fmt_d :: "nat \<Rightarrow> string" where
  "fmt_d n = dec_digits n"

definition eol :: string where
  "eol = [CHR 0x0A]"

text \<open>\<^verbatim>\<open>%s\<close>: the characters before the first zero byte.\<close>

definition fmt_s :: "buf \<Rightarrow> string checked" where
  "fmt_s b =
     sbind (c_strlen b) (\<lambda>n.
       Inr (map (\<lambda>c. case c of None \<Rightarrow> CHR 0x00 | Some x \<Rightarrow> char_of (unat x)) (take n b)))"

section \<open>Descriptors\<close>

record usb_device_descriptor =
  dev_bLength :: u8
  dev_bDescriptorType :: u8
  bcdUSB :: u16
  bDeviceClass :: u8
  bDeviceSubClass :: u8
  bDeviceProtocol :: u8
  bMaxPacketSize0 :: u8
  idVendor :: u16
  idProduct :: u16
  bcdDevice :: u16
  iManufacturer :: u8
  iProduct :: u8
  iSerialNumber :: u8
  bNumConfigurations :: u8

record usb_config_descriptor =
  cfg_bLength :: u8
  cfg_bDescriptorType :: u8
  wTotalLength :: u16
  bNumInterfaces :: u8
  bConfigurationValue :: u8
  iConfiguration :: u8
  cfg_bmAttributes :: u8
  bMaxPower :: u8

record usb_interface_descriptor =
  ifc_bLength :: u8
  ifc_bDescriptorType :: u8
  bInterfaceNumber :: u8
  bAlternateSetting :: u8
  bNumEndpoints :: u8
  bInterfaceClass :: u8
  bInterfaceSubClass :: u8
  bInterfaceProtocol :: u8
  iInterface :: u8

record usb_endpoint_descriptor =
  ep_bLength :: u8
  ep_bDescriptorType :: u8
  bEndpointAddress :: u8
  ep_bmAttributes :: u8
  wMaxPacketSize :: u16
  bInterval :: u8

record usb_interface_assoc_descriptor =
  ia_bLength :: u8
  ia_bDescriptorType :: u8
  bFirstInterface :: u8
  bInterfaceCount :: u8
  bFunctionClass :: u8
  bFunctionSubClass :: u8
  bFunctionProtocol :: u8
  iFunction :: u8

text \<open>
  \<^verbatim>\<open>__parse_stream(dest, src + offset, n)\<close> fills a structure with \<open>n\<close> bytes; the members
  are then read from these bytes. The structures are packed, in the byte order of the bus.
\<close>

definition parse_stream :: "buf \<Rightarrow> nat \<Rightarrow> nat \<Rightarrow> buf checked" where
  "parse_stream src offset n = memcpy (uninit n) 0 src offset n"

definition device_descriptor :: "buf \<Rightarrow> usb_device_descriptor checked" where
  "device_descriptor b =
     sbind (load8 b 0) (\<lambda>l. sbind (load8 b 1) (\<lambda>t. sbind (load_le16 b 2) (\<lambda>usb.
     sbind (load8 b 4) (\<lambda>c. sbind (load8 b 5) (\<lambda>sc. sbind (load8 b 6) (\<lambda>pr.
     sbind (load8 b 7) (\<lambda>mp. sbind (load_le16 b 8) (\<lambda>vi. sbind (load_le16 b 10) (\<lambda>pi.
     sbind (load_le16 b 12) (\<lambda>bd. sbind (load8 b 14) (\<lambda>im. sbind (load8 b 15) (\<lambda>ip.
     sbind (load8 b 16) (\<lambda>is. sbind (load8 b 17) (\<lambda>nc.
       Inr \<lparr>dev_bLength = l, dev_bDescriptorType = t, bcdUSB = usb, bDeviceClass = c,
            bDeviceSubClass = sc, bDeviceProtocol = pr, bMaxPacketSize0 = mp, idVendor = vi,
            idProduct = pi, bcdDevice = bd, iManufacturer = im, iProduct = ip,
            iSerialNumber = is, bNumConfigurations = nc\<rparr>))))))))))))))"

definition config_descriptor :: "buf \<Rightarrow> usb_config_descriptor checked" where
  "config_descriptor b =
     sbind (load8 b 0) (\<lambda>l. sbind (load8 b 1) (\<lambda>t. sbind (load_le16 b 2) (\<lambda>tl.
     sbind (load8 b 4) (\<lambda>ni. sbind (load8 b 5) (\<lambda>cv. sbind (load8 b 6) (\<lambda>ic.
     sbind (load8 b 7) (\<lambda>at. sbind (load8 b 8) (\<lambda>mp.
       Inr \<lparr>cfg_bLength = l, cfg_bDescriptorType = t, wTotalLength = tl, bNumInterfaces = ni,
            bConfigurationValue = cv, iConfiguration = ic, cfg_bmAttributes = at,
            bMaxPower = mp\<rparr>))))))))"

definition interface_descriptor :: "buf \<Rightarrow> usb_interface_descriptor checked" where
  "interface_descriptor b =
     sbind (load8 b 0) (\<lambda>l. sbind (load8 b 1) (\<lambda>t. sbind (load8 b 2) (\<lambda>n.
     sbind (load8 b 3) (\<lambda>a. sbind (load8 b 4) (\<lambda>ne. sbind (load8 b 5) (\<lambda>c.
     sbind (load8 b 6) (\<lambda>sc. sbind (load8 b 7) (\<lambda>pr. sbind (load8 b 8) (\<lambda>ii.
       Inr \<lparr>ifc_bLength = l, ifc_bDescriptorType = t, bInterfaceNumber = n,
            bAlternateSetting = a, bNumEndpoints = ne, bInterfaceClass = c,
            bInterfaceSubClass = sc, bInterfaceProtocol = pr, iInterface = ii\<rparr>)))))))))"

definition endpoint_descriptor :: "buf \<Rightarrow> usb_endpoint_descriptor checked" where
  "endpoint_descriptor b =
     sbind (load8 b 0) (\<lambda>l. sbind (load8 b 1) (\<lambda>t. sbind (load8 b 2) (\<lambda>ea.
     sbind (load8 b 3) (\<lambda>at. sbind (load_le16 b 4) (\<lambda>mp. sbind (load8 b 6) (\<lambda>iv.
       Inr \<lparr>ep_bLength = l, ep_bDescriptorType = t, bEndpointAddress = ea,
            ep_bmAttributes = at, wMaxPacketSize = mp, bInterval = iv\<rparr>))))))"

definition interface_assoc_descriptor :: "buf \<Rightarrow> usb_interface_assoc_descriptor checked" where
  "interface_assoc_descriptor b =
     sbind (load8 b 0) (\<lambda>l. sbind (load8 b 1) (\<lambda>t. sbind (load8 b 2) (\<lambda>fi.
     sbind (load8 b 3) (\<lambda>ic. sbind (load8 b 4) (\<lambda>fc. sbind (load8 b 5) (\<lambda>fs.
     sbind (load8 b 6) (\<lambda>fp. sbind (load8 b 7) (\<lambda>fn.
       Inr \<lparr>ia_bLength = l, ia_bDescriptorType = t, bFirstInterface = fi,
            bInterfaceCount = ic, bFunctionClass = fc, bFunctionSubClass = fs,
            bFunctionProtocol = fp, iFunction = fn\<rparr>))))))))"

section \<open>Decoding attributes\<close>

abbreviation (input) USB_CLASS_PER_INTERFACE :: u8 where "USB_CLASS_PER_INTERFACE \<equiv> 0x00"
abbreviation (input) USB_CLASS_AUDIO :: u8 where "USB_CLASS_AUDIO \<equiv> 0x01"
abbreviation (input) USB_CLASS_COMM :: u8 where "USB_CLASS_COMM \<equiv> 0x02"
abbreviation (input) USB_CLASS_HID :: u8 where "USB_CLASS_HID \<equiv> 0x03"
abbreviation (input) USB_CLASS_PHYSICAL :: u8 where "USB_CLASS_PHYSICAL \<equiv> 0x05"
abbreviation (input) USB_CLASS_STILL_IMAGE :: u8 where "USB_CLASS_STILL_IMAGE \<equiv> 0x06"
abbreviation (input) USB_CLASS_PRINTER :: u8 where "USB_CLASS_PRINTER \<equiv> 0x07"
abbreviation (input) USB_CLASS_MASS_STORAGE :: u8 where "USB_CLASS_MASS_STORAGE \<equiv> 0x08"
abbreviation (input) USB_CLASS_HUB :: u8 where "USB_CLASS_HUB \<equiv> 0x09"
abbreviation (input) USB_CLASS_CDC_DATA :: u8 where "USB_CLASS_CDC_DATA \<equiv> 0x0A"
abbreviation (input) USB_CLASS_CSCID :: u8 where "USB_CLASS_CSCID \<equiv> 0x0B"
abbreviation (input) USB_CLASS_CONTENT_SEC :: u8 where "USB_CLASS_CONTENT_SEC \<equiv> 0x0D"
abbreviation (input) USB_CLASS_VIDEO :: u8 where "USB_CLASS_VIDEO \<equiv> 0x0E"
abbreviation (input) USB_CLASS_WIRELESS_CONTROLLER :: u8 where "USB_CLASS_WIRELESS_CONTROLLER \<equiv> 0xE0"
abbreviation (input) USB_CLASS_PERSONAL_HEALTHCARE :: u8 where "USB_CLASS_PERSONAL_HEALTHCARE \<equiv> 0x0F"
abbreviation (input) USB_CLASS_AUDIO_VIDEO :: u8 where "USB_CLASS_AUDIO_VIDEO \<equiv> 0x10"
abbreviation (input) USB_CLASS_BILLBOARD :: u8 where "USB_CLASS_BILLBOARD \<equiv> 0x11"
abbreviation (input) USB_CLASS_USB_TYPE_C_BRIDGE :: u8 where "USB_CLASS_USB_TYPE_C_BRIDGE \<equiv> 0x12"
abbreviation (input) USB_CLASS_MISC :: u8 where "USB_CLASS_MISC \<equiv> 0xEF"
abbreviation (input) USB_CLASS_APP_SPEC :: u8 where "USB_CLASS_APP_SPEC \<equiv> 0xFE"
abbreviation (input) USB_CLASS_VENDOR_SPEC :: u8 where "USB_CLASS_VENDOR_SPEC \<equiv> 0xFF"

definition get_class :: "u8 \<Rightarrow> string" where
  "get_class cattr =
     (if cattr = USB_CLASS_PER_INTERFACE then ''Device''
      else if cattr = USB_CLASS_AUDIO then ''Audio''
      else if cattr = USB_CLASS_COMM then ''Communications Device Class (CDC)''
      else if cattr = USB_CLASS_HID then ''Human Interface Device (HID)''
      else if cattr = USB_CLASS_PHYSICAL then ''Physical''
      else if cattr = USB_CLASS_STILL_IMAGE then ''Still Image''
      else if cattr = USB_CLASS_PRINTER then ''Printer''
      else if cattr = USB_CLASS_MASS_STORAGE then ''Mass Storage (MSD)''
      else if cattr = USB_CLASS_HUB then ''HUB''
      else if cattr = USB_CLASS_CDC_DATA then ''CDC DATA''
      else if cattr = USB_CLASS_CSCID then ''Chip+ Smart Card''
      else if cattr = USB_CLASS_CONTENT_SEC then ''Content Security''
      else if cattr = USB_CLASS_VIDEO then ''Video''
      else if cattr = USB_CLASS_WIRELESS_CONTROLLER then ''Wireless Controller''
      else if cattr = USB_CLASS_PERSONAL_HEALTHCARE then ''Personal Healhcare''
      else if cattr = USB_CLASS_AUDIO_VIDEO then ''Audio/Video''
      else if cattr = USB_CLASS_BILLBOARD then ''Billboard''
      else if cattr = USB_CLASS_USB_TYPE_C_BRIDGE then ''USB Type C Bridge''
      else if cattr = USB_CLASS_MISC then ''Miscellaneous''
      else if cattr = USB_CLASS_APP_SPEC then ''Application Specific''
      else if cattr = USB_CLASS_VENDOR_SPEC then ''Vendor Specific''
      else ''Vendor Specific'')"

definition get_descriptor_type :: "u8 \<Rightarrow> string" where
  "get_descriptor_type dt =
     (if dt = 0x01 then ''Device'' else if dt = 0x04 then ''Interface''
      else if dt = 0x05 then ''Endpoint'' else ''Unknown'')"

text \<open>The masked bits are compared without being shifted down.\<close>

definition endpoint_transfer_type :: "u8 \<Rightarrow> string" where
  "endpoint_transfer_type eattr =
     (let e = eattr AND 0x03
      in if e = 0 then ''Control''
      else if e = 1 then ''Isochronous''
      else if e = 2 then ''Bulk''
      else ''Interrupt'')"

definition endpoint_sync_type :: "u8 \<Rightarrow> string" where
  "endpoint_sync_type eattr =
     (let e = eattr AND 0x0C
      in if e = 0 then ''No Synchronization''
      else if e = 1 then ''Asynchronous''
      else if e = 2 then ''Adaptive''
      else ''Synchronous'')"

definition endpoint_usage_type :: "u8 \<Rightarrow> string" where
  "endpoint_usage_type eattr =
     (let e = eattr AND 0x30
      in if e = 0 then ''Data endpoint''
      else if e = 1 then ''Feedback endpoint''
      else if e = 2 then ''Implicit feedback Data endpoint''
      else ''Reserved'')"

definition endpoint_transac_per_mf :: "u16 \<Rightarrow> string" where
  "endpoint_transac_per_mf eattr =
     (let e = eattr AND 0x1800
      in if e = 0 then ''None (1 p/mf)''
      else if e = 1 then ''1 additional (2 p/mf)''
      else if e = 2 then ''1 additional (3 p/mf)''
      else ''Reserved'')"

definition ENDPOINT_ADDRESS :: "usb_endpoint_descriptor \<Rightarrow> u8" where
  "ENDPOINT_ADDRESS ued = bEndpointAddress ued AND 0x07"

definition ENDPOINT_DIRECTION :: "usb_endpoint_descriptor \<Rightarrow> string" where
  "ENDPOINT_DIRECTION ued = (if bEndpointAddress ued AND 0x80 \<noteq> 0 then ''IN'' else ''OUT'')"

definition ENDPOINT_MAX_PACKET_SIZE :: "usb_endpoint_descriptor \<Rightarrow> u16" where
  "ENDPOINT_MAX_PACKET_SIZE ued = wMaxPacketSize ued AND 0x7FF"

section \<open>Printed text\<close>

definition device_text :: "usb_device_descriptor \<Rightarrow> string \<Rightarrow> string \<Rightarrow> string \<Rightarrow> string" where
  "device_text udd manufacturer product serial_number =
      ''Length: '' @ fmt_d (unat (dev_bLength udd)) @ eol @
      ''Descriptor Type ('' @ fmt_X 2 (unat (dev_bDescriptorType udd)) @ ''): Device'' @ eol @
      ''BCD USB: '' @ fmt_X 4 (unat (bcdUSB udd)) @ eol @
      ''Device Class: '' @ fmt_X 2 (unat (bDeviceClass udd)) @ eol @
      ''Device Sub Class: '' @ fmt_X 2 (unat (bDeviceSubClass udd)) @ eol @
      ''Device Protocol: '' @ fmt_X 2 (unat (bDeviceProtocol udd)) @ eol @
      ''Max Packet Size: '' @ fmt_X 2 (unat (bMaxPacketSize0 udd)) @ eol @
      ''Vendor ID: '' @ fmt_X 4 (unat (idVendor udd)) @ eol @
      ''Product ID: '' @ fmt_X 4 (unat (idProduct udd)) @ eol @
      ''BCD Device: '' @ fmt_X 4 (unat (bcdDevice udd)) @ eol @
      ''Manufacturer ('' @ fmt_X 2 (unat (iManufacturer udd)) @ ''): '' @ manufacturer @ eol @
      ''Product ('' @ fmt_X 2 (unat (iProduct udd)) @ ''): '' @ product @ eol @
      ''Serial Number ('' @ fmt_X 2 (unat (iSerialNumber udd)) @ ''): '' @ serial_number @ eol @
      ''Configurations Number: '' @ fmt_X 2 (unat (bNumConfigurations udd)) @ eol"

definition config_text :: "usb_config_descriptor \<Rightarrow> string \<Rightarrow> string" where
  "config_text ucd configuration =
      ''Length: '' @ fmt_d (unat (cfg_bLength ucd)) @ eol @
      ''Descriptor Type ('' @ fmt_X 2 (unat (cfg_bDescriptorType ucd)) @ ''): Config'' @ eol @
      ''Total Data Length: '' @ fmt_X 4 (unat (wTotalLength ucd)) @ eol @
      ''Interfaces: '' @ fmt_X 2 (unat (bNumInterfaces ucd)) @ eol @
      ''Configuration Value: '' @ fmt_X 2 (unat (bConfigurationValue ucd)) @ eol @
      ''Configuration Description ('' @ fmt_X 2 (unat (iConfiguration ucd)) @ ''): '' @
        configuration @ eol @
      ''Configuration Characteristics: '' @ fmt_X 2 (unat (cfg_bmAttributes ucd)) @ eol @
      ''Maximum Power Consumption: '' @ fmt_X 2 (unat (bMaxPower ucd)) @ eol"

definition interface_text :: "usb_interface_descriptor \<Rightarrow> string \<Rightarrow> string" where
  "interface_text uid iface =
      ''Length: '' @ fmt_d (unat (ifc_bLength uid)) @ eol @
      ''Descriptor Type ('' @ fmt_X 2 (unat (ifc_bDescriptorType uid)) @ ''): Interface'' @
        eol @
      ''Interface Number: '' @ fmt_X 2 (unat (bInterfaceNumber uid)) @ eol @
      ''Alternate Setting: '' @ fmt_X 2 (unat (bAlternateSetting uid)) @ eol @
      ''Number of Endpoints ('' @ fmt_X 2 (unat (bNumEndpoints uid)) @ ''): '' @
        fmt_d (unat (bNumEndpoints uid)) @ eol @
      ''Interface Class ('' @ fmt_X 2 (unat (bInterfaceClass uid)) @ ''): '' @
        get_class (bInterfaceClass uid) @ eol @
      ''Interface SubClass ('' @ fmt_X 2 (unat (bInterfaceSubClass uid)) @ ''): '' @
        get_class (bInterfaceSubClass uid) @ eol @
      ''Interface Protocol: '' @ fmt_X 2 (unat (bInterfaceProtocol uid)) @ eol @
      ''Interface Description ('' @ fmt_X 2 (unat (iInterface uid)) @ ''): '' @ iface @ eol"

definition endpoint_text :: "usb_endpoint_descriptor \<Rightarrow> string" where
  "endpoint_text ued =
      ''Length: '' @ fmt_d (unat (ep_bLength ued)) @ eol @
      ''Descriptor Type ('' @ fmt_X 2 (unat (ep_bDescriptorType ued)) @ ''): Endpoint'' @ eol @
      ''Endpoint Address ('' @ fmt_X 2 (unat (bEndpointAddress ued)) @ ''): '' @
        fmt_X 2 (unat (ENDPOINT_ADDRESS ued)) @ '' - '' @ ENDPOINT_DIRECTION ued @ eol @
      ''Endpoint Attributes ('' @ fmt_X 2 (unat (ep_bmAttributes ued)) @ ''): '' @
        endpoint_transfer_type (ep_bmAttributes ued) @ '' - '' @
        endpoint_sync_type (ep_bmAttributes ued) @ '' - '' @
        endpoint_usage_type (ep_bmAttributes ued) @ eol @
      ''Maximum Packet Size ('' @ fmt_X 4 (unat (wMaxPacketSize ued)) @ ''): '' @
        fmt_d (unat (ENDPOINT_MAX_PACKET_SIZE ued)) @ '' - '' @
        endpoint_transac_per_mf (wMaxPacketSize ued) @ eol @
      ''Polling Interval: '' @ fmt_X 2 (unat (bInterval ued)) @ eol"

definition interface_assoc_text :: "usb_interface_assoc_descriptor \<Rightarrow> string" where
  "interface_assoc_text uiad =
      ''Length: '' @ fmt_d (unat (ia_bLength uiad)) @ eol @
      ''Descriptor Type ('' @ fmt_X 2 (unat (ia_bDescriptorType uiad)) @
        ''): Interface Association'' @ eol @
      ''First Interface: '' @ fmt_X 2 (unat (bFirstInterface uiad)) @ eol @
      ''Interface Count: '' @ fmt_X 2 (unat (bInterfaceCount uiad)) @ eol @
      ''Function Class: '' @ fmt_X 2 (unat (bFunctionClass uiad)) @ eol @
      ''Function SubClass: '' @ fmt_X 2 (unat (bFunctionSubClass uiad)) @ eol @
      ''Function Protocol: '' @ fmt_X 2 (unat (bFunctionProtocol uiad)) @ eol @
      ''iFunction: '' @ fmt_X 2 (unat (iFunction uiad)) @ eol"

section \<open>Properties\<close>

text \<open>
  Only the transfer type of an endpoint is decoded as the USB specification lays it out. The
  other fields are compared with values they cannot have once masked: every endpoint that
  synchronises is called synchronous, every usage but data and every number of additional
  transactions is called reserved, and the number of an endpoint is printed only if it is below 8.
\<close>

lemma endpoint_attributes_decoded:
  shows "endpoint_transfer_type a = [''Control'', ''Isochronous'', ''Bulk'', ''Interrupt''] ! unat (a AND 3) \<and>
    endpoint_sync_type a = (if a AND 0x0C = 0 then ''No Synchronization'' else ''Synchronous'') \<and>
    endpoint_usage_type a = (if a AND 0x30 = 0 then ''Data endpoint'' else ''Reserved'') \<and>
    endpoint_transac_per_mf s = (if s AND 0x1800 = 0 then ''None (1 p/mf)'' else ''Reserved'') \<and>
    (ENDPOINT_ADDRESS e = bEndpointAddress e AND 0x0F \<longleftrightarrow> \<not> bit (bEndpointAddress e) 3)"
proof (intro conjI)
  have three: "(3 :: u8) = mask 2" by (simp add: mask_eq_exp_minus_1)
  define n where "n = unat (a AND 3)"
  have "n = take_bit 2 (unat a)"
    by (simp add: n_def three take_bit_eq_mask [symmetric] unsigned_take_bit_eq)
  then have "n < 4" by (simp add: take_bit_eq_mod)
  then consider "n = 0" | "n = 1" | "n = 2" | "n = 3" by linarith
  moreover have "a AND 3 = of_nat n" by (simp add: n_def)
  ultimately show "endpoint_transfer_type a =
      [''Control'', ''Isochronous'', ''Bulk'', ''Interrupt''] ! unat (a AND 3)"
    unfolding n_def [symmetric]
    by cases (simp_all add: endpoint_transfer_type_def)
  have "a AND 0x0C \<noteq> 1" "a AND 0x0C \<noteq> 2" "a AND 0x30 \<noteq> 1" "a AND 0x30 \<noteq> 2"
    "s AND 0x1800 \<noteq> 1" "s AND 0x1800 \<noteq> 2"
    by (auto simp: bit_simps
        dest: arg_cong [of _ _ "\<lambda>x. bit x 0"] arg_cong [of _ _ "\<lambda>x. bit x 1"])
  then show "endpoint_sync_type a =
      (if a AND 0x0C = 0 then ''No Synchronization'' else ''Synchronous'')"
    "endpoint_usage_type a = (if a AND 0x30 = 0 then ''Data endpoint'' else ''Reserved'')"
    "endpoint_transac_per_mf s = (if s AND 0x1800 = 0 then ''None (1 p/mf)'' else ''Reserved'')"
    by (simp_all add: endpoint_sync_type_def endpoint_usage_type_def endpoint_transac_per_mf_def)
  have masks: "(0x07 :: u8) = mask 3" "(0x0F :: u8) = mask 4"
    by (simp_all add: mask_eq_exp_minus_1)
  show "ENDPOINT_ADDRESS e = bEndpointAddress e AND 0x0F \<longleftrightarrow> \<not> bit (bEndpointAddress e) 3"
    unfolding ENDPOINT_ADDRESS_def masks bit_eq_iff
    by (auto simp: bit_simps less_Suc_eq numeral_eq_Suc)
qed

end
