(* ===== verification/Usb_Dump.thy ===== *)
theory Usb_Dump
  imports Usb_Props Usb_Text
begin

text \<open>
  Reading strings from a device and dumping its descriptors: \<^verbatim>\<open>usb_get_string\<close> and
  \<^verbatim>\<open>usb_dump_device\<close> of \<^verbatim>\<open>lib/usb/usb.c\<close>. What is written to the output stream is
  the value of the computation; messages for the standard error stream are not modelled.
\<close>

section \<open>Strings\<close>

abbreviation (input) STRING_MAX_SIZE :: nat where "STRING_MAX_SIZE \<equiv> 128"
abbreviation (input) BUFF_MAX_SIZE :: nat where "BUFF_MAX_SIZE \<equiv> 4096"

definition store8 :: "buf \<Rightarrow> nat \<Rightarrow> u8 \<Rightarrow> buf checked" where
  "store8 b i x = (if i < length b then Inr (b[i := Some x]) else Inl Out_of_bounds)"

text \<open>The copy loop: zero bytes are left out; \<open>p\<close> is the position of \<^verbatim>\<open>__buffp\<close>.\<close>

function string_copy :: "buf \<Rightarrow> nat \<Rightarrow> nat \<Rightarrow> buf \<Rightarrow> nat \<Rightarrow> (buf \<times> nat) checked" where
  "string_copy b rlen i buff p =
     (if i < rlen then
        sbind (load8 b i) (\<lambda>x.
          if x \<noteq> 0
          then sbind (store8 buff p x) (\<lambda>buff. string_copy b rlen (Suc i) buff (Suc p))
          else string_copy b rlen (Suc i) buff p)
      else Inr (buff, p))"
  by pat_completeness auto
termination
  by (relation "measure (\<lambda>(b, rlen, i, buff, p). rlen - i)") auto

declare string_copy.simps [simp del]

definition usb_get_string ::
    "'w env \<Rightarrow> int \<Rightarrow> u8 \<Rightarrow> u16 \<Rightarrow> buf \<Rightarrow> ('w, int \<times> buf) cmd" where
  "usb_get_string E fd index langid buff =
     bnd (usb_get_descriptor E fd USB_DT_STRING index langid (uninit USB_MAX_STRING_LEN) (Some 0))
       (\<lambda>(r, b, rlen).
       if r \<noteq> 0 then bnd (lift (store8 buff 0 0)) (\<lambda>buff. ret (1, buff))
       else
         bnd (lift (string_copy b (case rlen of None \<Rightarrow> 0 | Some n \<Rightarrow> nat n) 2 buff 0))
           (\<lambda>(buff, p). bnd (lift (store8 buff p 0)) (\<lambda>buff. ret (0, buff))))"

text \<open>A string for \<^verbatim>\<open>%s\<close>, read into a local array; the result of the call is ignored.\<close>

definition string_text :: "'w env \<Rightarrow> int \<Rightarrow> u8 \<Rightarrow> u16 \<Rightarrow> ('w, string) cmd" where
  "string_text E fd index langid =
     bnd (usb_get_string E fd index langid (uninit STRING_MAX_SIZE)) (\<lambda>(_, b). lift (fmt_s b))"

section \<open>Printing descriptors\<close>

definition print_device_descriptor ::
    "'w env \<Rightarrow> int \<Rightarrow> u16 \<Rightarrow> usb_device_descriptor \<Rightarrow> ('w, string) cmd" where
  "print_device_descriptor E fd langid udd =
     bnd (string_text E fd (iManufacturer udd) langid) (\<lambda>m.
     bnd (string_text E fd (iProduct udd) langid) (\<lambda>p.
     bnd (string_text E fd (iSerialNumber udd) langid) (\<lambda>s.
     ret (device_text udd m p s))))"

definition print_config_descriptor ::
    "'w env \<Rightarrow> int \<Rightarrow> u16 \<Rightarrow> usb_config_descriptor \<Rightarrow> ('w, string) cmd" where
  "print_config_descriptor E fd langid ucd =
     bnd (string_text E fd (iConfiguration ucd) langid) (\<lambda>s. ret (config_text ucd s))"

definition print_interface_descriptor ::
    "'w env \<Rightarrow> int \<Rightarrow> u16 \<Rightarrow> usb_interface_descriptor \<Rightarrow> ('w, string) cmd" where
  "print_interface_descriptor E fd langid uid =
     bnd (string_text E fd (iInterface uid) langid) (\<lambda>s. ret (interface_text uid s))"

definition parse_interface_association :: "buf \<Rightarrow> nat \<Rightarrow> string checked" where
  "parse_interface_association buff offset =
     sbind (parse_stream buff offset USB_DT_INTERFACE_ASSOCIATION_SIZE) (\<lambda>b.
     sbind (interface_assoc_descriptor b) (\<lambda>d. Inr (interface_assoc_text d)))"

section \<open>The dump\<close>

text \<open>The body of the loop over a configuration: the descriptor at \<open>offset\<close>.\<close>

definition dump_descriptor :: "'w env \<Rightarrow> int \<Rightarrow> buf \<Rightarrow> nat \<Rightarrow> ('w, string) cmd" where
  "dump_descriptor E fd buff offset =
     bnd (lift (load8 buff (offset + 1))) (\<lambda>dt.
     if dt = USB_DT_INTERFACE then
       bnd (lift (sbind (parse_stream buff offset USB_DT_INTERFACE_SIZE) interface_descriptor))
         (print_interface_descriptor E fd 0x0409)
     else if dt = USB_DT_ENDPOINT then
       bnd (lift (sbind (parse_stream buff offset USB_DT_ENDPOINT_SIZE) endpoint_descriptor))
         (\<lambda>ued. ret (endpoint_text ued))
     else if dt = USB_DT_INTERFACE_ASSOCIATION then
       lift (parse_interface_association buff offset)
     else ret '''')"

partial_function (option) dump_loop ::
    "'w env \<Rightarrow> int \<Rightarrow> buf \<Rightarrow> u16 \<Rightarrow> u16 \<Rightarrow> string \<Rightarrow> 'w \<Rightarrow> (string \<times> 'w) checked option" where
  "dump_loop E fd buff data_size offset out w =
     (if offset < data_size then
        bnd (dump_descriptor E fd buff (unat offset)) (\<lambda>s.
        bnd (lift (load8 buff (unat offset))) (\<lambda>n.
        dump_loop E fd buff data_size (offset + ucast n) (out @ s)))
      else ret out) w"

text \<open>The loop over the configurations: \<open>n\<close> are left, the next is \<open>i\<close>.\<close>

fun dump_configs :: "'w env \<Rightarrow> int \<Rightarrow> nat \<Rightarrow> nat \<Rightarrow> string \<Rightarrow> ('w, string) cmd" where
  "dump_configs E fd 0 i out = ret out"
| "dump_configs E fd (Suc n) i out =
     bnd (usb_get_descriptor E fd USB_DT_CONFIG (of_nat i) 0
           (known (replicate BUFF_MAX_SIZE 0)) (Some 0)) (\<lambda>(r, buff, _).
     if r \<noteq> 0 then ret out
     else
       bnd (lift (sbind (parse_stream buff 0 USB_DT_CONFIG_SIZE) config_descriptor)) (\<lambda>ucd.
       bnd (print_config_descriptor E fd 0x0409 ucd) (\<lambda>s.
       bnd (dump_loop E fd buff (wTotalLength ucd) (of_nat USB_DT_CONFIG_SIZE) (out @ s)) (\<lambda>out.
       dump_configs E fd n (Suc i) out))))"

definition usb_dump_device :: "'w env \<Rightarrow> int \<Rightarrow> ('w, string) cmd" where
  "usb_dump_device E fd =
     bnd (usb_get_descriptor E fd USB_DT_STRING 0 0 (known (replicate BUFF_MAX_SIZE 0)) (Some 0))
       (\<lambda>(r, buff, _).
       if r \<noteq> 0 then ret ''''
       else
         bnd (usb_get_descriptor E fd USB_DT_DEVICE 0 0 buff (Some 0)) (\<lambda>(r, buff, _).
         if r \<noteq> 0 then ret ''''
         else
           bnd (lift (sbind (parse_stream buff 0 USB_DT_DEVICE_SIZE) device_descriptor)) (\<lambda>udd.
           bnd (print_device_descriptor E fd 0x0409 udd) (\<lambda>s.
           dump_configs E fd (unat (bNumConfigurations udd)) 0 s))))"

end
