(* ===== verification/Adb_Crypt.thy ===== *)
theory Adb_Crypt
  imports Prelude
begin

text \<open>
  The hard-coded RSA public key of \<^verbatim>\<open>lib/adb/crypt.c\<close>, which the main program sends as
  it is, and the structure of \<^verbatim>\<open>lib/adb/crypt.h\<close> that it is an image of.
\<close>

abbreviation (input) RSANUMBYTES :: nat where "RSANUMBYTES \<equiv> 256"
abbreviation (input) RSANUMWORDS :: nat where "RSANUMWORDS \<equiv> 64"

record RSAPublicKey =
  key_len :: int
  key_n0inv :: u32
  key_n :: "u32 list"
  key_rr :: "u32 list"
  key_exponent :: int

definition rsakey_ex :: "u8 list" where
  "rsakey_ex =
    [0x40, 0x00, 0x00, 0x00, 0xe9, 0x44, 0x5e, 0xd4, 0xa7, 0x2c, 0xc1, 0x77, 0x8a, 0x0c, 0x7c, 0x34,
     0xc8, 0xbb, 0xbb, 0xcf, 0x8b, 0x78, 0x3e, 0xc1, 0xa1, 0x50, 0xbe, 0xbf, 0x66, 0xef, 0x04, 0x99,
     0xef, 0x56, 0xc6, 0x89, 0xdf, 0x54, 0x2d, 0xc0, 0x4c, 0xdb, 0x89, 0xca, 0x1b, 0xf2, 0x69, 0x4b,
     0xc4, 0x48, 0x5b, 0x19, 0x22, 0x9d, 0x6a, 0x85, 0xc8, 0xc3, 0x00, 0x2c, 0x59, 0x1f, 0xbb, 0x17,
     0x39, 0x52, 0x51, 0x6e, 0x7b, 0x1b, 0xdb, 0xee, 0xaa, 0x92, 0x43, 0x18, 0x9e, 0xe2, 0x10, 0x6e,
     0x3e, 0xe6, 0xe6, 0x2c, 0xec, 0xa6, 0xab, 0x86, 0x24, 0x45, 0xdc, 0xaf, 0xa1, 0x51, 0x7e, 0x8f,
     0x0c, 0x81, 0x7b, 0x80, 0x4a, 0x3f, 0xd1, 0x38, 0x20, 0x97, 0x1b, 0xcd, 0x5e, 0x64, 0xe4, 0x7d,
     0x5f, 0x73, 0x65, 0xbd, 0xd5, 0xc6, 0x68, 0x15, 0xeb, 0xac, 0xfa, 0xf1, 0x57, 0x81, 0x5c, 0xae,
     0x3a, 0x90, 0xce, 0xcc, 0x7d, 0xf2, 0xa2, 0x1f, 0x2b, 0xbb, 0x3f, 0x72, 0x5d, 0xb5, 0xda, 0x6d,
     0x9b, 0x6a, 0x7b, 0x8d, 0x4e, 0xd7, 0xc2, 0xf7, 0xe0, 0x58, 0x7e, 0x9a, 0xd2, 0xba, 0xeb, 0x1b,
     0x35, 0x16, 0x38, 0xd1, 0x1f, 0xb5, 0xe8, 0x7a, 0xae, 0xe1, 0xc8, 0xc4, 0xfd, 0x59, 0xdc, 0x27,
     0x71, 0x61, 0x56, 0x74, 0x60, 0x5f, 0x6e, 0x1d, 0x6b, 0x30, 0x79, 0x0c, 0xe0, 0x7f, 0xb3, 0x76,
     0x44, 0x6d, 0x20, 0xe1, 0xcc, 0x4d, 0x24, 0x32, 0xec, 0xd0, 0x25, 0xea, 0x69, 0xaa, 0x3b, 0xc5,
     0x2d, 0x7a, 0xb7, 0x36, 0x82, 0x61, 0xf9, 0xfb, 0x71, 0x94, 0x0f, 0x20, 0xa0, 0x9b, 0xd3, 0x9e,
     0xe8, 0xa3, 0xe8, 0xcc, 0x5a, 0xf8, 0x2c, 0x87, 0xef, 0x20, 0x63, 0xca, 0xa0, 0x42, 0xd2, 0x39,
     0x10, 0x70, 0x62, 0xcd, 0xde, 0xdc, 0x3e, 0x9d, 0xd2, 0xfe, 0xb5, 0x5b, 0xcc, 0xdf, 0x20, 0x50,
     0x2a, 0x38, 0x69, 0x2b, 0x88, 0x9f, 0xd4, 0xdf, 0x4f, 0xab, 0x89, 0xd1, 0x2d, 0xc3, 0xdd, 0x33,
     0xd6, 0x6c, 0x75, 0xec, 0xf5, 0x8f, 0x27, 0xb2, 0x48, 0x48, 0x38, 0xcd, 0x47, 0x92, 0x0b, 0xf7,
     0x08, 0x03, 0x83, 0x7f, 0x3c, 0x07, 0xf9, 0x93, 0x37, 0x9d, 0x69, 0x85, 0x0f, 0xbe, 0xc5, 0x32,
     0xd8, 0x96, 0xa3, 0xf8, 0x49, 0xac, 0xc4, 0x5c, 0x1f, 0xad, 0xf2, 0xbd, 0x7e, 0x69, 0x54, 0xf6,
     0x27, 0xa9, 0x0c, 0x87, 0x71, 0xd7, 0xa6, 0x6c, 0x43, 0x35, 0x15, 0xbc, 0x60, 0xfe, 0xa5, 0x80,
     0x56, 0xd2, 0xf1, 0x34, 0x52, 0x6a, 0xa0, 0x52, 0x98, 0x5d, 0x81, 0xe5, 0xf6, 0x4b, 0x46, 0x70,
     0xcf, 0xb7, 0x23, 0x3c, 0x2f, 0x79, 0xae, 0x5f, 0x01, 0xe6, 0xe6, 0x6d, 0x62, 0x2e, 0x7b, 0x32,
     0x98, 0x17, 0xa1, 0x78, 0xf5, 0x8d, 0xdd, 0x20, 0xf0, 0x3e, 0x7d, 0x6c, 0x6e, 0x9c, 0x69, 0x1b,
     0x7a, 0x18, 0xa1, 0xee, 0x8d, 0x12, 0xf5, 0x1a, 0x16, 0x21, 0x02, 0x18, 0x07, 0x2b, 0x5e, 0x17,
     0xe6, 0xff, 0x10, 0xdd, 0xa7, 0xb5, 0x2a, 0x70, 0x7e, 0xe8, 0x43, 0xf0, 0x6f, 0x67, 0xe8, 0x17,
     0xda, 0xcf, 0x89, 0x84, 0x55, 0x31, 0xbc, 0xd8, 0xb8, 0xfc, 0x61, 0xe2, 0xba, 0xf8, 0x26, 0x32,
     0x12, 0x2a, 0xd2, 0x0a, 0x5e, 0x00, 0x97, 0xb4, 0x86, 0xb1, 0xbe, 0xba, 0x13, 0xbe, 0x05, 0x9e,
     0xdf, 0xaf, 0xf8, 0xda, 0x2e, 0x40, 0x5a, 0x59, 0xc4, 0x2a, 0xeb, 0x79, 0xf9, 0xbb, 0xb1, 0x8b,
     0xa0, 0xd7, 0x53, 0x47, 0x48, 0xd8, 0x83, 0x79, 0x86, 0xbc, 0x72, 0x76, 0xad, 0x42, 0xc9, 0x5a,
     0xf8, 0x27, 0xdd, 0xf7, 0x51, 0xa6, 0x80, 0xab, 0x2e, 0xf9, 0x90, 0xce, 0xf2, 0xe1, 0x7c, 0x51,
     0x1e, 0xff, 0xaf, 0x73, 0x0a, 0x10, 0x3a, 0x21, 0x7c, 0xc0, 0xab, 0x59, 0xd2, 0x22, 0x67, 0x4c,
     0x3a, 0x01, 0xde, 0xa1, 0x6a, 0xd6, 0xb5, 0x3a, 0x01, 0x00, 0x01, 0x00]"

definition rr :: "u32 list" where
  "rr =
    [0xD189AB4F, 0x33DDC32D, 0xEC756CD6, 0xB2278FF5, 0xCD384848, 0xF70B9247, 0x7F830308, 0x93F9073C,
     0x85699D37, 0x32C5BE0F, 0xF8A396D8, 0x5CC4AC49, 0xBDF2AD1F, 0xF654697E, 0x870CA927, 0x6CA6D771,
     0xBC153543, 0x80A5FE60, 0x34F1D256, 0x52A06A52, 0xE5815D98, 0x70464BF6, 0x3C23B7CF, 0x5FAE792F,
     0x6DE6E601, 0x327B2E62, 0x78A11798, 0x20DD8DF5, 0x6C7D3EF0, 0x1B699C6E, 0xEEA1187A, 0x1AF5128D,
     0x18022116, 0x175E2B07, 0xDD10FFE6, 0x702AB5A7, 0xF043E87E, 0x17E8676F, 0x8489CFDA, 0xD8BC3155,
     0xE261FCB8, 0x3226F8BA, 0x0AD22A12, 0xB497005E, 0xBABEB186, 0x9E05BE13, 0xDAF8AFDF, 0x595A402E,
     0x79EB2AC4, 0x8BB1BBF9, 0x4753D7A0, 0x7983D848, 0x7672BC86, 0x5AC942AD, 0xF7DD27F8, 0xAB80A651,
     0xCE90F92E, 0x517CE1F2, 0x73AFFF1E, 0x213A100A, 0x59ABC07C, 0x4C6722D2, 0xA1DE013A, 0x3AB5D66A]"

text \<open>The function that should make a key from a text leaves the structure as it is.\<close>

definition rsa_public_key :: "'text \<Rightarrow> RSAPublicKey \<Rightarrow> int \<times> RSAPublicKey" where
  "rsa_public_key public_key rsapub = (0, rsapub)"

section \<open>The structure in memory\<close>

definition key_image :: "RSAPublicKey \<Rightarrow> u8 list" where
  "key_image k =
     enc32 (word_of_int (key_len k)) @ enc32 (key_n0inv k) @ concat (map enc32 (key_n k)) @
     concat (map enc32 (key_rr k)) @ enc32 (word_of_int (key_exponent k))"

definition rsakey_modulus :: "u32 list" where
  "rsakey_modulus =
    [0x77C12CA7, 0x347C0C8A, 0xCFBBBBC8, 0xC13E788B, 0xBFBE50A1, 0x9904EF66, 0x89C656EF, 0xC02D54DF,
     0xCA89DB4C, 0x4B69F21B, 0x195B48C4, 0x856A9D22, 0x2C00C3C8, 0x17BB1F59, 0x6E515239, 0xEEDB1B7B,
     0x184392AA, 0x6E10E29E, 0x2CE6E63E, 0x86ABA6EC, 0xAFDC4524, 0x8F7E51A1, 0x807B810C, 0x38D13F4A,
     0xCD1B9720, 0x7DE4645E, 0xBD65735F, 0x1568C6D5, 0xF1FAACEB, 0xAE5C8157, 0xCCCE903A, 0x1FA2F27D,
     0x723FBB2B, 0x6DDAB55D, 0x8D7B6A9B, 0xF7C2D74E, 0x9A7E58E0, 0x1BEBBAD2, 0xD1381635, 0x7AE8B51F,
     0xC4C8E1AE, 0x27DC59FD, 0x74566171, 0x1D6E5F60, 0x0C79306B, 0x76B37FE0, 0xE1206D44, 0x32244DCC,
     0xEA25D0EC, 0xC53BAA69, 0x36B77A2D, 0xFBF96182, 0x200F9471, 0x9ED39BA0, 0xCCE8A3E8, 0x872CF85A,
     0xCA6320EF, 0x39D242A0, 0xCD627010, 0x9D3EDCDE, 0x5BB5FED2, 0x5020DFCC, 0x2B69382A, 0xDFD49F88]"

text \<open>
  The 524 bytes the main program sends as its key are the image of a well-formed key
  structure: 64 words of modulus, the constant \<open>rr\<close> of the same file, the exponent 65537, and
  the negated inverse of the lowest word of the modulus, as Montgomery multiplication needs it.
\<close>

lemma rsakey_is_key_image:
  shows "rsakey_ex = key_image \<lparr>key_len = 64, key_n0inv = 0xD45E44E9, key_n = rsakey_modulus,
      key_rr = rr, key_exponent = 65537\<rparr> \<and>
    length rsakey_ex = 524 \<and> length rsakey_modulus = RSANUMWORDS \<and> length rr = RSANUMWORDS \<and>
    0xD45E44E9 * rsakey_modulus ! 0 = - 1 \<and> rsakey_modulus ! 0 AND 1 = 1"
proof (intro conjI)
  show "rsakey_ex = key_image \<lparr>key_len = 64, key_n0inv = 0xD45E44E9, key_n = rsakey_modulus,
      key_rr = rr, key_exponent = 65537\<rparr>"
    by (simp add: key_image_def rsakey_ex_def rsakey_modulus_def rr_def enc32_def)
  show "length rsakey_ex = 524" by (simp add: rsakey_ex_def)
  show "length rsakey_modulus = RSANUMWORDS" by (simp add: rsakey_modulus_def)
  show "length rr = RSANUMWORDS" by (simp add: rr_def)
  show "0xD45E44E9 * rsakey_modulus ! 0 = - 1" by (simp add: rsakey_modulus_def)
  show "rsakey_modulus ! 0 AND 1 = 1" by (simp add: rsakey_modulus_def)
qed

end
