(* ===== verification/Main_Flow.thy ===== *)
theory Main_Flow
  imports Adb Usb_Dump Adb_Crypt
begin

text \<open>
  The session of \<^verbatim>\<open>src/main.c\<close>: the device is dumped, its interface claimed, and a
  connection, an authentication and a stream are attempted over the debug bridge. What is printed
  is not modelled, but the memory that is read to print it is.
\<close>

section \<open>Environment of the process\<close>

text \<open>
  The device file: whether \<^verbatim>\<open>fopen\<close> succeeds, the next byte \<^verbatim>\<open>getc\<close> returns (none at
  the end of the file), and the descriptor \<^verbatim>\<open>open\<close> returns.
\<close>

record 'w files =
  file_fopen :: "'w \<Rightarrow> bool \<times> 'w"
  file_getc :: "'w \<Rightarrow> u8 option \<times> 'w"
  file_fclose :: "'w \<Rightarrow> 'w"
  file_open :: "'w \<Rightarrow> int \<times> 'w"
  file_close :: "int \<Rightarrow> 'w \<Rightarrow> 'w"

abbreviation (input) MAIN_IFACE :: u16 where "MAIN_IFACE \<equiv> 0x03"
abbreviation (input) ADB_PROTO_VERSION :: u32 where "ADB_PROTO_VERSION \<equiv> 0x01000000"
abbreviation (input) ADB_AUTH_TYPE_RSAPUBLICKEY :: u32 where "ADB_AUTH_TYPE_RSAPUBLICKEY \<equiv> 3"
abbreviation (input) ADB_RES_BUFF_SIZE :: nat where "ADB_RES_BUFF_SIZE \<equiv> 2048"
abbreviation (input) TOKEN_SIZE :: nat where "TOKEN_SIZE \<equiv> 20"

section \<open>Reading what is printed\<close>

text \<open>The loop \<^verbatim>\<open>for (i = from; i < to; ++i)\<close> that prints \<^verbatim>\<open>buff[i]\<close>.\<close>

function read_range :: "buf \<Rightarrow> nat \<Rightarrow> nat \<Rightarrow> unit checked" where
  "read_range buff i to =
     (if i < to then sbind (load8 buff i) (\<lambda>_. read_range buff (Suc i) to) else Inr ())"
  by pat_completeness auto
termination by (relation "measure (\<lambda>(buff, i, to). to - i)") auto

declare read_range.simps [simp del]

definition read_header :: "buf \<Rightarrow> unit checked" where
  "read_header buff =
     sbind (load_le32 buff 0) (\<lambda>_. sbind (load_le32 buff 4) (\<lambda>_. sbind (load_le32 buff 8) (\<lambda>_.
     sbind (load_le32 buff 12) (\<lambda>_. sbind (load_le32 buff 16) (\<lambda>_. sbind (load_le32 buff 20) (\<lambda>_.
       Inr ()))))))"

text \<open>The block that prints a response after each request.\<close>

definition read_response :: "int \<Rightarrow> buf \<Rightarrow> adb_res \<Rightarrow> unit checked" where
  "read_response r buff res =
     (if r = 0 then read_range buff ADB_HEADER_LEN (unat (res_length res)) else Inr ())"

section \<open>The session\<close>

text \<open>
  A request of the main program always passes its response buffer and its result; both come back.
\<close>

definition with_buffers ::
    "(int \<times> buf option \<times> adb_res option) \<Rightarrow> buf \<Rightarrow> adb_res \<Rightarrow> int \<times> buf \<times> adb_res" where
  "with_buffers r buff res =
     (case r of (n, b, rs) \<Rightarrow>
        (n, (case b of None \<Rightarrow> buff | Some b \<Rightarrow> b), (case rs of None \<Rightarrow> res | Some rs \<Rightarrow> rs)))"

partial_function (option) ready_loop ::
    "'w env \<Rightarrow> adb_dev \<Rightarrow> buf \<Rightarrow> adb_res \<Rightarrow> 'w \<Rightarrow> ((buf \<times> adb_res) \<times> 'w) checked option" where
  "ready_loop E dev buff res w =
     bnd (adb_ready (usb_ops E) E dev 4 3 (Some buff) 2048 (Some res)) (\<lambda>r.
     bnd (lift (read_response (fst (with_buffers r buff res)) (fst (snd (with_buffers r buff res)))
                 (snd (snd (with_buffers r buff res))))) (\<lambda>_.
     if res_code (snd (snd (with_buffers r buff res))) \<noteq> ADB_COMMAND_A_CLSE
     then ready_loop E dev (fst (snd (with_buffers r buff res))) (snd (snd (with_buffers r buff res)))
     else ret (snd (with_buffers r buff res)))) w"

text \<open>Dumping the device and taking over its interface.\<close>

definition main_prepare :: "'w env \<Rightarrow> int \<Rightarrow> ('w, unit) cmd" where
  "main_prepare E fd =
     bnd (usb_dump_device E fd) (\<lambda>_.
     bnd (usb_get_driver E fd MAIN_IFACE (uninit 256) 256) (\<lambda>(r, dname).
     bnd (if r \<noteq> 0 then ret 0
          else bnd (lift (c_strlen dname)) (\<lambda>_. usb_detach_interface E fd MAIN_IFACE)) (\<lambda>_.
     bnd (usb_detach_interface E fd MAIN_IFACE) (\<lambda>_.
     bnd (usb_claim_interface E fd MAIN_IFACE) (\<lambda>_. ret ())))))"

text \<open>
  Connecting: twenty bytes after the header of the response are taken as the token, and the
  header is read whether or not there was a response.
\<close>

definition main_connect :: "'w env \<Rightarrow> adb_dev \<Rightarrow> ('w, buf \<times> adb_res) cmd" where
  "main_connect E dev =
     (let buff = uninit ADB_RES_BUFF_SIZE; res = \<lparr>res_length = 0, res_code = 0\<rparr> in
      bnd (adb_connect (usb_ops E) E dev ADB_PROTO_VERSION 0x1000
            (c_string [104, 111, 115, 116, 58, 58]) (Some buff) 2048 (Some res)) (\<lambda>r.
      case with_buffers r buff res of (n, buff, res) \<Rightarrow>
        bnd (lift (memcpy (uninit TOKEN_SIZE) 0 buff ADB_HEADER_LEN TOKEN_SIZE)) (\<lambda>token.
        bnd (lift (read_header buff)) (\<lambda>_.
        bnd (if n = 0
             then bnd (lift (read_range token 0 TOKEN_SIZE)) (\<lambda>_.
                  lift (read_range buff ADB_HEADER_LEN (unat (res_length res))))
             else ret ()) (\<lambda>_.
        bnd (lift (c_strlen token)) (\<lambda>_. ret (buff, res)))))))"

text \<open>Sending the key, then opening the stream and reading it until it is closed.\<close>

definition main_stream :: "'w env \<Rightarrow> adb_dev \<Rightarrow> buf \<Rightarrow> adb_res \<Rightarrow> ('w, unit) cmd" where
  "main_stream E dev buff res =
     bnd (adb_auth (usb_ops E) E dev ADB_AUTH_TYPE_RSAPUBLICKEY (Some (known rsakey_ex)) 524
           (Some buff) 2048 (Some res)) (\<lambda>r.
     case with_buffers r buff res of (n, buff, res) \<Rightarrow>
       bnd (lift (read_response n buff res)) (\<lambda>_.
       bnd (adb_open (usb_ops E) E dev 4
             (c_string [102, 114, 97, 109, 101, 98, 117, 102, 102, 101, 114, 58, 32])
             (Some buff) 2048 (Some res)) (\<lambda>r.
       case with_buffers r buff res of (n, buff, res) \<Rightarrow>
         bnd (lift (read_response n buff res)) (\<lambda>_.
         if res_code res = ADB_COMMAND_A_OKAY
         then bnd (ready_loop E dev buff res) (\<lambda>_. ret ())
         else ret ()))))"

definition main_dev :: "int \<Rightarrow> adb_dev" where
  "main_dev fd = \<lparr>dev_fd = fd, in_endp = 0x05, out_endp = 0x03\<rparr>"

definition main_session :: "'w env \<Rightarrow> int \<Rightarrow> ('w, unit) cmd" where
  "main_session E fd =
     bnd (main_prepare E fd) (\<lambda>_.
     bnd (main_connect E (main_dev fd)) (\<lambda>(buff, res).
     bnd (main_stream E (main_dev fd) buff res) (\<lambda>_.
     bnd (usb_release_interface E fd MAIN_IFACE) (\<lambda>_. ret ()))))"

text \<open>The loop that lists the device file; it ends with the file.\<close>

partial_function (option) list_file :: "'w files \<Rightarrow> 'w \<Rightarrow> (unit \<times> 'w) checked option" where
  "list_file F w =
     (case file_getc F w of (c, w') \<Rightarrow> if c = None then ret () w' else list_file F w')"

definition main :: "'w files \<Rightarrow> 'w env \<Rightarrow> ('w, int) cmd" where
  "main F E =
     (\<lambda>w. let (ok, w) = file_fopen F w in
        if \<not> ok then ret 1 w
        else
          bnd (list_file F) (\<lambda>_ w.
            let (fd, w) = file_open F (file_fclose F w) in
            if fd = -1 then ret 1 w
            else bnd (main_session E fd) (\<lambda>_ w. ret 0 (file_close F fd w)) w) w)"

end
