(* ===== verification/Reactive.thy ===== *)
theory Reactive
  imports Device
begin

text \<open>
  A simulated kernel whose device reacts: every transfer to the device is handed to a machine,
  a parameter, that changes its state and answers with packets. It is \<open>Device\<close> with the inbox
  filled by the machine instead of in advance, and satisfies the same contracts.
\<close>

type_synonym 's machine = "'s \<Rightarrow> buf \<Rightarrow> u8 list list \<times> 's"

definition reactive_ioctl ::
    "'s machine \<Rightarrow> int \<Rightarrow> request \<Rightarrow> 's \<times> device \<Rightarrow> reply \<times> 's \<times> device" where
  "reactive_ioctl react fd q w =
     (case w of (s, d) \<Rightarrow>
      case device_ioctl fd q d of (r, d') \<Rightarrow>
        (case q of
           Submit_urb u \<Rightarrow>
             if rp_ret r = -1 \<or> bit (urb_endpoint u) 7 then (r, s, d')
             else (case react s (take (nat (urb_buffer_length u)) (urb_buffer u)) of (ps, s') \<Rightarrow>
               (r, s', d'\<lparr>inbox := inbox d' @ ps\<rparr>))
         | _ \<Rightarrow> (r, s, d')))"

definition reactive_env :: "'s machine \<Rightarrow> ('s \<times> device) env" where
  "reactive_env react =
     \<lparr>sys_ioctl = reactive_ioctl react,
      sys_rand = (\<lambda>(s, d). (seed d mod 2147483648, s, d\<lparr>seed := seed d + 1\<rparr>)),
      sys_malloc = (\<lambda>n w. (True, w))\<rparr>"

lemma reactive_env_simps [simp]:
  "sys_ioctl (reactive_env react) = reactive_ioctl react"
  "sys_rand (reactive_env react) = (\<lambda>(s, d). (seed d mod 2147483648, s, d\<lparr>seed := seed d + 1\<rparr>))"
  "sys_malloc (reactive_env react) = (\<lambda>n w. (True, w))"
  by (simp_all add: reactive_env_def)

lemma fst_reactive_ioctl [simp]:
  "fst (reactive_ioctl react fd q w) = fst (device_ioctl fd q (snd w))"
  by (cases w; cases q) (auto simp: reactive_ioctl_def split: prod.splits)

lemma signals_reactive_ioctl:
  "signals (snd (snd (reactive_ioctl react fd q w))) = signals (snd (device_ioctl fd q (snd w)))"
  by (cases w; cases q) (auto simp: reactive_ioctl_def split: prod.splits)

lemma usbdevfs_ok_reactive [simp]: "usbdevfs_ok (reactive_env react)"
  using usbdevfs_ok_device by (simp add: usbdevfs_ok_def)

lemma usbdevfs_live_reactive [simp]: "usbdevfs_live (reactive_env react)"
  unfolding usbdevfs_live_def reactive_env_simps
proof (intro exI [where x = "\<lambda>w. signals (snd w)"] allI impI)
  fix fd q and w :: "'a \<times> device"
  assume "interrupted (fst (reactive_ioctl react fd q w))"
  then show "signals (snd (snd (reactive_ioctl react fd q w))) < signals (snd w)"
    unfolding signals_reactive_ioctl
    by (cases q) (auto simp: interrupted_def success_def failure_def Let_def
        split: list.splits option.splits if_splits)
qed

section \<open>Bulk transfers\<close>

lemma ioctl_retry_reactive:
  assumes "q = Submit_urb u \<or> q = Reap_urb u"
  shows "ioctl_retry (reactive_env react) fd q (s, d) =
    Some (Inr (reactive_ioctl react fd q (s, d\<lparr>signals := 0\<rparr>)))"
proof (induction "signals d" arbitrary: d)
  case 0
  then have eq: "d\<lparr>signals := 0\<rparr> = d" by simp
  have quiet: "\<not> interrupted (fst (reactive_ioctl react fd q (s, d)))"
    using 0 device_not_interrupted [of d fd q] by simp
  show ?case
    unfolding eq using quiet
    by (subst ioctl_retry.simps) (auto simp del: fst_reactive_ioctl split: prod.splits)
next
  case (Suc n)
  have stop: "interrupted (failure EINTR)" by (simp add: interrupted_def failure_def)
  have "reactive_ioctl react fd q (s, d) = (failure EINTR, s, d\<lparr>signals := signals d - 1\<rparr>)"
    using Suc(2) assms device_interrupted [OF _ assms, of d fd]
    by (auto simp: reactive_ioctl_def failure_def)
  with Suc stop show ?case by (subst ioctl_retry.simps) simp
qed

text \<open>What a transfer to the device does.\<close>

definition react_to :: "'s machine \<Rightarrow> buf \<Rightarrow> 's \<times> device \<Rightarrow> 's \<times> device" where
  "react_to react b w =
     (case w of (s, d) \<Rightarrow> case react s b of (ps, s') \<Rightarrow>
        (s', d\<lparr>signals := 0, inbox := inbox d @ ps, outbox := outbox d @ [b]\<rparr>))"

lemma reactive_send:
  assumes "\<not> bit ep 7" and "unat len \<le> length data" and "unat len < 2 ^ 31"
  shows "usb_bulk_send (reactive_env react) fd ep data len w =
    Some (Inr ((uint len, data), react_to react (take (unat len) data) w))"
proof -
  have ep: "\<not> bit (ucast (ucast USB_DIR_OUT OR ep) :: u8) 7"
    using assms(1) by (simp add: bit_simps)
  have "sint len = int (unat len)" using sint_eq_uint [OF assms(3)] by simp
  then show ?thesis
    using ep uint_le_length [OF assms(2)]
    by (cases w; cases "react (fst w) (take (unat len) data)")
      (simp add: usb_bulk_send_def usb_bulk_msg_def bnd_def ret_def lift_def react_to_def
        ioctl_retry_reactive reactive_ioctl_def success_def complete_urb_def)
qed

lemma reactive_recv:
  assumes "inbox d = p # ps" and "length p \<le> unat len" and "unat len \<le> length b"
    and "unat len < 2 ^ 31"
  shows "usb_bulk_recv (reactive_env react) fd ep b len (s, d) =
    Some (Inr ((int (length p), overwrite p b), s, d\<lparr>signals := 0, inbox := ps\<rparr>))"
proof -
  have ep: "bit (ucast (ucast USB_DIR_IN OR ep) :: u8) 7" by (simp add: bit_simps)
  have "sint len = int (unat len)" using sint_eq_uint [OF assms(4)] by simp
  then show ?thesis
    using ep assms(1-3) int_le_uint [of "length p" len]
    by (simp add: usb_bulk_recv_def usb_bulk_msg_def bnd_def ret_def lift_def
        ioctl_retry_reactive reactive_ioctl_def success_def complete_urb_fits)
qed

interpretation reactive: packet_transport "usb_ops (reactive_env react)" "\<lambda>w. inbox (snd w)"
    "\<lambda>ps w. (fst w, snd w\<lparr>signals := 0, inbox := ps\<rparr>)" "react_to react" for react
proof
  fix w :: "'a \<times> device" and p ps and b :: buf and fd :: int and ep :: u16
  assume "inbox (snd w) = p # ps" and "length p \<le> 512" and "length b = 512"
  then show "bulk_recv (usb_ops (reactive_env react)) fd ep b 512 w =
      Some (Inr ((int (length p), overwrite p b), fst w, snd w\<lparr>signals := 0, inbox := ps\<rparr>))"
    unfolding usb_ops_simps using reactive_recv [of "snd w" p ps 512 b react fd ep "fst w"] by simp
next
  fix ep :: u16 and len :: u32 and data :: buf and fd :: int and w :: "'a \<times> device"
  assume "\<not> bit ep 7" and "unat len \<le> length data" and "unat len < 2 ^ 31"
  then show "bulk_send (usb_ops (reactive_env react)) fd ep data len w =
      Some (Inr ((uint len, data), react_to react (take (unat len) data) w))"
    unfolding usb_ops_simps by (rule reactive_send)
qed simp_all

end
