(* ===== verification/Adb_Link.thy ===== *)
theory Adb_Link
  imports Adb Reactive
begin

text \<open>
  The exchange of \<^verbatim>\<open>lib/adb/adb.c\<close> with a device that answers each message, over every
  transport that delivers packets: what is sent, how the one or two transfers of the answer are
  collected, and what reaches the caller.
\<close>

section \<open>A well-formed answer\<close>

text \<open>
  The transfers a device answers a request with: a header that announces no data, or a header
  and one transfer of data.
\<close>

definition adb_answer :: "u8 list list \<Rightarrow> bool" where
  "adb_answer rs \<longleftrightarrow>
     (case rs of
        [r] \<Rightarrow> 16 \<le> length r \<and> length r \<le> 512 \<and> load_le32 (known r) 12 = Inr 0
      | [r, r'] \<Rightarrow> 16 \<le> length r \<and> length r \<le> 512 \<and> length r' \<le> 512 \<and>
          load_le32 (known r) 12 \<noteq> Inr 0
      | _ \<Rightarrow> False)"

definition answer_code :: "u8 list list \<Rightarrow> u32" where
  "answer_code rs = le32 (concat rs ! 0) (concat rs ! 1) (concat rs ! 2) (concat rs ! 3)"

lemma adb_answerE:
  assumes "adb_answer rs"
  obtains (header) r where "rs = [r]" "16 \<le> length r" "length r \<le> 512" "load_le32 (known r) 12 = Inr 0"
  | (data) r r' where "rs = [r, r']" "16 \<le> length r" "length r \<le> 512" "length r' \<le> 512"
      "load_le32 (known r) 12 \<noteq> Inr 0"
  using assms by (auto simp: adb_answer_def split: list.splits)

lemma adb_answer_length: "adb_answer rs \<Longrightarrow> length (concat rs) \<le> 1024"
  by (auto simp: adb_answer_def split: list.splits)

lemma adb_answer_nonempty [simp]: "adb_answer rs \<Longrightarrow> rs \<noteq> []"
  by (auto simp: adb_answer_def)

text \<open>What a request reports of an answer.\<close>

definition answer_res :: "u8 list list \<Rightarrow> adb_res" where
  "answer_res rs = \<lparr>res_length = of_nat (length (concat rs)), res_code = answer_code rs\<rparr>"

lemma answer_res_simps [simp]:
  "res_length (answer_res rs) = of_nat (length (concat rs))" "res_code (answer_res rs) = answer_code rs"
  by (simp_all add: answer_res_def)

text \<open>The transfers of a message.\<close>

definition sent_transfers :: "adb_message \<Rightarrow> u8 list \<Rightarrow> buf list" where
  "sent_transfers msg p =
     known (header_bytes (header msg)) # (if p = [] then [] else [known p])"

definition message_transfers :: "u32 \<Rightarrow> u32 \<Rightarrow> u32 \<Rightarrow> u8 list \<Rightarrow> buf list" where
  "message_transfers c a0 a1 p =
     known (header_bytes
       \<lparr>command = c, arg0 = a0, arg1 = a1, data_length = of_nat (length p),
        data_crc32 = sum_list (map ucast p), magic = NOT c\<rparr>) #
     (if p = [] then [] else [known p])"

lemma lift_Inr_apply: "c = Inr a \<Longrightarrow> lift c w = Some (Inr (a, w))"
  by (simp add: ret_def)

lemma c_string_known: "c_string s = known s @ [Some 0]"
  by (simp add: c_string_def known_def)

lemma adb_copy_response_answer:
  assumes "\<And>b. data = Some b \<Longrightarrow> unat len \<le> length b" and "length (concat rs) \<le> 2048"
  shows "adb_copy_response data len (0, overwrite (concat rs) (uninit 2048), Some (answer_res rs)) w =
    Some (Inr ((0, map_option (overwrite (take (unat len) (concat rs))) data, Some (answer_res rs)), w))"
proof (cases data)
  case None
  then show ?thesis by (simp add: adb_copy_response_def ret_def)
next
  case (Some b)
  let ?bs = "concat rs"
  let ?k = "if len < of_nat (length ?bs) then len else of_nat (length ?bs)"
  have k: "unat ?k = min (unat len) (length ?bs)"
    using assms(2) by (simp add: word_less_nat_alt unat_of_nat take_bit_eq_mod min_def del: length_concat)
  have "memcpy b 0 (overwrite ?bs (uninit 2048)) 0 (unat ?k) =
      Inr (overwrite (take (unat len) ?bs) b)"
    unfolding k using assms(1) [OF Some] assms(2)
    by (auto simp: memcpy_def overwrite_def min_def simp del: length_concat)
  with Some show ?thesis
    by (simp add: adb_copy_response_def lift_def ret_def Let_def del: length_concat
        split del: if_split cong: if_cong)
qed

section \<open>Requests over a packet transport\<close>

text \<open>
  The library sends header and payload one after the other and then receives, so an answer is in
  the queue once both are delivered. Memory is available.
\<close>

locale adb_transport = packet_transport "usb_ops E" queue set_queue deliver
  for E :: "'w env" and queue set_queue deliver +
  assumes malloc_succeeds: "sys_malloc E n w = (True, w)"
begin

lemma adb_recv_loop_packets:
  assumes "adb_answer rs" and "queue w = rs @ ps" and "length b = 2048"
  shows "adb_recv_loop (usb_ops E) dev False 0 (uninit 512) b \<lparr>res_length = 0, res_code = 0\<rparr> w =
    Some (Inr ((0, overwrite (concat rs) b, answer_res rs), set_queue ps w))"
  using assms(1)
proof (cases rule: adb_answerE)
  case (header r)
  have "bulk_recv (usb_ops E) (dev_fd dev) (word_of_int (in_endp dev)) (uninit 512) 512 w =
      Some (Inr ((int (length r), overwrite r (uninit 512)), set_queue ps w))"
    by (rule recv_packet) (use header assms(2) in simp_all)
  then show ?thesis
    using header assms(3)
    by (simp add: adb_recv_loop_header lift_Inr_apply ADB_COMMAND_MASK_def
        ADB_DATA_LEN_MASK_def load_le32_fresh load_le32_known memcpy_from_overwrite_front
        answer_code_def answer_res_def ret_def numeral_2_eq_2 del: usb_ops_simps)
next
  case (data r r')
  let ?w = "set_queue (r' # ps) w"
  let ?c = "le32 (r ! 0) (r ! 1) (r ! 2) (r ! 3)"
  have recv: "bulk_recv (usb_ops E) (dev_fd dev) (word_of_int (in_endp dev)) (uninit 512) 512 w =
      Some (Inr ((int (length r), overwrite r (uninit 512)), ?w))"
    by (rule recv_packet) (use data assms(2) in simp_all)
  have recv': "bulk_recv (usb_ops E) (dev_fd dev) (word_of_int (in_endp dev))
      (overwrite r (uninit 512)) 512 ?w =
    Some (Inr ((int (length r'), overwrite r' (overwrite r (uninit 512))), set_queue ps w))"
    using recv_packet [of ?w r' ps] data by (simp add: queue_set_queue set_queue_set_queue del: usb_ops_simps)
  have header: "adb_recv_loop (usb_ops E) dev False 0 (uninit 512) b
      \<lparr>res_length = 0, res_code = 0\<rparr> w =
    adb_recv_loop (usb_ops E) dev True (length r) (overwrite r (uninit 512))
      (overwrite r b) \<lparr>res_length = of_nat (length r), res_code = ?c\<rparr> ?w"
    using data assms(3) recv
    by (simp add: adb_recv_loop_header lift_Inr_apply ADB_COMMAND_MASK_def
        ADB_DATA_LEN_MASK_def load_le32_fresh load_le32_known memcpy_from_overwrite_front
        numeral_2_eq_2 del: usb_ops_simps)
  have "r \<noteq> []" using data by auto
  then show ?thesis
    unfolding header
    using data assms(3) recv'
    by (simp add: adb_recv_loop_payload lift_Inr_apply memcpy_from_overwrite
        overwrite_append answer_code_def answer_res_def nth_append ret_def del: usb_ops_simps)
qed

text \<open>The sending half of \<^verbatim>\<open>__send_request\<close>, whatever the receiving half does.\<close>

lemma adb_send_request_packets:
  assumes ep: "\<not> bit (word_of_int (out_endp dev) :: u16) 7"
    and p: "length p + 24 < 2 ^ 31"
  shows "adb_send_request (usb_ops E) dev (known (header_bytes (header msg) @ p))
      (24 + of_nat (length p)) b res w =
    bnd (adb_recv_loop (usb_ops E) dev False 0 (uninit 512) b \<lparr>res_length = 0, res_code = 0\<rparr>)
      (\<lambda>(r, data, res').
        if r < 0 then ret (-1, data, res)
        else (case res of None \<Rightarrow> halt Null_pointer | Some _ \<Rightarrow> ret (0, data, Some res')))
      (fold deliver (sent_transfers msg p) w)"
proof -
  let ?h = "header_bytes (header msg)"
  let ?w = "deliver (known ?h) w"
  let ?len = "24 + of_nat (length p) :: u32"
  note len = adb_stream_length(2) [OF p]
  have head: "bulk_send (usb_ops E) (dev_fd dev) (word_of_int (out_endp dev)) (known (?h @ p)) 24 w =
      Some (Inr ((24, known (?h @ p)), ?w))"
    using send_packet [OF ep, of 24 "known (?h @ p)" "dev_fd dev" w] by (simp del: usb_ops_simps)
  show ?thesis
  proof (cases "p = []")
    case True
    then show ?thesis
      using head by (simp add: adb_send_request_def sent_transfers_def bnd_def ret_def del: usb_ops_simps)
  next
    case False
    have more: "24 < ?len" using False len by (simp add: word_less_nat_alt)
    have plen: "unat (of_nat (length p) :: u32) = length p"
      by (rule unat_of_nat_u32) (use p in simp)
    have "bulk_send (usb_ops E) (dev_fd dev) (word_of_int (out_endp dev)) (known p) (?len - 24) ?w =
        Some (Inr ((uint (?len - 24), known p), deliver (known p) ?w))"
      using send_packet [OF ep, of "?len - 24" "known p" "dev_fd dev" ?w] p
      by (simp add: plen del: usb_ops_simps)
    then show ?thesis
      using head more False
      by (simp add: adb_send_request_def sent_transfers_def bnd_def ret_def del: usb_ops_simps)
  qed
qed

text \<open>A request, from its two halves.\<close>

lemma adb_handle_request_halves:
  assumes msg: "adb_message_ok msg p"
  shows "adb_handle_request (usb_ops E) E dev msg data len res w =
    bnd (adb_send_request (usb_ops E) dev (known (header_bytes (header msg) @ p))
        (24 + of_nat (length p)) (uninit 2048) res) (adb_copy_response data len) w"
proof -
  from msg have n: "data_length (header msg) = of_nat (length p)" "length p + 24 < 2 ^ 31"
    by (auto simp: adb_message_ok_def adb_valid_def)
  have size: "size_of_int (24 + int (length p)) = 24 + length p"
    using n(2) by (simp add: size_of_int_def)
  show ?thesis
    by (simp add: adb_handle_request_def Let_def n(1) adb_stream_length(1) [OF n(2)] size
        malloc_def malloc_succeeds adb_fill_stream [OF msg] bnd_def lift_def ret_def)
qed

lemma adb_handle_request_packets:
  assumes msg: "adb_message_ok msg p" and rs: "adb_answer rs"
    and queue: "queue (fold deliver (sent_transfers msg p) w) = rs @ ps"
    and ep: "\<not> bit (word_of_int (out_endp dev) :: u16) 7"
    and data: "\<And>b. data = Some b \<Longrightarrow> unat len \<le> length b"
  shows "adb_handle_request (usb_ops E) E dev msg data len (Some res) w =
    Some (Inr ((0, map_option (overwrite (take (unat len) (concat rs))) data, Some (answer_res rs)),
      set_queue ps (fold deliver (sent_transfers msg p) w)))"
proof -
  have n: "length p + 24 < 2 ^ 31" using msg by (auto simp: adb_message_ok_def)
  have short: "length (concat rs) \<le> 2048" using adb_answer_length [OF rs] by simp
  note recv = adb_recv_loop_packets [OF rs queue length_uninit]
  note copy = adb_copy_response_answer [OF data short]
  have "adb_send_request (usb_ops E) dev (known (header_bytes (header msg) @ p))
      (24 + of_nat (length p)) (uninit 2048) (Some res) w =
    Some (Inr ((0, overwrite (concat rs) (uninit 2048), Some (answer_res rs)),
      set_queue ps (fold deliver (sent_transfers msg p) w)))"
    unfolding adb_send_request_packets [OF ep n] using recv by (simp add: bnd_def ret_def)
  then show ?thesis
    unfolding adb_handle_request_halves [OF msg] using copy by (simp add: bnd_def)
qed

text \<open>A request whose message is made by \<open>adb_set_message\<close>, with or without a payload pointer.\<close>

lemma adb_request_packets:
  assumes p: "length p + 24 < 2 ^ 31" and rs: "adb_answer rs"
    and queue: "queue (fold deliver (message_transfers c a0 a1 p) w) = rs @ ps"
    and ep: "\<not> bit (word_of_int (out_endp dev) :: u16) 7"
    and data: "\<And>b. data = Some b \<Longrightarrow> unat len \<le> length b"
  shows "adb_request (usb_ops E) E dev
      (adb_set_message c a0 a1 (of_nat (length p)) (Some (known p @ b))) data len (Some res) w =
    Some (Inr ((0, map_option (overwrite (take (unat len) (concat rs))) data, Some (answer_res rs)),
      set_queue ps (fold deliver (message_transfers c a0 a1 p) w)))"
    and "p = [] \<Longrightarrow> adb_request (usb_ops E) E dev
      (adb_set_message c a0 a1 0 None) data len (Some res) w =
    Some (Inr ((0, map_option (overwrite (take (unat len) (concat rs))) data, Some (answer_res rs)),
      set_queue ps (fold deliver (message_transfers c a0 a1 []) w)))"
proof -
  let ?m = "\<lparr>command = c, arg0 = a0, arg1 = a1, data_length = of_nat (length p),
    data_crc32 = sum_list (map ucast p), magic = NOT c\<rparr>"
  have ok: "adb_message_ok \<lparr>header = ?m, payload = Some (known p @ b)\<rparr> p"
    "p = [] \<Longrightarrow> adb_message_ok \<lparr>header = ?m, payload = None\<rparr> []"
    using p by (auto simp: adb_message_ok_def adb_valid_def)
  have sent: "sent_transfers \<lparr>header = ?m, payload = q\<rparr> p = message_transfers c a0 a1 p" for q
    by (simp add: sent_transfers_def message_transfers_def)
  show "adb_request (usb_ops E) E dev
      (adb_set_message c a0 a1 (of_nat (length p)) (Some (known p @ b))) data len (Some res) w =
    Some (Inr ((0, map_option (overwrite (take (unat len) (concat rs))) data, Some (answer_res rs)),
      set_queue ps (fold deliver (message_transfers c a0 a1 p) w)))"
    using adb_handle_request_packets [OF ok(1) rs _ ep data, of w ps] queue p
    by (simp add: adb_request_def adb_set_message_def checksum_known ADB_MAGIC_def xor_all_ones sent)
  show "adb_request (usb_ops E) E dev
      (adb_set_message c a0 a1 0 None) data len (Some res) w =
    Some (Inr ((0, map_option (overwrite (take (unat len) (concat rs))) data, Some (answer_res rs)),
      set_queue ps (fold deliver (message_transfers c a0 a1 []) w)))" if "p = []"
    using adb_handle_request_packets [OF ok(2) [OF that] rs _ ep data, of w ps] queue that
    by (simp add: adb_request_def adb_set_message_def ADB_MAGIC_def xor_all_ones sent_transfers_def
        message_transfers_def)
qed

end

interpretation adb_sim: adb_transport device_env inbox
    "\<lambda>ps d. d\<lparr>signals := 0, inbox := ps\<rparr>" "\<lambda>b d. d\<lparr>signals := 0, outbox := outbox d @ [b]\<rparr>"
  by unfold_locales simp

interpretation adb_reactive: adb_transport "reactive_env react" "\<lambda>w. inbox (snd w)"
    "\<lambda>ps w. (fst w, snd w\<lparr>signals := 0, inbox := ps\<rparr>)" "react_to react" for react
  by unfold_locales simp

text \<open>Transfers to the simulated device.\<close>

lemma fold_deliver_device:
  "ts \<noteq> [] \<Longrightarrow>
   fold (\<lambda>b d. d\<lparr>signals := 0, outbox := outbox d @ [b]\<rparr>) ts d = d\<lparr>signals := 0, outbox := outbox d @ ts\<rparr>"
proof (induction ts arbitrary: d)
  case (Cons t ts)
  then show ?case by (cases "ts = []") simp_all
qed simp

lemma transfers_nonempty [simp]: "sent_transfers msg p \<noteq> []" "message_transfers c a0 a1 p \<noteq> []"
  by (simp_all add: sent_transfers_def message_transfers_def)

end
