(* ===== verification/Main_Link.thy ===== *)
theory Main_Link
  imports Main_Flow Adb_Link
begin

text \<open>
  The debug bridge session of \<^verbatim>\<open>src/main.c\<close> as an abstract state machine, and what the
  program does over every packet transport whose device answers its messages: its calls follow the
  machine, message by message.
\<close>

section \<open>Reading received bytes\<close>

lemma read_range_known:
  "n \<le> length bs \<Longrightarrow> read_range (known bs @ rest) i n = Inr ()"
proof (induction "n - i" arbitrary: i)
  case 0
  then show ?case by (subst read_range.simps) simp
next
  case (Suc m)
  then have "i < length bs" "i < n" by linarith+
  then show ?case
    using Suc by (subst read_range.simps) simp
qed

lemma read_range_overwrite:
  "n \<le> length bs \<Longrightarrow> read_range (overwrite bs b) i n = Inr ()"
  by (simp add: overwrite_def read_range_known)

lemma read_response_fresh:
  assumes "length bs \<le> 1024"
  shows "read_response r (overwrite bs b) \<lparr>res_length = of_nat (length bs), res_code = c\<rparr> = Inr ()"
proof -
  have "unat (of_nat (length bs) :: u32) = length bs"
    by (rule unat_of_nat_u32) (use assms in simp)
  then show ?thesis by (simp add: read_response_def read_range_overwrite)
qed

lemma c_strlen_unterminated: "0 \<notin> set s \<Longrightarrow> c_strlen (known s) = Inl Out_of_bounds"
  by (induction s) (auto simp: known_def)

lemma c_strlen_known: "0 \<in> set s \<Longrightarrow> \<exists>n. c_strlen (known s) = Inr n"
  by (induction s) (auto simp: known_def)

section \<open>The machine\<close>

text \<open>
  The host connects, presents its key, opens one stream, and acknowledges until the device closes
  the stream. Only the code of two answers matters: the answer to the open message, and each
  answer in the stream.
\<close>

datatype session = Connecting | Authenticating | Opening | Streaming | Finished

datatype session_message = Connect_message | Auth_message | Open_message | Ready_message

inductive session_step :: "session \<Rightarrow> session_message \<Rightarrow> u32 \<Rightarrow> session \<Rightarrow> bool" where
  connected: "session_step Connecting Connect_message c Authenticating"
| authenticated: "session_step Authenticating Auth_message c Opening"
| opened: "c = ADB_COMMAND_A_OKAY \<Longrightarrow> session_step Opening Open_message c Streaming"
| refused: "c \<noteq> ADB_COMMAND_A_OKAY \<Longrightarrow> session_step Opening Open_message c Finished"
| streamed: "c \<noteq> ADB_COMMAND_A_CLSE \<Longrightarrow> session_step Streaming Ready_message c Streaming"
| closed: "c = ADB_COMMAND_A_CLSE \<Longrightarrow> session_step Streaming Ready_message c Finished"

inductive_cases session_stepE [elim!]:
  "session_step Connecting m c s" "session_step Authenticating m c s"
  "session_step Opening m c s" "session_step Streaming m c s" "session_step Finished m c s"

text \<open>The machine is deterministic.\<close>

lemma session_step_deterministic:
  "session_step s m c s1 \<Longrightarrow> session_step s m' c s2 \<Longrightarrow> m = m' \<and> s1 = s2"
  by (induction rule: session_step.induct) auto

section \<open>The messages on the bus\<close>

definition host_id :: "u8 list" where
  "host_id = [104, 111, 115, 116, 58, 58]"

definition framebuffer_service :: "u8 list" where
  "framebuffer_service = [102, 114, 97, 109, 101, 98, 117, 102, 102, 101, 114, 58, 32]"

fun session_transfers :: "session_message \<Rightarrow> buf list" where
  "session_transfers Connect_message = message_transfers 0x4e584e43 0x01000000 0x1000 host_id"
| "session_transfers Auth_message = message_transfers 0x48545541 3 0 rsakey_ex"
| "session_transfers Open_message = message_transfers 0x4e45504f 4 0 framebuffer_service"
| "session_transfers Ready_message = message_transfers 0x59414b4f 4 3 []"

lemma main_connect_request:
  "adb_connect B E dev v m (c_string [104, 111, 115, 116, 58, 58]) data len res =
    adb_request B E dev (adb_set_message 0x4e584e43 v m (of_nat (length host_id))
      (Some (known host_id @ [Some 0]))) data len res"
  by (simp add: adb_connect_def host_id_def c_string_def known_def)

text \<open>An answered message: what it does to the world of a packet transport.\<close>

definition answered ::
    "('w \<Rightarrow> u8 list list) \<Rightarrow> (u8 list list \<Rightarrow> 'w \<Rightarrow> 'w) \<Rightarrow> (buf \<Rightarrow> 'w \<Rightarrow> 'w) \<Rightarrow>
     'w \<Rightarrow> session_message \<Rightarrow> u8 list list \<Rightarrow> 'w \<Rightarrow> bool" where
  "answered queue set_queue deliver w m rs w' \<longleftrightarrow>
     adb_answer rs \<and>
     (\<exists>ps. queue (fold deliver (session_transfers m) w) = rs @ ps \<and>
        w' = set_queue ps (fold deliver (session_transfers m) w))"

text \<open>The machine together with the world that answers it.\<close>

inductive session_talk ::
    "('w \<Rightarrow> session_message \<Rightarrow> u8 list list \<Rightarrow> 'w \<Rightarrow> bool) \<Rightarrow> session \<Rightarrow> 'w \<Rightarrow> session \<Rightarrow> 'w \<Rightarrow> bool"
  for X where
  silence: "session_talk X s w s w"
| exchange: "session_step s m (answer_code rs) s' \<Longrightarrow> X w m rs w' \<Longrightarrow> session_talk X s' w' s'' w'' \<Longrightarrow>
    session_talk X s w s'' w''"

inductive_cases session_talk_FinishedE [elim!]: "session_talk X Finished w s w'"
inductive_cases session_talk_AuthenticatingE: "session_talk X Authenticating w Finished w'"
inductive_cases session_talk_OpeningE: "session_talk X Opening w Finished w'"

section \<open>The program follows the machine\<close>

lemma read_response_answer:
  "adb_answer rs \<Longrightarrow> read_response r (overwrite (concat rs) b) (answer_res rs) = Inr ()"
  unfolding answer_res_def by (intro read_response_fresh adb_answer_length)

lemma take_answer [simp]: "adb_answer rs \<Longrightarrow> take 2048 (concat rs) = concat rs"
  using adb_answer_length [of rs] by simp

lemma main_out_endp: "\<not> bit (word_of_int (out_endp (main_dev fd)) :: u16) 7"
  by (simp add: main_dev_def)

context adb_transport
begin

lemma main_request_answered:
  assumes "session_transfers m = message_transfers c a0 a1 p"
    and "answered queue set_queue deliver w m rs w'" and "length p + 24 < 2 ^ 31"
    and "length buff = 2048"
  shows "adb_request (usb_ops E) E (main_dev fd)
      (adb_set_message c a0 a1 (of_nat (length p)) (Some (known p @ b))) (Some buff) 2048 (Some res) w =
    Some (Inr ((0, Some (overwrite (concat rs) buff), Some (answer_res rs)), w'))"
proof -
  obtain ps where rs: "adb_answer rs" "queue (fold deliver (message_transfers c a0 a1 p) w) = rs @ ps"
    and w': "w' = set_queue ps (fold deliver (message_transfers c a0 a1 p) w)"
    using assms(1,2) by (auto simp: answered_def)
  show ?thesis
    using adb_request_packets(1) [OF assms(3) rs main_out_endp [of fd], where data = "Some buff" and len = 2048
        and b = b and res = res] assms(4) w' rs(1)
    by (simp del: length_concat)
qed

lemma ready_answered:
  assumes "answered queue set_queue deliver w Ready_message rs w'" and "length buff = 2048"
  shows "adb_ready (usb_ops E) E (main_dev fd) 4 3 (Some buff) 2048 (Some res) w =
    Some (Inr ((0, Some (overwrite (concat rs) buff), Some (answer_res rs)), w'))"
  using main_request_answered [OF session_transfers.simps(4) assms(1) _ assms(2), where b = "[Some 0]"]
  by (simp add: adb_ready_def c_string_known)

lemma auth_answered:
  assumes "answered queue set_queue deliver w Auth_message rs w'" and "length buff = 2048"
  shows "adb_auth (usb_ops E) E (main_dev fd) 3 (Some (known rsakey_ex)) 524 (Some buff) 2048 (Some res) w =
    Some (Inr ((0, Some (overwrite (concat rs) buff), Some (answer_res rs)), w'))"
proof -
  have "length rsakey_ex = 524" by (simp add: rsakey_ex_def)
  then show ?thesis
    using main_request_answered [OF session_transfers.simps(2) assms(1) _ assms(2), where b = "[]"]
    by (simp add: adb_auth_def)
qed

lemma open_answered:
  assumes "answered queue set_queue deliver w Open_message rs w'" and "length buff = 2048"
  shows "adb_open (usb_ops E) E (main_dev fd) 4 (c_string framebuffer_service)
      (Some buff) 2048 (Some res) w =
    Some (Inr ((0, Some (overwrite (concat rs) buff), Some (answer_res rs)), w'))"
proof -
  have "c_strlen (known framebuffer_service @ [Some 0]) = Inr (length framebuffer_service)"
    by (rule c_strlen_append) (simp add: framebuffer_service_def)
  moreover have "length framebuffer_service = 13" by (simp add: framebuffer_service_def)
  ultimately show ?thesis
    using main_request_answered [OF session_transfers.simps(3) assms(1) _ assms(2), where b = "[Some 0]"]
    by (simp add: adb_open_def c_string_known)
qed

text \<open>The stream loop is the rest of a session from the open stream.\<close>

lemma ready_loop_talks:
  assumes "session_talk (answered queue set_queue deliver) s w s' w'"
  shows "s = Streaming \<Longrightarrow> s' = Finished \<Longrightarrow> length buff = 2048 \<Longrightarrow>
    \<exists>buff' res'. ready_loop E (main_dev fd) buff res w = Some (Inr ((buff', res'), w')) \<and>
      res_code res' = ADB_COMMAND_A_CLSE"
  using assms
proof (induction arbitrary: buff res rule: session_talk.induct)
  case (exchange s m rs s1 w w1 s'' w'')
  have m: "m = Ready_message" using exchange.hyps(1) exchange.prems(1) by auto
  have rs: "adb_answer rs" using exchange.hyps(2) by (simp add: answered_def)
  let ?buff = "overwrite (concat rs) buff"
  have len: "length ?buff = 2048" using adb_answer_length [OF rs] exchange.prems(3) by simp
  have loop: "ready_loop E (main_dev fd) buff res w =
      (if answer_code rs \<noteq> ADB_COMMAND_A_CLSE then ready_loop E (main_dev fd) ?buff (answer_res rs)
       else ret (?buff, answer_res rs)) w1"
    using ready_answered [OF exchange.hyps(2) [unfolded m] exchange.prems(3)] read_response_answer [OF rs]
    by (subst ready_loop.simps) (simp add: with_buffers_def)
  show ?case
  proof (cases "answer_code rs = ADB_COMMAND_A_CLSE")
    case True
    then have "s1 = Finished" using exchange.hyps(1) exchange.prems(1) by auto
    with exchange.hyps(3) have "w'' = w1" by (auto elim: session_stepE)
    with loop True show ?thesis by (simp add: ret_def)
  next
    case False
    then have "s1 = Streaming" using exchange.hyps(1) exchange.prems(1) by auto
    from exchange.IH [OF this exchange.prems(2) len] loop False show ?thesis by simp
  qed
qed simp

lemma main_stream_talks:
  assumes "session_talk (answered queue set_queue deliver) Authenticating w Finished w'"
    and "length buff = 2048"
  shows "main_stream E (main_dev fd) buff res w = Some (Inr ((), w'))"
proof -
  from assms(1) obtain rs2 w2 where auth: "answered queue set_queue deliver w Auth_message rs2 w2"
    and "session_talk (answered queue set_queue deliver) Opening w2 Finished w'"
    by (auto elim!: session_talk_AuthenticatingE)
  then obtain rs3 w3 where opn: "answered queue set_queue deliver w2 Open_message rs3 w3"
    and rest: "if answer_code rs3 = ADB_COMMAND_A_OKAY
      then session_talk (answered queue set_queue deliver) Streaming w3 Finished w' else w' = w3"
    by (auto elim!: session_talk_OpeningE)
  have rs: "adb_answer rs2" "adb_answer rs3" using auth opn by (simp_all add: answered_def)
  let ?b2 = "overwrite (concat rs2) buff"
  let ?b3 = "overwrite (concat rs3) ?b2"
  have len: "length ?b2 = 2048" "length ?b3 = 2048"
    using adb_answer_length [OF rs(1)] adb_answer_length [OF rs(2)] assms(2) by simp_all
  have loop: "bnd (ready_loop E (main_dev fd) ?b3 (answer_res rs3)) (\<lambda>_. ret ()) w3 = Some (Inr ((), w'))"
    if "answer_code rs3 = ADB_COMMAND_A_OKAY"
    using ready_loop_talks [OF _ refl refl len(2), of w3 w' fd "answer_res rs3"] rest that
    by (auto simp: ret_def)
  show ?thesis
    using auth_answered [OF auth assms(2)] open_answered [OF opn len(1)] loop rest
      read_response_answer [OF rs(1)] read_response_answer [OF rs(2)]
    by (auto simp: main_stream_def with_buffers_def ret_def simp flip: framebuffer_service_def
        simp del: length_concat split: if_splits)
qed

lemma main_connect_answered:
  assumes "answered queue set_queue deliver w Connect_message rs w'" and long: "44 \<le> length (concat rs)"
  shows "main_connect E (main_dev fd) w =
    bnd (lift (c_strlen (known (take 20 (drop 24 (concat rs)))))) (\<lambda>_.
      ret (overwrite (concat rs) (uninit 2048), answer_res rs)) w'"
proof -
  let ?a = "concat rs"
  let ?buff = "overwrite ?a (uninit 2048)"
  let ?token = "take 20 (drop 24 ?a)"
  have rs: "adb_answer rs" using assms(1) by (simp add: answered_def)
  have len: "length ?a \<le> 1024" by (rule adb_answer_length [OF rs])
  have "length host_id = 6" by (simp add: host_id_def)
  then have connect: "adb_request (usb_ops E) E (main_dev fd)
      (adb_set_message 0x4e584e43 0x01000000 0x1000 (of_nat (length host_id))
        (Some (known host_id @ [Some 0]))) (Some (uninit 2048)) 2048
      (Some \<lparr>res_length = 0, res_code = 0\<rparr>) w =
    Some (Inr ((0, Some ?buff, Some (answer_res rs)), w'))"
    by (intro main_request_answered [OF session_transfers.simps(1) assms(1)]) simp_all
  have token: "memcpy (uninit 20) 0 ?buff 24 20 = Inr (known ?token)"
    using long len by (simp add: memcpy_def overwrite_def del: length_concat)
  have header: "read_header ?buff = Inr ()"
    using long len
    by (simp add: read_header_def load_le32_overwrite load_le32_known del: length_concat)
  have "unat (of_nat (length ?a) :: u32) = length ?a"
    by (rule unat_of_nat_u32) (use len in simp)
  then have data: "read_range ?buff 24 (unat (res_length (answer_res rs))) = Inr ()"
    by (simp add: read_range_overwrite del: length_concat)
  have shown: "read_range (known ?token) 0 20 = Inr ()"
    using read_range_known [of 20 ?token "[]" 0] long by (simp del: length_concat)
  show ?thesis
    using connect token header data shown
    by (simp add: main_connect_def main_connect_request Let_def with_buffers_def del: length_concat
        answer_res_simps)
qed

text \<open>The bridge session of the program: a whole run of the machine. Here \<open>k\<close> is the rest of it.\<close>

lemma main_talks:
  assumes "answered queue set_queue deliver w Connect_message rs w1"
    and "44 \<le> length (concat rs)" and "0 \<in> set (take 20 (drop 24 (concat rs)))"
    and "session_talk (answered queue set_queue deliver) Authenticating w1 Finished w'"
  shows "bnd (main_connect E (main_dev fd)) (\<lambda>(buff, res).
      bnd (main_stream E (main_dev fd) buff res) k) w = k () w'"
proof -
  have "adb_answer rs" using assms(1) by (simp add: answered_def)
  then have len: "length (overwrite (concat rs) (uninit 2048)) = 2048"
    using adb_answer_length [of rs] by simp
  obtain n where "c_strlen (known (take 20 (drop 24 (concat rs)))) = Inr n"
    using c_strlen_known [OF assms(3)] by blast
  then have "main_connect E (main_dev fd) w =
      Some (Inr ((overwrite (concat rs) (uninit 2048), answer_res rs), w1))"
    unfolding main_connect_answered [OF assms(1,2)] by (simp add: ret_def)
  then show ?thesis using main_stream_talks [OF assms(4) len] by (simp add: bnd_def)
qed

end

end
