(* ===== verification/Adb_Props.thy ===== *)
theory Adb_Props
  imports Adb_Link
begin

text \<open>
  What a request of \<^verbatim>\<open>lib/adb\<close> does: safety over every kernel that keeps the usbdevfs
  contract, and the exact exchange with the simulated device.
\<close>

section \<open>An exchange with the simulated device\<close>

lemma device_recv_512:
  assumes "inbox d = p # ps" and "length p \<le> 512" and "length b = 512"
  shows "usb_bulk_recv device_env fd ep b 512 d =
    Some (Inr ((int (length p), overwrite p b), d\<lparr>signals := 0, inbox := ps\<rparr>))"
  using assms by (intro device_recv) simp_all

lemmas adb_send_request_sent = adb_sim.adb_send_request_packets [unfolded fold_deliver_device [OF transfers_nonempty(1)]]

text \<open>A device that sends nothing, or a response too short to hold the announced length.\<close>

lemma adb_recv_loop_silent:
  assumes "inbox d = []"
  shows "adb_recv_loop (usb_ops device_env) dev False 0 (uninit 512) b res d =
    Some (Inr ((-1, b, res), d\<lparr>signals := 0\<rparr>))"
  using device_recv_empty [OF assms, of 512 "dev_fd dev" "word_of_int (in_endp dev)" "uninit 512"]
  by (simp add: adb_recv_loop.simps [of _ _ False] bnd_def ret_def)

lemma load_le32_short:
  assumes "length xs \<le> n" and "n + 4 \<le> m"
  shows "load_le32 (overwrite xs (uninit m)) n = Inl Uninitialised"
proof -
  have "overwrite xs (uninit m) = known xs @ uninit (m - length xs)"
    using assms by (simp add: overwrite_def uninit_def)
  moreover have "load8 (known xs @ uninit (m - length xs)) n = Inl Uninitialised"
    using assms by (auto simp: load8_def nth_append uninit_def)
  ultimately show ?thesis by (simp add: load_le32_def)
qed

lemma adb_recv_loop_short:
  assumes "inbox d = r # ps" and "4 \<le> length r" "length r \<le> 12" and "length b = 2048"
  shows "adb_recv_loop (usb_ops device_env) dev False 0 (uninit 512) b res d =
    Some (Inl Uninitialised)"
proof -
  have "length r \<le> 512" using assms by simp
  from device_recv_512 [OF assms(1) this, of "uninit 512"] show ?thesis
    using assms load_le32_short [of r 12 512] load_le32_known [of 0 r]
    by (simp add: adb_recv_loop_header bnd_def ADB_COMMAND_MASK_def ADB_DATA_LEN_MASK_def
        load_le32_fresh memcpy_from_overwrite_front ret_def halt_def lift_def)
qed

text \<open>
  The effect of a whole operation: one header and at most one payload transfer are sent, the
  answer is consumed, reported and cut to the caller's buffer.
\<close>

definition adb_exchange ::
    "u32 \<Rightarrow> u32 \<Rightarrow> u32 \<Rightarrow> u8 list \<Rightarrow> u8 list list \<Rightarrow> u8 list list \<Rightarrow> buf option \<Rightarrow> u32 \<Rightarrow> device \<Rightarrow>
     ((int \<times> buf option \<times> adb_res option) \<times> device) checked option" where
  "adb_exchange c a0 a1 p rs ps data len d =
     Some (Inr
       ((0, map_option (overwrite (take (unat len) (concat rs))) data,
         Some \<lparr>res_length = of_nat (length (concat rs)), res_code = answer_code rs\<rparr>),
        d\<lparr>signals := 0, inbox := ps, outbox := outbox d @ message_transfers c a0 a1 p\<rparr>))"

lemma adb_handle_request_device:
  assumes "adb_message_ok msg p" and "adb_answer rs" and "inbox d = rs @ ps"
    and "\<not> bit (word_of_int (out_endp dev) :: u16) 7"
    and "\<And>b. data = Some b \<Longrightarrow> unat len \<le> length b"
  shows "adb_handle_request (usb_ops device_env) device_env dev msg data len (Some res) d =
    Some (Inr ((0, map_option (overwrite (take (unat len) (concat rs))) data,
        Some \<lparr>res_length = of_nat (length (concat rs)), res_code = answer_code rs\<rparr>),
      d\<lparr>signals := 0, inbox := ps, outbox := outbox d @ sent_transfers msg p\<rparr>))"
  using adb_sim.adb_handle_request_packets [OF assms(1,2) _ assms(4,5), of d ps] assms(3)
  by (simp add: fold_deliver_device answer_res_def del: length_concat)

lemma adb_request_device:
  assumes "length p + 24 < 2 ^ 31" and "adb_answer rs" and "inbox d = rs @ ps"
    and "\<not> bit (word_of_int (out_endp dev) :: u16) 7"
    and "\<And>b. data = Some b \<Longrightarrow> unat len \<le> length b"
  shows "adb_request (usb_ops device_env) device_env dev
      (adb_set_message c a0 a1 (of_nat (length p)) (Some (known p @ b))) data len (Some res) d =
    adb_exchange c a0 a1 p rs ps data len d"
    and "p = [] \<Longrightarrow> adb_request (usb_ops device_env) device_env dev
      (adb_set_message c a0 a1 0 None) data len (Some res) d =
    adb_exchange c a0 a1 [] rs ps data len d"
  using adb_sim.adb_request_packets [OF assms(1,2) _ assms(4,5), where w = d and c = c and ?a0.0 = a0 and ?a1.0 = a1 and ps = ps] assms(3)
  by (simp_all add: fold_deliver_device adb_exchange_def answer_res_def del: length_concat)

section \<open>Properties\<close>

text \<open>
  C6: the stream of a message parses back to its header and payload. The header satisfies the
  protocol's checks (the magic is the complement of the command, the length and the byte sum are
  those of the payload) and carries the command and the arguments given.
\<close>

theorem adb_stream_roundtrip:
  assumes "length p + 24 < 2 ^ 31"
  shows "\<exists>msg s m. adb_set_message c a0 a1 (of_nat (length p)) (Some (known p @ b)) = Inr msg \<and>
    adb_fill_stream msg (uninit (24 + length p)) = Inr s \<and>
    parse_header s = Inr m \<and> drop 24 s = known p \<and> adb_valid m p \<and>
    command m = c \<and> arg0 m = a0 \<and> arg1 m = a1"
proof -
  from assms obtain m where m: "adb_set_message c a0 a1 (of_nat (length p)) (Some (known p @ b)) =
      Inr \<lparr>header = m, payload = Some (known p @ b)\<rparr>"
    "adb_valid m p" "command m = c" "arg0 m = a0" "arg1 m = a1"
    using adb_set_message_valid [of p c a0 a1 b] by auto
  let ?msg = "\<lparr>header = m, payload = Some (known p @ b)\<rparr>"
  have "adb_message_ok ?msg p" using m(2) assms by (auto simp: adb_message_ok_def)
  then have "adb_fill_stream ?msg (uninit (24 + length p)) = Inr (known (header_bytes m @ p))"
    by (simp add: adb_fill_stream)
  with m parse_header_bytes [of m "known p"] show ?thesis by auto
qed

theorem adb_stream_roundtrip_witness:
  "\<exists>msg s m. adb_set_message 0x4e45504f 4 0 2 (Some (known [0x61, 0x62])) = Inr msg \<and>
    adb_fill_stream msg (uninit 26) = Inr s \<and>
    parse_header s = Inr m \<and> drop 24 s = known [0x61, 0x62] \<and> adb_valid m [0x61, 0x62] \<and>
    command m = 0x4e45504f \<and> arg0 m = 4 \<and> arg1 m = 0"
  using adb_stream_roundtrip [of "[0x61, 0x62]" "0x4e45504f" 4 0 "[]"] by simp

text \<open>
  C5: whatever a kernel that keeps the usbdevfs contract answers, a request with a well-formed
  message never accesses memory out of bounds or through a null pointer. It can stop only by
  using indeterminate bytes of a short response; otherwise it fails with the caller's memory
  unchanged, or delivers between 16 and 1024 received bytes, cut to the caller's buffer, with the
  command read from them. It returns whenever calls are not interrupted for ever.
\<close>

theorem adb_request_safe:
  assumes "usbdevfs_ok E" and "adb_message_ok msg p"
    and "\<not> bit (word_of_int (out_endp dev) :: u16) 7" and "res \<noteq> None"
    and "\<And>b. data = Some b \<Longrightarrow> unat len \<le> length b"
  shows "runs (\<not> usbdevfs_live E) (\<lambda>s. s = Uninitialised) (\<lambda>r w'. adb_delivered data len res r)
    (adb_handle_request (usb_ops E) E dev msg data len res) w"
  using assms by (rule usb.adb_handle_request_delivered)

theorem adb_request_safe_witness:
  "runs False (\<lambda>s. s = Uninitialised) (\<lambda>r w'. adb_delivered (Some (uninit 64)) 64 (Some \<lparr>res_length = 0, res_code = 0\<rparr>) r)
    (adb_handle_request (usb_ops device_env) device_env \<lparr>dev_fd = 3, in_endp = 5, out_endp = 3\<rparr>
      \<lparr>header = \<lparr>command = 1, arg0 = 0, arg1 = 0, data_length = 1, data_crc32 = 7, magic = NOT 1\<rparr>,
       payload = Some (known [7])\<rparr> (Some (uninit 64)) 64 (Some \<lparr>res_length = 0, res_code = 0\<rparr>)) idle"
  using adb_request_safe [of device_env
      "\<lparr>header = \<lparr>command = 1, arg0 = 0, arg1 = 0, data_length = 1, data_crc32 = 7, magic = NOT 1\<rparr>,
       payload = Some (known [7])\<rparr>" "[7]" "\<lparr>dev_fd = 3, in_endp = 5, out_endp = 3\<rparr>" "Some \<lparr>res_length = 0, res_code = 0\<rparr>"
      "Some (uninit 64)" 64 idle]
  by (simp add: adb_message_ok_def adb_valid_def)

text \<open>
  C2: each of the seven operations sends exactly the message the protocol names, as a header and
  at most one payload transfer, consumes the device's answer, and reports it. Every operation
  returns 0.
\<close>

theorem adb_operations_exchange:
  assumes s: "0 \<notin> set s" "length s + 24 < 2 ^ 31"
    and rs: "adb_answer rs" "inbox d = rs @ ps"
    and ep: "\<not> bit (word_of_int (out_endp dev) :: u16) 7"
    and data: "\<And>b. data = Some b \<Longrightarrow> unat len \<le> length b"
  shows "adb_connect (usb_ops device_env) device_env dev x y (c_string s) data len (Some res) d =
      adb_exchange 0x4e584e43 x y s rs ps data len d \<and>
    adb_stls (usb_ops device_env) device_env dev x y data len (Some res) d =
      adb_exchange 0x534C5453 x y [] rs ps data len d \<and>
    adb_auth (usb_ops device_env) device_env dev x (Some (known s @ b)) (of_nat (length s))
        data len (Some res) d =
      adb_exchange 0x48545541 x 0 s rs ps data len d \<and>
    adb_open (usb_ops device_env) device_env dev x (c_string s) data len (Some res) d =
      adb_exchange 0x4e45504f x 0 s rs ps data len d \<and>
    adb_ready (usb_ops device_env) device_env dev x y data len (Some res) d =
      adb_exchange 0x59414b4f x y [] rs ps data len d \<and>
    adb_write (usb_ops device_env) device_env dev x y (c_string s) data len (Some res) d =
      adb_exchange 0x45545257 x y s rs ps data len d \<and>
    adb_close (usb_ops device_env) device_env dev x y data len (Some res) d =
      adb_exchange 0x45534c43 x y [] rs ps data len d"
proof -
  have payload: "adb_request (usb_ops device_env) device_env dev
      (adb_set_message c a0 a1 (of_nat (length s)) (Some (known s @ b))) data len (Some res) d =
    adb_exchange c a0 a1 s rs ps data len d" for c a0 a1 b
    by (rule adb_request_device(1) [OF s(2) rs ep data])
  have empty: "adb_request (usb_ops device_env) device_env dev
      (adb_set_message c a0 a1 0 (Some (c_string []))) data len (Some res) d =
    adb_exchange c a0 a1 [] rs ps data len d" for c a0 a1
    using adb_request_device(1) [of "[]", OF _ rs ep data, where b = "[Some 0]"]
    by (simp add: c_string_known)
  have null: "adb_request (usb_ops device_env) device_env dev
      (adb_set_message c a0 a1 0 None) data len (Some res) d =
    adb_exchange c a0 a1 [] rs ps data len d" for c a0 a1
    using adb_request_device(2) [of "[]", OF _ rs ep data] by simp
  have "c_strlen (known s @ [Some 0]) = Inr (length s)"
    using c_strlen_append [OF s(1)] by simp
  then show ?thesis
    by (simp add: adb_connect_def adb_stls_def adb_auth_def adb_open_def adb_ready_def
        adb_write_def adb_close_def c_string_known [of s] payload empty null)
qed

definition okay_packet :: "u8 list" where
  "okay_packet = header_bytes
     \<lparr>command = 0x59414b4f, arg0 = 9, arg1 = 4, data_length = 0, data_crc32 = 0,
      magic = NOT 0x59414b4f\<rparr>"

theorem adb_operations_exchange_witness:
  "adb_open (usb_ops device_env) device_env \<lparr>dev_fd = 3, in_endp = 5, out_endp = 3\<rparr> 4
      (c_string [0x61]) (Some (uninit 24)) 24 (Some \<lparr>res_length = 0, res_code = 0\<rparr>) (idle\<lparr>inbox := [okay_packet]\<rparr>) =
    adb_exchange 0x4e45504f 4 0 [0x61] [okay_packet] [] (Some (uninit 24)) 24
      (idle\<lparr>inbox := [okay_packet]\<rparr>)"
proof -
  have "load_le32 (known okay_packet) 12 = Inr 0"
    by (simp add: okay_packet_def header_bytes_def enc32_def known_def load_le32_def le32_def)
  then have "adb_answer [okay_packet]"
    by (simp add: adb_answer_def okay_packet_def)
  then show ?thesis
    using adb_operations_exchange [of "[0x61]" "[okay_packet]" "idle\<lparr>inbox := [okay_packet]\<rparr>" "[]"
        "\<lparr>dev_fd = 3, in_endp = 5, out_endp = 3\<rparr>" "Some (uninit 24)" 24 4 _
        "\<lparr>res_length = 0, res_code = 0\<rparr>"]
    by simp
qed

lemma adb_handle_request_silent:
  assumes "adb_message_ok msg p" and "inbox d = []"
    and "\<not> bit (word_of_int (out_endp dev) :: u16) 7"
  shows "adb_handle_request (usb_ops device_env) device_env dev msg data len res d =
    Some (Inr ((-1, data, res), d\<lparr>signals := 0, outbox := outbox d @ sent_transfers msg p\<rparr>))"
proof -
  have n: "length p + 24 < 2 ^ 31" using assms(1) by (auto simp: adb_message_ok_def)
  show ?thesis
    using adb_recv_loop_silent [of "d\<lparr>signals := 0, outbox := outbox d @ sent_transfers msg p\<rparr>"
        dev "uninit 2048" "\<lparr>res_length = 0, res_code = 0\<rparr>"] assms(2)
    unfolding adb_sim.adb_handle_request_halves [OF assms(1)]
    by (simp add: bnd_def adb_send_request_sent [OF assms(3) n, unfolded known_append] ret_def
        adb_copy_response_def split: option.splits)
qed

text \<open>
  A first transfer of 4 to 12 bytes is not rejected: the length field is read from bytes of
  the receive buffer that nothing has written.
\<close>

lemma adb_short_answer_uninitialised:
  assumes "adb_message_ok msg p" and "inbox d = r # ps" and "4 \<le> length r" "length r \<le> 12"
    and "\<not> bit (word_of_int (out_endp dev) :: u16) 7"
  shows "adb_handle_request (usb_ops device_env) device_env dev msg data len res d =
    Some (Inl Uninitialised)"
proof -
  have n: "length p + 24 < 2 ^ 31" using assms(1) by (auto simp: adb_message_ok_def)
  show ?thesis
    using adb_recv_loop_short [of "d\<lparr>signals := 0, outbox := outbox d @ sent_transfers msg p\<rparr>"
        r ps "uninit 2048" dev "\<lparr>res_length = 0, res_code = 0\<rparr>"] assms(2-4)
    unfolding adb_sim.adb_handle_request_halves [OF assms(1)]
    by (simp add: bnd_def adb_send_request_sent [OF assms(5) n, unfolded known_append])
qed

lemma adb_short_answer_uninitialised_example:
  "adb_handle_request (usb_ops device_env) device_env \<lparr>dev_fd = 3, in_endp = 5, out_endp = 3\<rparr>
      \<lparr>header = \<lparr>command = 1, arg0 = 0, arg1 = 0, data_length = 0, data_crc32 = 0, magic = NOT 1\<rparr>,
       payload = None\<rparr> (Some (uninit 64)) 64 None (idle\<lparr>inbox := [[1, 2, 3, 4]]\<rparr>) =
    Some (Inl Uninitialised)"
  using adb_short_answer_uninitialised [of
      "\<lparr>header = \<lparr>command = 1, arg0 = 0, arg1 = 0, data_length = 0, data_crc32 = 0, magic = NOT 1\<rparr>,
        payload = None\<rparr>" "[]" "idle\<lparr>inbox := [[1, 2, 3, 4]]\<rparr>" "[1, 2, 3, 4]" "[]"
      "\<lparr>dev_fd = 3, in_endp = 5, out_endp = 3\<rparr>" "Some (uninit 64)" 64 None]
  by (simp add: adb_message_ok_def adb_valid_def)


text \<open>
  C29: a payload is read as one transfer of at most 512 bytes, whatever the header announces. The
  rest of a longer payload stays in the pipe: the request reports success with the first part,
  and the next request takes the rest for its own answer, with its command read from the middle
  of the old payload.
\<close>

theorem adb_long_payload_desynchronises:
  assumes msg: "adb_message_ok msg p" and ep: "\<not> bit (word_of_int (out_endp dev) :: u16) 7"
    and h: "16 \<le> length h" "length h \<le> 512" "load_le32 (known h) 12 = Inr n"
    and payload: "length q = 512" "512 < unat n" "adb_answer (q' # rs)"
    and d: "inbox d = h # q # (q' # rs) @ ps"
  shows "\<exists>d'. adb_handle_request (usb_ops device_env) device_env dev msg None 0 (Some res) d =
      Some (Inr ((0, None, Some \<lparr>res_length = of_nat (length h + 512), res_code = answer_code [h]\<rparr>), d')) \<and>
    (\<exists>d''. adb_handle_request (usb_ops device_env) device_env dev msg None 0 (Some res) d' =
      Some (Inr ((0, None, Some \<lparr>res_length = of_nat (length (concat (q' # rs))),
        res_code = answer_code (q' # rs)\<rparr>), d'')) \<and> inbox d'' = ps)"
proof -
  have "n \<noteq> 0" using payload(2) by auto
  then have "adb_answer [h, q]" using h payload(1) by (simp add: adb_answer_def)
  note first = adb_handle_request_device [OF msg this _ ep, of d "(q' # rs) @ ps" None 0 res]
  have "h \<noteq> []" using h(1) by auto
  then have "answer_code [h, q] = answer_code [h]"
    using h(1) by (simp add: answer_code_def nth_append)
  then show ?thesis
    using first adb_handle_request_device [OF msg payload(3) _ ep, where data = None and len = 0]
      d payload(1) by simp
qed

theorem adb_long_payload_desynchronises_witness:
  "\<exists>d'. adb_handle_request (usb_ops device_env) device_env \<lparr>dev_fd = 3, in_endp = 5, out_endp = 3\<rparr>
      \<lparr>header = \<lparr>command = 1, arg0 = 0, arg1 = 0, data_length = 0, data_crc32 = 0, magic = NOT 1\<rparr>,
       payload = None\<rparr> None 0 (Some \<lparr>res_length = 0, res_code = 0\<rparr>)
      (idle\<lparr>inbox := [replicate 12 0 @ enc32 536, replicate 512 7, okay_packet]\<rparr>) =
    Some (Inr ((0, None, Some \<lparr>res_length = 528, res_code = 0\<rparr>), d'))"
proof -
  have code: "answer_code [replicate 12 0 @ enc32 536] = 0"
    by (simp add: answer_code_def numeral_eq_Suc le32_def)
  have load: "load_le32 (known (replicate 12 0 @ enc32 536)) 12 = Inr 536"
    using load_le32_skip [of "replicate 12 0" "known (enc32 536)" 0] load_le32_enc32 [of 536 "[]"]
    by simp
  have okay: "adb_answer [okay_packet]"
    by (simp add: adb_answer_def okay_packet_def header_bytes_def enc32_def load_le32_def le32_def)
  have msg: "adb_message_ok \<lparr>header = \<lparr>command = 1, arg0 = 0, arg1 = 0, data_length = 0,
      data_crc32 = 0, magic = NOT 1\<rparr>, payload = None\<rparr> []"
    by (simp add: adb_message_ok_def adb_valid_def)
  show ?thesis
    using adb_long_payload_desynchronises [OF msg _ _ _ load _ _ okay,
        of "\<lparr>dev_fd = 3, in_endp = 5, out_endp = 3\<rparr>" "replicate 512 7"
          "idle\<lparr>inbox := [replicate 12 0 @ enc32 536, replicate 512 7, okay_packet]\<rparr>" "[]"
          "\<lparr>res_length = 0, res_code = 0\<rparr>"] code
    by auto
qed

end
