(* ===== verification/Dump_Props.thy ===== *)
theory Dump_Props
  imports Usb_Dump
begin

text \<open>
  What reading strings and dumping descriptors do: the strings a device encodes are decoded, the
  walk over a configuration visits each descriptor once, and the lengths a device announces are
  trusted.
\<close>

section \<open>Strings\<close>

lemma string_copy_known:
  assumes "p + length xs \<le> length buff"
  shows "string_copy (known (pre @ xs) @ rest) (length pre + length xs) (length pre) buff p =
    Inr (take p buff @ known (filter (\<lambda>x. x \<noteq> 0) xs) @
        drop (p + length (filter (\<lambda>x. x \<noteq> 0) xs)) buff,
      p + length (filter (\<lambda>x. x \<noteq> 0) xs))"
  using assms
proof (induction xs arbitrary: pre buff p)
  case Nil
  then show ?case by (subst string_copy.simps) simp
next
  case (Cons x xs)
  have load: "load8 (known (pre @ x # xs) @ rest) (length pre) = Inr x"
    using load8_known [of "length pre" "pre @ x # xs" rest] by (simp add: nth_append)
  show ?case
  proof (cases "x = 0")
    case True
    have "string_copy (known (pre @ x # xs) @ rest) (length pre + length (x # xs)) (length pre) buff p =
      string_copy (known ((pre @ [x]) @ xs) @ rest) (length (pre @ [x]) + length xs)
        (length (pre @ [x])) buff p"
      using load True by (subst string_copy.simps) simp
    also have "\<dots> = Inr (take p buff @ known (filter (\<lambda>x. x \<noteq> 0) xs) @
        drop (p + length (filter (\<lambda>x. x \<noteq> 0) xs)) buff, p + length (filter (\<lambda>x. x \<noteq> 0) xs))"
      by (rule Cons.IH) (use Cons.prems in simp)
    finally show ?thesis using True by simp
  next
    case False
    have store: "store8 buff p x = Inr (buff[p := Some x])"
      using Cons.prems by (simp add: store8_def)
    have "string_copy (known (pre @ x # xs) @ rest) (length pre + length (x # xs)) (length pre) buff p =
      string_copy (known ((pre @ [x]) @ xs) @ rest) (length (pre @ [x]) + length xs)
        (length (pre @ [x])) (buff[p := Some x]) (Suc p)"
      using load False store by (subst string_copy.simps) simp
    also have "\<dots> = Inr (take (Suc p) (buff[p := Some x]) @ known (filter (\<lambda>x. x \<noteq> 0) xs) @
        drop (Suc p + length (filter (\<lambda>x. x \<noteq> 0) xs)) (buff[p := Some x]),
        Suc p + length (filter (\<lambda>x. x \<noteq> 0) xs))"
      by (rule Cons.IH) (use Cons.prems in simp)
    finally show ?thesis
      using False Cons.prems
      by (simp add: take_Suc_conv_app_nth known_def)
  qed
qed

lemma usb_get_descriptor_device:
  assumes "answers d = a # as" and "descriptor_request_length ty = Some n" and "ty \<noteq> 2"
    and "unat n \<le> length b" and "load8 (overwrite (take (unat n) a) b) 0 = Inr x"
  shows "usb_get_descriptor device_env fd ty i langid b (Some l) d =
    Some (Inr ((0, overwrite (take (unat n) a) b, Some (uint x)),
      d\<lparr>calls := calls d @ [descriptor_request ty i langid n b], answers := as\<rparr>))"
  using assms
  by (simp add: usb_get_descriptor_def Let_def control_device descriptor_request_def
      dev_request_def ret_def)

lemma usb_get_string_descriptor_device:
  assumes "answers d = a # as" and "a \<noteq> []"
  shows "usb_get_descriptor device_env fd 3 i langid (uninit 126) (Some 0) d =
    Some (Inr ((0, overwrite (take 126 a) (uninit 126), Some (uint (a ! 0))),
      d\<lparr>calls := calls d @ [descriptor_request 3 i langid 126 (uninit 126)], answers := as\<rparr>))"
proof -
  have "load8 (overwrite (take 126 a) (uninit 126)) 0 = Inr (a ! 0)"
    using assms(2) by (simp add: load8_overwrite)
  then show ?thesis
    using usb_get_descriptor_device [OF assms(1), of 3 126 "uninit 126" "a ! 0" fd i langid 0]
    by (simp add: descriptor_request_length_def)
qed

lemma overwrite_uninit: "length bs \<le> n \<Longrightarrow> overwrite bs (uninit n) = known bs @ uninit (n - length bs)"
  by (simp add: overwrite_def uninit_def)

text \<open>A string as a device encodes it: a header, then two bytes for each character.\<close>

definition string_descriptor :: "u8 list \<Rightarrow> u8 list" where
  "string_descriptor s = of_nat (2 + 2 * length s) # 3 # concat (map (\<lambda>c. [c, 0]) s)"

lemma length_string_descriptor: "length (string_descriptor s) = 2 + 2 * length s"
proof -
  have "length (concat (map (\<lambda>c. [c, 0]) s)) = 2 * length s" by (induction s) auto
  then show ?thesis by (simp add: string_descriptor_def del: length_concat)
qed

lemma filter_string_descriptor:
  "0 \<notin> set s \<Longrightarrow> filter (\<lambda>x. x \<noteq> 0) (concat (map (\<lambda>c. [c, 0]) s)) = (s :: u8 list)"
  by (induction s) auto

lemma usb_get_string_decodes_device:
  assumes "answers d = string_descriptor s # as" and "0 \<notin> set s" and "length s \<le> 62"
    and "length s * 2 < length buff"
  shows "usb_get_string device_env fd i langid buff d =
    Some (Inr ((0, overwrite (s @ [0]) buff),
      d\<lparr>calls := calls d @ [descriptor_request 3 i langid 126 (uninit 126)], answers := as\<rparr>))"
proof -
  let ?a = "string_descriptor s" and ?xs = "concat (map (\<lambda>c. [c, 0]) s)"
  let ?n = "length s"
  have len: "length ?a = 2 + 2 * ?n" by (rule length_string_descriptor)
  have xs: "length ?xs = 2 * ?n"
    using len by (simp add: string_descriptor_def)
  have "unat (of_nat (2 + 2 * ?n) :: u8) = 2 + 2 * ?n"
    unfolding unat_of_nat using assms(3) by (simp add: take_bit_eq_mod)
  then have first: "unat (?a ! 0) = 2 + 2 * ?n"
    by (simp add: string_descriptor_def)
  have b: "overwrite (take 126 ?a) (uninit 126) = known ([of_nat (2 + 2 * ?n), 3] @ ?xs) @
      uninit (126 - length ?a)"
    using len assms(3) by (simp add: overwrite_uninit) (simp add: string_descriptor_def)
  have "?a \<noteq> []" by (simp add: string_descriptor_def)
  note desc = usb_get_string_descriptor_device [OF assms(1) this, of fd i langid]
  have "string_copy (overwrite (take 126 ?a) (uninit 126)) (2 + 2 * ?n) 2 buff 0 =
      Inr (known s @ drop ?n buff, ?n)"
    unfolding b
    using string_copy_known [of 0 ?xs buff "[of_nat (2 + 2 * ?n), 3]" "uninit (126 - length ?a)"]
      assms(2,4) xs
    by (simp add: filter_string_descriptor numeral_2_eq_2)
  moreover have "store8 (known s @ drop ?n buff) ?n 0 = Inr (overwrite (s @ [0]) buff)"
    using assms(4)
    by (auto simp: store8_def overwrite_def list_update_append known_def
        Cons_nth_drop_Suc [symmetric])
  ultimately show ?thesis
    using desc by (simp add: usb_get_string_def first ret_def)
qed

text \<open>
  C35: a string descriptor with up to 62 characters of one byte each is decoded to exactly these
  characters and a final zero byte, which fit the buffer of the caller.
\<close>

theorem usb_get_string_decodes:
  assumes "answers d = string_descriptor s # as" and "0 \<notin> set s" and "length s \<le> 62"
    and "length s * 2 < length buff"
  shows "usb_get_string device_env fd i langid buff d =
    Some (Inr ((0, overwrite (s @ [0]) buff),
      d\<lparr>calls := calls d @ [descriptor_request 3 i langid 126 (uninit 126)], answers := as\<rparr>))"
  by (rule usb_get_string_decodes_device [OF assms])

theorem usb_get_string_decodes_witness:
  "usb_get_string device_env 3 1 0x0409 (uninit 128) (idle\<lparr>answers := [[6, 3, 72, 0, 105, 0]]\<rparr>) =
    Some (Inr ((0, known [72, 105, 0] @ uninit 125),
      idle\<lparr>calls := [descriptor_request 3 1 0x0409 126 (uninit 126)]\<rparr>))"
proof -
  have "string_descriptor [72, 105] = [6, 3, 72, 0, 105, 0]" by (simp add: string_descriptor_def)
  moreover have "overwrite [72, 105, 0] (uninit 128) = known [72, 105, 0] @ uninit 125"
    by (simp add: overwrite_uninit)
  ultimately show ?thesis
    using usb_get_string_decodes [where d = "idle\<lparr>answers := [[6, 3, 72, 0, 105, 0]]\<rparr>"
        and s = "[72, 105]" and as = "[]" and buff = "uninit 128" and fd = 3 and i = 1]
    by (simp add: idle_def)
qed

lemma string_copy_stops:
  assumes "k < rlen" and "i \<le> k" and "\<And>j. i \<le> j \<Longrightarrow> j < k \<Longrightarrow> \<exists>x. load8 b j = Inr x"
    and "load8 b k = Inl s" and "p + (k - i) \<le> length buff"
  shows "string_copy b rlen i buff p = Inl s"
  using assms
proof (induction "k - i" arbitrary: i buff p)
  case 0
  then show ?case by (subst string_copy.simps) simp
next
  case (Suc m)
  then obtain x where x: "load8 b i = Inr x" by (metis zero_less_Suc zero_less_diff order_refl)
  have "i < k" "i < rlen" using Suc.hyps(2) Suc.prems(1) by linarith+
  then have next_i: "string_copy b rlen (Suc i) buff' p' = Inl s"
    if "p' + (k - Suc i) \<le> length buff'" for buff' p'
    using Suc.hyps(2) Suc.prems that by (intro Suc.hyps(1)) auto
  have "store8 buff p x = Inr (buff[p := Some x])"
    using Suc.prems(5) \<open>i < k\<close> by (simp add: store8_def)
  then show ?case
    using x \<open>i < rlen\<close> \<open>i < k\<close> Suc.prems(5) next_i
    by (subst string_copy.simps) simp
qed

text \<open>
  C36: the length byte of a string descriptor is trusted. One that announces more than the 126
  bytes requested makes the copy loop read beyond the local buffer; one that announces more than
  it delivers makes it read bytes that were never written.
\<close>

theorem usb_get_string_trusts_length:
  assumes "answers d = a # as" and "2 \<le> length a" and "128 \<le> length buff"
    and "min 126 (length a) < unat (a ! 0)"
  shows "usb_get_string device_env fd i langid buff d =
    Some (Inl (if 126 \<le> length a then Out_of_bounds else Uninitialised))"
proof -
  let ?b = "overwrite (take 126 a) (uninit 126)"
  let ?k = "min 126 (length a)"
  let ?s = "if 126 \<le> length a then Out_of_bounds else Uninitialised"
  have load: "load8 ?b j = Inr (a ! j)" if "j < ?k" for j
    using that by (simp add: load8_overwrite)
  have stuck: "load8 ?b ?k = Inl ?s"
    by (cases "length a \<le> 126") (simp_all add: load8_overwrite, simp_all add: load8_def)
  have "string_copy ?b (unat (a ! 0)) 2 buff 0 = Inl ?s"
    by (rule string_copy_stops [where k = ?k])
      (use assms load stuck in auto)
  moreover have "a \<noteq> []" using assms(2) by auto
  note usb_get_string_descriptor_device [OF assms(1) this, of fd i langid]
  ultimately show ?thesis
    by (auto simp: usb_get_string_def halt_def)
qed

theorem usb_get_string_trusts_length_witness:
  "usb_get_string device_env 3 1 0x0409 (uninit 128) (idle\<lparr>answers := [[200, 3]]\<rparr>) =
    Some (Inl Uninitialised)"
  using usb_get_string_trusts_length [where d = "idle\<lparr>answers := [[200, 3]]\<rparr>"
      and a = "[200, 3]" and as = "[]" and buff = "uninit 128"]
  by simp

section \<open>The walk over a configuration\<close>

text \<open>
  The text of one descriptor, from its own bytes, and of a list of them. A descriptor is well
  formed if its first byte is its length and it is long enough for its type.
\<close>

definition describe :: "'w env \<Rightarrow> int \<Rightarrow> u8 list \<Rightarrow> ('w, string) cmd" where
  "describe E fd d =
     (if d ! 1 = 4 then
        bnd (lift (interface_descriptor (known (take 9 d)))) (print_interface_descriptor E fd 0x0409)
      else if d ! 1 = 5 then
        bnd (lift (endpoint_descriptor (known (take 7 d)))) (\<lambda>ued. ret (endpoint_text ued))
      else if d ! 1 = 11 then
        lift (sbind (interface_assoc_descriptor (known (take 8 d)))
          (\<lambda>x. Inr (interface_assoc_text x)))
      else ret '''')"

fun describe_all :: "'w env \<Rightarrow> int \<Rightarrow> u8 list list \<Rightarrow> string \<Rightarrow> ('w, string) cmd" where
  "describe_all E fd [] out = ret out"
| "describe_all E fd (d # ds) out =
     bnd (describe E fd d) (\<lambda>s. describe_all E fd ds (out @ s))"

definition descriptor_ok :: "u8 list \<Rightarrow> bool" where
  "descriptor_ok d \<longleftrightarrow>
     2 \<le> length d \<and> unat (d ! 0) = length d \<and>
     (d ! 1 = 4 \<longrightarrow> 9 \<le> length d) \<and> (d ! 1 = 5 \<longrightarrow> 7 \<le> length d) \<and>
     (d ! 1 = 11 \<longrightarrow> 8 \<le> length d)"

lemma parse_stream_middle:
  "n \<le> length d \<Longrightarrow>
   parse_stream (known (pre @ d @ post) @ rest) (length pre) n = Inr (known (take n d))"
  by (simp add: parse_stream_def memcpy_def)

lemma load8_middle:
  "i < length d \<Longrightarrow> load8 (known (pre @ d @ post) @ rest) (length pre + i) = Inr (d ! i)"
  using load8_known [of "length pre + i" "pre @ d @ post" rest] by (simp add: nth_append)

lemma dump_descriptor_middle:
  assumes "descriptor_ok d"
  shows "dump_descriptor E fd (known (pre @ d @ post) @ rest) (length pre) = describe E fd d"
proof -
  have "load8 (known (pre @ d @ post) @ rest) (length pre + 1) = Inr (d ! 1)"
    by (rule load8_middle) (use assms in \<open>simp add: descriptor_ok_def\<close>)
  then show ?thesis
    using assms
    by (auto simp: dump_descriptor_def describe_def descriptor_ok_def parse_stream_middle
        parse_interface_association_def simp del: known_append)
qed

lemma dump_loop_walk:
  assumes "\<forall>d \<in> set ds. descriptor_ok d" and "length pre + length (concat ds) < 2 ^ 16"
  shows "dump_loop E fd (known (pre @ concat ds) @ rest)
      (of_nat (length pre + length (concat ds))) (of_nat (length pre)) out w =
    describe_all E fd ds out w"
  using assms
proof (induction ds arbitrary: pre out w)
  case Nil
  then show ?case by (subst dump_loop.simps) (simp add: ret_def)
next
  case (Cons d ds)
  let ?b = "known (pre @ concat (d # ds)) @ rest"
  let ?n = "length pre + length (concat (d # ds))"
  have ok: "descriptor_ok d" using Cons.prems(1) by simp
  then have d: "2 \<le> length d" "unat (d ! 0) = length d" by (simp_all add: descriptor_ok_def)
  have n: "unat (of_nat ?n :: u16) = ?n"
    unfolding unat_of_nat by (rule mod_less) (use Cons.prems(2) in simp)
  have off: "unat (of_nat (length pre) :: u16) = length pre"
    unfolding unat_of_nat by (rule mod_less) (use Cons.prems(2) in simp)
  have less: "(of_nat (length pre) :: u16) < of_nat ?n"
    unfolding word_less_nat_alt n off using d(1) by (cases d) simp_all
  have "unat (ucast (d ! 0) :: u16) = length d"
    using d(2) unsigned_less [of "d ! 0", where 'a = nat]
    by (simp add: unsigned_ucast_eq take_bit_nat_eq_self)
  moreover have "(ucast (d ! 0) :: u16) = of_nat (unat (ucast (d ! 0) :: u16))"
    by (simp del: unsigned_ucast_eq)
  ultimately have step: "(of_nat (length pre) :: u16) + ucast (d ! 0) = of_nat (length (pre @ d))"
    by simp
  have first: "load8 ?b (length pre) = Inr (d ! 0)"
    using load8_middle [of 0 d pre "concat ds" rest] d(1) by (cases d) simp_all
  have rest: "dump_loop E fd ?b (of_nat ?n) (of_nat (length (pre @ d))) (out @ s) w' =
      describe_all E fd ds (out @ s) w'" for s w'
    using Cons.IH [of "pre @ d" "out @ s" w'] Cons.prems by (simp add: add.assoc)
  have cont: "(\<lambda>s. dump_loop E fd ?b (of_nat ?n) (of_nat (length (pre @ d))) (out @ s)) =
      (\<lambda>s. describe_all E fd ds (out @ s))"
    by (intro ext) (rule rest)
  have "dump_loop E fd ?b (of_nat ?n) (of_nat (length pre)) out w =
      bnd (dump_descriptor E fd ?b (length pre)) (\<lambda>s.
        dump_loop E fd ?b (of_nat ?n) (of_nat (length (pre @ d))) (out @ s)) w"
    using less off first step by (subst dump_loop.simps) (simp del: of_nat_add length_append)
  also have "\<dots> = describe_all E fd (d # ds) out w"
    unfolding cont
    using dump_descriptor_middle [OF ok, of E fd pre "concat ds" rest]
    by (simp del: known_append)
  finally show ?case .
qed

text \<open>
  C33: over a configuration whose descriptors are well formed and fill the announced length, the
  dump loop ends, visits every descriptor once and in order, and prints each from its own bytes.
\<close>

theorem dump_loop_visits_all:
  assumes "\<forall>d \<in> set ds. descriptor_ok d" and "length cfg = 9"
    and "9 + length (concat ds) < 2 ^ 16"
  shows "dump_loop E fd (known (cfg @ concat ds) @ rest) (of_nat (9 + length (concat ds))) 9 out w =
    describe_all E fd ds out w"
  using dump_loop_walk [OF assms(1), of cfg E fd rest out w] assms(2,3) by simp

theorem dump_loop_visits_all_witness:
  "dump_loop device_env 3 (known ([9, 2, 16, 0, 1, 1, 0, 128, 50] @ [7, 5, 0x81, 2, 0, 2, 0])) 16 9
      '''' idle =
    Some (Inr (endpoint_text \<lparr>ep_bLength = 7, ep_bDescriptorType = 5, bEndpointAddress = 0x81,
      ep_bmAttributes = 2, wMaxPacketSize = 512, bInterval = 0\<rparr>, idle))"
proof -
  let ?ep = "[7, 5, 0x81, 2, 0, 2, 0] :: u8 list"
  have ok: "\<forall>d \<in> set [?ep]. descriptor_ok d"
    by (simp add: descriptor_ok_def)
  have "dump_loop device_env 3 (known ([9, 2, 16, 0, 1, 1, 0, 128, 50] @ concat [?ep]) @ [])
      (of_nat (9 + length (concat [?ep]))) 9 '''' idle = describe_all device_env 3 [?ep] '''' idle"
    by (rule dump_loop_visits_all [OF ok]) simp_all
  moreover have "describe_all device_env 3 [?ep] '''' idle =
    Some (Inr (endpoint_text \<lparr>ep_bLength = 7, ep_bDescriptorType = 5, bEndpointAddress = 0x81,
      ep_bmAttributes = 2, wMaxPacketSize = 512, bInterval = 0\<rparr>, idle))"
    by (simp add: describe_def endpoint_descriptor_def load_le16_def le16_def ret_def)
  ultimately show ?thesis by simp
qed

text \<open>
  C34: a descriptor of another type whose length byte is 0 stops the walk where it is: on every
  kernel, the dump loop then never returns.
\<close>

theorem dump_loop_zero_length_diverges:
  assumes "offset < data_size" and "load8 buff (unat offset) = Inr 0"
    and "load8 buff (unat offset + 1) = Inr dt" and "dt \<notin> {4, 5, 11}"
  shows "dump_loop E fd buff data_size offset out w = None"
proof (rule ccontr)
  let ?P = "\<lambda>E fd buff data_size offset out w r. \<not> (offset < data_size \<and>
    load8 buff (unat offset) = Inr 0 \<and>
    (\<exists>dt. load8 buff (unat offset + 1) = Inr dt \<and> dt \<notin> {4, 5, 11}))"
  assume "dump_loop E fd buff data_size offset out w \<noteq> None"
  then obtain r where r: "dump_loop E fd buff data_size offset out w = Some r" by auto
  have "?P E fd buff data_size offset out w r"
  proof (rule dump_loop.raw_induct [where P = ?P, OF _ r])
    fix f :: "'a env \<Rightarrow> int \<Rightarrow> buf \<Rightarrow> u16 \<Rightarrow> u16 \<Rightarrow> string \<Rightarrow> 'a \<Rightarrow> (string \<times> 'a) checked option"
    fix E fd buff data_size offset out w r
    assume IH: "\<And>E fd buff data_size offset out w r.
        f E fd buff data_size offset out w = Some r \<Longrightarrow> ?P E fd buff data_size offset out w r"
      and step: "(if offset < data_size then
        bnd (dump_descriptor E fd buff (unat offset)) (\<lambda>s.
        bnd (lift (load8 buff (unat offset))) (\<lambda>n.
        f E fd buff data_size (offset + ucast n) (out @ s)))
      else ret out) w = Some r"
    show "?P E fd buff data_size offset out w r"
    proof
      assume *: "offset < data_size \<and> load8 buff (unat offset) = Inr 0 \<and>
        (\<exists>dt. load8 buff (unat offset + 1) = Inr dt \<and> dt \<notin> {4, 5, 11})"
      then have "f E fd buff data_size offset out w = Some r"
        using step by (auto simp: dump_descriptor_def)
      from IH [OF this] * show False by blast
    qed
  qed
  with assms show False by blast
qed

theorem dump_loop_zero_length_diverges_witness:
  "dump_loop device_env 3 (known [9, 2, 11, 0, 0, 1, 0, 128, 50, 0, 0x24]) 11 9 '''' idle = None"
  by (rule dump_loop_zero_length_diverges [where dt = 36]) simp_all

section \<open>The dump of a device\<close>

definition text_of :: "u8 list \<Rightarrow> string" where
  "text_of s = map (\<lambda>c. char_of (unat c)) s"

lemma string_text_device:
  assumes "answers d = string_descriptor s # as" and "0 \<notin> set s" and "length s \<le> 62"
  shows "string_text device_env fd i langid d =
    Some (Inr (text_of s,
      d\<lparr>calls := calls d @ [descriptor_request 3 i langid 126 (uninit 126)], answers := as\<rparr>))"
proof -
  have b: "overwrite (s @ [0]) (uninit 128) = known s @ Some 0 # uninit (127 - length s)"
    using assms(3) by (simp add: overwrite_uninit) (simp add: known_def)
  have "c_strlen (overwrite (s @ [0]) (uninit 128)) = Inr (length s)"
    unfolding b by (rule c_strlen_append [OF assms(2)])
  then have "fmt_s (overwrite (s @ [0]) (uninit 128)) = Inr (text_of s)"
    by (simp add: fmt_s_def b text_of_def known_def)
  moreover have "length s * 2 < length (uninit 128)" using assms(3) by simp
  note usb_get_string_decodes_device [OF assms(1-3) this]
  ultimately show ?thesis
    by (simp add: string_text_def ret_def)
qed

text \<open>
  The dump asks the device for one answer after another; \<open>reaches m d m' as\<close> says that \<open>m\<close> goes on
  as \<open>m'\<close> once the answers before \<open>as\<close> have been used.
\<close>

definition reaches ::
    "(device, 'a) cmd \<Rightarrow> device \<Rightarrow> (device, 'a) cmd \<Rightarrow> u8 list list \<Rightarrow> bool" where
  "reaches m d m' as \<longleftrightarrow> (\<exists>cs. m d = m' (d\<lparr>calls := cs, answers := as\<rparr>))"

lemma reachesI: "m d = Some (Inr (a, d\<lparr>calls := cs, answers := as\<rparr>)) \<Longrightarrow> reaches m d (ret a) as"
  by (auto simp: reaches_def ret_def)

lemma reaches_bnd:
  assumes "reaches m d (ret a) as"
    and "\<And>cs. reaches (k a) (d\<lparr>calls := cs, answers := as\<rparr>) m' as'"
  shows "reaches (bnd m k) d m' as'"
proof -
  from assms(1) obtain cs where "m d = Some (Inr (a, d\<lparr>calls := cs, answers := as\<rparr>))"
    by (auto simp: reaches_def ret_def)
  with assms(2) [of cs] show ?thesis by (auto simp: reaches_def)
qed

lemma reaches_refl: "answers d = as \<Longrightarrow> reaches m d m as"
  unfolding reaches_def by (rule exI [where x = "calls d"]) (auto simp: reaches_def)

lemma reaches_lift: "c = Inr a \<Longrightarrow> reaches (k a) d m' as \<Longrightarrow> reaches (bnd (lift c) k) d m' as"
  by simp

lemma reaches_string:
  assumes "answers d = string_descriptor s # as" and "0 \<notin> set s" and "length s \<le> 62"
  shows "reaches (string_text device_env fd i langid) d (ret (text_of s)) as"
  by (rule reachesI) (rule string_text_device [OF assms])

lemma reaches_descriptor:
  assumes "answers d = a # as" and "descriptor_request_length ty = Some n" and "ty \<noteq> 2"
    and "unat n \<le> length b" and "load8 (overwrite (take (unat n) a) b) 0 = Inr x"
  shows "reaches (usb_get_descriptor device_env fd ty i langid b (Some l)) d
    (ret (0, overwrite (take (unat n) a) b, Some (uint x))) as"
  by (rule reachesI) (rule usb_get_descriptor_device [OF assms])

lemma reaches_config:
  assumes "answers d = hdr # cfg # as" and "length hdr = 9" and "length cfg \<le> 4096"
    and "take 9 cfg = hdr" and "le16 (hdr ! 2) (hdr ! 3) = of_nat (length cfg)"
  shows "reaches (usb_get_descriptor device_env fd 2 i 0 (known (replicate 4096 0)) (Some l)) d
    (ret (0, known cfg @ known (replicate (4096 - length cfg) 0), Some (uint (cfg ! 0)))) as"
proof -
  have n: "unat (of_nat (length cfg) :: u16) = length cfg"
    unfolding unat_of_nat by (rule mod_less) (use assms(3) in simp)
  have cfg: "9 \<le> length cfg" using assms(2,4) by (auto simp: min_def split: if_splits)
  then have "of_nat (length cfg) \<noteq> (0 :: u16)" "cfg \<noteq> []" using n by auto
  moreover have "overwrite cfg (overwrite hdr (known (replicate 4096 0))) =
      known cfg @ known (replicate (4096 - length cfg) 0)"
    using cfg assms(2,3) by (simp add: overwrite_def)
  ultimately show ?thesis
    using usb_get_config_descriptor_device [OF assms(1), of "known (replicate 4096 0)"
        "of_nat (length cfg)" fd i 0 l] n assms(2,3,5)
    by (intro reachesI) simp
qed

text \<open>The configurations of a device with one of them, and its own descriptor with its strings.\<close>

lemma reaches_configs:
  assumes "answers d = hdr # cfg # string_descriptor c # as" and "0 \<notin> set c" and "length c \<le> 62"
    and cfg: "cfg = hdr @ concat ds" "length hdr = 9" "length cfg \<le> 4096"
      "config_descriptor (known hdr) = Inr ucd" "wTotalLength ucd = of_nat (length cfg)"
      "\<forall>x \<in> set ds. descriptor_ok x"
  shows "reaches (dump_configs device_env fd 1 0 out) d
    (describe_all device_env fd ds (out @ config_text ucd (text_of c))) as"
proof -
  let ?b = "known cfg @ known (replicate (4096 - length cfg) 0)"
  have total: "le16 (hdr ! 2) (hdr ! 3) = of_nat (length cfg)"
    using cfg(2,4,5) by (auto simp: config_descriptor_def load_le16_def sbind_eq_Inr)
  have "take 9 cfg = hdr" using cfg(1,2) by simp
  note config = reaches_config [OF assms(1) cfg(2,3) this total]
  have parse: "sbind (parse_stream ?b 0 9) config_descriptor = Inr ucd"
    using cfg(1,2,4) by (simp add: parse_stream_def memcpy_def)
  have walk: "dump_loop device_env fd ?b (wTotalLength ucd) 9 out = describe_all device_env fd ds out" for out
    using dump_loop_walk [OF cfg(6), of hdr device_env fd "known (replicate (4096 - length cfg) 0)" out]
      cfg(1,2,3,5) by (intro ext) simp
  have print: "reaches (bnd (print_config_descriptor device_env fd 0x0409 ucd)
      (\<lambda>s. dump_loop device_env fd ?b (wTotalLength ucd) 9 (out @ s))) d'
      (describe_all device_env fd ds (out @ config_text ucd (text_of c))) as"
    if "answers d' = string_descriptor c # as" for d'
    unfolding print_config_descriptor_def bnd_assoc ret_bnd walk
    by (rule reaches_bnd [OF reaches_string [OF that assms(2,3)]]) (rule reaches_refl, simp)
  show ?thesis
    unfolding One_nat_def dump_configs.simps of_nat_0
    by (rule reaches_bnd [OF config]) (simp add: parse print)
qed

lemma reaches_device_text:
  assumes "answers d = string_descriptor m # string_descriptor p # string_descriptor s # as"
    and "\<forall>t \<in> {m, p, s}. 0 \<notin> set t \<and> length t \<le> 62"
    and "\<And>d'. answers d' = as \<Longrightarrow> reaches (k (device_text udd (text_of m) (text_of p) (text_of s))) d' m' as'"
  shows "reaches (bnd (print_device_descriptor device_env fd 0x0409 udd) k) d m' as'"
  unfolding print_device_descriptor_def bnd_assoc ret_bnd
  by (rule assms(3) | rule reaches_string | rule reaches_bnd | use assms(1,2) in force)+

text \<open>The two descriptors read before anything is printed.\<close>

lemma reaches_dump:
  assumes answers: "answers d = lang # dev # as"
    and dev: "lang \<noteq> []" "length dev = 18" "device_descriptor (known dev) = Inr udd"
    and rest: "\<And>d'. answers d' = as \<Longrightarrow>
      reaches (bnd (print_device_descriptor device_env fd 0x0409 udd)
        (dump_configs device_env fd (unat (bNumConfigurations udd)) 0)) d' m' as'"
  shows "reaches (usb_dump_device device_env fd) d m' as'"
proof -
  let ?zeros = "known (replicate 4096 0)"
  let ?b1 = "overwrite (take 126 lang) ?zeros" and ?b2 = "overwrite dev (overwrite (take 126 lang) ?zeros)"
  have load: "load8 ?b1 0 = Inr (lang ! 0)" "load8 ?b2 0 = Inr (dev ! 0)"
    using dev(1,2) by (simp_all add: load8_overwrite)
  have parse: "sbind (parse_stream ?b2 0 18) device_descriptor = Inr udd"
    using dev(2,3) by (simp add: parse_stream_def memcpy_def overwrite_def)
  have lang: "reaches (usb_get_descriptor device_env fd 3 0 0 ?zeros (Some 0)) d
      (ret (0, ?b1, Some (uint (lang ! 0)))) (dev # as)"
    using reaches_descriptor [OF answers, of 3 126 ?zeros "lang ! 0"] load(1)
    by (simp add: descriptor_request_length_def)
  have device: "reaches (usb_get_descriptor device_env fd 1 0 0 ?b1 (Some 0)) d'
      (ret (0, ?b2, Some (uint (dev ! 0)))) as" if "answers d' = dev # as" for d'
    using reaches_descriptor [OF that, of 1 18 ?b1 "dev ! 0"] load(2) dev(2)
    by (simp add: descriptor_request_length_def)
  show ?thesis
    unfolding usb_dump_device_def
    by (rule reaches_bnd [OF lang], simp, rule reaches_bnd [OF device]) (simp_all add: parse rest)
qed

text \<open>
  C32: a device that answers every request with well-formed descriptors and strings, and has one
  configuration of at most 4096 bytes, is dumped completely: the device with its three strings,
  the configuration with its string, then every descriptor of the configuration in order.
\<close>

theorem usb_dump_device_prints:
  assumes answers: "answers d = lang # dev # string_descriptor m # string_descriptor p #
      string_descriptor s # hdr # cfg # string_descriptor c # as"
    and strings: "\<forall>t \<in> {m, p, s, c}. 0 \<notin> set t \<and> length t \<le> 62"
    and dev: "lang \<noteq> []" "length dev = 18" "device_descriptor (known dev) = Inr udd"
      "bNumConfigurations udd = 1"
    and cfg: "cfg = hdr @ concat ds" "length hdr = 9" "length cfg \<le> 4096"
      "config_descriptor (known hdr) = Inr ucd" "wTotalLength ucd = of_nat (length cfg)"
      "\<forall>x \<in> set ds. descriptor_ok x"
  shows "\<exists>cs. usb_dump_device device_env fd d =
    describe_all device_env fd ds
      (device_text udd (text_of m) (text_of p) (text_of s) @ config_text ucd (text_of c))
      (d\<lparr>calls := cs, answers := as\<rparr>)"
proof -
  let ?text = "device_text udd (text_of m) (text_of p) (text_of s)"
  have "reaches (usb_dump_device device_env fd) d
      (describe_all device_env fd ds (?text @ config_text ucd (text_of c))) as"
  proof (rule reaches_dump [OF answers dev(1-3)], rule reaches_device_text)
    fix d' :: device
    assume "answers d' = hdr # cfg # string_descriptor c # as"
    from reaches_configs [OF this _ _ cfg] show "reaches (dump_configs device_env fd
        (unat (bNumConfigurations udd)) 0 ?text) d'
        (describe_all device_env fd ds (?text @ config_text ucd (text_of c))) as"
      using strings unfolding dev(4) unsigned_1 by blast
  qed (use strings in auto)
  then show ?thesis by (simp add: reaches_def)
qed

theorem usb_dump_device_prints_witness:
  "\<exists>cs. usb_dump_device device_env 3
      (idle\<lparr>answers := [[4, 3, 9, 4],
        [18, 1, 0, 2, 0, 0, 0, 64, 0xD1, 0x18, 0xE1, 0x4E, 0, 1, 1, 2, 3, 1],
        string_descriptor [71], string_descriptor [80], string_descriptor [48],
        [9, 2, 16, 0, 1, 1, 4, 128, 50],
        [9, 2, 16, 0, 1, 1, 4, 128, 50, 7, 5, 0x81, 2, 0, 2, 0], string_descriptor [67]]\<rparr>) =
    describe_all device_env 3 [[7, 5, 0x81, 2, 0, 2, 0]]
      (device_text \<lparr>dev_bLength = 18, dev_bDescriptorType = 1, bcdUSB = 0x200, bDeviceClass = 0,
          bDeviceSubClass = 0, bDeviceProtocol = 0, bMaxPacketSize0 = 64, idVendor = 0x18D1,
          idProduct = 0x4EE1, bcdDevice = 0x100, iManufacturer = 1, iProduct = 2,
          iSerialNumber = 3, bNumConfigurations = 1\<rparr> (text_of [71]) (text_of [80]) (text_of [48]) @
       config_text \<lparr>cfg_bLength = 9, cfg_bDescriptorType = 2, wTotalLength = 16,
          bNumInterfaces = 1, bConfigurationValue = 1, iConfiguration = 4,
          cfg_bmAttributes = 128, bMaxPower = 50\<rparr> (text_of [67]))
      (idle\<lparr>calls := cs, answers := []\<rparr>)"
proof -
  let ?dev = "[18, 1, 0, 2, 0, 0, 0, 64, 0xD1, 0x18, 0xE1, 0x4E, 0, 1, 1, 2, 3, 1] :: u8 list"
  let ?hdr = "[9, 2, 16, 0, 1, 1, 4, 128, 50] :: u8 list"
  let ?ep = "[7, 5, 0x81, 2, 0, 2, 0] :: u8 list"
  let ?d = "idle\<lparr>answers := [[4, 3, 9, 4], ?dev, string_descriptor [71], string_descriptor [80],
    string_descriptor [48], ?hdr, ?hdr @ ?ep, string_descriptor [67]]\<rparr>"
  have dev: "device_descriptor (known ?dev) = Inr \<lparr>dev_bLength = 18, dev_bDescriptorType = 1,
      bcdUSB = 0x200, bDeviceClass = 0, bDeviceSubClass = 0, bDeviceProtocol = 0,
      bMaxPacketSize0 = 64, idVendor = 0x18D1, idProduct = 0x4EE1, bcdDevice = 0x100,
      iManufacturer = 1, iProduct = 2, iSerialNumber = 3, bNumConfigurations = 1\<rparr>"
    by (simp add: device_descriptor_def load_le16_def le16_def)
  have hdr: "config_descriptor (known ?hdr) = Inr \<lparr>cfg_bLength = 9, cfg_bDescriptorType = 2,
      wTotalLength = 16, bNumInterfaces = 1, bConfigurationValue = 1, iConfiguration = 4,
      cfg_bmAttributes = 128, bMaxPower = 50\<rparr>"
    by (simp add: config_descriptor_def load_le16_def le16_def)
  have "answers ?d = [4, 3, 9, 4] # ?dev # string_descriptor [71] # string_descriptor [80] #
      string_descriptor [48] # ?hdr # (?hdr @ ?ep) # string_descriptor [67] # []"
    by simp
  from usb_dump_device_prints [OF this _ _ _ dev _ _ _ _ hdr, of "[?ep]" 3]
  show ?thesis by (simp add: descriptor_ok_def)
qed

end
