(* ===== verification/Main_Props.thy ===== *)
theory Main_Props
  imports Main_Link Adb_Props Dump_Props
begin

text \<open>
  What the session of \<^verbatim>\<open>src/main.c\<close> does with a device that streams to the end, one
  that falls silent, and the token of an ordinary device.
\<close>

section \<open>The stream\<close>

text \<open>The transfer a ready message is: a header without payload.\<close>

definition ready_header :: buf where
  "ready_header = known (header_bytes
     \<lparr>command = 0x59414b4f, arg0 = 4, arg1 = 3, data_length = 0, data_crc32 = 0,
      magic = NOT 0x59414b4f\<rparr>)"

lemma session_transfers_Ready: "session_transfers Ready_message = [ready_header]"
  by (simp add: message_transfers_def ready_header_def)

lemma session_transfers_nonempty [simp]: "session_transfers m \<noteq> []"
  by (cases m) simp_all

text \<open>The simulated device answers a message with the next transfers of its inbox.\<close>

abbreviation device_answers :: "device \<Rightarrow> session_message \<Rightarrow> u8 list list \<Rightarrow> device \<Rightarrow> bool" where
  "device_answers \<equiv> answered inbox (\<lambda>ps d. d\<lparr>signals := 0, inbox := ps\<rparr>)
     (\<lambda>b d. d\<lparr>signals := 0, outbox := outbox d @ [b]\<rparr>)"

lemma device_answersI:
  "adb_answer rs \<Longrightarrow> inbox d = rs @ ps \<Longrightarrow>
   device_answers d m rs (d\<lparr>signals := 0, inbox := ps, outbox := outbox d @ session_transfers m\<rparr>)"
  by (simp add: answered_def fold_deliver_device del: session_transfers.simps)

lemma ready_talk:
  assumes "\<forall>rs \<in> set (rss @ [fin]). adb_answer rs" and "\<forall>rs \<in> set rss. answer_code rs \<noteq> 0x45534c43"
    and "answer_code fin = 0x45534c43" and "inbox d = concat (rss @ [fin]) @ ps"
  shows "session_talk device_answers Streaming d Finished
    (d\<lparr>signals := 0, inbox := ps, outbox := outbox d @ replicate (length rss + 1) ready_header\<rparr>)"
  using assms
proof (induction rss arbitrary: d)
  case Nil
  then show ?case
    using session_talk.exchange [where X = device_answers, OF closed device_answersI session_talk.silence, of fin d ps]
    by (simp add: session_transfers_Ready del: session_transfers.simps)
next
  case (Cons rs rss)
  let ?d = "d\<lparr>signals := 0, inbox := concat (rss @ [fin]) @ ps, outbox := outbox d @ [ready_header]\<rparr>"
  have "device_answers d Ready_message rs ?d"
    using device_answersI [of rs d "concat (rss @ [fin]) @ ps" Ready_message] Cons.prems
    by (simp add: session_transfers_Ready del: session_transfers.simps)
  then show ?case
    using session_talk.exchange [where X = device_answers, OF streamed _ Cons.IH [of ?d], of rs d] Cons.prems
    by (simp add: replicate_append_same)
qed

text \<open>
  Once a stream is open, the main program keeps sending A_OKAY and taking an answer until
  one is A_CLSE, and then stops: it returns for every finite stream, consumes exactly its
  answers, and sends one message for each.
\<close>

lemma main_streams_until_closed:
  assumes "\<forall>rs \<in> set (rss @ [fin]). adb_answer rs" and "\<forall>rs \<in> set rss. answer_code rs \<noteq> 0x45534c43"
    and "answer_code fin = 0x45534c43" and "inbox d = concat (rss @ [fin]) @ ps"
    and "length buff = 2048"
  shows "\<exists>buff' res'. ready_loop device_env (main_dev fd) buff res d =
    Some (Inr ((buff', res'), d\<lparr>signals := 0, inbox := ps,
      outbox := outbox d @ replicate (length rss + 1) ready_header\<rparr>)) \<and> res_code res' = 0x45534c43"
  by (rule adb_sim.ready_loop_talks [OF ready_talk [OF assms(1-4)] refl refl assms(5)])

definition close_packet :: "u8 list" where
  "close_packet = header_bytes
     \<lparr>command = 0x45534c43, arg0 = 3, arg1 = 4, data_length = 0, data_crc32 = 0,
      magic = NOT 0x45534c43\<rparr>"

lemma packet_answers:
  "adb_answer [okay_packet]" "answer_code [okay_packet] = 0x59414b4f"
  "adb_answer [close_packet]" "answer_code [close_packet] = 0x45534c43"
  by (simp_all add: adb_answer_def answer_code_def okay_packet_def close_packet_def
      header_bytes_def enc32_def load_le32_def le32_def)

lemma main_streams_until_closed_example:
  "\<exists>buff' res'. ready_loop device_env (main_dev 3) (uninit 2048) \<lparr>res_length = 24, res_code = 0x59414b4f\<rparr>
      (idle\<lparr>inbox := [okay_packet, okay_packet, close_packet]\<rparr>) =
    Some (Inr ((buff', res'), idle\<lparr>outbox := [ready_header, ready_header, ready_header]\<rparr>)) \<and>
    res_code res' = 0x45534c43"
proof -
  have "inbox (idle\<lparr>inbox := [okay_packet, okay_packet, close_packet]\<rparr>) =
      concat ([[okay_packet], [okay_packet]] @ [[close_packet]]) @ []"
    by simp
  from main_streams_until_closed [OF _ _ _ this] show ?thesis
    by (simp add: packet_answers idle_def)
qed

section \<open>Silence\<close>

lemma adb_request_silent:
  assumes "length p + 24 < 2 ^ 31" and "inbox d = []"
    and ep: "\<not> bit (word_of_int (out_endp dev) :: u16) 7"
  shows "\<exists>ts. adb_request (usb_ops device_env) device_env dev
      (adb_set_message c x y (of_nat (length p)) (Some (known p @ b))) data len res d =
    Some (Inr ((-1, data, res), d\<lparr>signals := 0, outbox := outbox d @ ts\<rparr>))"
proof -
  from assms(1) obtain m where m: "adb_set_message c x y (of_nat (length p)) (Some (known p @ b)) =
      Inr \<lparr>header = m, payload = Some (known p @ b)\<rparr>" "adb_valid m p"
    using adb_set_message_valid [of p c x y b] by auto
  have "adb_message_ok \<lparr>header = m, payload = Some (known p @ b)\<rparr> p"
    using m(2) assms(1) by (auto simp: adb_message_ok_def)
  from adb_handle_request_silent [OF this assms(2) ep] show ?thesis
    by (auto simp: adb_request_def m(1))
qed

lemma ready_silent:
  assumes "inbox d = []" and "\<not> bit (word_of_int (out_endp dev) :: u16) 7"
  shows "\<exists>ts. adb_ready (usb_ops device_env) device_env dev 4 3 (Some buff) 2048 (Some res) d =
    Some (Inr ((-1, Some buff, Some res), d\<lparr>signals := 0, outbox := outbox d @ ts\<rparr>))"
  using adb_request_silent [of "[]", OF _ assms, where b = "[Some 0]" and data = "Some buff"
      and len = 2048 and res = "Some res"]
  by (simp add: adb_ready_def c_string_known)

lemma ready_loop_silent:
  assumes "inbox d = []" and "res_code res \<noteq> 0x45534c43"
    and "\<not> bit (word_of_int (out_endp dev) :: u16) 7"
  shows "ready_loop device_env dev buff res d = None"
proof (rule ccontr)
  let ?P = "\<lambda>E dev buff res d r. \<not> (E = device_env \<and> inbox d = [] \<and> res_code res \<noteq> 0x45534c43 \<and>
    \<not> bit (word_of_int (out_endp dev) :: u16) 7)"
  assume "ready_loop device_env dev buff res d \<noteq> None"
  then obtain r where r: "ready_loop device_env dev buff res d = Some r" by auto
  have "?P device_env dev buff res d r"
  proof (rule ready_loop.raw_induct [where P = ?P, OF _ r])
    fix f E dev buff res d r
    assume IH: "\<And>E dev buff res d r. f E dev buff res d = Some r \<Longrightarrow> ?P E dev buff res d r"
      and step: "bnd (adb_ready (usb_ops E) E dev 4 3 (Some buff) 2048 (Some res)) (\<lambda>r.
        bnd (lift (read_response (fst (with_buffers r buff res)) (fst (snd (with_buffers r buff res)))
                 (snd (snd (with_buffers r buff res))))) (\<lambda>_.
        if res_code (snd (snd (with_buffers r buff res))) \<noteq> 0x45534c43
        then f E dev (fst (snd (with_buffers r buff res))) (snd (snd (with_buffers r buff res)))
        else ret (snd (with_buffers r buff res)))) d = Some r"
    show "?P E dev buff res d r"
    proof
      assume *: "E = device_env \<and> inbox d = [] \<and> res_code res \<noteq> 0x45534c43 \<and>
        \<not> bit (word_of_int (out_endp dev) :: u16) 7"
      then obtain ts where ready: "adb_ready (usb_ops device_env) device_env dev 4 3 (Some buff) 2048
          (Some res) d = Some (Inr ((-1, Some buff, Some res),
            d\<lparr>signals := 0, outbox := outbox d @ ts\<rparr>))"
        using ready_silent [of d dev buff res] by auto
      from * have "f device_env dev buff res (d\<lparr>signals := 0, outbox := outbox d @ ts\<rparr>) = Some r"
        using step ready by (simp add: with_buffers_def read_response_def)
      from IH [OF this] * show False by simp
    qed
  qed
  with assms show False by blast
qed

text \<open>
  C37: a stream that is not closed before receives begin to fail never ends: a failed request
  leaves the last command in place, and the main program sends A_OKAY for ever.
\<close>

theorem main_stream_silence_diverges:
  assumes "inbox d = []" and "res_code res \<noteq> 0x45534c43"
  shows "ready_loop device_env (main_dev fd) buff res d = None"
  by (rule ready_loop_silent [OF assms]) (simp add: main_dev_def)

theorem main_stream_silence_diverges_witness:
  "ready_loop device_env (main_dev 3) (uninit 2048) \<lparr>res_length = 24, res_code = 0x59414b4f\<rparr> idle =
    None"
  by (rule main_stream_silence_diverges) (simp_all add: idle_def)

section \<open>Connecting\<close>

text \<open>The first part of the session on a device without strings and without a driver.\<close>

lemma main_prepare_device:
  assumes "answers d = []" and "driver_name d = None"
  shows "\<exists>cs. main_prepare device_env fd d = Some (Inr ((), d\<lparr>calls := cs\<rparr>))"
proof -
  have "\<exists>cs. usb_dump_device device_env fd d = Some (Inr ('''', d\<lparr>calls := cs\<rparr>))"
    using assms(1)
    by (auto simp: usb_dump_device_def usb_get_descriptor_def Let_def control_def bnd_def
        descriptor_request_length_def ioctl_def ret_def lift_def failure_def)
  then obtain cs where dump: "usb_dump_device device_env fd d = Some (Inr ('''', d\<lparr>calls := cs\<rparr>))"
    by auto
  have "\<exists>cs'. bnd (usb_get_driver device_env fd 3 (uninit 256) 256) (\<lambda>(r, dname).
      bnd (if r \<noteq> 0 then ret 0
           else bnd (lift (c_strlen dname)) (\<lambda>_. usb_detach_interface device_env fd 3)) (\<lambda>_.
      bnd (usb_detach_interface device_env fd 3) (\<lambda>_.
      bnd (usb_claim_interface device_env fd 3) (\<lambda>_. ret ())))) (d\<lparr>calls := cs\<rparr>) =
    Some (Inr ((), d\<lparr>calls := cs'\<rparr>))"
    using assms(2)
    by (intro exI [where x = "cs @ [Driver_ioctl 3 0x5516, Claim_interface 3]"])
      (simp add: usb_get_driver_def usb_detach_interface_def usb_claim_interface_def bnd_def
        ioctl_def ret_def failure_def)
  then show ?thesis
    using dump by (simp add: main_prepare_def)
qed

lemma main_session_prepared:
  assumes "answers d = []" and "driver_name d = None"
    and "\<And>cs. main_connect device_env (main_dev fd) (d\<lparr>calls := cs\<rparr>) = Some (Inl s)"
  shows "main_session device_env fd d = Some (Inl s)"
proof -
  obtain cs where "main_prepare device_env fd d = Some (Inr ((), d\<lparr>calls := cs\<rparr>))"
    using main_prepare_device [OF assms(1,2)] by blast
  with assms(3) [of cs] show ?thesis by (simp add: main_session_def)
qed

text \<open>Connecting to a device that answers with a token.\<close>

lemma main_connect_device:
  assumes "adb_answer rs" and "inbox d = rs @ ps" and "44 \<le> length (concat rs)"
  shows "main_connect device_env (main_dev fd) d =
    bnd (lift (c_strlen (known (take 20 (drop 24 (concat rs)))))) (\<lambda>_.
      ret (overwrite (concat rs) (uninit 2048), answer_res rs))
      (d\<lparr>signals := 0, inbox := ps, outbox := outbox d @ session_transfers Connect_message\<rparr>)"
  by (rule adb_sim.main_connect_answered [OF device_answersI [OF assms(1,2)] assms(3)])

text \<open>
  C38: after connecting, the main program uses the response before it looks at the result, and
  takes its token for a string. A device that does not answer makes it print memory that was
  never written; one that answers with a token of twenty bytes, none of them zero, makes it read
  beyond the token. Either ends the session.
\<close>

theorem main_connect_faults:
  assumes "answers d = []" and "driver_name d = None"
    and rs: "adb_answer rs" "44 \<le> length (concat rs)" "0 \<notin> set (take 20 (drop 24 (concat rs)))"
  shows "(inbox d = [] \<longrightarrow> main_session device_env fd d = Some (Inl Uninitialised)) \<and>
    (inbox d = rs @ ps \<longrightarrow> main_session device_env fd d = Some (Inl Out_of_bounds))"
proof (intro conjI impI)
  have ep: "\<not> bit (word_of_int (out_endp (main_dev fd)) :: u16) 7" by (simp add: main_dev_def)
  have host: "length host_id + 24 < 2 ^ 31" by (simp add: host_id_def)
  assume silent: "inbox d = []"
  show "main_session device_env fd d = Some (Inl Uninitialised)"
  proof (rule main_session_prepared [OF assms(1,2)])
    fix cs
    have empty: "inbox (d\<lparr>calls := cs\<rparr>) = []" using silent by simp
    obtain ts where "adb_request (usb_ops device_env) device_env (main_dev fd)
        (adb_set_message 0x4e584e43 0x01000000 0x1000 (of_nat (length host_id))
          (Some (known host_id @ [Some 0]))) (Some (uninit 2048)) 2048
        (Some \<lparr>res_length = 0, res_code = 0\<rparr>) (d\<lparr>calls := cs\<rparr>) =
      Some (Inr ((-1, Some (uninit 2048), Some \<lparr>res_length = 0, res_code = 0\<rparr>),
        d\<lparr>calls := cs, signals := 0, outbox := outbox d @ ts\<rparr>))"
      using adb_request_silent [OF host empty ep] by fastforce
    then show "main_connect device_env (main_dev fd) (d\<lparr>calls := cs\<rparr>) = Some (Inl Uninitialised)"
      by (simp add: main_connect_def main_connect_request Let_def with_buffers_def memcpy_def
          read_header_def load_le32_def halt_def)
  qed
next
  assume answered: "inbox d = rs @ ps"
  show "main_session device_env fd d = Some (Inl Out_of_bounds)"
  proof (rule main_session_prepared [OF assms(1,2)])
    fix cs
    have "inbox (d\<lparr>calls := cs\<rparr>) = rs @ ps" using answered by simp
    from main_connect_device [OF rs(1) this rs(2)]
    show "main_connect device_env (main_dev fd) (d\<lparr>calls := cs\<rparr>) = Some (Inl Out_of_bounds)"
      using c_strlen_unterminated [OF rs(3)] by (simp add: halt_def)
  qed
qed

definition token_answer :: "u8 list list" where
  "token_answer =
     [[0x41, 0x55, 0x54, 0x48, 1, 0, 0, 0, 0, 0, 0, 0, 20, 0, 0, 0, 20, 0, 0, 0,
       0xBE, 0xAA, 0xAB, 0xB7], replicate 20 1]"

theorem main_connect_faults_witness:
  "main_session device_env 3 idle = Some (Inl Uninitialised) \<and>
   main_session device_env 3 (idle\<lparr>inbox := token_answer\<rparr>) = Some (Inl Out_of_bounds)"
proof -
  have rs: "adb_answer token_answer" "44 \<le> length (concat token_answer)"
    "0 \<notin> set (take 20 (drop 24 (concat token_answer)))"
    by (simp_all add: adb_answer_def token_answer_def load_le32_def le32_def)
  show ?thesis
    using main_connect_faults [OF _ _ rs, of idle 3 "[]"]
      main_connect_faults [OF _ _ rs, of "idle\<lparr>inbox := token_answer\<rparr>" 3 "[]"]
    by (simp add: idle_def)
qed

end
