(* ===== verification/Main_Session.thy ===== *)
theory Main_Session
  imports Main_Props
begin

text \<open>
  The debug bridge session of the main program as an abstract state machine, and the proof that
  \<^verbatim>\<open>src/main.c\<close> refines it: every complete run of the machine, with the answers of a
  device, is what the program does with this device, transfer by transfer.
\<close>

section \<open>Runs of the machine\<close>

inductive session_run :: "session \<Rightarrow> (session_message \<times> u8 list list) list \<Rightarrow> session \<Rightarrow> bool" where
  stop: "session_run s [] s"
| step: "session_step s m (answer_code rs) s' \<Longrightarrow> session_run s' tr s'' \<Longrightarrow>
    session_run s ((m, rs) # tr) s''"

inductive_cases session_run_ConsE: "session_run s (x # tr) s'"

inductive_simps session_run_Nil [simp]: "session_run s [] s'"

text \<open>Nothing follows the end of a session.\<close>

lemma session_run_Finished: "session_run Finished tr s \<longleftrightarrow> tr = [] \<and> s = Finished"
  by (auto elim: session_run.cases)

section \<open>Refinement\<close>

definition trace_answers :: "(session_message \<times> u8 list list) list \<Rightarrow> u8 list list" where
  "trace_answers tr = concat (map snd tr)"

definition trace_transfers :: "(session_message \<times> u8 list list) list \<Rightarrow> buf list" where
  "trace_transfers tr = concat (map (session_transfers \<circ> fst) tr)"

lemma trace_simps [simp]:
  "trace_answers [] = []" "trace_answers ((m, rs) # tr) = rs @ trace_answers tr"
  "trace_transfers [] = []"
  "trace_transfers ((m, rs) # tr) = session_transfers m @ trace_transfers tr"
  by (simp_all add: trace_answers_def trace_transfers_def)

text \<open>A run of the machine is a talk with the device that has its answers ready.\<close>

lemma session_run_talk:
  assumes "session_run s tr s'" and "tr \<noteq> []" and "\<forall>x \<in> set tr. adb_answer (snd x)"
    and "inbox d = trace_answers tr @ ps"
  shows "session_talk device_answers s d s'
    (d\<lparr>signals := 0, inbox := ps, outbox := outbox d @ trace_transfers tr\<rparr>)"
  using assms
proof (induction arbitrary: d rule: session_run.induct)
  case (step s m rs s1 tr s'')
  let ?d = "d\<lparr>signals := 0, inbox := trace_answers tr @ ps, outbox := outbox d @ session_transfers m\<rparr>"
  have answer: "device_answers d m rs ?d" by (rule device_answersI) (use step.prems in simp_all)
  show ?case
  proof (cases "tr = []")
    case True
    with step.hyps(2) have "s'' = s1" by simp
    with True session_talk.exchange [where X = device_answers, OF step.hyps(1) answer session_talk.silence] show ?thesis
      by (simp del: session_transfers.simps)
  next
    case False
    then have "session_talk device_answers s1 ?d s''
        (?d\<lparr>signals := 0, inbox := ps, outbox := outbox ?d @ trace_transfers tr\<rparr>)"
      using step.prems by (intro step.IH) simp_all
    from session_talk.exchange [where X = device_answers, OF step.hyps(1) answer this] show ?thesis
      by (simp del: session_transfers.simps)
  qed
qed simp

lemma main_session_refines:
  assumes "session_run Connecting tr Finished" and "\<forall>x \<in> set tr. adb_answer (snd x)"
    and "44 \<le> length (concat (snd (hd tr)))" and "0 \<in> set (take 20 (drop 24 (concat (snd (hd tr)))))"
    and "main_prepare device_env fd d = Some (Inr ((), d1))" and "inbox d1 = trace_answers tr @ ps"
  shows "main_session device_env fd d =
    Some (Inr ((), d1\<lparr>signals := 0, inbox := ps, outbox := outbox d1 @ trace_transfers tr,
      calls := calls d1 @ [Release_interface 3]\<rparr>))"
proof -
  obtain rs1 tr' where tr: "tr = (Connect_message, rs1) # tr'"
    and rest: "session_run Authenticating tr' Finished" "tr' \<noteq> []"
    using assms(1) by (auto elim!: session_run.cases [of Connecting] elim: session_run.cases)
  let ?d = "d1\<lparr>signals := 0, inbox := trace_answers tr' @ ps,
    outbox := outbox d1 @ session_transfers Connect_message\<rparr>"
  have answer: "device_answers d1 Connect_message rs1 ?d"
    by (rule device_answersI) (use assms(2,6) tr in simp_all)
  have "session_talk device_answers Authenticating ?d Finished
      (d1\<lparr>signals := 0, inbox := ps, outbox := outbox d1 @ trace_transfers tr\<rparr>)"
    using session_run_talk [OF rest, of ?d ps] assms(2) tr by (simp del: session_transfers.simps)
  note talks = adb_sim.main_talks [OF answer _ _ this]
  have release: "bnd (usb_release_interface device_env fd 3) (\<lambda>_. ret ()) w =
      Some (Inr ((), w\<lparr>calls := calls w @ [Release_interface 3]\<rparr>))" for w
    by (simp add: usb_release_interface_def bnd_def ioctl_def ret_def success_def)
  show ?thesis
    using assms(3-5) tr unfolding main_session_def
    by (simp add: talks release del: session_transfers.simps take_known drop_known)
qed


text \<open>
  C16: the main program refines the session machine. Take any complete run of the machine whose
  answers are well formed, the first carrying a token with a zero byte, and a device that gives
  these answers: the program lists the device file, sends exactly the messages of the run in
  order, consumes exactly its answers, releases the interface, and returns 0.
\<close>

theorem main_refines_session:
  assumes run: "session_run Connecting tr Finished" "\<forall>x \<in> set tr. adb_answer (snd x)"
    and token: "44 \<le> length (concat (snd (hd tr)))"
      "0 \<in> set (take 20 (drop 24 (concat (snd (hd tr)))))"
    and listing: "file_fopen F w = (True, w1)" "list_file F w1 = Some (Inr ((), w2))"
      "file_open F (file_fclose F w2) = (fd, d)" "fd \<noteq> -1"
    and device: "main_prepare device_env fd d = Some (Inr ((), d1))"
      "inbox d1 = trace_answers tr @ ps"
  shows "main F device_env w =
    Some (Inr (0, file_close F fd (d1\<lparr>signals := 0, inbox := ps,
      outbox := outbox d1 @ trace_transfers tr, calls := calls d1 @ [Release_interface 3]\<rparr>)))"
  using main_session_refines [OF run token device] listing by (simp add: main_def ret_def bnd_def)

text \<open>A device file of two bytes, and a session whose stream is closed at once.\<close>

definition short_file :: "device files" where
  "short_file =
     \<lparr>file_fopen = (\<lambda>d. (True, d)),
      file_getc = (\<lambda>d. if seed d = 0 then (None, d) else (Some 18, d\<lparr>seed := seed d - 1\<rparr>)),
      file_fclose = (\<lambda>d. d), file_open = (\<lambda>d. (3, d)), file_close = (\<lambda>fd d. d)\<rparr>"

definition short_session :: "(session_message \<times> u8 list list) list" where
  "short_session =
     [(Connect_message, [okay_packet @ replicate 20 0]), (Auth_message, [okay_packet]),
      (Open_message, [okay_packet]), (Ready_message, [close_packet])]"

lemma list_short_file:
  "list_file short_file (d\<lparr>seed := 2\<rparr>) = Some (Inr ((), d\<lparr>seed := 0\<rparr>))"
  by (subst list_file.simps, simp add: short_file_def,
      subst list_file.simps, simp, subst list_file.simps, simp add: ret_def)

lemma short_session_run:
  "session_run Connecting short_session Finished" "\<forall>x \<in> set short_session. adb_answer (snd x)"
  "44 \<le> length (concat (snd (hd short_session)))"
  "0 \<in> set (take 20 (drop 24 (concat (snd (hd short_session)))))"
proof -
  show "session_run Connecting short_session Finished"
    unfolding short_session_def
    by (rule session_run.step [OF session_step.connected
          session_run.step [OF session_step.authenticated
          session_run.step [OF session_step.opened
          session_run.step [OF session_step.closed session_run.stop]]]])
      (simp_all add: packet_answers)
  show "\<forall>x \<in> set short_session. adb_answer (snd x)"
    by (simp add: short_session_def packet_answers)
      (simp add: adb_answer_def okay_packet_def header_bytes_def enc32_def load_le32_def le32_def)
qed (simp_all add: short_session_def okay_packet_def header_bytes_def enc32_def)

theorem main_refines_session_witness:
  "\<exists>cs. main short_file device_env
      (idle\<lparr>inbox := trace_answers short_session, seed := 2\<rparr>) =
    Some (Inr (0, idle\<lparr>outbox := trace_transfers short_session, calls := cs\<rparr>))"
proof -
  let ?d = "idle\<lparr>inbox := trace_answers short_session\<rparr>"
  obtain cs where prep: "main_prepare device_env 3 (?d\<lparr>seed := 0\<rparr>) =
      Some (Inr ((), ?d\<lparr>seed := 0, calls := cs\<rparr>))"
    using main_prepare_device [of "?d\<lparr>seed := 0\<rparr>" 3] by (auto simp: idle_def)
  have "main short_file device_env (?d\<lparr>seed := 2\<rparr>) =
    Some (Inr (0, file_close short_file 3 (?d\<lparr>seed := 0, calls := cs, signals := 0, inbox := [],
      outbox := outbox ?d @ trace_transfers short_session, calls := cs @ [Release_interface 3]\<rparr>)))"
    using main_refines_session [OF short_session_run _ list_short_file _ _ prep, where ps = "[]"
        and w = "?d\<lparr>seed := 2\<rparr>"]
    by (simp add: short_file_def)
  then show ?thesis
    by (auto simp: short_file_def idle_def)
qed

end
