(* ===== verification/Adb_Remote.thy ===== *)
theory Adb_Remote
  imports Adb_Link
begin

text \<open>
  The operations of \<^verbatim>\<open>lib/adb/adb.c\<close> as remote calls of a daemon, a parameter: a machine
  over any state that answers a packet with a packet. The device it runs in reads the headers and
  payloads from the bus, checks them as the protocol asks a receiver to, and ignores what does not
  pass. Over every daemon an operation of the library is one step of it.
\<close>

section \<open>A daemon behind the bus\<close>

record adb_packet =
  packet_command :: u32
  packet_arg0 :: u32
  packet_arg1 :: u32
  packet_payload :: "u8 list"

type_synonym 's daemon = "'s \<Rightarrow> adb_packet \<Rightarrow> adb_packet \<times> 's"

definition packet_header :: "adb_packet \<Rightarrow> message" where
  "packet_header p =
     \<lparr>command = packet_command p, arg0 = packet_arg0 p, arg1 = packet_arg1 p,
      data_length = of_nat (length (packet_payload p)),
      data_crc32 = sum_list (map ucast (packet_payload p)), magic = NOT (packet_command p)\<rparr>"

definition packet_transfers :: "adb_packet \<Rightarrow> u8 list list" where
  "packet_transfers p =
     header_bytes (packet_header p) # (if packet_payload p = [] then [] else [packet_payload p])"

definition packet_bytes :: "adb_packet \<Rightarrow> u8 list" where
  "packet_bytes p = header_bytes (packet_header p) @ packet_payload p"

lemma concat_packet_transfers [simp]: "concat (packet_transfers p) = packet_bytes p"
  by (simp add: packet_transfers_def packet_bytes_def)

lemma message_transfers_packet:
  "message_transfers c a0 a1 p = map known (packet_transfers
     \<lparr>packet_command = c, packet_arg0 = a0, packet_arg1 = a1, packet_payload = p\<rparr>)"
  by (simp add: message_transfers_def packet_transfers_def packet_header_def)

lemma packet_valid: "adb_valid (packet_header p) (packet_payload p)"
  by (simp add: adb_valid_def packet_header_def)

text \<open>The bytes of a transfer, if all of them are known.\<close>

fun bytes_of :: "buf \<Rightarrow> u8 list option" where
  "bytes_of [] = Some []"
| "bytes_of (None # b) = None"
| "bytes_of (Some x # b) = map_option ((#) x) (bytes_of b)"

lemma bytes_of_known [simp]: "bytes_of (known p) = Some p"
  by (induction p) (simp_all add: known_def)

text \<open>
  The device: the header of a packet whose payload has not come yet is kept beside the state of
  the daemon.
\<close>

definition daemon_receive ::
    "'s daemon \<Rightarrow> 's \<Rightarrow> message \<Rightarrow> u8 list \<Rightarrow> u8 list list \<times> 's \<times> message option" where
  "daemon_receive daemon s m p =
     (if adb_valid m p
      then (case daemon s \<lparr>packet_command = command m, packet_arg0 = arg0 m, packet_arg1 = arg1 m,
                           packet_payload = p\<rparr> of
              (r, s') \<Rightarrow> (packet_transfers r, s', None))
      else ([], s, None))"

definition adb_machine :: "'s daemon \<Rightarrow> ('s \<times> message option) machine" where
  "adb_machine daemon st b =
     (case st of
        (s, None) \<Rightarrow>
          (case parse_header b of
             Inl _ \<Rightarrow> ([], s, None)
           | Inr m \<Rightarrow> if data_length m = 0 then daemon_receive daemon s m [] else ([], s, Some m))
      | (s, Some m) \<Rightarrow>
          (case bytes_of b of
             None \<Rightarrow> ([], s, None)
           | Some p \<Rightarrow> daemon_receive daemon s m p))"

lemma daemon_receive_packet:
  "daemon_receive daemon s (packet_header p) (packet_payload p) =
     (case daemon s p of (r, s') \<Rightarrow> (packet_transfers r, s', None))"
  by (cases p) (simp add: daemon_receive_def packet_header_def adb_valid_def)

lemma no_payload:
  assumes "length (packet_payload p) < 2 ^ 32"
  shows "data_length (packet_header p) = 0 \<longleftrightarrow> packet_payload p = []"
  using unat_of_nat_u32 [OF assms] unat_eq_0 [of "of_nat (length (packet_payload p)) :: u32"]
  by (auto simp: packet_header_def)

text \<open>A packet on the bus is one step of the daemon.\<close>

lemma react_to_packet:
  assumes "daemon s p = (r, s')" and "length (packet_payload p) < 2 ^ 32"
  shows "fold (react_to (adb_machine daemon)) (map known (packet_transfers p)) ((s, None), d) =
    ((s', None), d\<lparr>signals := 0, inbox := inbox d @ packet_transfers r,
      outbox := outbox d @ map known (packet_transfers p)\<rparr>)"
proof -
  have header: "parse_header (known (header_bytes (packet_header p))) = Inr (packet_header p)"
    using parse_header_bytes [of "packet_header p" "[]"] by simp
  note no_payload = no_payload [OF assms(2)]
  show ?thesis
    using no_payload daemon_receive_packet [of daemon s p] assms(1)
    by (cases "packet_payload p = []")
      (simp_all add: packet_transfers_def react_to_def adb_machine_def header)
qed

text \<open>Answers that fit one transfer are well formed.\<close>

lemma load_le32_header:
  "load_le32 (known (header_bytes m)) 0 = Inr (command m)"
  "load_le32 (known (header_bytes m)) 12 = Inr (data_length m)"
proof -
  show "load_le32 (known (header_bytes m)) 0 = Inr (command m)"
    using load_le32_at [of 0 "[]" "command m"] by (simp add: header_bytes_def)
  show "load_le32 (known (header_bytes m)) 12 = Inr (data_length m)"
    using load_le32_at [of 12 "enc32 (command m) @ enc32 (arg0 m) @ enc32 (arg1 m)" "data_length m"]
    by (simp add: header_bytes_def)
qed

lemma answer_packet:
  assumes "length (packet_payload p) \<le> 512"
  shows "adb_answer (packet_transfers p)" and "answer_code (packet_transfers p) = packet_command p"
proof -
  have "data_length (packet_header p) = 0 \<longleftrightarrow> packet_payload p = []"
    by (rule no_payload) (use assms in simp)
  then show "adb_answer (packet_transfers p)"
    using assms by (simp add: adb_answer_def packet_transfers_def load_le32_header)
  have "load_le32 (known (packet_bytes p)) 0 = Inr (answer_code (packet_transfers p))"
    unfolding answer_code_def concat_packet_transfers
    by (subst load_le32_known) (simp_all add: packet_bytes_def numeral_2_eq_2)
  moreover have "load_le32 (known (packet_bytes p)) 0 = Inr (packet_command p)"
    using load_le32_at [of 0 "[]" "packet_command p"]
    by (simp add: packet_bytes_def header_bytes_def packet_header_def)
  ultimately show "answer_code (packet_transfers p) = packet_command p" by simp
qed

text \<open>In the states of an invariant the daemon answers with payloads of one transfer.\<close>

definition daemon_ok :: "('s \<Rightarrow> bool) \<Rightarrow> 's daemon \<Rightarrow> bool" where
  "daemon_ok I daemon \<longleftrightarrow>
     (\<forall>s p. I s \<longrightarrow> length (packet_payload (fst (daemon s p))) \<le> 512 \<and> I (snd (daemon s p)))"

lemma daemon_okD:
  assumes "daemon_ok I daemon" and "I s" and "daemon s p = (r, s')"
  shows "length (packet_payload r) \<le> 512" and "I s'"
  using assms by (metis daemon_ok_def fst_conv, metis daemon_ok_def snd_conv)

section \<open>The operations\<close>

text \<open>
  The operations as a datatype with the arguments of the C functions, strings without their
  final zero; the caller's buffer and result come separately.
\<close>

datatype adb_operation =
  Adb_connect u32 u32 "u8 list"
| Adb_stls u32 u32
| Adb_auth u32 "u8 list"
| Adb_open u32 "u8 list"
| Adb_ready u32 u32
| Adb_write u32 u32 "u8 list"
| Adb_close u32 u32

record adb_caller =
  caller_buffer :: "buf option"
  caller_size :: u32
  caller_result :: adb_res

fun adb_invoke ::
    "'w usb_ops \<Rightarrow> 'w env \<Rightarrow> adb_dev \<Rightarrow> adb_operation \<Rightarrow> adb_caller \<Rightarrow> 'w adb_reply" where
  "adb_invoke B E dev (Adb_connect v m s) c =
     adb_connect B E dev v m (c_string s) (caller_buffer c) (caller_size c) (Some (caller_result c))"
| "adb_invoke B E dev (Adb_stls t v) c =
     adb_stls B E dev t v (caller_buffer c) (caller_size c) (Some (caller_result c))"
| "adb_invoke B E dev (Adb_auth t s) c =
     adb_auth B E dev t (Some (known s)) (of_nat (length s)) (caller_buffer c) (caller_size c)
       (Some (caller_result c))"
| "adb_invoke B E dev (Adb_open i s) c =
     adb_open B E dev i (c_string s) (caller_buffer c) (caller_size c) (Some (caller_result c))"
| "adb_invoke B E dev (Adb_ready i j) c =
     adb_ready B E dev i j (caller_buffer c) (caller_size c) (Some (caller_result c))"
| "adb_invoke B E dev (Adb_write i j s) c =
     adb_write B E dev i j (c_string s) (caller_buffer c) (caller_size c) (Some (caller_result c))"
| "adb_invoke B E dev (Adb_close i j) c =
     adb_close B E dev i j (caller_buffer c) (caller_size c) (Some (caller_result c))"

text \<open>The packet each operation is.\<close>

definition packet :: "u32 \<Rightarrow> u32 \<Rightarrow> u32 \<Rightarrow> u8 list \<Rightarrow> adb_packet" where
  "packet c a0 a1 p =
     \<lparr>packet_command = c, packet_arg0 = a0, packet_arg1 = a1, packet_payload = p\<rparr>"

lemma packet_simps [simp]:
  "packet_command (packet c a0 a1 p) = c" "packet_arg0 (packet c a0 a1 p) = a0"
  "packet_arg1 (packet c a0 a1 p) = a1" "packet_payload (packet c a0 a1 p) = p"
  by (simp_all add: packet_def)

fun operation_packet :: "adb_operation \<Rightarrow> adb_packet" where
  "operation_packet (Adb_connect v m s) = packet ADB_COMMAND_A_CNXN v m s"
| "operation_packet (Adb_stls t v) = packet ADB_COMMAND_A_STLS t v []"
| "operation_packet (Adb_auth t s) = packet ADB_COMMAND_A_AUTH t 0 s"
| "operation_packet (Adb_open i s) = packet ADB_COMMAND_A_OPEN i 0 s"
| "operation_packet (Adb_ready i j) = packet ADB_COMMAND_A_OKAY i j []"
| "operation_packet (Adb_write i j s) = packet ADB_COMMAND_A_WRTE i j s"
| "operation_packet (Adb_close i j) = packet ADB_COMMAND_A_CLSE i j []"

text \<open>Texts end at their first zero byte, and a message fits the transfers of the kernel.\<close>

fun operation_ok :: "adb_operation \<Rightarrow> bool" where
  "operation_ok (Adb_connect v m s) \<longleftrightarrow> 0 \<notin> set s \<and> length s + 24 < 2 ^ 31"
| "operation_ok (Adb_auth t s) \<longleftrightarrow> length s + 24 < 2 ^ 31"
| "operation_ok (Adb_open i s) \<longleftrightarrow> 0 \<notin> set s \<and> length s + 24 < 2 ^ 31"
| "operation_ok (Adb_write i j s) \<longleftrightarrow> 0 \<notin> set s \<and> length s + 24 < 2 ^ 31"
| "operation_ok _ \<longleftrightarrow> True"

definition adb_caller_ok :: "adb_caller \<Rightarrow> bool" where
  "adb_caller_ok c \<longleftrightarrow>
     (case caller_buffer c of None \<Rightarrow> True | Some b \<Rightarrow> unat (caller_size c) \<le> length b)"

lemma operation_length: "operation_ok x \<Longrightarrow> length (packet_payload (operation_packet x)) + 24 < 2 ^ 31"
  by (cases x) simp_all

text \<open>What the caller sees of the answer of the daemon.\<close>

definition packet_reply :: "adb_caller \<Rightarrow> adb_packet \<Rightarrow> int \<times> buf option \<times> adb_res option" where
  "packet_reply c r =
     (0, map_option (overwrite (take (unat (caller_size c)) (packet_bytes r))) (caller_buffer c),
      Some \<lparr>res_length = of_nat (length (packet_bytes r)), res_code = packet_command r\<rparr>)"

definition daemon_step ::
    "'s daemon \<Rightarrow> adb_operation \<Rightarrow> adb_caller \<Rightarrow> 's \<Rightarrow> (int \<times> buf option \<times> adb_res option) \<times> 's" where
  "daemon_step daemon x c s =
     (case daemon s (operation_packet x) of (r, s') \<Rightarrow> (packet_reply c r, s'))"

text \<open>Over every transport an operation is the exchange of its packet.\<close>

lemma c_strlen_text: "0 \<notin> set s \<Longrightarrow> c_strlen (known s @ [Some 0]) = Inr (length s)"
  by (rule c_strlen_append)

context adb_transport
begin

lemma adb_invoke_packets:
  assumes "operation_ok x" and "adb_caller_ok c" and "adb_answer rs"
    and queue: "queue (fold deliver (map known (packet_transfers (operation_packet x))) w) = rs @ ps"
    and "\<not> bit (word_of_int (out_endp dev) :: u16) 7"
  shows "adb_invoke (usb_ops E) E dev x c w =
    Some (Inr ((0, map_option (overwrite (take (unat (caller_size c)) (concat rs))) (caller_buffer c),
      Some (answer_res rs)),
      set_queue ps (fold deliver (map known (packet_transfers (operation_packet x))) w)))"
proof -
  have data: "unat (caller_size c) \<le> length b" if "caller_buffer c = Some b" for b
    using assms(2) that by (simp add: adb_caller_ok_def)
  let ?p = "operation_packet x"
  have transfers: "map known (packet_transfers (packet cc a0 a1 p)) = message_transfers cc a0 a1 p" for cc a0 a1 p
    by (simp add: message_transfers_packet packet_def)
  note request = adb_request_packets [OF _ assms(3) _ assms(5) data]
  show ?thesis
    using assms(1) queue c_strlen_text
    by (cases x)
      (simp_all add: adb_connect_def adb_stls_def adb_auth_def adb_open_def adb_ready_def adb_write_def
        adb_close_def c_string_known transfers request(1) request(1) [where b = "[]", simplified]
        request(1) [where p = "[]", simplified] request(2) [where p = "[]", simplified] del: length_concat)
qed

end

section \<open>One operation is one step\<close>

lemma adb_invoke_remote:
  assumes "daemon_ok I daemon" and "I s" and "operation_ok x" and "adb_caller_ok c"
    and "\<not> bit (word_of_int (out_endp dev) :: u16) 7" and "inbox d = []"
    and "daemon_step daemon x c s = (r, s')"
  shows "adb_invoke (usb_ops (reactive_env (adb_machine daemon))) (reactive_env (adb_machine daemon))
      dev x c ((s, None), d) =
    Some (Inr (r, (s', None), d\<lparr>signals := 0,
      outbox := outbox d @ map known (packet_transfers (operation_packet x))\<rparr>))"
proof -
  let ?p = "operation_packet x"
  obtain a where a: "daemon s ?p = (a, s')" and r: "r = packet_reply c a"
    using assms(7) by (auto simp: daemon_step_def split: prod.splits)
  have answer: "adb_answer (packet_transfers a)" "answer_code (packet_transfers a) = packet_command a"
    using answer_packet daemon_okD(1) [OF assms(1,2) a] by simp_all
  have "length (packet_payload ?p) < 2 ^ 32" using operation_length [OF assms(3)] by simp
  note react = react_to_packet [where daemon = daemon and s = s, OF a this]
  have "inbox (snd (fold (react_to (adb_machine daemon)) (map known (packet_transfers ?p))
      ((s, None), d))) = packet_transfers a @ []"
    unfolding react using assms(6) by simp
  from adb_reactive.adb_invoke_packets [OF assms(3,4) answer(1) this assms(5)]
  show ?thesis
    unfolding react by (simp add: r packet_reply_def answer_res_def answer(2) assms(6))
qed

section \<open>Sequences of operations\<close>

fun adb_script ::
    "'w usb_ops \<Rightarrow> 'w env \<Rightarrow> adb_dev \<Rightarrow> (adb_operation \<times> adb_caller) list \<Rightarrow>
     ('w, (int \<times> buf option \<times> adb_res option) list) cmd" where
  "adb_script B E dev [] = ret []"
| "adb_script B E dev ((x, c) # xs) =
     bnd (adb_invoke B E dev x c) (\<lambda>r. bnd (adb_script B E dev xs) (\<lambda>rs. ret (r # rs)))"

fun daemon_script ::
    "'s daemon \<Rightarrow> (adb_operation \<times> adb_caller) list \<Rightarrow> 's \<Rightarrow>
     (int \<times> buf option \<times> adb_res option) list \<times> 's" where
  "daemon_script daemon [] s = ([], s)"
| "daemon_script daemon ((x, c) # xs) s =
     (case daemon_step daemon x c s of (r, s') \<Rightarrow>
      case daemon_script daemon xs s' of (rs, s'') \<Rightarrow> (r # rs, s''))"

definition script_transfers :: "(adb_operation \<times> adb_caller) list \<Rightarrow> buf list" where
  "script_transfers xs = concat (map (\<lambda>(x, c). map known (packet_transfers (operation_packet x))) xs)"

lemma daemon_step_invariant:
  "daemon_ok I daemon \<Longrightarrow> I s \<Longrightarrow> daemon_step daemon x c s = (r, s') \<Longrightarrow> I s'"
  by (auto simp: daemon_step_def dest: daemon_okD(2) split: prod.splits)

text \<open>
  C4: the operations of \<^verbatim>\<open>lib/adb\<close> in any sequence refine the sequence of packets over
  every daemon whose answers have payloads of at most one transfer: the replies and the state of
  the daemon are those of the remote calls, the device accepts every message (its magic, length
  and checksum pass), and exactly these messages are on the bus.
\<close>

theorem adb_script_remote:
  assumes "daemon_ok I daemon" and "I s" and "\<not> bit (word_of_int (out_endp dev) :: u16) 7"
    and "\<forall>(x, c) \<in> set xs. operation_ok x \<and> adb_caller_ok c" and "inbox d = []" and "signals d = 0"
  shows "adb_script (usb_ops (reactive_env (adb_machine daemon))) (reactive_env (adb_machine daemon))
      dev xs ((s, None), d) =
    Some (Inr (fst (daemon_script daemon xs s), (snd (daemon_script daemon xs s), None),
      d\<lparr>outbox := outbox d @ script_transfers xs\<rparr>))"
  using assms(2,4,5,6)
proof (induction xs arbitrary: s d)
  case Nil
  then show ?case by (simp add: ret_def script_transfers_def)
next
  case (Cons xc xs)
  obtain x c where xc: "xc = (x, c)" by (cases xc)
  obtain r s' where step: "daemon_step daemon x c s = (r, s')" by (cases "daemon_step daemon x c s")
  let ?d = "d\<lparr>outbox := outbox d @ map known (packet_transfers (operation_packet x))\<rparr>"
  have "adb_invoke (usb_ops (reactive_env (adb_machine daemon))) (reactive_env (adb_machine daemon))
      dev x c ((s, None), d) = Some (Inr (r, (s', None), ?d))"
    using adb_invoke_remote [OF assms(1) Cons.prems(1) _ _ assms(3) Cons.prems(3) step] Cons.prems xc
    by simp
  moreover have "I s'" by (rule daemon_step_invariant [OF assms(1) Cons.prems(1) step])
  ultimately show ?case
    using Cons.IH [of s' ?d] Cons.prems xc step
    by (simp add: ret_def script_transfers_def split: prod.split)
qed

text \<open>A daemon that echoes what is written to it, and counts the packets it has seen.\<close>

definition echo_daemon :: "nat daemon" where
  "echo_daemon n p =
     (if packet_command p = ADB_COMMAND_A_WRTE \<and> length (packet_payload p) \<le> 512
      then (packet ADB_COMMAND_A_WRTE (packet_arg1 p) (packet_arg0 p) (packet_payload p), Suc n)
      else (packet ADB_COMMAND_A_OKAY (packet_arg1 p) (packet_arg0 p) [], Suc n))"

lemma echo_daemon_ok: "daemon_ok (\<lambda>_. True) echo_daemon"
  by (simp add: daemon_ok_def echo_daemon_def)

theorem adb_script_remote_witness:
  "\<exists>d. adb_script (usb_ops (reactive_env (adb_machine echo_daemon))) (reactive_env (adb_machine echo_daemon))
      \<lparr>dev_fd = 3, in_endp = 5, out_endp = 3\<rparr>
      [(Adb_open 4 [0x61], \<lparr>caller_buffer = None, caller_size = 0, caller_result = \<lparr>res_length = 0, res_code = 0\<rparr>\<rparr>),
       (Adb_write 4 3 [7, 8], \<lparr>caller_buffer = Some (uninit 26), caller_size = 26,
          caller_result = \<lparr>res_length = 0, res_code = 0\<rparr>\<rparr>)] ((0, None), idle) =
    Some (Inr ([(0, None, Some \<lparr>res_length = 24, res_code = 0x59414b4f\<rparr>),
      (0, Some (known (packet_bytes (packet 0x45545257 3 4 [7, 8]))), Some \<lparr>res_length = 26, res_code = 0x45545257\<rparr>)],
      (2, None), d))"
proof -
  let ?xs = "[(Adb_open 4 [0x61], \<lparr>caller_buffer = None, caller_size = 0, caller_result = \<lparr>res_length = 0, res_code = 0\<rparr>\<rparr>),
       (Adb_write 4 3 [7, 8], \<lparr>caller_buffer = Some (uninit 26), caller_size = 26,
          caller_result = \<lparr>res_length = 0, res_code = 0\<rparr>\<rparr>)]"
  have bytes: "length (packet_bytes (packet c a0 a1 p)) = 24 + length p" for c a0 a1 p
    by (simp add: packet_bytes_def)
  have "overwrite (take 26 (packet_bytes (packet 0x45545257 3 4 [7, 8]))) (uninit 26) =
      known (packet_bytes (packet 0x45545257 3 4 [7, 8]))"
    by (simp add: overwrite_def bytes uninit_def)
  then have "daemon_script echo_daemon ?xs 0 =
    ([(0, None, Some \<lparr>res_length = 24, res_code = 0x59414b4f\<rparr>),
      (0, Some (known (packet_bytes (packet 0x45545257 3 4 [7, 8]))), Some \<lparr>res_length = 26, res_code = 0x45545257\<rparr>)], 2)"
    by (simp add: daemon_step_def echo_daemon_def packet_reply_def bytes)
  then show ?thesis
    using adb_script_remote [OF echo_daemon_ok TrueI, of "\<lparr>dev_fd = 3, in_endp = 5, out_endp = 3\<rparr>" ?xs idle 0]
    by (auto simp: adb_caller_ok_def idle_def uninit_def)
qed

end
