(* ===== verification/Main_Remote.thy ===== *)
theory Main_Remote
  imports Main_Props Adb_Remote
begin

text \<open>
  The main program and a daemon: the session machine of the program and the daemon behind the bus
  run as one system, and \<^verbatim>\<open>src/main.c\<close> does over the kernel what this system does. With
  a daemon whose streams run out the program ends, once it has reached its session.
\<close>

section \<open>The session machine and a daemon as one system\<close>

fun session_packet :: "session_message \<Rightarrow> adb_packet" where
  "session_packet Connect_message = operation_packet (Adb_connect 0x01000000 0x1000 host_id)"
| "session_packet Auth_message = operation_packet (Adb_auth 3 rsakey_ex)"
| "session_packet Open_message = operation_packet (Adb_open 4 framebuffer_service)"
| "session_packet Ready_message = operation_packet (Adb_ready 4 3)"

lemma session_transfers_packet: "session_transfers m = map known (packet_transfers (session_packet m))"
  by (cases m) (simp_all add: message_transfers_packet packet_def)

lemma session_packet_length: "length (packet_payload (session_packet m)) < 2 ^ 32"
  by (cases m) (simp_all add: host_id_def framebuffer_service_def rsakey_ex_def)

inductive daemon_session ::
    "'s daemon \<Rightarrow> session \<Rightarrow> 's \<Rightarrow> session_message list \<Rightarrow> session \<Rightarrow> 's \<Rightarrow> bool" for daemon where
  stop: "daemon_session daemon c s [] c s"
| step: "session_step c m (packet_command r) c' \<Longrightarrow> daemon s (session_packet m) = (r, s') \<Longrightarrow>
    daemon_session daemon c' s' ms c'' s'' \<Longrightarrow> daemon_session daemon c s (m # ms) c'' s''"

inductive_cases daemon_session_ConnectingE: "daemon_session daemon Connecting s ms Finished s'"
inductive_cases daemon_session_NilE [elim!]: "daemon_session daemon c s [] c' s'"

abbreviation daemon_answers ::
    "'s daemon \<Rightarrow> ('s \<times> message option) \<times> device \<Rightarrow> session_message \<Rightarrow> u8 list list \<Rightarrow>
     ('s \<times> message option) \<times> device \<Rightarrow> bool" where
  "daemon_answers daemon \<equiv> answered (\<lambda>w. inbox (snd w))
     (\<lambda>ps w. (fst w, snd w\<lparr>signals := 0, inbox := ps\<rparr>)) (react_to (adb_machine daemon))"

lemma daemon_answersI:
  assumes "daemon_ok I daemon" and "I s" and "daemon s (session_packet m) = (r, s')" and "inbox d = []"
  shows "daemon_answers daemon ((s, None), d) m (packet_transfers r)
    ((s', None), d\<lparr>signals := 0, outbox := outbox d @ session_transfers m\<rparr>)"
proof -
  have react: "fold (react_to (adb_machine daemon)) (session_transfers m) ((s, None), d) =
      ((s', None), d\<lparr>signals := 0, inbox := packet_transfers r, outbox := outbox d @ session_transfers m\<rparr>)"
    unfolding session_transfers_packet
    using react_to_packet [where daemon = daemon and s = s, OF assms(3) session_packet_length] assms(4)
    by simp
  have "adb_answer (packet_transfers r)"
    by (rule answer_packet(1) [OF daemon_okD(1) [OF assms(1-3)]])
  with assms(4) show ?thesis by (simp add: answered_def react)
qed

lemma daemon_session_talk:
  assumes "daemon_session daemon c s ms c' s'" and "daemon_ok I daemon" and "I s" and "inbox d = []"
  shows "session_talk (daemon_answers daemon) c ((s, None), d) c' ((s', None),
    d\<lparr>signals := if ms = [] then signals d else 0, outbox := outbox d @ concat (map session_transfers ms)\<rparr>)"
  using assms(1,3,4)
proof (induction arbitrary: d rule: daemon_session.induct)
  case (stop c s)
  then show ?case by (simp add: session_talk.silence)
next
  case (step c m r c' s s1 ms c'' s'')
  let ?d = "d\<lparr>signals := 0, outbox := outbox d @ session_transfers m\<rparr>"
  note answer = daemon_answersI [OF assms(2) step.prems(1) step.hyps(2) step.prems(2)]
  have r: "answer_code (packet_transfers r) = packet_command r"
    by (rule answer_packet(2) [OF daemon_okD(1) [OF assms(2) step.prems(1) step.hyps(2)]])
  have "I s1" by (rule daemon_okD(2) [OF assms(2) step.prems(1) step.hyps(2)])
  from step.IH [OF this, of ?d] step.prems(2)
  have "session_talk (daemon_answers daemon) c' ((s1, None), ?d) c'' ((s'', None),
      d\<lparr>signals := 0, outbox := outbox d @ concat (map session_transfers (m # ms))\<rparr>)"
    by (simp del: session_transfers.simps cong: if_cong)
  from session_talk.exchange [where X = "daemon_answers daemon", OF step.hyps(1) [folded r] answer this]
  show ?case by (simp del: session_transfers.simps)
qed

section \<open>The program over the daemon\<close>

lemma main_session_remote:
  assumes "daemon_ok I daemon" and "I (s :: 's)" and "daemon s (session_packet Connect_message) = (r, s1)"
    and "20 \<le> length (packet_payload r)" and "0 \<in> set (take 20 (packet_payload r))"
    and "daemon_session daemon Connecting s ms Finished s'"
    and "main_prepare (reactive_env (adb_machine daemon)) fd w =
      Some (Inr ((), (s, None), d))" and "inbox d = []"
  shows "main_session (reactive_env (adb_machine daemon)) fd w =
    Some (Inr ((), (s', None), d\<lparr>signals := 0, outbox := outbox d @ concat (map session_transfers ms),
      calls := calls d @ [Release_interface 3]\<rparr>))"
proof -
  obtain ms' where ms: "ms = Connect_message # ms'"
    and rest: "daemon_session daemon Authenticating s1 ms' Finished s'"
    using assms(3,6) by (auto elim!: daemon_session_ConnectingE)
  then have "ms' \<noteq> []" by auto
  let ?d = "d\<lparr>signals := 0, outbox := outbox d @ session_transfers Connect_message\<rparr>"
  note connect = daemon_answersI [OF assms(1-3,8)]
  have "session_talk (daemon_answers daemon) Authenticating ((s1, None), ?d) Finished ((s', None),
      d\<lparr>signals := 0, outbox := outbox d @ concat (map session_transfers ms)\<rparr>)"
    using daemon_session_talk [OF rest assms(1) daemon_okD(2) [OF assms(1-3)], of ?d] assms(8) ms \<open>ms' \<noteq> []\<close>
    by (simp del: session_transfers.simps)
  note talks = adb_reactive.main_talks [OF connect _ _ this]
  have release: "bnd (usb_release_interface (reactive_env (adb_machine daemon)) fd 3) (\<lambda>_. ret ()) w =
      Some (Inr ((), fst w, (snd w)\<lparr>calls := calls (snd w) @ [Release_interface 3]\<rparr>))"
    for w :: "('s \<times> message option) \<times> device"
    by (cases w) (simp add: usb_release_interface_def bnd_def ioctl_def ret_def success_def reactive_ioctl_def)
  show ?thesis
    using assms(4,5,7) unfolding main_session_def
    by (simp add: talks release packet_bytes_def ms del: session_transfers.simps)
qed

text \<open>A device without descriptors and without a driver is prepared at once.\<close>

lemma main_prepare_reactive:
  assumes "answers d = []" and "driver_name d = None"
  shows "\<exists>cs. main_prepare (reactive_env react) fd (s, d) = Some (Inr ((), s, d\<lparr>calls := cs\<rparr>))"
proof -
  have "\<exists>cs. usb_dump_device (reactive_env react) fd (s, d) = Some (Inr ('''', s, d\<lparr>calls := cs\<rparr>))"
    using assms(1)
    by (auto simp: usb_dump_device_def usb_get_descriptor_def Let_def control_def bnd_def
        descriptor_request_length_def ioctl_def ret_def lift_def failure_def reactive_ioctl_def)
  then obtain cs where "usb_dump_device (reactive_env react) fd (s, d) =
      Some (Inr ('''', s, d\<lparr>calls := cs\<rparr>))" by auto
  then show ?thesis
    using assms(2)
    by (intro exI [where x = "cs @ [Driver_ioctl 3 0x5516, Claim_interface 3]"])
      (simp add: main_prepare_def usb_get_driver_def usb_detach_interface_def usb_claim_interface_def
        bnd_def ioctl_def ret_def failure_def reactive_ioctl_def)
qed

section \<open>Properties\<close>

text \<open>
  C17: the main program over a kernel with a daemon behind the bus refines the system of the
  session machine and this daemon: when the system runs from the start to the end of a session,
  the program lists the device file, sends the messages of the run, leaves the daemon in the
  state the run ends in, releases the interface, and returns 0. The daemon is any machine with
  answers of one transfer whose first answer carries a token with a zero byte.
\<close>

theorem main_refines_daemon:
  assumes daemon: "daemon_ok I daemon" "I s" "daemon s (session_packet Connect_message) = (r, s1)"
    and token: "20 \<le> length (packet_payload r)" "0 \<in> set (take 20 (packet_payload r))"
    and run: "daemon_session daemon Connecting s ms Finished s'"
    and listing: "file_fopen F w = (True, w1)" "list_file F w1 = Some (Inr ((), w2))"
      "file_open F (file_fclose F w2) = (fd, w3)" "fd \<noteq> -1"
    and device: "main_prepare (reactive_env (adb_machine daemon)) fd w3 = Some (Inr ((), (s, None), d))"
      "inbox d = []"
  shows "main F (reactive_env (adb_machine daemon)) w =
    Some (Inr (0, file_close F fd ((s', None), d\<lparr>signals := 0,
      outbox := outbox d @ concat (map session_transfers ms),
      calls := calls d @ [Release_interface 3]\<rparr>)))"
  using main_session_remote [OF daemon token run device] listing
  by (simp add: main_def ret_def bnd_def)

text \<open>A daemon that sends a number of frames and then closes the stream.\<close>

definition frame_daemon :: "nat daemon" where
  "frame_daemon n p =
     (if packet_command p = ADB_COMMAND_A_CNXN then (packet ADB_COMMAND_A_CNXN 0 0 (replicate 20 0), n)
      else if packet_command p \<noteq> ADB_COMMAND_A_OKAY then (packet ADB_COMMAND_A_OKAY 3 4 [], n)
      else if n = 0 then (packet ADB_COMMAND_A_CLSE 3 4 [], n)
      else (packet ADB_COMMAND_A_WRTE 3 4 (replicate 512 0), n - 1))"

lemma frame_daemon_ok: "daemon_ok (\<lambda>_. True) frame_daemon"
  by (simp add: daemon_ok_def frame_daemon_def)

lemma frame_daemon_simps:
  "frame_daemon n (session_packet Connect_message) = (packet ADB_COMMAND_A_CNXN 0 0 (replicate 20 0), n)"
  "frame_daemon n (session_packet Auth_message) = (packet ADB_COMMAND_A_OKAY 3 4 [], n)"
  "frame_daemon n (session_packet Open_message) = (packet ADB_COMMAND_A_OKAY 3 4 [], n)"
  "frame_daemon n (session_packet Ready_message) =
     (if n = 0 then (packet ADB_COMMAND_A_CLSE 3 4 [], n)
      else (packet ADB_COMMAND_A_WRTE 3 4 (replicate 512 0), n - 1))"
  by (simp_all add: frame_daemon_def)

lemma frame_session:
  "daemon_session frame_daemon Connecting 1
     [Connect_message, Auth_message, Open_message, Ready_message, Ready_message] Finished 0"
proof -
  have ready: "frame_daemon 0 (session_packet Ready_message) = (packet ADB_COMMAND_A_CLSE 3 4 [], 0)"
    "frame_daemon 1 (session_packet Ready_message) = (packet ADB_COMMAND_A_WRTE 3 4 (replicate 512 0), 0)"
    by (simp_all only: frame_daemon_simps) simp_all
  note step = daemon_session.step [where daemon = frame_daemon]
  have "daemon_session frame_daemon Streaming 0 [Ready_message] Finished 0"
    by (rule step [OF closed ready(1) daemon_session.stop]) simp
  then have "daemon_session frame_daemon Streaming 1 [Ready_message, Ready_message] Finished 0"
    by (rule step [OF streamed ready(2), rotated]) simp
  then have "daemon_session frame_daemon Opening 1
      [Open_message, Ready_message, Ready_message] Finished 0"
    by (rule step [OF opened frame_daemon_simps(3), rotated]) simp
  then show ?thesis
    by (rule step [OF connected frame_daemon_simps(1) step [OF authenticated frame_daemon_simps(2)]])
qed

text \<open>An empty device file.\<close>

definition empty_file :: "'w files" where
  "empty_file =
     \<lparr>file_fopen = (\<lambda>w. (True, w)), file_getc = (\<lambda>w. (None, w)), file_fclose = (\<lambda>w. w),
      file_open = (\<lambda>w. (3, w)), file_close = (\<lambda>fd w. w)\<rparr>"

lemma empty_file_simps [simp]:
  "file_fopen empty_file w = (True, w)" "list_file empty_file w = Some (Inr ((), w))"
  "file_fclose empty_file w = w" "file_open empty_file w = (3, w)" "file_close empty_file fd w = w"
  by (simp_all add: empty_file_def list_file.simps ret_def)

theorem main_refines_daemon_witness:
  "\<exists>d. main empty_file (reactive_env (adb_machine frame_daemon)) ((1, None), idle) =
    Some (Inr (0, (0, None), d))"
proof -
  obtain cs where prep: "main_prepare (reactive_env (adb_machine frame_daemon)) 3 ((1, None), idle) =
      Some (Inr ((), (1, None), idle\<lparr>calls := cs\<rparr>))"
    using main_prepare_reactive [of idle "adb_machine frame_daemon" 3 "(1, None)"] by (auto simp: idle_def)
  show ?thesis
    using main_refines_daemon [OF frame_daemon_ok TrueI frame_daemon_simps(1) _ _ frame_session _ _ _ _ prep,
        of empty_file "((1, None), idle)"]
    by (auto simp: idle_def)
qed

text \<open>A measure of the daemon: no message increases it, and each answer in the stream that does not close it decreases it.\<close>

definition runs_out :: "('s \<Rightarrow> bool) \<Rightarrow> 's daemon \<Rightarrow> ('s \<Rightarrow> nat) \<Rightarrow> bool" where
  "runs_out I daemon f \<longleftrightarrow>
     (\<forall>s m. I s \<longrightarrow>
        f (snd (daemon s (session_packet m))) \<le> f s \<and>
        (m = Ready_message \<longrightarrow> packet_command (fst (daemon s (session_packet m))) = ADB_COMMAND_A_CLSE \<or>
          f (snd (daemon s (session_packet m))) < f s))"

lemma runs_outD:
  assumes "runs_out I daemon f" and "I s" and "daemon s (session_packet m) = (r, s')"
  shows "f s' \<le> f s" and "m = Ready_message \<Longrightarrow> packet_command r \<noteq> ADB_COMMAND_A_CLSE \<Longrightarrow> f s' < f s"
  using assms by (metis runs_out_def snd_conv, metis runs_out_def fst_conv snd_conv)

lemma stream_finishes:
  assumes "daemon_ok I daemon" and "runs_out I daemon f" and "I s"
  shows "\<exists>ms s'. daemon_session daemon Streaming s ms Finished s' \<and> length ms \<le> f s + 1"
  using assms(3)
proof (induction "f s" arbitrary: s rule: less_induct)
  case less
  obtain r s1 where r: "daemon s (session_packet Ready_message) = (r, s1)"
    by (cases "daemon s (session_packet Ready_message)")
  show ?case
  proof (cases "packet_command r = ADB_COMMAND_A_CLSE")
    case True
    from daemon_session.step [where daemon = daemon, OF closed [OF True] r daemon_session.stop] show ?thesis
      by (intro exI [where x = "[Ready_message]"]) auto
  next
    case False
    have smaller: "f s1 < f s" by (rule runs_outD(2) [OF assms(2) less.prems r refl False])
    obtain ms s' where "daemon_session daemon Streaming s1 ms Finished s'" and "length ms \<le> f s1 + 1"
      using less.hyps [OF smaller daemon_okD(2) [OF assms(1) less.prems r]] by blast
    with smaller daemon_session.step [where daemon = daemon, OF streamed [OF False] r] show ?thesis
      by (intro exI [where x = "Ready_message # ms"]) auto
  qed
qed

lemma session_finishes:
  assumes "daemon_ok I daemon" and "runs_out I daemon f" and "I s"
  shows "\<exists>ms s'. daemon_session daemon Connecting s ms Finished s' \<and> length ms \<le> f s + 4"
proof -
  obtain r1 s1 where r1: "daemon s (session_packet Connect_message) = (r1, s1)"
    by (cases "daemon s (session_packet Connect_message)")
  obtain r2 s2 where r2: "daemon s1 (session_packet Auth_message) = (r2, s2)"
    by (cases "daemon s1 (session_packet Auth_message)")
  obtain r3 s3 where r3: "daemon s2 (session_packet Open_message) = (r3, s3)"
    by (cases "daemon s2 (session_packet Open_message)")
  note ok = daemon_okD(2) [OF assms(1)]
  have I: "I s1" "I s2" "I s3" using ok [OF assms(3) r1] ok [OF _ r2] ok [OF _ r3] by blast+
  have "f s3 \<le> f s"
    using runs_outD(1) [OF assms(2,3) r1] runs_outD(1) [OF assms(2) I(1) r2]
      runs_outD(1) [OF assms(2) I(2) r3] by linarith
  moreover have "\<exists>ms s'. daemon_session daemon Opening s2 ms Finished s' \<and> length ms \<le> f s3 + 2"
  proof (cases "packet_command r3 = ADB_COMMAND_A_OKAY")
    case True
    obtain ms s' where "daemon_session daemon Streaming s3 ms Finished s'" "length ms \<le> f s3 + 1"
      using stream_finishes [OF assms(1,2) I(3)] by blast
    with daemon_session.step [where daemon = daemon, OF opened [OF True] r3] show ?thesis
      by (intro exI [where x = "Open_message # ms"]) auto
  next
    case False
    from daemon_session.step [where daemon = daemon, OF refused [OF False] r3 daemon_session.stop] show ?thesis
      by (intro exI [where x = "[Open_message]"]) auto
  qed
  then obtain ms s' where "daemon_session daemon Opening s2 ms Finished s'" "length ms \<le> f s3 + 2" by blast
  moreover from this daemon_session.step [where daemon = daemon, OF connected r1 daemon_session.step [where daemon = daemon, OF authenticated r2]]
  have "daemon_session daemon Connecting s (Connect_message # Auth_message # ms) Finished s'" by blast
  ultimately show ?thesis by (intro exI [where x = "Connect_message # Auth_message # ms"]) auto
qed

text \<open>
  C18: with a daemon whose streams run out, the main program ends, if it gets as far as the
  session. The daemon has a measure that no answer increases, and that each answer in the stream
  decreases unless it closes the stream; the payloads of its answers fit one transfer, and that
  of the first begins with a token of twenty bytes with a zero among them, without which the program
  stops at the token. The device file can be listed and opened, and the dump of the device and
  the taking over of its interface return, which a descriptor of length 0 prevents, with nothing left to be
  received. Then the program returns 0 after at most four messages more than the measure; what it sent is a whole session of
  the machine and this daemon, and its last request releases the interface.
\<close>

theorem main_ends_with_daemon:
  assumes daemon: "daemon_ok I daemon" "I s" "runs_out I daemon f"
    and token: "daemon s (session_packet Connect_message) = (r, s1)"
      "20 \<le> length (packet_payload r)" "0 \<in> set (take 20 (packet_payload r))"
    and listing: "file_fopen F w = (True, w1)" "list_file F w1 = Some (Inr ((), w2))"
      "file_open F (file_fclose F w2) = (fd, w3)" "fd \<noteq> -1"
    and device: "main_prepare (reactive_env (adb_machine daemon)) fd w3 = Some (Inr ((), (s, None), d))"
      "inbox d = []"
  shows "\<exists>ms s'. length ms \<le> f s + 4 \<and> daemon_session daemon Connecting s ms Finished s' \<and>
    main F (reactive_env (adb_machine daemon)) w =
      Some (Inr (0, file_close F fd ((s', None), d\<lparr>signals := 0,
        outbox := outbox d @ concat (map session_transfers ms),
        calls := calls d @ [Release_interface 3]\<rparr>)))"
proof -
  obtain ms s' where run: "daemon_session daemon Connecting s ms Finished s'" "length ms \<le> f s + 4"
    using session_finishes [OF daemon(1,3,2)] by blast
  with main_session_remote [OF daemon(1,2) token run(1) device] listing show ?thesis
    by (intro exI [where x = ms] exI [where x = s']) (simp add: main_def ret_def bnd_def)
qed

theorem main_ends_with_daemon_witness:
  "\<exists>ms s' d. length ms \<le> 7 + 4 \<and> daemon_session frame_daemon Connecting 7 ms Finished s' \<and>
    main empty_file (reactive_env (adb_machine frame_daemon)) ((7, None), idle) =
      Some (Inr (0, (s', None), d))"
proof -
  have "runs_out (\<lambda>_. True) frame_daemon id"
    unfolding runs_out_def
  proof (intro allI impI conjI)
    fix n m
    show "id (snd (frame_daemon n (session_packet m))) \<le> id n"
      by (cases m) (simp_all add: frame_daemon_simps del: session_packet.simps)
    show "packet_command (fst (frame_daemon n (session_packet m))) = ADB_COMMAND_A_CLSE \<or>
        id (snd (frame_daemon n (session_packet m))) < id n" if "m = Ready_message"
      using that by (simp add: frame_daemon_simps del: session_packet.simps)
  qed
  moreover obtain cs where "main_prepare (reactive_env (adb_machine frame_daemon)) 3 ((7, None), idle) =
      Some (Inr ((), (7, None), idle\<lparr>calls := cs\<rparr>))"
    using main_prepare_reactive [of idle "adb_machine frame_daemon" 3 "(7, None)"] by (auto simp: idle_def)
  ultimately show ?thesis
    using main_ends_with_daemon [OF frame_daemon_ok TrueI _ frame_daemon_simps(1),
        where s = 7 and f = id and F = empty_file and w = "((7, None), idle)" and fd = 3]
    by (fastforce simp: idle_def)
qed

end
