(* ===== verification/Main_Safe.thy ===== *)
theory Main_Safe
  imports Main_Props
begin

text \<open>
  The debug bridge session of \<^verbatim>\<open>src/main.c\<close> over every kernel that keeps the usbdevfs
  contract: which accesses can go wrong, whatever the device sends and whenever it sends it. The
  requests are used only through what the ADB component promises of them.
\<close>

section \<open>One request of the main program\<close>

text \<open>
  What the main program holds after a request, once both its buffers are back: either nothing
  new, or a response at the front of its buffer, with its length and its command.
\<close>

definition main_received :: "buf \<Rightarrow> adb_res \<Rightarrow> int \<times> buf \<times> adb_res \<Rightarrow> bool" where
  "main_received buff res r \<longleftrightarrow>
     r = (-1, buff, res) \<or>
     (\<exists>bs rs. r = (0, overwrite bs buff, rs) \<and> 16 \<le> length bs \<and> length bs \<le> 1024 \<and>
        res_length rs = of_nat (length bs) \<and> load_le32 (known bs) 0 = Inr (res_code rs))"

lemma adb_delivered_main:
  assumes "adb_delivered (Some buff) 2048 (Some res) r"
  shows "main_received buff res (with_buffers r buff res)"
  using assms
proof (unfold adb_delivered_def, elim disjE exE conjE)
  fix bs rs
  assume r: "r = (0, map_option (overwrite (take (unat (2048 :: u32)) bs)) (Some buff), Some rs)"
    and bs: "16 \<le> length bs" "length bs \<le> 1024" "res_length rs = of_nat (length bs)"
      "load_le32 (known bs) 0 = Inr (res_code rs)"
  then have "take (unat (2048 :: u32)) bs = bs" by simp
  with r bs show ?thesis
    unfolding main_received_def with_buffers_def by (intro disjI2 exI [where x = bs]) auto
qed (simp add: with_buffers_def main_received_def)

text \<open>The block that prints the response reads only received bytes.\<close>

lemma main_received_read:
  assumes "main_received buff res (n, buff', res')" and "length buff = 2048"
  shows "read_response n buff' res' = Inr ()" and "length buff' = 2048"
proof -
  from assms consider "n = -1" "buff' = buff"
    | bs where "n = 0" "buff' = overwrite bs buff" "length bs \<le> 1024"
        "res_length res' = of_nat (length bs)"
    by (auto simp: main_received_def)
  then have "read_response n buff' res' = Inr () \<and> length buff' = 2048"
  proof cases
    case 1
    then show ?thesis using assms(2) by (simp add: read_response_def)
  next
    case 2
    then show ?thesis
      using read_response_fresh [of bs n buff "res_code res'"] assms(2) by (cases res') simp
  qed
  then show "read_response n buff' res' = Inr ()" "length buff' = 2048" by simp_all
qed

text \<open>A request whose message is the one \<open>adb_set_message\<close> makes of known bytes.\<close>

lemma main_request:
  assumes "usbdevfs_ok E" and "length p + 24 < 2 ^ 31" and "length buff = 2048"
    and ep: "\<not> bit (word_of_int (out_endp dev) :: u16) 7"
  shows "runs (\<not> usbdevfs_live E) (\<lambda>s. s = Uninitialised)
    (\<lambda>r w'. main_received buff res (with_buffers r buff res))
    (adb_request (usb_ops E) E dev
      (adb_set_message c a0 a1 (of_nat (length p)) (Some (known p @ b))) (Some buff) 2048 (Some res)) w"
proof -
  have "length p < 2 ^ 32" using assms(2) by simp
  from adb_set_message_valid [OF this, of c a0 a1 b] obtain m where
    m: "adb_set_message c a0 a1 (of_nat (length p)) (Some (known p @ b)) =
          Inr \<lparr>header = m, payload = Some (known p @ b)\<rparr>"
    and valid: "adb_valid m p" by blast
  have ok: "adb_message_ok \<lparr>header = m, payload = Some (known p @ b)\<rparr> p"
    using valid assms(2) by (auto simp: adb_message_ok_def)
  show ?thesis
    unfolding adb_request_def m lift_simps ret_bnd
    by (rule runs_mono [OF usb.adb_handle_request_delivered [OF assms(1) ok ep]])
      (use assms(3) adb_delivered_main in auto)
qed

lemma main_string_request:
  assumes "usbdevfs_ok E" and "0 \<notin> set p" and "length p + 24 < 2 ^ 31" and "length buff = 2048"
    and ep: "\<not> bit (word_of_int (out_endp dev) :: u16) 7"
  shows "runs (\<not> usbdevfs_live E) (\<lambda>s. s = Uninitialised)
    (\<lambda>r w'. main_received buff res (with_buffers r buff res))
    (adb_request (usb_ops E) E dev
      (sbind (c_strlen (c_string p)) (\<lambda>n. adb_set_message c a0 a1 (of_nat n) (Some (c_string p))))
      (Some buff) 2048 (Some res)) w"
proof -
  have "c_strlen (known p @ [Some 0]) = Inr (length p)"
    using c_strlen_append [OF assms(2), of "[]"] by simp
  then show ?thesis
    using main_request [OF assms(1,3,4) ep, where b = "[Some 0]"] by (simp add: c_string_known)
qed


section \<open>The stream\<close>

lemma main_ready_safe:
  assumes "usbdevfs_ok E" and "length buff = 2048"
    and ep: "\<not> bit (word_of_int (out_endp dev) :: u16) 7"
  shows "runs (\<not> usbdevfs_live E) (\<lambda>s. s = Uninitialised)
    (\<lambda>r w'. main_received buff res (with_buffers r buff res))
    (adb_ready (usb_ops E) E dev 4 3 (Some buff) 2048 (Some res)) w"
  using main_request [OF assms(1) _ assms(2) ep, of "[]", where b = "[Some 0]"]
  by (simp add: adb_ready_def c_string_known)

text \<open>
  After a request whose response is printed, only the rest of the program can go wrong. The last
  premise is the rest, started with the buffer and the result that came back.
\<close>

lemma runs_bnd_result:
  assumes "runs D F P m w" and "\<And>a w'. m w = Some (Inr (a, w')) \<Longrightarrow> P a w' \<Longrightarrow> runs D F Q (k a) w'"
  shows "runs D F Q (bnd m k) w"
  using assms by (auto simp: runs_def bnd_def split: option.splits sum.splits)

lemma main_request_runs:
  assumes "runs D (\<lambda>s. s = Uninitialised) (\<lambda>r w'. main_received buff res (with_buffers r buff res)) m w"
    and "length buff = 2048" and "F Uninitialised" and "D \<Longrightarrow> D'"
    and k: "\<And>r n buff' res' w'. m w = Some (Inr (r, w')) \<Longrightarrow> with_buffers r buff res = (n, buff', res') \<Longrightarrow>
      length buff' = 2048 \<Longrightarrow> main_received buff res (n, buff', res') \<Longrightarrow> runs D' F Q (k n buff' res') w'"
  shows "runs D' F Q (bnd m (\<lambda>r. case with_buffers r buff res of (n, buff', res') \<Rightarrow> k n buff' res')) w"
proof (rule runs_bnd_result)
  show "runs D' F (\<lambda>r w'. main_received buff res (with_buffers r buff res)) m w"
    by (rule runs_mono [OF assms(1)]) (use assms(3,4) in auto)
next
  fix r w'
  assume m: "m w = Some (Inr (r, w'))" and r: "main_received buff res (with_buffers r buff res)"
  obtain n buff' res' where w: "with_buffers r buff res = (n, buff', res')" by (cases "with_buffers r buff res")
  with r main_received_read(2) [of buff res n buff' res'] assms(2) k [OF m w]
  show "runs D' F Q (case with_buffers r buff res of (n, buff', res') \<Rightarrow> k n buff' res') w'"
    by simp
qed

lemma ready_loop_safe:
  assumes "usbdevfs_ok E" and "length buff = 2048"
    and "\<not> bit (word_of_int (out_endp dev) :: u16) 7"
  shows "runs True (\<lambda>s. s = Uninitialised) (\<lambda>(buff', res') w'. res_code res' = ADB_COMMAND_A_CLSE)
    (ready_loop E dev buff res) w"
proof (rule runs_partial_fixp)
  let ?Q = "\<lambda>(buff' :: buf, res') w'. res_code res' = ADB_COMMAND_A_CLSE"
  let ?post = "\<lambda>r. case r of Inl s \<Rightarrow> s = Uninitialised | Inr (a, w') \<Rightarrow> ?Q a w'"
  let ?P = "\<lambda>E dev buff (res :: adb_res) w r. usbdevfs_ok E \<and> length (buff :: buf) = 2048 \<and>
    \<not> bit (word_of_int (out_endp dev) :: u16) 7 \<longrightarrow> ?post r"
  fix r assume r: "ready_loop E dev buff res w = Some r"
  have "?P E dev buff res w r"
  proof (rule ready_loop.raw_induct [where P = ?P, OF _ r])
    fix f :: "'a env \<Rightarrow> adb_dev \<Rightarrow> buf \<Rightarrow> adb_res \<Rightarrow> 'a \<Rightarrow> ((buf \<times> adb_res) \<times> 'a) checked option"
    fix E dev buff res w r
    let ?rest = "\<lambda>n buff res. bnd (lift (read_response n buff res)) (\<lambda>_.
        if res_code res \<noteq> ADB_COMMAND_A_CLSE then f E dev buff res else ret (buff, res))"
    assume IH: "\<And>E dev buff res w r. f E dev buff res w = Some r \<Longrightarrow> ?P E dev buff res w r"
      and step: "bnd (adb_ready (usb_ops E) E dev 4 3 (Some buff) 2048 (Some res)) (\<lambda>r.
        bnd (lift (read_response (fst (with_buffers r buff res)) (fst (snd (with_buffers r buff res)))
                 (snd (snd (with_buffers r buff res))))) (\<lambda>_.
        if res_code (snd (snd (with_buffers r buff res))) \<noteq> ADB_COMMAND_A_CLSE
        then f E dev (fst (snd (with_buffers r buff res))) (snd (snd (with_buffers r buff res)))
        else ret (snd (with_buffers r buff res)))) w = Some r"
    show "?P E dev buff res w r"
    proof
      assume *: "usbdevfs_ok E \<and> length buff = 2048 \<and> \<not> bit (word_of_int (out_endp dev) :: u16) 7"
      have rec: "runs True (\<lambda>s. s = Uninitialised) ?Q (f E dev buff' res') w'"
        if "length buff' = 2048" for buff' res' w'
        by (rule runs_partial_fixp) (use IH that * in blast)
      have "runs True (\<lambda>s. s = Uninitialised) ?Q
        (bnd (adb_ready (usb_ops E) E dev 4 3 (Some buff) 2048 (Some res)) (\<lambda>r.
          case with_buffers r buff res of (n, buff', res') \<Rightarrow> ?rest n buff' res')) w"
        by (rule main_request_runs [OF main_ready_safe]) (use * rec main_received_read in \<open>auto simp: cmd_simps\<close>)
      then show "?post r" using step
        by (cases r) (simp_all add: case_prod_beta' runs_def cong: if_cong)
    qed
  qed
  with assms show "?post r" by blast
qed


section \<open>The session\<close>

lemma load_le32_received:
  assumes "main_received (uninit 2048) res (n, buff, res')"
  shows "read_header buff = Inr () \<or> read_header buff = Inl Uninitialised"
proof -
  from assms obtain bs where "length bs \<le> 1024" and "buff = overwrite bs (uninit 2048)"
    by (auto simp: main_received_def intro: that [of "[]"])
  then have "load_le32 buff i = Inl Uninitialised \<or> (\<exists>x. load_le32 buff i = Inr x)" if "i \<le> 20" for i
    using that by (auto simp: load_le32_fresh load_le32_known)
  from this [of 0] this [of 4] this [of 8] this [of 12] this [of 16] this [of 20]
  show ?thesis by (auto simp: read_header_def)
qed

lemma read_range_faults:
  "to \<le> length b \<Longrightarrow> read_range b i to = Inr () \<or> read_range b i to = Inl Uninitialised"
proof (induction "to - i" arbitrary: i)
  case 0
  then show ?case by (subst (1 2) read_range.simps) simp
next
  case (Suc m)
  then have "i < length b" "m = to - Suc i" by linarith+
  with Suc show ?case
    by (subst (1 2) read_range.simps) (auto simp: load8_def split: option.splits)
qed

lemma c_strlen_faults:
  "c_strlen b = Inl s \<Longrightarrow> s = Uninitialised \<or> s = Out_of_bounds \<and> (\<exists>t. b = known t \<and> 0 \<notin> set t)"
proof (induction b rule: c_strlen.induct)
  case 1
  then show ?case by (auto intro: exI [where x = "[]"])
next
  case (3 x b)
  have "\<exists>u. Some x # known t = known u \<and> 0 \<notin> set u" if "0 \<notin> set t" "x \<noteq> 0" for t
    using that by (intro exI [where x = "x # t"]) (simp add: known_def)
  with 3 show ?case
    by (auto split: if_splits sum.splits simp: sbind_def)
qed simp

text \<open>
  The first request answers with a token without a zero byte: the bytes 24 to 43 of the response
  were received, and none of them is 0.
\<close>

definition token_unterminated :: "'w env \<Rightarrow> int \<Rightarrow> 'w \<Rightarrow> bool" where
  "token_unterminated E fd w \<longleftrightarrow>
     (\<exists>r w' n buff res token.
        adb_connect (usb_ops E) E (main_dev fd) ADB_PROTO_VERSION 0x1000
          (c_string [104, 111, 115, 116, 58, 58]) (Some (uninit 2048)) 2048
          (Some \<lparr>res_length = 0, res_code = 0\<rparr>) w = Some (Inr (r, w')) \<and>
        with_buffers r (uninit 2048) \<lparr>res_length = 0, res_code = 0\<rparr> = (n, buff, res) \<and>
        take TOKEN_SIZE (drop ADB_HEADER_LEN buff) = known token \<and> 0 \<notin> set token)"

lemma main_connect_runs:
  assumes "usbdevfs_ok E"
  shows "runs (\<not> usbdevfs_live E)
    (\<lambda>s. s = Uninitialised \<or> s = Out_of_bounds \<and> token_unterminated E fd w)
    (\<lambda>(buff, res) w'. length buff = 2048) (main_connect E (main_dev fd)) w"
  unfolding main_connect_def Let_def adb_connect_def
proof (rule main_request_runs [OF main_string_request [OF assms]], goal_cases)
  case (8 r n buff res w')
  note read = main_received_read [OF 8(4)]
  let ?token = "take 20 (drop 24 buff)"
  have token: "memcpy (uninit 20) 0 buff 24 20 = Inr ?token"
    using 8(3) by (simp add: memcpy_def uninit_def)
  have size: "length ?token = 20" using 8(3) by simp
  have shown: "read_range buff 24 (unat (res_length res)) = Inr ()" if "n = 0"
    using read(1) that by (simp add: read_response_def)
  have printed: "read_range ?token 0 20 = Inr () \<or> read_range ?token 0 20 = Inl Uninitialised"
    by (rule read_range_faults) (use size in simp)
  have unterminated: "token_unterminated E fd w" if "?token = known t" "0 \<notin> set t" for t
    unfolding token_unterminated_def adb_connect_def using 8(1,2) that by blast
  show ?case
    using load_le32_received [OF 8(4)] printed shown c_strlen_faults [of ?token] 8(3) unterminated
    by (auto simp: token cmd_simps split: sum.split)
qed (simp_all add: main_dev_def)

lemma main_stream_runs:
  assumes "usbdevfs_ok E" and "length buff = 2048"
  shows "runs True (\<lambda>s. s = Uninitialised) (\<lambda>_ _. True) (main_stream E (main_dev fd) buff res) w"
  unfolding main_stream_def
proof (rule main_request_runs [where D = "\<not> usbdevfs_live E"], goal_cases)
  case 1
  show ?case
    using main_request [OF assms(1) _ assms(2), of rsakey_ex, where b = "[]" and dev = "main_dev fd"]
    by (simp add: adb_auth_def rsakey_ex_def main_dev_def)
next
  case (5 r n buff1 res1 w1)
  have loop: "runs True (\<lambda>s. s = Uninitialised) (\<lambda>_ _. True)
      (bnd (ready_loop E (main_dev fd) buff2 res2) (\<lambda>_. ret ())) w2" if "length buff2 = 2048"
    for buff2 res2 w2
    by (rule runs_bndI [OF ready_loop_safe [OF assms(1) that]]) (simp_all add: main_dev_def cmd_simps)
  have "runs True (\<lambda>s. s = Uninitialised) (\<lambda>_ _. True)
    (bnd (adb_open (usb_ops E) E (main_dev fd) 4
      (c_string [102, 114, 97, 109, 101, 98, 117, 102, 102, 101, 114, 58, 32])
      (Some buff1) 2048 (Some res1)) (\<lambda>r. case with_buffers r buff1 res1 of (n, buff, res) \<Rightarrow>
        bnd (lift (read_response n buff res)) (\<lambda>_. if res_code res = ADB_COMMAND_A_OKAY
          then bnd (ready_loop E (main_dev fd) buff res) (\<lambda>_. ret ()) else ret ()))) w1"
    unfolding adb_open_def
    by (rule main_request_runs [OF main_string_request [OF assms(1)]])
      (use 5(3) loop main_received_read in \<open>auto simp: main_dev_def cmd_simps\<close>)
  then show ?case using main_received_read(1) [OF 5(4) assms(2)] by simp
qed (use assms in simp_all)

text \<open>
  C19: whatever the kernel and the device answer, the connection of the main program is taken and
  its stream is read inside its buffers. Connecting can stop only at bytes that were not received,
  and can leave a buffer only in one way: all twenty bytes of the token were received and none of
  them is 0, and the token is taken for a string. It returns whenever calls are not interrupted for
  ever, and leaves the response buffer whole. The stream, which need not end, can stop only at an
  answer too short to hold its header fields, all that is printed of it was received, and a stream
  loop that ends has A_CLSE for its last command.
\<close>

theorem main_bridge_safe:
  assumes "usbdevfs_ok E" and "length buff = 2048"
  shows "runs (\<not> usbdevfs_live E)
      (\<lambda>s. s = Uninitialised \<or> s = Out_of_bounds \<and> token_unterminated E fd w)
      (\<lambda>(buff, res) w'. length buff = 2048) (main_connect E (main_dev fd)) w \<and>
    runs True (\<lambda>s. s = Uninitialised) (\<lambda>_ _. True) (main_stream E (main_dev fd) buff res) w \<and>
    runs True (\<lambda>s. s = Uninitialised) (\<lambda>(_, res') _. res_code res' = ADB_COMMAND_A_CLSE)
      (ready_loop E (main_dev fd) buff res) w"
  using main_connect_runs [OF assms(1)] main_stream_runs [OF assms]
    ready_loop_safe [OF assms, of "main_dev fd"]
  by (simp add: main_dev_def)

theorem main_bridge_safe_witness:
  "runs False (\<lambda>s. s = Uninitialised \<or> s = Out_of_bounds \<and> token_unterminated device_env 3 idle)
      (\<lambda>(buff, res) w'. length buff = 2048) (main_connect device_env (main_dev 3)) idle \<and>
    runs True (\<lambda>s. s = Uninitialised) (\<lambda>_ _. True)
      (main_stream device_env (main_dev 3) (uninit 2048) \<lparr>res_length = 0, res_code = 0\<rparr>) idle \<and>
    runs True (\<lambda>s. s = Uninitialised) (\<lambda>(_, res') _. res_code res' = ADB_COMMAND_A_CLSE)
      (ready_loop device_env (main_dev 3) (uninit 2048) \<lparr>res_length = 0, res_code = 0\<rparr>) idle"
  using main_bridge_safe [of device_env "uninit 2048" 3 idle "\<lparr>res_length = 0, res_code = 0\<rparr>"]
  by simp

end
