(* ===== verification/Adb_Services.thy ===== *)
theory Adb_Services
  imports Main_Link
begin

text \<open>
  The remaining constants of \<^verbatim>\<open>lib/adb/adb.h\<close>: limits, types, and the names of the
  services a stream can be opened to. No function uses them; the main program writes its
  destination out. The macros paste string literals, which no compiler accepts; what is modelled
  is the concatenation they mean.
\<close>

abbreviation (input) ADB_MAX_DATA_SIZE :: nat where "ADB_MAX_DATA_SIZE \<equiv> 1024 * 256"
abbreviation (input) ADB_MAX_PACKET_SIZE :: nat where "ADB_MAX_PACKET_SIZE \<equiv> 4096"
abbreviation (input) ADB_COMMAND_A_SYNC :: u32 where "ADB_COMMAND_A_SYNC \<equiv> 0x434e5953"
abbreviation (input) ADB_AUTH_TYPE_TOKEN :: u32 where "ADB_AUTH_TYPE_TOKEN \<equiv> 1"
abbreviation (input) ADB_AUTH_TYPE_SIGNATURE :: u32 where "ADB_AUTH_TYPE_SIGNATURE \<equiv> 2"
abbreviation (input) ADB_STLS_VERSION_MIN :: u32 where "ADB_STLS_VERSION_MIN \<equiv> 0x01000000"
abbreviation (input) ADB_STLS_VERSION :: u32 where "ADB_STLS_VERSION \<equiv> 0x01000000"

definition ADB_DESTINATION :: "string \<Rightarrow> string" where "ADB_DESTINATION service = service @ '' ''"
definition ADB_SERVICE_SHELL_RAW :: "string \<Rightarrow> string" where "ADB_SERVICE_SHELL_RAW cmd = ''shell:'' @ cmd"
definition ADB_SERVICE_SHELL_IT :: string where "ADB_SERVICE_SHELL_IT = ''shell:''"
definition ADB_SERVICE_SHELL_V2 :: string where "ADB_SERVICE_SHELL_V2 = ''shell,v2:''"
definition ADB_SERVICE_EXEC :: string where "ADB_SERVICE_EXEC = ''exec:''"
definition ADB_SERVICE_ABB :: "string \<Rightarrow> string" where "ADB_SERVICE_ABB cmd = ''abb:'' @ cmd"
definition ADB_SERVICE_ABB_PTY :: "string \<Rightarrow> string" where "ADB_SERVICE_ABB_PTY cmd = ''abb_exec:'' @ cmd"
definition ADB_SERVICE_REMOUNT :: string where "ADB_SERVICE_REMOUNT = ''remount:''"
definition ADB_SERVICE_DEV :: "string \<Rightarrow> string" where "ADB_SERVICE_DEV path = ''dev:'' @ path"
definition ADB_SERVICE_DEV_RAW :: "string \<Rightarrow> string" where "ADB_SERVICE_DEV_RAW path = ''dev-raw:'' @ path"
definition ADB_SERVICE_TCP :: "string \<Rightarrow> string" where "ADB_SERVICE_TCP port = ''tcp:'' @ port"
definition ADB_SERVICE_TCP_SNAME :: "string \<Rightarrow> string \<Rightarrow> string" where
  "ADB_SERVICE_TCP_SNAME port server_name = ''tcp:'' @ port @ '':'' @ server_name"
definition ADB_SERVICE_FRAMEBUFFER :: string where "ADB_SERVICE_FRAMEBUFFER = ''framebuffer:''"
definition ADB_SERVICE_TRACK_APP :: string where "ADB_SERVICE_TRACK_APP = ''track-app:''"
definition ADB_SERVICE_SYNC :: string where "ADB_SERVICE_SYNC = ''sync:''"
definition ADB_SERVICE_REVERSE :: "string \<Rightarrow> string" where "ADB_SERVICE_REVERSE cmd = ''reverse:'' @ cmd"

text \<open>The destination of the main program is the framebuffer service of the header.\<close>

lemma main_destination:
  "framebuffer_service = map of_char (ADB_DESTINATION ADB_SERVICE_FRAMEBUFFER)"
  by (simp add: framebuffer_service_def ADB_DESTINATION_def ADB_SERVICE_FRAMEBUFFER_def)

text \<open>The commands of the protocol are their names on the wire.\<close>

lemma command_names:
  "enc32 ADB_COMMAND_A_SYNC = map of_char ''SYNC''" "enc32 ADB_COMMAND_A_CNXN = map of_char ''CNXN''"
  "enc32 ADB_COMMAND_A_AUTH = map of_char ''AUTH''" "enc32 ADB_COMMAND_A_OPEN = map of_char ''OPEN''"
  "enc32 ADB_COMMAND_A_OKAY = map of_char ''OKAY''" "enc32 ADB_COMMAND_A_CLSE = map of_char ''CLSE''"
  "enc32 ADB_COMMAND_A_WRTE = map of_char ''WRTE''" "enc32 ADB_COMMAND_A_STLS = map of_char ''STLS''"
  by (simp_all add: enc32_def)

end
