(* ===== verification/Main_Sign.thy ===== *)
theory Main_Sign
  imports Usb
begin

text \<open>
  Signing with a private key, \<^verbatim>\<open>load_private_key\<close> and \<^verbatim>\<open>sign_msg\<close> of
  \<^verbatim>\<open>src/main.c\<close> (nothing calls them yet). OpenSSL is a parameter: the record of the
  functions that are called, and a contract that says what its documentation says about the
  objects they allocate and release. What is printed is not modelled, except that printing the
  errors empties the error queue.
\<close>

section \<open>OpenSSL\<close>

text \<open>
  Keys, contexts and memory are handles; a null result is \<open>None\<close>. \<open>ssl_sign_length\<close> is
  \<^verbatim>\<open>EVP_PKEY_sign\<close> without an output buffer, which only gives a length, and \<open>ssl_sign\<close>
  the call with a buffer of that length, which gives the bytes written to it.
\<close>

record 'w openssl =
  ssl_bio_new_file :: "buf \<Rightarrow> 'w \<Rightarrow> nat option \<times> 'w"
  ssl_read_private_key :: "nat \<Rightarrow> 'w \<Rightarrow> nat option \<times> 'w"
  ssl_print_errors :: "'w \<Rightarrow> unit \<times> 'w"
  ssl_get_error :: "'w \<Rightarrow> 64 word \<times> 'w"
  ssl_ctx_new :: "nat \<Rightarrow> 'w \<Rightarrow> nat option \<times> 'w"
  ssl_sign_init :: "nat \<Rightarrow> 'w \<Rightarrow> int \<times> 'w"
  ssl_set_rsa_padding :: "nat \<Rightarrow> int \<Rightarrow> 'w \<Rightarrow> int \<times> 'w"
  ssl_set_signature_md :: "nat \<Rightarrow> 'w \<Rightarrow> int \<times> 'w"
  ssl_sign_length :: "nat \<Rightarrow> nat \<Rightarrow> 'w \<Rightarrow> (int \<times> nat) \<times> 'w"
  ssl_malloc :: "nat \<Rightarrow> 'w \<Rightarrow> nat option \<times> 'w"
  ssl_sign :: "nat \<Rightarrow> nat \<Rightarrow> u8 list \<Rightarrow> 'w \<Rightarrow> (int \<times> u8 list) \<times> 'w"
  ssl_ctx_free :: "nat \<Rightarrow> 'w \<Rightarrow> unit \<times> 'w"
  ssl_free :: "nat \<Rightarrow> 'w \<Rightarrow> unit \<times> 'w"
  ssl_pkey_free :: "nat \<Rightarrow> 'w \<Rightarrow> unit \<times> 'w"

text \<open>A call into the library, which always returns.\<close>

definition call :: "('w \<Rightarrow> 'a \<times> 'w) \<Rightarrow> ('w, 'a) cmd" where
  "call f = (\<lambda>w. Some (Inr (f w)))"

abbreviation (input) RSA_PKCS1_PADDING :: int where "RSA_PKCS1_PADDING \<equiv> 1"
abbreviation (input) MDLEN :: nat where "MDLEN \<equiv> 32"

section \<open>The functions\<close>

definition load_private_key :: "'w openssl \<Rightarrow> buf \<Rightarrow> ('w, nat option) cmd" where
  "load_private_key S file =
     bnd (call (ssl_bio_new_file S file)) (\<lambda>keybio.
     case keybio of
       None \<Rightarrow> bnd (call (ssl_print_errors S)) (\<lambda>_. halt (Exited 0))
     | Some keybio \<Rightarrow>
         bnd (call (ssl_read_private_key S keybio)) (\<lambda>pkey.
         case pkey of
           None \<Rightarrow> bnd (call (ssl_print_errors S)) (\<lambda>_. halt (Exited 0))
         | Some pkey \<Rightarrow> ret (Some pkey)))"

text \<open>The first \<open>n\<close> bytes at a pointer, as the library reads them.\<close>

fun load_bytes :: "buf \<Rightarrow> nat \<Rightarrow> u8 list checked" where
  "load_bytes b 0 = Inr []"
| "load_bytes [] (Suc n) = Inl Out_of_bounds"
| "load_bytes (None # b) (Suc n) = Inl Uninitialised"
| "load_bytes (Some x # b) (Suc n) = sbind (load_bytes b n) (\<lambda>xs. Inr (x # xs))"

type_synonym signed = "int \<times> buf option \<times> nat option"

text \<open>The label \<^verbatim>\<open>done\<close>: what was allocated is released, in this order.\<close>

definition sign_done ::
    "'w openssl \<Rightarrow> nat option \<Rightarrow> nat option \<Rightarrow> nat option \<Rightarrow> signed \<Rightarrow> ('w, signed) cmd" where
  "sign_done S ctx sig signing_key result =
     bnd (case ctx of None \<Rightarrow> ret () | Some c \<Rightarrow> call (ssl_ctx_free S c)) (\<lambda>_.
     bnd (case sig of None \<Rightarrow> ret () | Some s \<Rightarrow> call (ssl_free S s)) (\<lambda>_.
     bnd (case signing_key of None \<Rightarrow> ret () | Some k \<Rightarrow> call (ssl_pkey_free S k)) (\<lambda>_.
     ret result)))"

text \<open>
  \<^verbatim>\<open>ret = ERR_get_error(); goto done;\<close>: the code, an \<^verbatim>\<open>unsigned long\<close>, is cut to an
  \<^verbatim>\<open>int\<close>.
\<close>

definition int_of_error :: "64 word \<Rightarrow> int" where
  "int_of_error e = sint (ucast e :: 32 word)"

definition sign_fail ::
    "'w openssl \<Rightarrow> nat option \<Rightarrow> nat option \<Rightarrow> nat option \<Rightarrow> buf option \<Rightarrow> nat option \<Rightarrow>
     ('w, signed) cmd" where
  "sign_fail S ctx sig signing_key sign signlen =
     bnd (call (ssl_get_error S)) (\<lambda>e.
     sign_done S ctx sig signing_key (int_of_error e, sign, signlen))"

text \<open>The two calls of \<^verbatim>\<open>EVP_PKEY_sign\<close> and the copy to the caller.\<close>

definition sign_digest ::
    "'w openssl \<Rightarrow> nat \<Rightarrow> nat option \<Rightarrow> buf \<Rightarrow> buf option \<Rightarrow> nat option \<Rightarrow> ('w, signed) cmd" where
  "sign_digest S ctx signing_key md sign signlen =
     bnd (call (ssl_sign_length S ctx MDLEN)) (\<lambda>(r, siglen).
     if r \<le> 0 then sign_fail S (Some ctx) None signing_key sign signlen
     else
       bnd (call (ssl_malloc S siglen)) (\<lambda>sig.
       case sig of
         None \<Rightarrow> sign_fail S (Some ctx) None signing_key sign signlen
       | Some m \<Rightarrow>
           bnd (lift (load_bytes md MDLEN)) (\<lambda>digest.
           bnd (call (ssl_sign S ctx siglen digest)) (\<lambda>(r, sig).
           if r \<le> 0 then sign_fail S (Some ctx) (Some m) signing_key sign signlen
           else
             bnd (case sign of
                    None \<Rightarrow> ret None
                  | Some b \<Rightarrow>
                      bnd (lift (memcpy b 0 (known sig) 0 (length sig))) (\<lambda>b. ret (Some b)))
               (\<lambda>sign.
             sign_done S (Some ctx) (Some m) signing_key
               (0, sign, map_option (\<lambda>_. length sig) signlen))))))"

text \<open>From the context on, with its three settings, and from the key on.\<close>

definition sign_in_context ::
    "'w openssl \<Rightarrow> nat \<Rightarrow> nat option \<Rightarrow> buf \<Rightarrow> buf option \<Rightarrow> nat option \<Rightarrow> ('w, signed) cmd" where
  "sign_in_context S ctx signing_key md sign signlen =
     bnd (call (ssl_sign_init S ctx)) (\<lambda>r.
     if r \<le> 0 then sign_fail S (Some ctx) None signing_key sign signlen
     else
       bnd (call (ssl_set_rsa_padding S ctx RSA_PKCS1_PADDING)) (\<lambda>r.
       if r \<le> 0 then sign_fail S (Some ctx) None signing_key sign signlen
       else
         bnd (call (ssl_set_signature_md S ctx)) (\<lambda>r.
         if r \<le> 0 then sign_fail S (Some ctx) None signing_key sign signlen
         else sign_digest S ctx signing_key md sign signlen)))"

definition sign_with_key ::
    "'w openssl \<Rightarrow> nat \<Rightarrow> buf \<Rightarrow> buf option \<Rightarrow> nat option \<Rightarrow> ('w, signed) cmd" where
  "sign_with_key S k md sign signlen =
     bnd (call (ssl_ctx_new S k)) (\<lambda>ctx.
     case ctx of
       None \<Rightarrow> sign_fail S None None (Some k) sign signlen
     | Some c \<Rightarrow> sign_in_context S c (Some k) md sign signlen)"

definition sign_msg ::
    "'w openssl \<Rightarrow> buf \<Rightarrow> buf \<Rightarrow> int \<Rightarrow> buf option \<Rightarrow> nat option \<Rightarrow> ('w, signed) cmd" where
  "sign_msg S prk_path msg len sign signlen =
     bnd (load_private_key S prk_path) (\<lambda>signing_key.
     case signing_key of
       None \<Rightarrow>
         bnd (call (ssl_print_errors S)) (\<lambda>_. sign_fail S None None None sign signlen)
     | Some k \<Rightarrow> sign_with_key S k msg sign signlen)"

end
