(* ===== verification/Sign_Props.thy ===== *)
theory Sign_Props
  imports Main_Sign
begin

text \<open>
  What \<^verbatim>\<open>sign_msg\<close> releases and what it reports, for every OpenSSL that keeps its
  documented contract; a simulated library shows that the contract can be met and evaluates the
  failures.
\<close>

section \<open>The contract of the library\<close>

datatype ssl_object = Bio nat | Pkey nat | Ctx nat | Mem nat

definition allocates ::
    "('w \<Rightarrow> ssl_object set) \<Rightarrow> (nat \<Rightarrow> ssl_object) \<Rightarrow> ('w \<Rightarrow> nat option \<times> 'w) \<Rightarrow> 'w \<Rightarrow> bool" where
  "allocates live mk f w \<longleftrightarrow>
     (case f w of
        (None, w') \<Rightarrow> live w' = live w
      | (Some a, w') \<Rightarrow> mk a \<notin> live w \<and> live w' = insert (mk a) (live w))"

definition keeps :: "('w \<Rightarrow> ssl_object set) \<Rightarrow> ('w \<Rightarrow> 'a \<times> 'w) \<Rightarrow> 'w \<Rightarrow> bool" where
  "keeps live f w \<longleftrightarrow> live (snd (f w)) = live w"

definition releases ::
    "('w \<Rightarrow> ssl_object set) \<Rightarrow> ssl_object \<Rightarrow> ('w \<Rightarrow> unit \<times> 'w) \<Rightarrow> 'w \<Rightarrow> bool" where
  "releases live x f w \<longleftrightarrow> (x \<in> live w \<longrightarrow> live (snd (f w)) = live w - {x})"

text \<open>
  \<open>live w\<close> are the objects that have been allocated and not released. The constructors add one
  that is not among them or fail, the calls that configure a context and sign change none, and a
  release removes its object. Nothing is said of a release of an object that is not live.
\<close>

definition openssl_ok :: "'w openssl \<Rightarrow> ('w \<Rightarrow> ssl_object set) \<Rightarrow> bool" where
  "openssl_ok S live \<longleftrightarrow>
     (\<forall>w p k c n i md.
        allocates live Bio (ssl_bio_new_file S p) w \<and>
        allocates live Pkey (ssl_read_private_key S k) w \<and>
        allocates live Ctx (ssl_ctx_new S k) w \<and>
        allocates live Mem (ssl_malloc S n) w \<and>
        keeps live (ssl_print_errors S) w \<and> keeps live (ssl_get_error S) w \<and>
        keeps live (ssl_sign_init S c) w \<and> keeps live (ssl_set_rsa_padding S c i) w \<and>
        keeps live (ssl_set_signature_md S c) w \<and> keeps live (ssl_sign_length S c n) w \<and>
        keeps live (ssl_sign S c n md) w \<and>
        releases live (Ctx c) (ssl_ctx_free S c) w \<and>
        releases live (Mem c) (ssl_free S c) w \<and>
        releases live (Pkey c) (ssl_pkey_free S c) w)"

lemma openssl_okD:
  assumes "openssl_ok S live"
  shows "allocates live Bio (ssl_bio_new_file S p) w"
    "allocates live Pkey (ssl_read_private_key S k) w"
    "allocates live Ctx (ssl_ctx_new S k) w" "allocates live Mem (ssl_malloc S n) w"
    "live (snd (ssl_get_error S w)) = live w"
    "live (snd (ssl_sign_init S c w)) = live w"
    "live (snd (ssl_set_rsa_padding S c i w)) = live w"
    "live (snd (ssl_set_signature_md S c w)) = live w"
    "live (snd (ssl_sign_length S c n w)) = live w"
    "live (snd (ssl_sign S c n md w)) = live w"
    "Ctx c \<in> live w \<Longrightarrow> live (snd (ssl_ctx_free S c w)) = live w - {Ctx c}"
    "Mem c \<in> live w \<Longrightarrow> live (snd (ssl_free S c w)) = live w - {Mem c}"
    "Pkey c \<in> live w \<Longrightarrow> live (snd (ssl_pkey_free S c w)) = live w - {Pkey c}"
  using assms by (simp_all add: openssl_ok_def keeps_def releases_def)

lemma runs_call [cmd_simps]: "runs D F Q (call f) w \<longleftrightarrow> Q (fst (f w)) (snd (f w))"
  by (simp add: runs_def call_def split: prod.splits)

lemma runs_bnd_call: "runs D F Q (bnd (call f) k) w \<longleftrightarrow> runs D F Q (k (fst (f w))) (snd (f w))"
  by (simp add: runs_bnd runs_call)

lemma runs_allocates:
  assumes "allocates live mk f w"
    and "\<And>w'. live w' = live w \<Longrightarrow> runs D F Q (k None) w'"
    and "\<And>a w'. mk a \<notin> live w \<Longrightarrow> live w' = insert (mk a) (live w) \<Longrightarrow> runs D F Q (k (Some a)) w'"
  shows "runs D F Q (bnd (call f) k) w"
  using assms by (auto simp: allocates_def runs_bnd_call split: prod.splits option.splits)

section \<open>The epilogue\<close>

definition held :: "nat option \<Rightarrow> nat option \<Rightarrow> nat option \<Rightarrow> ssl_object set" where
  "held ctx sig key = Ctx ` set_option ctx \<union> Mem ` set_option sig \<union> Pkey ` set_option key"

lemma held_simps:
  "held None None None = {}"
  "held None None (Some k) = {Pkey k}"
  "held None (Some s) key = insert (Mem s) (held None None key)"
  "held (Some c) sig key = insert (Ctx c) (held None sig key)"
  "Mem s \<notin> held None None key" "Ctx c \<notin> held None sig key"
  by (auto simp: held_def)

lemma Un_insert_remove: "x \<notin> A \<Longrightarrow> x \<notin> B \<Longrightarrow> insert x (A \<union> B) - {x} = A \<union> B"
  by auto

lemma sign_done_runs:
  assumes "openssl_ok S live" and "live w = L \<union> held ctx sig key" and "L \<inter> held ctx sig key = {}"
    and "\<And>w'. live w' = L \<Longrightarrow> Q result w'"
  shows "runs D F Q (sign_done S ctx sig key result) w"
proof -
  note free = openssl_okD(11-13) [OF assms(1)]
  have pkey: "runs D F Q (bnd (case key of None \<Rightarrow> ret () | Some k \<Rightarrow> call (ssl_pkey_free S k))
      (\<lambda>_. ret result)) w"
    if "live w = L \<union> held None None key" "L \<inter> held None None key = {}" for w
  proof (cases key)
    case None
    with that show ?thesis by (simp add: held_simps runs_ret assms(4))
  next
    case (Some k)
    with that free(3) [of k w] have "live (snd (ssl_pkey_free S k w)) = L"
      by (simp add: held_simps)
    with Some show ?thesis by (simp add: runs_bnd_call runs_ret assms(4))
  qed
  have sig: "runs D F Q (bnd (case sig of None \<Rightarrow> ret () | Some s \<Rightarrow> call (ssl_free S s)) (\<lambda>_.
      bnd (case key of None \<Rightarrow> ret () | Some k \<Rightarrow> call (ssl_pkey_free S k)) (\<lambda>_. ret result))) w"
    if "live w = L \<union> held None sig key" "L \<inter> held None sig key = {}" for w
  proof (cases sig)
    case None
    with pkey [of w] that show ?thesis by simp
  next
    case (Some s)
    with that free(2) [of s w] have "live (snd (ssl_free S s w)) = L \<union> held None None key"
      by (simp add: held_simps Un_insert_remove)
    with Some that show ?thesis by (simp add: runs_bnd_call held_simps pkey)
  qed
  show ?thesis
    unfolding sign_done_def
  proof (cases ctx)
    case None
    with sig [of w] assms(2,3)
    show "runs D F Q (bnd (case ctx of None \<Rightarrow> ret () | Some c \<Rightarrow> call (ssl_ctx_free S c)) (\<lambda>_.
      bnd (case sig of None \<Rightarrow> ret () | Some s \<Rightarrow> call (ssl_free S s)) (\<lambda>_.
      bnd (case key of None \<Rightarrow> ret () | Some k \<Rightarrow> call (ssl_pkey_free S k)) (\<lambda>_. ret result)))) w"
      by simp
  next
    case (Some c)
    with assms(2,3) free(1) [of c w]
    have "live (snd (ssl_ctx_free S c w)) = L \<union> held None sig key"
      by (simp add: held_simps Un_insert_remove)
    with Some assms(3)
    show "runs D F Q (bnd (case ctx of None \<Rightarrow> ret () | Some c \<Rightarrow> call (ssl_ctx_free S c)) (\<lambda>_.
      bnd (case sig of None \<Rightarrow> ret () | Some s \<Rightarrow> call (ssl_free S s)) (\<lambda>_.
      bnd (case key of None \<Rightarrow> ret () | Some k \<Rightarrow> call (ssl_pkey_free S k)) (\<lambda>_. ret result)))) w"
      by (simp add: runs_bnd_call held_simps sig)
  qed
qed


section \<open>The outcome\<close>

text \<open>
  Either the code of an error, with nothing given to the caller, or a signature of the first 32
  bytes of the message with its length.
\<close>

definition signed_result ::
    "'w openssl \<Rightarrow> buf \<Rightarrow> buf option \<Rightarrow> nat option \<Rightarrow> signed \<Rightarrow> bool" where
  "signed_result S msg sign signlen r \<longleftrightarrow>
     (\<exists>w. r = (int_of_error (fst (ssl_get_error S w)), sign, signlen)) \<or>
     (\<exists>c n md w sg. load_bytes msg 32 = Inr md \<and> 0 < fst (fst (ssl_sign S c n md w)) \<and>
        sg = snd (fst (ssl_sign S c n md w)) \<and>
        r = (0, map_option (overwrite sg) sign, map_option (\<lambda>_. length sg) signlen))"

text \<open>
  The ways to stop: the process exits when the key cannot be read, the message is shorter than
  32 bytes, or the signature does not fit.
\<close>

definition sign_fault :: "'w openssl \<Rightarrow> buf \<Rightarrow> buf option \<Rightarrow> stop \<Rightarrow> bool" where
  "sign_fault S msg sign s \<longleftrightarrow>
     s = Exited 0 \<or> load_bytes msg 32 = Inl s \<or>
     (\<exists>b c n md w. sign = Some b \<and> length b < length (snd (fst (ssl_sign S c n md w))) \<and>
        s = Out_of_bounds)"

lemma sign_fail_runs:
  assumes "openssl_ok S live" and "live w = L \<union> held ctx sig key" and "L \<inter> held ctx sig key = {}"
  shows "runs D F (\<lambda>r w'. signed_result S msg sign signlen r \<and> live w' = L)
    (sign_fail S ctx sig key sign signlen) w"
  unfolding sign_fail_def runs_bnd_call
  by (rule sign_done_runs [OF assms(1) _ assms(3)])
    (use assms(2) in \<open>auto simp: openssl_okD(5) [OF assms(1)] signed_result_def\<close>)

lemma sign_digest_runs:
  assumes S: "openssl_ok S live" and w: "live w = L \<union> held (Some c) None key"
    and L: "L \<inter> held (Some c) None key = {}"
  shows "runs False (sign_fault S msg sign)
    (\<lambda>r w'. signed_result S msg sign signlen r \<and> live w' = L)
    (sign_digest S c key msg sign signlen) w"
proof -
  let ?Q = "\<lambda>r w'. signed_result S msg sign signlen r \<and> live w' = L"
  let ?F = "sign_fault S msg sign"
  have fail: "runs False ?F ?Q (sign_fail S (Some c) None key sign signlen) w'"
    if "live w' = live w" for w'
    by (rule sign_fail_runs [OF S _ L]) (use w that in simp)
  have sign: "runs False ?F ?Q
      (bnd (lift (load_bytes msg 32)) (\<lambda>digest.
       bnd (call (ssl_sign S c n digest)) (\<lambda>(r, sig).
       if r \<le> 0 then sign_fail S (Some c) (Some m) key sign signlen
       else
         bnd (case sign of None \<Rightarrow> ret None
              | Some b \<Rightarrow> bnd (lift (memcpy b 0 (known sig) 0 (length sig))) (\<lambda>b. ret (Some b)))
           (\<lambda>sign. sign_done S (Some c) (Some m) key
             (0, sign, map_option (\<lambda>_. length sig) signlen))))) w'"
    if "live w' = L \<union> held (Some c) (Some m) key" "L \<inter> held (Some c) (Some m) key = {}" for n m w'
  proof (cases "load_bytes msg 32")
    case (Inl s)
    then show ?thesis by (simp add: runs_halt sign_fault_def)
  next
    case (Inr md)
    define w2 where "w2 = snd (ssl_sign S c n md w')"
    define k where "k = fst (fst (ssl_sign S c n md w'))"
    define sg where "sg = snd (fst (ssl_sign S c n md w'))"
    have eq: "ssl_sign S c n md w' = ((k, sg), w2)" by (simp add: k_def sg_def w2_def)
    have w2: "live w2 = L \<union> held (Some c) (Some m) key"
      using openssl_okD(10) [OF S, of c n md w'] that(1) by (simp add: w2_def)
    have good: "runs False ?F ?Q (sign_done S (Some c) (Some m) key
        (0, map_option (overwrite sg) sign, map_option (\<lambda>_. length sg) signlen)) w2" if "0 < k"
    proof (rule sign_done_runs [OF S w2 \<open>L \<inter> held (Some c) (Some m) key = {}\<close>])
      have "signed_result S msg sign signlen
          (0, map_option (overwrite sg) sign, map_option (\<lambda>_. length sg) signlen)"
        unfolding signed_result_def using Inr that k_def sg_def by blast
      then show "\<And>w''. live w'' = L \<Longrightarrow> ?Q
          (0, map_option (overwrite sg) sign, map_option (\<lambda>_. length sg) signlen) w''"
        by blast
    qed
    have short: "?F Out_of_bounds" if "sign = Some b" "length b < length sg" for b
      using that sg_def unfolding sign_fault_def by blast
    show ?thesis
    proof (cases "k \<le> 0")
      case True
      then show ?thesis
        using sign_fail_runs [OF S w2 that(2)] by (simp add: Inr runs_bnd_call eq)
    next
      case False
      then show ?thesis
      proof (cases sign)
        case None
        with False good show ?thesis by (simp add: Inr runs_bnd_call eq)
      next
        case (Some b)
        then show ?thesis
          using False good short [OF Some]
          by (cases "length sg \<le> length b")
            (simp_all add: Inr runs_bnd_call eq memcpy_overflow runs_halt)
      qed
    qed
  qed
  define w1 where "w1 = snd (ssl_sign_length S c 32 w)"
  define k where "k = fst (fst (ssl_sign_length S c 32 w))"
  define n where "n = snd (fst (ssl_sign_length S c 32 w))"
  have eq: "ssl_sign_length S c 32 w = ((k, n), w1)" by (simp add: k_def n_def w1_def)
  have w1: "live w1 = live w" using openssl_okD(9) [OF S, of c 32 w] by (simp add: w1_def)
  show ?thesis
  proof (cases "k \<le> 0")
    case True
    with fail [OF w1] show ?thesis by (simp add: sign_digest_def runs_bnd_call eq)
  next
    case False
    have "runs False ?F ?Q (bnd (call (ssl_malloc S n)) (\<lambda>sig.
       case sig of
         None \<Rightarrow> sign_fail S (Some c) None key sign signlen
       | Some m \<Rightarrow>
           bnd (lift (load_bytes msg 32)) (\<lambda>digest.
           bnd (call (ssl_sign S c n digest)) (\<lambda>(r, sig).
           if r \<le> 0 then sign_fail S (Some c) (Some m) key sign signlen
           else
             bnd (case sign of None \<Rightarrow> ret None
                  | Some b \<Rightarrow> bnd (lift (memcpy b 0 (known sig) 0 (length sig))) (\<lambda>b. ret (Some b)))
               (\<lambda>sign. sign_done S (Some c) (Some m) key
                 (0, sign, map_option (\<lambda>_. length sig) signlen)))))) w1"
    proof (rule runs_allocates [OF openssl_okD(4) [OF S]], goal_cases)
      case (1 w')
      with fail [of w'] w1 show ?case by simp
    next
      case (2 m w')
      have held: "held (Some c) (Some m) key = insert (Mem m) (held (Some c) None key)"
        by (auto simp: held_def)
      from 2 w w1 L have "live w' = L \<union> held (Some c) (Some m) key"
        "L \<inter> held (Some c) (Some m) key = {}"
        unfolding held by auto
      with sign show ?case by simp
    qed
    with False show ?thesis by (simp add: sign_digest_def runs_bnd_call eq)
  qed
qed


lemma sign_msg_runs:
  assumes S: "openssl_ok S live"
  shows "runs False (sign_fault S msg sign)
    (\<lambda>r w'. signed_result S msg sign signlen r \<and>
       (\<exists>b. Bio b \<notin> live w \<and> live w' = insert (Bio b) (live w)))
    (sign_msg S prk_path msg len sign signlen) w"
proof -
  let ?F = "sign_fault S msg sign"
  let ?Q = "\<lambda>L r w'. signed_result S msg sign signlen r \<and> live w' = L"
  let ?R = "\<lambda>r w'. signed_result S msg sign signlen r \<and>
    (\<exists>b. Bio b \<notin> live w \<and> live w' = insert (Bio b) (live w))"
  have exits: "?F (Exited 0)" by (simp add: sign_fault_def)
  have configured: "runs False ?F (?Q L) (sign_in_context S c (Some k) msg sign signlen) w'"
    if "live w' = L \<union> held (Some c) None (Some k)" "L \<inter> held (Some c) None (Some k) = {}" for c k L w'
    unfolding sign_in_context_def runs_bnd_call
    using that sign_fail_runs [OF S _ that(2)] sign_digest_runs [OF S _ that(2)]
    by (simp add: runs_bnd_call openssl_okD(6-8) [OF S])
  have keyed: "runs False ?F (?Q L) (sign_with_key S k msg sign signlen) w'"
    if "live w' = insert (Pkey k) L" "Pkey k \<notin> L" for k L w'
    unfolding sign_with_key_def
  proof (rule runs_allocates [OF openssl_okD(3) [OF S]], goal_cases)
    case (1 w'')
    with that show ?case by (simp add: sign_fail_runs [OF S] held_simps)
  next
    case (2 c w'')
    with that configured [of w'' L c k] show ?case by (simp add: held_simps insert_commute)
  qed
  show ?thesis
    unfolding sign_msg_def load_private_key_def bnd_assoc
  proof (rule runs_allocates [OF openssl_okD(1) [OF S]], goal_cases)
    case (1 w')
    then show ?case by (simp add: bnd_assoc runs_bnd_call runs_halt exits)
  next
    case (2 b w')
    show ?case
      unfolding option.case bnd_assoc
    proof (rule runs_allocates [OF openssl_okD(2) [OF S]], goal_cases)
      case (1 w'')
      then show ?case by (simp add: bnd_assoc runs_bnd_call runs_halt exits)
    next
      case k: (2 k w'')
      have "runs False ?F (?Q (insert (Bio b) (live w))) (sign_with_key S k msg sign signlen) w''"
        by (rule keyed) (use k 2 in simp_all)
      then have "runs False ?F ?R (sign_with_key S k msg sign signlen) w''"
        by (rule runs_mono) (use 2(1) in blast)+
      then show ?case by simp
    qed
  qed
qed


text \<open>
  C39: for every OpenSSL that keeps its contract, signing either exits with status 0, stops at a
  message below 32 bytes or at a buffer too small for the signature, or returns a signature of
  the first 32 bytes or the code of an error. On every path to the end the key, the context and
  the memory it allocated are released once, and the file object is not: one is left behind.
\<close>

theorem sign_msg_outcome:
  assumes "openssl_ok S live"
  shows "runs False (sign_fault S msg sign)
    (\<lambda>r w'. signed_result S msg sign signlen r \<and>
       (\<exists>b. Bio b \<notin> live w \<and> live w' = insert (Bio b) (live w)))
    (sign_msg S prk_path msg len sign signlen) w"
  by (rule sign_msg_runs [OF assms])

section \<open>A simulated library\<close>

text \<open>
  Each call fails if it is the one numbered \<open>ssl_fails\<close>; the queue of errors and the signature
  are given.
\<close>

record ssl_state =
  ssl_fails :: nat
  ssl_errors :: "64 word list"
  ssl_live :: "ssl_object set"
  ssl_next :: nat
  ssl_signature :: "u8 list"

definition sim_new :: "nat \<Rightarrow> (nat \<Rightarrow> ssl_object) \<Rightarrow> ssl_state \<Rightarrow> nat option \<times> ssl_state" where
  "sim_new i mk w =
     (if ssl_fails w = i \<or> mk (ssl_next w) \<in> ssl_live w then (None, w)
      else (Some (ssl_next w), w\<lparr>ssl_live := insert (mk (ssl_next w)) (ssl_live w),
             ssl_next := ssl_next w + 1\<rparr>))"

definition sim_status :: "nat \<Rightarrow> ssl_state \<Rightarrow> int \<times> ssl_state" where
  "sim_status i w = (if ssl_fails w = i then 0 else 1, w)"

definition sim_release :: "ssl_object \<Rightarrow> ssl_state \<Rightarrow> unit \<times> ssl_state" where
  "sim_release x w = ((), w\<lparr>ssl_live := ssl_live w - {x}\<rparr>)"

definition sim_ssl :: "ssl_state openssl" where
  "sim_ssl =
     \<lparr>ssl_bio_new_file = (\<lambda>p. sim_new 1 Bio), ssl_read_private_key = (\<lambda>b. sim_new 2 Pkey),
      ssl_print_errors = (\<lambda>w. ((), w\<lparr>ssl_errors := []\<rparr>)),
      ssl_get_error = (\<lambda>w. case ssl_errors w of [] \<Rightarrow> (0, w) | e # es \<Rightarrow> (e, w\<lparr>ssl_errors := es\<rparr>)),
      ssl_ctx_new = (\<lambda>k. sim_new 3 Ctx), ssl_sign_init = (\<lambda>c. sim_status 4),
      ssl_set_rsa_padding = (\<lambda>c i. sim_status 5), ssl_set_signature_md = (\<lambda>c. sim_status 6),
      ssl_sign_length =
        (\<lambda>c n w. ((if ssl_fails w = 7 then 0 else 1, length (ssl_signature w)), w)),
      ssl_malloc = (\<lambda>n. sim_new 8 Mem),
      ssl_sign = (\<lambda>c n md w. ((if ssl_fails w = 9 then 0 else 1, ssl_signature w), w)),
      ssl_ctx_free = (\<lambda>c. sim_release (Ctx c)), ssl_free = (\<lambda>m. sim_release (Mem m)),
      ssl_pkey_free = (\<lambda>k. sim_release (Pkey k))\<rparr>"

lemma openssl_ok_sim: "openssl_ok sim_ssl ssl_live"
  by (auto simp: openssl_ok_def allocates_def keeps_def releases_def sim_ssl_def sim_new_def
      sim_status_def sim_release_def split: list.splits)

theorem sign_msg_outcome_witness:
  "runs False (sign_fault sim_ssl [] None)
    (\<lambda>r w'. signed_result sim_ssl [] None (Some 0) r \<and>
       (\<exists>b. Bio b \<notin> {} \<and> ssl_live w' = insert (Bio b) {}))
    (sign_msg sim_ssl (c_string [107]) [] 0 None (Some 0))
    \<lparr>ssl_fails = 4, ssl_errors = [7], ssl_live = {}, ssl_next = 0, ssl_signature = []\<rparr>"
  using sign_msg_outcome [OF openssl_ok_sim, where w = "\<lparr>ssl_fails = 4, ssl_errors = [7],
      ssl_live = {}, ssl_next = 0, ssl_signature = []\<rparr>" and msg = "[]" and sign = None]
  by simp

text \<open>
  C40: how the failures are reported. A key that cannot be read ends the process with the status
  of success; a failing call after that, with an empty error queue, makes \<^verbatim>\<open>sign_msg\<close>
  return 0, its code for success, with nothing signed; and the signature is copied whatever the
  size of the buffer of the caller.
\<close>

theorem sign_msg_failures:
  assumes "ssl_live w = {}" and "load_bytes msg 32 = Inr md"
  shows "(ssl_fails w \<in> {1, 2} \<longrightarrow>
      sign_msg sim_ssl path msg len sign signlen w = Some (Inl (Exited 0))) \<and>
    (ssl_fails w \<in> {3..9} \<and> ssl_errors w = [] \<longrightarrow>
      (\<exists>w'. sign_msg sim_ssl path msg len sign signlen w = Some (Inr ((0, sign, signlen), w')))) \<and>
    (ssl_fails w = 0 \<and> sign = Some b \<longrightarrow>
      (\<exists>w'. sign_msg sim_ssl path msg len sign signlen w =
        (if length (ssl_signature w) \<le> length b
         then Some (Inr ((0, Some (overwrite (ssl_signature w) b),
                map_option (\<lambda>_. length (ssl_signature w)) signlen), w'))
         else Some (Inl Out_of_bounds))))"
proof -
  have err: "int_of_error 0 = 0" by (simp add: int_of_error_def)
  note defs = sign_msg_def load_private_key_def sign_with_key_def sign_in_context_def
    sign_digest_def sign_fail_def sign_done_def call_def sim_ssl_def sim_new_def sim_status_def
    sim_release_def bnd_def ret_def halt_def lift_def
  have "ssl_fails w \<in> {1, 2} \<Longrightarrow>
      sign_msg sim_ssl path msg len sign signlen w = Some (Inl (Exited 0))"
    using assms(1) by (auto simp: defs)
  moreover have "\<exists>w'. sign_msg sim_ssl path msg len sign signlen w = Some (Inr ((0, sign, signlen), w'))"
    if "ssl_fails w \<in> {3..9}" "ssl_errors w = []"
  proof -
    from that(1) have "ssl_fails w \<in> {3, 4, 5, 6, 7, 8, 9}" by auto
    then show ?thesis
      using assms that(2) err by (elim insertE emptyE) (simp_all add: defs)
  qed
  moreover have "\<exists>w'. sign_msg sim_ssl path msg len sign signlen w =
        (if length (ssl_signature w) \<le> length b
         then Some (Inr ((0, Some (overwrite (ssl_signature w) b),
                map_option (\<lambda>_. length (ssl_signature w)) signlen), w'))
         else Some (Inl Out_of_bounds))" if "ssl_fails w = 0" "sign = Some b"
    using assms that by (auto simp: defs memcpy_overflow)
  ultimately show ?thesis by blast
qed

theorem sign_msg_failures_witness:
  "\<exists>w'. sign_msg sim_ssl (c_string [107]) (known (replicate 32 1)) 32 (Some (uninit 256)) (Some 0)
    \<lparr>ssl_fails = 6, ssl_errors = [], ssl_live = {}, ssl_next = 0, ssl_signature = [1, 2]\<rparr> =
    Some (Inr ((0, Some (uninit 256), Some 0), w'))"
proof -
  have "load_bytes (known (replicate 32 1)) 32 = Inr (replicate 32 1)"
    by (simp add: numeral_eq_Suc known_def)
  from sign_msg_failures [OF _ this, of "\<lparr>ssl_fails = 6, ssl_errors = [], ssl_live = {},
      ssl_next = 0, ssl_signature = [1, 2]\<rparr>" "c_string [107]" 32 "Some (uninit 256)" "Some 0"]
  show ?thesis by simp
qed

end
