(* ===== verification/Daemon.thy ===== *)
theory Daemon
  imports Prelude
begin

text \<open>
  The start of the daemon, \<^verbatim>\<open>src/daemon/daemon.c\<close>: a socket is created, bound to port
  5037 of every interface and put into the listening state. The socket calls are parameters; a
  simulated kernel with their documented behaviour shows what the three calls achieve.
\<close>

section \<open>The program\<close>

record 'w sockets =
  sys_socket :: "int \<Rightarrow> int \<Rightarrow> int \<Rightarrow> 'w \<Rightarrow> int \<times> 'w"
  sys_bind :: "int \<Rightarrow> buf \<Rightarrow> nat \<Rightarrow> 'w \<Rightarrow> int \<times> 'w"
  sys_listen :: "int \<Rightarrow> int \<Rightarrow> 'w \<Rightarrow> int \<times> 'w"

abbreviation (input) DEFAULT_PORT :: u16 where "DEFAULT_PORT \<equiv> 5037"
abbreviation (input) AF_INET :: u16 where "AF_INET \<equiv> 2"
abbreviation (input) SOCK_STREAM :: int where "SOCK_STREAM \<equiv> 1"
abbreviation (input) INADDR_ANY :: u32 where "INADDR_ANY \<equiv> 0"

text \<open>Network byte order on a little-endian machine.\<close>

definition htons :: "u16 \<Rightarrow> u16" where
  "htons x = push_bit 8 x OR drop_bit 8 x"

text \<open>\<^verbatim>\<open>struct sockaddr_in\<close>: three members are set, eight bytes of padding are not.\<close>

definition sockaddr_in :: "u16 \<Rightarrow> u16 \<Rightarrow> u32 \<Rightarrow> buf" where
  "sockaddr_in family port address =
     known (enc16 family) @ known (enc16 port) @ known (enc32 address) @ uninit 8"

definition start_daemon :: "'w sockets \<Rightarrow> 'w \<Rightarrow> 'w" where
  "start_daemon K w =
     (let (sd, w) = sys_socket K (uint AF_INET) SOCK_STREAM 0 w;
          sin = sockaddr_in AF_INET (htons DEFAULT_PORT) INADDR_ANY;
          (_, w) = sys_bind K sd sin 16 w;
          (_, w) = sys_listen K sd 10 w
      in w)"

section \<open>A simulated kernel\<close>

text \<open>
  A socket is new, bound or listening with its backlog. A port is in use if a socket is bound to
  it or another process has it. As in the Linux kernel, listening on a socket that was never
  bound binds it to an ephemeral port.
\<close>

datatype tcp = New_socket | Bound u32 u16 | Listening u32 u16 int

record tcp_kernel =
  tcp_sockets :: "int \<rightharpoonup> tcp"
  tcp_next :: int
  tcp_limit :: int
  tcp_used :: "u16 set"
  tcp_ephemeral :: u16

definition tcp_socket :: "int \<Rightarrow> int \<Rightarrow> int \<Rightarrow> tcp_kernel \<Rightarrow> int \<times> tcp_kernel" where
  "tcp_socket family ty protocol k =
     (if family \<noteq> 2 \<or> ty \<noteq> 1 \<or> tcp_limit k \<le> tcp_next k then (-1, k)
      else (tcp_next k, k\<lparr>tcp_sockets := (tcp_sockets k)(tcp_next k \<mapsto> New_socket),
              tcp_next := tcp_next k + 1\<rparr>))"

definition tcp_bind :: "int \<Rightarrow> buf \<Rightarrow> nat \<Rightarrow> tcp_kernel \<Rightarrow> int \<times> tcp_kernel" where
  "tcp_bind sd sin n k =
     (case (load_le16 sin 0, load8 sin 2, load8 sin 3, load_le32 sin 4) of
        (Inr family, Inr p1, Inr p0, Inr address) \<Rightarrow>
          (let port = le16 p0 p1 in
           if tcp_sockets k sd = Some New_socket \<and> 16 \<le> n \<and> family = 2 \<and> port \<notin> tcp_used k
           then (0, k\<lparr>tcp_sockets := (tcp_sockets k)(sd \<mapsto> Bound address port),
                  tcp_used := insert port (tcp_used k)\<rparr>)
           else (-1, k))
      | _ \<Rightarrow> (-1, k))"

definition tcp_listen :: "int \<Rightarrow> int \<Rightarrow> tcp_kernel \<Rightarrow> int \<times> tcp_kernel" where
  "tcp_listen sd backlog k =
     (case tcp_sockets k sd of
        Some (Bound address port) \<Rightarrow>
          (0, k\<lparr>tcp_sockets := (tcp_sockets k)(sd \<mapsto> Listening address port backlog)\<rparr>)
      | Some New_socket \<Rightarrow>
          (0, k\<lparr>tcp_sockets := (tcp_sockets k)(sd \<mapsto> Listening 0 (tcp_ephemeral k) backlog),
             tcp_used := insert (tcp_ephemeral k) (tcp_used k)\<rparr>)
      | _ \<Rightarrow> (-1, k))"

definition tcp_calls :: "tcp_kernel sockets" where
  "tcp_calls = \<lparr>sys_socket = tcp_socket, sys_bind = tcp_bind, sys_listen = tcp_listen\<rparr>"

text \<open>
  Starting the daemon leaves a new socket open for good. It listens on port 5037 if the port is
  free; if it is taken, nothing notices, and the daemon listens on whatever port the kernel
  chooses. Without a free descriptor nothing happens, and nothing is reported either.
\<close>

lemma start_daemon_listens:
  assumes "tcp_sockets k (-1) = None" and "0 \<le> tcp_next k"
  shows "start_daemon tcp_calls k =
    (if tcp_limit k \<le> tcp_next k then k
     else
       let port = (if 5037 \<in> tcp_used k then tcp_ephemeral k else 5037) in
       k\<lparr>tcp_sockets := (tcp_sockets k)(tcp_next k \<mapsto> Listening 0 port 10),
         tcp_next := tcp_next k + 1, tcp_used := insert port (tcp_used k)\<rparr>)"
proof -
  have bytes: "load_le16 (sockaddr_in 2 (htons 5037) 0) 0 = Inr 2"
    "load8 (sockaddr_in 2 (htons 5037) 0) 2 = Inr 0x13"
    "load8 (sockaddr_in 2 (htons 5037) 0) 3 = Inr 0xAD"
    "load_le32 (sockaddr_in 2 (htons 5037) 0) 4 = Inr 0"
    by (simp_all add: sockaddr_in_def htons_def enc16_def enc32_def known_def load_le16_def
        load_le32_def le16_def le32_def)
  have port: "le16 0xAD 0x13 = 5037" by (simp add: le16_def)
  show ?thesis
    using assms
    by (auto simp: start_daemon_def tcp_calls_def tcp_socket_def tcp_bind_def tcp_listen_def
        bytes port Let_def)
qed

end
