(* ===== verification/Usb_Parse.thy ===== *)
theory Usb_Parse
  imports Usb_Text Usb
begin

text \<open>
  The descriptor parser of \<^verbatim>\<open>lib/usb/usb.c\<close>: \<^verbatim>\<open>parse_descriptor\<close> builds a tree of
  allocated structures, \<^verbatim>\<open>release_descriptor\<close> frees it. The heap is explicit: a map from
  addresses to blocks, so that pointer arithmetic beyond a block, the use of a pointer that was
  never assigned, leaks and invalid calls of \<^verbatim>\<open>free\<close> are values of the model.
\<close>

section \<open>The heap\<close>

text \<open>A pointer member: not assigned yet, null, or the address of a block.\<close>

datatype pointer = Unset | Null | Addr nat

text \<open>
  The blocks the parser allocates: a device descriptor, a configuration with its pointer to the
  interfaces, an array of interfaces each with a pointer to its endpoints, and the memory of the
  endpoints.
\<close>

record idescriptor =
  uid :: buf
  ued :: pointer

datatype block =
    Device_block buf
  | Config_block buf pointer
  | Interface_block "idescriptor list"
  | Endpoint_block buf

record heap =
  mem :: "nat \<rightharpoonup> block"
  fresh :: nat

type_synonym ('w, 'a) hcmd = "('w \<times> heap, 'a) cmd"

text \<open>\<^verbatim>\<open>malloc\<close> of \<open>n\<close> bytes, seen as the block \<open>b\<close>; it may fail.\<close>

definition alloc :: "'w env \<Rightarrow> nat \<Rightarrow> block \<Rightarrow> ('w, pointer) hcmd" where
  "alloc E n b = (\<lambda>(w, h).
     case sys_malloc E n w of (ok, w') \<Rightarrow>
       if ok then ret (Addr (fresh h)) (w', \<lparr>mem = (mem h)(fresh h \<mapsto> b), fresh = fresh h + 1\<rparr>)
       else ret Null (w', h))"

definition fetch :: "pointer \<Rightarrow> ('w, block) hcmd" where
  "fetch p = (\<lambda>(w, h).
     case p of
       Unset \<Rightarrow> halt Uninitialised (w, h)
     | Null \<Rightarrow> halt Null_pointer (w, h)
     | Addr a \<Rightarrow> (case mem h a of None \<Rightarrow> halt Out_of_bounds (w, h) | Some b \<Rightarrow> ret b (w, h)))"

definition assign :: "pointer \<Rightarrow> block \<Rightarrow> ('w, unit) hcmd" where
  "assign p b = (\<lambda>(w, h).
     case p of
       Unset \<Rightarrow> halt Uninitialised (w, h)
     | Null \<Rightarrow> halt Null_pointer (w, h)
     | Addr a \<Rightarrow> ret () (w, \<lparr>mem = (mem h)(a \<mapsto> b), fresh = fresh h\<rparr>))"

definition c_free :: "pointer \<Rightarrow> ('w, unit) hcmd" where
  "c_free p = (\<lambda>(w, h).
     case p of
       Unset \<Rightarrow> halt Uninitialised (w, h)
     | Null \<Rightarrow> ret () (w, h)
     | Addr a \<Rightarrow>
         if mem h a = None then halt Bad_free (w, h)
         else ret () (w, \<lparr>mem = (mem h)(a := None), fresh = fresh h\<rparr>))"

text \<open>The kinds of block that a typed pointer may be used for.\<close>

definition fetch_config :: "pointer \<Rightarrow> ('w, buf \<times> pointer) hcmd" where
  "fetch_config p =
     bnd (fetch p) (\<lambda>b. case b of Config_block c i \<Rightarrow> ret (c, i) | _ \<Rightarrow> halt Out_of_bounds)"

definition fetch_interfaces :: "pointer \<Rightarrow> ('w, idescriptor list) hcmd" where
  "fetch_interfaces p =
     bnd (fetch p) (\<lambda>b. case b of Interface_block is \<Rightarrow> ret is | _ \<Rightarrow> halt Out_of_bounds)"

definition fetch_endpoints :: "pointer \<Rightarrow> ('w, buf) hcmd" where
  "fetch_endpoints p =
     bnd (fetch p) (\<lambda>b. case b of Endpoint_block e \<Rightarrow> ret e | _ \<Rightarrow> halt Out_of_bounds)"

section \<open>Parsing\<close>

text \<open>Sizes of the structures: \<open>idt_t\<close> is nine bytes, padding and a pointer.\<close>

abbreviation (input) UDD_SIZE :: nat where "UDD_SIZE \<equiv> 18"
abbreviation (input) UPCD_SIZE :: nat where "UPCD_SIZE \<equiv> 24"
abbreviation (input) IDT_SIZE :: nat where "IDT_SIZE \<equiv> 24"
abbreviation (input) UED_SIZE :: nat where "UED_SIZE \<equiv> 9"
abbreviation (input) SIZE_T_SIZE :: nat where "SIZE_T_SIZE \<equiv> 8"

definition parse_device_descriptor :: "'w env \<Rightarrow> buf \<Rightarrow> ('w, pointer) hcmd" where
  "parse_device_descriptor E src =
     bnd (alloc E UDD_SIZE (Device_block (uninit UDD_SIZE))) (\<lambda>p.
     bnd (fetch p) (\<lambda>_.
     bnd (lift (parse_stream src 0 UDD_SIZE)) (\<lambda>b.
     bnd (assign p (Device_block b)) (\<lambda>_. ret p))))"

text \<open>
  An interface descriptor: it is stored at the index \<open>ifo\<close> of the array, and its endpoints get
  eight bytes for each endpoint of the first interface.
\<close>

definition parse_interface ::
    "'w env \<Rightarrow> buf \<Rightarrow> pointer \<Rightarrow> nat \<Rightarrow> nat \<Rightarrow> ('w, unit) hcmd" where
  "parse_interface E src ifaced i ifo =
     bnd (fetch_interfaces ifaced) (\<lambda>is.
     if length is \<le> ifo then halt Out_of_bounds
     else
       bnd (lift (parse_stream src i USB_DT_INTERFACE_SIZE)) (\<lambda>b.
       let is = is[ifo := (is ! ifo)\<lparr>uid := b\<rparr>] in
       bnd (assign ifaced (Interface_block is)) (\<lambda>_.
       bnd (lift (load8 (uid (is ! 0)) 4)) (\<lambda>n_endp.
       bnd (alloc E (unat n_endp * SIZE_T_SIZE)
             (Endpoint_block (uninit (unat n_endp * SIZE_T_SIZE)))) (\<lambda>p.
       assign ifaced (Interface_block (is[ifo := (is ! ifo)\<lparr>ued := p\<rparr>])))))))"

text \<open>
  An endpoint descriptor: it belongs to the interface at index \<open>ifo - 9\<close>, computed in
  \<^verbatim>\<open>size_t\<close>, and is stored at \<open>epo\<close> structures from the start of its memory.
\<close>

definition parse_endpoint ::
    "buf \<Rightarrow> pointer \<Rightarrow> nat \<Rightarrow> nat \<Rightarrow> nat \<Rightarrow> ('w, unit) hcmd" where
  "parse_endpoint src ifaced i ifo epo =
     bnd (fetch_interfaces ifaced) (\<lambda>is.
     let k = size_of_int (int ifo - int USB_DT_INTERFACE_SIZE) in
     if length is \<le> k then halt Out_of_bounds
     else
       bnd (fetch_endpoints (ued (is ! k))) (\<lambda>e.
       bnd (lift (memcpy e (epo * UED_SIZE) src i USB_DT_ENDPOINT_SIZE)) (\<lambda>e.
       assign (ued (is ! k)) (Endpoint_block e))))"

text \<open>
  The loop over the descriptors; \<open>ifo\<close> and \<open>epo\<close> are the \<^verbatim>\<open>unsigned short\<close> counters
  \<^verbatim>\<open>__iface_offset\<close> and \<^verbatim>\<open>__endp_offset\<close>.
\<close>

partial_function (option) parse_loop ::
    "'w env \<Rightarrow> buf \<Rightarrow> pointer \<Rightarrow> nat \<Rightarrow> nat \<Rightarrow> u16 \<Rightarrow> u16 \<Rightarrow> 'w \<times> heap \<Rightarrow>
     (unit \<times> ('w \<times> heap)) checked option" where
  "parse_loop E src ifaced data_size i ifo epo s =
     (if i < data_size then
        bnd (lift (load8 src (i + 1))) (\<lambda>dt.
        bnd (if dt = USB_DT_INTERFACE then parse_interface E src ifaced i (unat ifo)
             else if dt = USB_DT_ENDPOINT then parse_endpoint src ifaced i (unat ifo) (unat epo)
             else ret ()) (\<lambda>_.
        bnd (lift (load8 src i)) (\<lambda>offset.
        parse_loop E src ifaced data_size (i + unat offset)
          (if dt = USB_DT_INTERFACE then ifo + of_nat USB_DT_INTERFACE_SIZE else ifo)
          (if dt = USB_DT_INTERFACE then 0
           else if dt = USB_DT_ENDPOINT then epo + of_nat USB_DT_ENDPOINT_SIZE else epo))))
      else ret ()) s"

definition parse_config_descriptor :: "'w env \<Rightarrow> buf \<Rightarrow> ('w, pointer) hcmd" where
  "parse_config_descriptor E src =
     bnd (alloc E UPCD_SIZE (Config_block (uninit USB_DT_CONFIG_SIZE) Unset)) (\<lambda>p.
     bnd (fetch_config p) (\<lambda>_.
     bnd (lift (parse_stream src 0 USB_DT_CONFIG_SIZE)) (\<lambda>b.
     bnd (assign p (Config_block b Unset)) (\<lambda>_.
     bnd (lift (load_le16 b 2)) (\<lambda>data_size.
     bnd (lift (load8 b 4)) (\<lambda>n_iface.
     bnd (alloc E (unat n_iface * IDT_SIZE)
           (Interface_block
             (replicate (unat n_iface) \<lparr>uid = uninit USB_DT_INTERFACE_SIZE, ued = Unset\<rparr>)))
       (\<lambda>ifaced.
     bnd (assign p (Config_block b ifaced)) (\<lambda>_.
     bnd (parse_loop E src ifaced (unat data_size) USB_DT_CONFIG_SIZE 0 0) (\<lambda>_.
     ret p)))))))))"

definition parse_descriptor :: "'w env \<Rightarrow> buf \<Rightarrow> ('w, pointer) hcmd" where
  "parse_descriptor E src =
     bnd (lift (load8 src 1)) (\<lambda>ty.
     if ty = USB_DT_DEVICE then parse_device_descriptor E src
     else if ty = USB_DT_CONFIG then parse_config_descriptor E src
     else ret Null)"

section \<open>Releasing\<close>

definition release_device_descriptor :: "pointer \<Rightarrow> ('w, unit) hcmd" where
  "release_device_descriptor p = c_free p"

definition release_config_descriptor :: "pointer \<Rightarrow> ('w, unit) hcmd" where
  "release_config_descriptor p =
     bnd (fetch_config p) (\<lambda>(_, ifaced).
     bnd (fetch_interfaces ifaced) (\<lambda>is.
     if is = [] then halt Out_of_bounds
     else
       bnd (c_free (ued (is ! 0))) (\<lambda>_.
       bnd (c_free ifaced) (\<lambda>_.
       c_free p))))"

text \<open>The type is the second byte of the structure, whichever it is.\<close>

definition release_descriptor :: "pointer \<Rightarrow> ('w, unit) hcmd" where
  "release_descriptor p =
     bnd (fetch p) (\<lambda>b.
     bnd (case b of
            Device_block d \<Rightarrow> lift (load8 d 1)
          | Config_block c _ \<Rightarrow> lift (load8 c 1)
          | _ \<Rightarrow> halt Out_of_bounds) (\<lambda>ty.
     if ty = USB_DT_DEVICE then release_device_descriptor p
     else if ty = USB_DT_CONFIG then release_config_descriptor p
     else ret ()))"

end
