(* ===== verification/Parse_Props.thy ===== *)
theory Parse_Props
  imports Usb_Parse Dump_Props
begin

text \<open>
  What the descriptor parser builds and when it leaves its memory. A configuration is a sequence
  of well-formed descriptors located in the buffer one after the other; the walk of the parser is
  a chain of the steps proved here: over a descriptor it ignores, over an interface, over an
  endpoint.
\<close>

section \<open>Bytes located in a buffer\<close>

definition located :: "buf \<Rightarrow> nat \<Rightarrow> u8 list \<Rightarrow> bool" where
  "located src i d \<longleftrightarrow> (\<forall>k < length d. load8 src (i + k) = Inr (d ! k))"

lemma located_Nil [simp]: "located src i []"
  by (simp add: located_def)

lemma located_append [simp]:
  "located src i (d @ e) \<longleftrightarrow> located src i d \<and> located src (i + length d) e"
proof
  assume l: "located src i (d @ e)"
  show "located src i d \<and> located src (i + length d) e"
    unfolding located_def
  proof (intro conjI allI impI)
    fix k assume "k < length d"
    then show "load8 src (i + k) = Inr (d ! k)"
      using l by (auto simp: located_def nth_append dest!: spec [where x = k])
  next
    fix k assume "k < length e"
    then show "load8 src (i + length d + k) = Inr (e ! k)"
      using l by (auto simp: located_def nth_append add.assoc dest!: spec [where x = "length d + k"])
  qed
next
  assume l: "located src i d \<and> located src (i + length d) e"
  show "located src i (d @ e)"
    unfolding located_def
  proof (intro allI impI)
    fix k assume k: "k < length (d @ e)"
    show "load8 src (i + k) = Inr ((d @ e) ! k)"
    proof (cases "k < length d")
      case True
      then show ?thesis using l by (simp add: located_def nth_append)
    next
      case False
      then have "i + length d + (k - length d) = i + k" "k - length d < length e" using k by auto
      then show ?thesis using l False by (metis located_def nth_append)
    qed
  qed
qed

lemma located_known [simp]: "located (known (d @ e)) 0 d"
  by (simp add: located_def nth_append del: known_append)

lemma located_known_all: "located (known d) 0 d"
  by (simp add: located_def)

lemma located_nth: "located src i d \<Longrightarrow> k < length d \<Longrightarrow> load8 src (i + k) = Inr (d ! k)"
  by (simp add: located_def)

lemma load8_eq_Inr: "load8 b i = Inr x \<longleftrightarrow> i < length b \<and> b ! i = Some x"
  by (auto simp: load8_def split: option.splits)

lemma parse_stream_located:
  assumes "located src i d" and "n \<le> length d" and "0 < n"
  shows "parse_stream src i n = Inr (known (take n d))"
proof -
  have nth: "i + k < length src" "src ! (i + k) = Some (d ! k)" if "k < n" for k
    using assms that by (auto simp: located_def load8_eq_Inr)
  from nth(1) [of "n - 1"] assms(3) have "i + n \<le> length src" by simp
  moreover from this have "take n (drop i src) = known (take n d)"
    using assms(2) nth(2) by (auto intro!: nth_equalityI simp del: take_known)
  ultimately show ?thesis by (simp add: parse_stream_def memcpy_def)
qed

section \<open>The heap\<close>

definition heap_ok :: "heap \<Rightarrow> bool" where
  "heap_ok h \<longleftrightarrow> (\<forall>a. fresh h \<le> a \<longrightarrow> mem h a = None)"

lemma heap_ok_empty [simp]: "heap_ok \<lparr>mem = Map.empty, fresh = n\<rparr>"
  by (simp add: heap_ok_def)

lemma alloc_apply:
  "alloc E n b (w, h) =
     (if fst (sys_malloc E n w)
      then Some (Inr (Addr (fresh h),
             (snd (sys_malloc E n w), \<lparr>mem = (mem h)(fresh h \<mapsto> b), fresh = fresh h + 1\<rparr>)))
      else Some (Inr (Null, (snd (sys_malloc E n w), h))))"
  by (simp add: alloc_def ret_def split: prod.splits)

lemma fetch_apply:
  "mem h a = Some b \<Longrightarrow> fetch (Addr a) (w, h) = Some (Inr (b, (w, h)))"
  "fetch Null s = Some (Inl Null_pointer)"
  "fetch Unset s = Some (Inl Uninitialised)"
  by (simp_all add: fetch_def ret_def halt_def split: prod.splits)

lemma assign_apply:
  "assign (Addr a) b (w, h) = Some (Inr ((), (w, \<lparr>mem = (mem h)(a \<mapsto> b), fresh = fresh h\<rparr>)))"
  by (simp add: assign_def ret_def)

lemma c_free_apply:
  "mem h a = Some b \<Longrightarrow>
   c_free (Addr a) (w, h) = Some (Inr ((), (w, \<lparr>mem = (mem h)(a := None), fresh = fresh h\<rparr>)))"
  by (simp add: c_free_def ret_def)

lemma fetch_config_apply:
  "mem h a = Some (Config_block c i) \<Longrightarrow>
   fetch_config (Addr a) (w, h) = Some (Inr ((c, i), (w, h)))"
  by (simp add: fetch_config_def fetch_apply ret_def)

lemma fetch_interfaces_apply:
  "mem h a = Some (Interface_block is) \<Longrightarrow>
   fetch_interfaces (Addr a) (w, h) = Some (Inr (is, (w, h)))"
  by (simp add: fetch_interfaces_def fetch_apply ret_def)

lemma fetch_endpoints_apply:
  "mem h a = Some (Endpoint_block e) \<Longrightarrow>
   fetch_endpoints (Addr a) (w, h) = Some (Inr (e, (w, h)))"
  by (simp add: fetch_endpoints_def fetch_apply ret_def)

lemmas heap_steps = alloc_apply fetch_apply assign_apply c_free_apply fetch_config_apply
  fetch_interfaces_apply fetch_endpoints_apply ret_apply halt_apply


section \<open>The steps of the walk\<close>

lemma parse_loop_step:
  assumes "located src i d" and "descriptor_ok d" and "i < N"
  shows "parse_loop E src p N i ifo epo s =
    bnd (if d ! 1 = 4 then parse_interface E src p i (unat ifo)
         else if d ! 1 = 5 then parse_endpoint src p i (unat ifo) (unat epo)
         else ret ()) (\<lambda>_.
    parse_loop E src p N (i + length d)
      (if d ! 1 = 4 then ifo + 9 else ifo)
      (if d ! 1 = 4 then 0 else if d ! 1 = 5 then epo + 7 else epo)) s"
proof -
  have d: "2 \<le> length d" "unat (d ! 0) = length d" using assms(2) by (simp_all add: descriptor_ok_def)
  then have "load8 src (i + 1) = Inr (d ! 1)" "load8 src (i + 0) = Inr (d ! 0)"
    by (intro located_nth [OF assms(1)]; linarith)+
  then show ?thesis
    using assms(3) d by (subst parse_loop.simps) simp
qed

lemma parse_loop_end: "parse_loop E src p N N ifo epo s = ret () s"
  by (subst parse_loop.simps) simp

text \<open>Descriptors that are neither interfaces nor endpoints.\<close>

definition ignored :: "u8 list \<Rightarrow> bool" where
  "ignored d \<longleftrightarrow> descriptor_ok d \<and> d ! 1 \<noteq> 4 \<and> d ! 1 \<noteq> 5"

lemma parse_loop_ignored:
  assumes "\<forall>d \<in> set ds. ignored d" and "located src i (concat ds)" and "i + length (concat ds) \<le> N"
  shows "parse_loop E src p N i ifo epo s =
    parse_loop E src p N (i + length (concat ds)) ifo epo s"
  using assms
proof (induction ds arbitrary: i)
  case Nil
  then show ?case by simp
next
  case (Cons d ds)
  from Cons.prems have d: "descriptor_ok d" "d ! 1 \<noteq> 4" "d ! 1 \<noteq> 5" "located src i d"
    by (simp_all add: ignored_def)
  have "2 \<le> length d" using d(1) by (simp add: descriptor_ok_def)
  then have "i < N" using Cons.prems(3) by simp
  with parse_loop_step [OF d(4,1) this, of E p ifo epo s] d(2,3) Cons.IH [of "i + length d"]
    Cons.prems
  show ?case by (simp add: add.assoc)
qed

lemma parse_interface_located:
  assumes "located src i d" and "9 \<le> length d"
    and "mem h a = Some (Interface_block ids)" and "k < length ids"
    and "ids1 = ids[k := (ids ! k)\<lparr>uid := known (take 9 d)\<rparr>]"
    and "load8 (uid (ids1 ! 0)) 4 = Inr n"
    and "a \<noteq> fresh h"
  shows "parse_interface device_env src (Addr a) i k (w, h) =
    Some (Inr ((), (w, \<lparr>mem = (mem h)(fresh h \<mapsto> Endpoint_block (uninit (8 * unat n)),
        a \<mapsto> Interface_block (ids1[k := (ids1 ! k)\<lparr>ued := Addr (fresh h)\<rparr>])),
      fresh = fresh h + 1\<rparr>)))"
proof -
  have "parse_stream src i 9 = Inr (known (take 9 d))"
    using parse_stream_located [OF assms(1,2)] by simp
  then show ?thesis
    using assms(3,4,6,7)
    by (simp add: parse_interface_def heap_steps mult.commute Let_def assms(5))
qed

lemma parse_interface_beyond:
  assumes "mem h a = Some (Interface_block ids)" and "length ids \<le> k"
  shows "parse_interface E src (Addr a) i k (w, h) = Some (Inl Out_of_bounds)"
  using assms by (simp add: parse_interface_def heap_steps)

lemma parse_endpoint_located:
  assumes "located src i d" and "7 \<le> length d" and "mem h a = Some (Interface_block ids)"
    and "k < length ids" and "ued (ids ! k) = Addr b" and "mem h b = Some (Endpoint_block e)"
    and "9 * epo + 7 \<le> length e" and "k + 9 < 2 ^ 64"
  shows "parse_endpoint src (Addr a) i (k + 9) epo (w, h) =
    Some (Inr ((), (w, \<lparr>mem = (mem h)(b \<mapsto>
      Endpoint_block (take (9 * epo) e @ known (take 7 d) @ drop (9 * epo + 7) e)), fresh = fresh h\<rparr>)))"
proof -
  have "parse_stream src i 7 = Inr (known (take 7 d))"
    using parse_stream_located [OF assms(1,2)] by simp
  then have "i + 7 \<le> length src" "take 7 (drop i src) = known (take 7 d)"
    by (auto simp: parse_stream_def memcpy_def split: if_splits)
  then have "memcpy e (epo * 9) src i 7 =
      Inr (take (9 * epo) e @ known (take 7 d) @ drop (9 * epo + 7) e)"
    using assms(7) by (simp add: memcpy_def mult.commute)
  then show ?thesis
    using assms(3-6,8) by (simp add: parse_endpoint_def heap_steps Let_def)
qed

lemma parse_endpoint_beyond:
  assumes "mem h a = Some (Interface_block ids)" and "k < length ids" and "ued (ids ! k) = Addr b"
    and "mem h b = Some (Endpoint_block e)" and "length e < 9 * epo + 7" and "k + 9 < 2 ^ 64"
  shows "parse_endpoint src (Addr a) i (k + 9) epo (w, h) = Some (Inl Out_of_bounds)"
  using assms by (simp add: parse_endpoint_def heap_steps Let_def memcpy_def mult.commute)


section \<open>A configuration up to the endpoints of its first interface\<close>

definition header_ok :: "u8 list \<Rightarrow> u8 list list \<Rightarrow> bool" where
  "header_ok cfg ds \<longleftrightarrow>
     length cfg = 9 \<and> cfg ! 1 = 2 \<and>
     unat (le16 (cfg ! 2) (cfg ! 3)) = length cfg + length (concat ds)"

definition no_interface :: idescriptor where
  "no_interface = \<lparr>uid = uninit 9, ued = Unset\<rparr>"

definition config_heap :: "heap \<Rightarrow> u8 list \<Rightarrow> heap" where
  "config_heap h cfg = \<lparr>mem = (mem h)
     (fresh h \<mapsto> Config_block (known cfg) (Addr (fresh h + 1)),
      fresh h + 1 \<mapsto> Interface_block (replicate (unat (cfg ! 4)) no_interface)),
     fresh = fresh h + 2\<rparr>"

lemma parse_descriptor_header:
  assumes "header_ok cfg ds" and "located src 0 (cfg @ concat ds)"
  shows "parse_descriptor device_env src (d, h) =
    bnd (parse_loop device_env src (Addr (fresh h + 1)) (9 + length (concat ds)) 9 0 0)
      (\<lambda>_. ret (Addr (fresh h))) (d, config_heap h cfg)"
proof -
  have cfg: "length cfg = 9" "cfg ! 1 = 2" "located src 0 cfg"
    "unat (le16 (cfg ! 2) (cfg ! 3)) = 9 + length (concat ds)"
    using assms by (simp_all add: header_ok_def)
  have ty: "load8 src 1 = Inr 2" using located_nth [OF cfg(3), of 1] cfg(1,2) by simp
  have parse: "parse_stream src 0 9 = Inr (known cfg)"
    using parse_stream_located [OF cfg(3), of 9] cfg(1) by simp
  have fields: "load_le16 (known cfg) 2 = Inr (le16 (cfg ! 2) (cfg ! 3))"
    "load8 (known cfg) 4 = Inr (cfg ! 4)"
    using cfg(1) by (simp_all add: load_le16_def)
  show ?thesis
    using ty
    by (simp add: parse_descriptor_def parse_config_descriptor_def heap_steps parse fields
        cfg(4) no_interface_def config_heap_def fun_upd_twist)
qed

definition interface_heap :: "heap \<Rightarrow> u8 list \<Rightarrow> u8 list \<Rightarrow> u8 list list \<Rightarrow> heap" where
  "interface_heap h cfg i es = \<lparr>mem = (mem h)
     (fresh h \<mapsto> Config_block (known cfg) (Addr (fresh h + 1)),
      fresh h + 1 \<mapsto> Interface_block
        (\<lparr>uid = known (take 9 i), ued = Addr (fresh h + 2)\<rparr> #
         replicate (unat (cfg ! 4) - 1) no_interface),
      fresh h + 2 \<mapsto> Endpoint_block
        (overwrite (concat (map (take 7) es)) (uninit (8 * unat (i ! 4))))),
     fresh = fresh h + 3\<rparr>"

lemma parse_loop_first_interface:
  assumes "located src j i" and "descriptor_ok i" and "i ! 1 = 4" and "cfg ! 4 \<noteq> 0" and "j < N"
  shows "parse_loop device_env src (Addr (fresh h + 1)) N j 0 0 (d, config_heap h cfg) =
    parse_loop device_env src (Addr (fresh h + 1)) N (j + length i) 9 0
      (d, interface_heap h cfg i [])"
proof -
  have len: "9 \<le> length i" using assms(2,3) by (simp add: descriptor_ok_def)
  obtain m where m: "unat (cfg ! 4) = Suc m"
    using assms(4) by (metis not0_implies_Suc unat_eq_zero)
  let ?is = "\<lparr>uid = known (take 9 i), ued = Unset\<rparr> # replicate m no_interface"
  have "parse_interface device_env src (Addr (fresh h + 1)) j 0 (d, config_heap h cfg) =
      Some (Inr ((), (d, interface_heap h cfg i [])))"
    using parse_interface_located [where ids = "no_interface # replicate m no_interface"
        and h = "config_heap h cfg" and a = "fresh h + 1" and k = 0 and n = "i ! 4"
        and w = d and ?ids1.0 = ?is, OF assms(1) len] len
    by (simp add: m config_heap_def interface_heap_def no_interface_def fun_upd_twist numeral_3_eq_3)
  then show ?thesis
    using assms(3) by (subst parse_loop_step [OF assms(1,2,5)]) simp
qed


lemma parse_loop_first_endpoint:
  assumes "located src j e" and "descriptor_ok e" and "e ! 1 = 5" and "i ! 4 \<noteq> 0" and "j < N"
  shows "parse_loop device_env src (Addr (fresh h + 1)) N j 9 0 (d, interface_heap h cfg i []) =
    parse_loop device_env src (Addr (fresh h + 1)) N (j + length e) 9 7
      (d, interface_heap h cfg i [e])"
proof -
  have len: "7 \<le> length e" using assms(2,3) by (simp add: descriptor_ok_def)
  have n: "1 \<le> unat (i ! 4)"
    using assms(4) by (metis not0_implies_Suc unat_eq_zero le_add1 plus_1_eq_Suc)
  have "parse_endpoint src (Addr (fresh h + 1)) j 9 0 (d, interface_heap h cfg i []) =
      Some (Inr ((), (d, interface_heap h cfg i [e])))"
    using parse_endpoint_located [where a = "fresh h + 1" and k = 0 and epo = 0 and w = d
        and h = "interface_heap h cfg i []" and b = "fresh h + 2"
        and e = "uninit (8 * unat (i ! 4))", OF assms(1) len] len n
    by (simp add: interface_heap_def overwrite_def)
  then show ?thesis
    using assms(3) by (subst parse_loop_step [OF assms(1,2,5)]) simp
qed

text \<open>
  The walk over \<open>xs\<close>, the interface \<open>i\<close>, \<open>ys\<close> and at most one endpoint, where the descriptors in
  between are ignored.
\<close>

definition one_interface :: "u8 list list \<Rightarrow> u8 list \<Rightarrow> u8 list list \<Rightarrow> u8 list list \<Rightarrow> bool" where
  "one_interface xs i ys es \<longleftrightarrow>
     (\<forall>d \<in> set (xs @ ys). ignored d) \<and> descriptor_ok i \<and> i ! 1 = 4 \<and>
     (es = [] \<or> (\<exists>e. es = [e] \<and> descriptor_ok e \<and> e ! 1 = 5 \<and> i ! 4 \<noteq> 0))"

lemma parse_loop_one_interface:
  assumes "one_interface xs i ys es" and "cfg ! 4 \<noteq> 0"
    and "located src 9 (concat (xs @ i # ys @ es))"
    and "9 + length (concat (xs @ i # ys @ es)) \<le> N"
  shows "parse_loop device_env src (Addr (fresh h + 1)) N 9 0 0 (d, config_heap h cfg) =
    parse_loop device_env src (Addr (fresh h + 1)) N (9 + length (concat (xs @ i # ys @ es)))
      9 (if es = [] then 0 else 7) (d, interface_heap h cfg i es)"
proof -
  let ?p = "Addr (fresh h + 1)"
  let ?jx = "9 + length (concat xs)"
  let ?ji = "?jx + length i"
  let ?jy = "?ji + length (concat ys)"
  let ?loop = "\<lambda>j ifo epo h'. parse_loop device_env src ?p N j ifo epo (d, h')"
  have ok: "\<forall>d \<in> set xs. ignored d" "\<forall>d \<in> set ys. ignored d" "descriptor_ok i" "i ! 1 = 4"
    and at: "located src 9 (concat xs)" "located src ?jx i" "located src ?ji (concat ys)"
      "located src ?jy (concat es)"
    using assms(1,3) by (auto simp: one_interface_def add.assoc)
  have "0 < length i" using ok(3) by (auto simp: descriptor_ok_def)
  then have bounds: "?jx \<le> N" "?jx < N" "?jy \<le> N" "?jy + length (concat es) \<le> N"
    using assms(4) by (simp_all del: length_greater_0_conv)
  have "?loop 9 0 0 (config_heap h cfg) = ?loop ?jx 0 0 (config_heap h cfg)"
    by (rule parse_loop_ignored [OF ok(1) at(1) bounds(1)])
  also have "\<dots> = ?loop ?ji 9 0 (interface_heap h cfg i [])"
    by (rule parse_loop_first_interface [OF at(2) ok(3,4) assms(2) bounds(2)])
  also have "\<dots> = ?loop ?jy 9 0 (interface_heap h cfg i [])"
    by (rule parse_loop_ignored [OF ok(2) at(3) bounds(3)])
  also have "\<dots> = ?loop (?jy + length (concat es)) 9 (if es = [] then 0 else 7)
      (interface_heap h cfg i es)"
  proof (cases "es = []")
    case False
    then obtain e where e: "es = [e]" "descriptor_ok e" "e ! 1 = 5" "i ! 4 \<noteq> 0"
      using assms(1) by (auto simp: one_interface_def)
    have "0 < length e" using e(2) by (auto simp: descriptor_ok_def)
    with e at(4) bounds(4) parse_loop_first_endpoint [of src ?jy e i N h d cfg]
    show ?thesis by simp
  qed simp
  finally show ?thesis by (simp add: add.assoc)
qed


section \<open>The properties\<close>

text \<open>
  C21: a configuration with one interface and at most one endpoint, whatever other descriptors
  stand between them, is parsed into the tree of its structures; the three blocks are new, and
  releasing the descriptor frees exactly them.
\<close>

theorem parse_descriptor_one_interface:
  assumes "heap_ok h" and "header_ok cfg (xs @ i # ys @ es @ zs)"
    and "located src 0 (cfg @ concat (xs @ i # ys @ es @ zs))"
    and "one_interface xs i ys es" and "\<forall>d \<in> set zs. ignored d" and "cfg ! 4 \<noteq> 0"
  shows
    "parse_descriptor device_env src (d, h) =
      Some (Inr (Addr (fresh h), (d, interface_heap h cfg i es))) \<and>
    release_descriptor (Addr (fresh h)) (d, interface_heap h cfg i es) =
      Some (Inr ((), (d, \<lparr>mem = mem h, fresh = fresh h + 3\<rparr>)))"
proof (rule conjI)
  let ?N = "9 + length (concat (xs @ i # ys @ es @ zs))"
  let ?n = "9 + length (concat (xs @ i # ys @ es))"
  have cfg: "length cfg = 9" using assms(2) by (simp add: header_ok_def)
  then have at: "located src 9 (concat (xs @ i # ys @ es))" "located src ?n (concat zs)"
    using assms(3) by (auto simp: add.assoc)
  have "parse_loop device_env src (Addr (fresh h + 1)) ?N 9 0 0 (d, config_heap h cfg) =
      parse_loop device_env src (Addr (fresh h + 1)) ?N ?n 9 (if es = [] then 0 else 7)
        (d, interface_heap h cfg i es)"
    by (rule parse_loop_one_interface [OF assms(4,6) at(1)]) simp
  also have "\<dots> = ret () (d, interface_heap h cfg i es)"
  proof -
    have "?n + length (concat zs) = ?N" by simp
    then show ?thesis
      by (subst parse_loop_ignored [OF assms(5) at(2)]) (simp_all only: order_refl parse_loop_end)
  qed
  finally show "parse_descriptor device_env src (d, h) =
      Some (Inr (Addr (fresh h), (d, interface_heap h cfg i es)))"
    using parse_descriptor_header [OF assms(2,3)] by (simp add: ret_def)
next
  have "load8 (known cfg) 1 = Inr 2" using assms(2) by (simp add: header_ok_def)
  moreover have "mem h (fresh h) = None" "mem h (fresh h + 1) = None" "mem h (fresh h + 2) = None"
    using assms(1) by (auto simp: heap_ok_def)
  ultimately show "release_descriptor (Addr (fresh h)) (d, interface_heap h cfg i es) =
      Some (Inr ((), (d, \<lparr>mem = mem h, fresh = fresh h + 3\<rparr>)))"
    by (simp add: release_descriptor_def release_config_descriptor_def heap_steps
        interface_heap_def fun_upd_twist fun_upd_idem)
qed


theorem parse_descriptor_one_interface_witness:
  "parse_descriptor device_env
      (known [9, 2, 25, 0, 1, 1, 0, 128, 50, 9, 4, 0, 0, 1, 255, 66, 1, 0, 7, 5, 129, 2, 64, 0, 0])
      (idle, \<lparr>mem = Map.empty, fresh = 7\<rparr>) =
    Some (Inr (Addr 7, (idle, \<lparr>mem = [7 \<mapsto> Config_block (known [9, 2, 25, 0, 1, 1, 0, 128, 50]) (Addr 8),
      8 \<mapsto> Interface_block [\<lparr>uid = known [9, 4, 0, 0, 1, 255, 66, 1, 0], ued = Addr 9\<rparr>],
      9 \<mapsto> Endpoint_block (known [7, 5, 129, 2, 64, 0, 0] @ [None])], fresh = 10\<rparr>)))"
proof -
  let ?cfg = "[9, 2, 25, 0, 1, 1, 0, 128, 50] :: u8 list"
  let ?i = "[9, 4, 0, 0, 1, 255, 66, 1, 0] :: u8 list" and ?e = "[7, 5, 129, 2, 64, 0, 0] :: u8 list"
  have "header_ok ?cfg ([] @ ?i # [] @ [?e] @ [])" "one_interface [] ?i [] [?e]"
    by (simp_all add: header_ok_def one_interface_def descriptor_ok_def le16_def)
  then show ?thesis
    using parse_descriptor_one_interface [where h = "\<lparr>mem = Map.empty, fresh = 7\<rparr>" and d = idle,
        OF heap_ok_empty _ located_known_all, of ?cfg "[]" ?i "[]" "[?e]" "[]"]
    by (simp add: interface_heap_def overwrite_def uninit_def)
qed

text \<open>
  C22: a second interface descriptor is stored nine elements behind the first, beyond the array
  for up to nine interfaces, and a second endpoint nine structures behind the first, beyond the
  eight bytes for each announced endpoint: parsing leaves the allocated memory.
\<close>

theorem parse_descriptor_second_overruns:
  assumes "header_ok cfg (xs @ i # ys @ es @ j # zs)"
    and "located src 0 (cfg @ concat (xs @ i # ys @ es @ j # zs))"
    and "one_interface xs i ys es" and "cfg ! 4 \<noteq> 0" and "descriptor_ok j"
    and "j ! 1 = 4 \<and> unat (cfg ! 4) \<le> 9 \<or> j ! 1 = 5 \<and> es \<noteq> [] \<and> unat (i ! 4) \<le> 8"
  shows "parse_descriptor device_env src (d, h) = Some (Inl Out_of_bounds)"
proof -
  let ?N = "9 + length (concat (xs @ i # ys @ es @ j # zs))"
  let ?n = "9 + length (concat (xs @ i # ys @ es))"
  let ?s = "(d, interface_heap h cfg i es)"
  let ?ids = "\<lparr>uid = known (take 9 i), ued = Addr (fresh h + 2)\<rparr> #
    replicate (unat (cfg ! 4) - 1) no_interface"
  have cfg: "length cfg = 9" "0 < unat (cfg ! 4)"
    using assms(1,4) by (simp_all add: header_ok_def unat_gt_0)
  then have at: "located src 9 (concat (xs @ i # ys @ es))" "located src ?n j"
    using assms(2) by (auto simp: add.assoc)
  have "0 < length j" using assms(5) by (auto simp: descriptor_ok_def)
  then have less: "?n < ?N" "?n \<le> ?N" by (simp_all del: length_greater_0_conv)
  have ifs: "mem (interface_heap h cfg i es) (fresh h + 1) = Some (Interface_block ?ids)"
    "mem (interface_heap h cfg i es) (fresh h + 2) = Some (Endpoint_block
      (overwrite (concat (map (take 7) es)) (uninit (8 * unat (i ! 4)))))"
    by (simp_all add: interface_heap_def)
  from assms(6) have "parse_loop device_env src (Addr (fresh h + 1)) ?N ?n 9
      (if es = [] then 0 else 7) ?s = Some (Inl Out_of_bounds)"
  proof
    assume j: "j ! 1 = 4 \<and> unat (cfg ! 4) \<le> 9"
    then have "parse_interface device_env src (Addr (fresh h + 1)) ?n 9 ?s =
        Some (Inl Out_of_bounds)"
      using cfg(2) by (intro parse_interface_beyond [OF ifs(1)]) simp
    with j show ?thesis by (subst parse_loop_step [OF at(2) assms(5) less(1)]) simp
  next
    assume j: "j ! 1 = 5 \<and> es \<noteq> [] \<and> unat (i ! 4) \<le> 8"
    then obtain e where e: "es = [e]" "7 \<le> length e" "i ! 4 \<noteq> 0"
      using assms(3) by (auto simp: one_interface_def descriptor_ok_def)
    then have "0 < unat (i ! 4)" by (simp add: unat_gt_0)
    with e have len: "length (overwrite (concat (map (take 7) es)) (uninit (8 * unat (i ! 4)))) =
        8 * unat (i ! 4)"
      by (simp add: min_absorb1)
    have "parse_endpoint src (Addr (fresh h + 1)) ?n (0 + 9) 7 ?s = Some (Inl Out_of_bounds)"
      by (rule parse_endpoint_beyond [OF ifs(1) _ _ ifs(2)]) (use j len in simp_all)
    with j show ?thesis by (subst parse_loop_step [OF at(2) assms(5) less(1)]) simp
  qed
  then show ?thesis
    using parse_loop_one_interface [OF assms(3,4) at(1) less(2), of h d]
      parse_descriptor_header [OF assms(1,2), of d h]
    by (simp del: concat.simps concat_append)
qed

theorem parse_descriptor_second_overruns_witness:
  "parse_descriptor device_env
      (known [9, 2, 27, 0, 2, 1, 0, 128, 50, 9, 4, 0, 0, 0, 255, 66, 1, 0,
        9, 4, 1, 0, 0, 255, 66, 1, 0])
      (idle, \<lparr>mem = Map.empty, fresh = 7\<rparr>) = Some (Inl Out_of_bounds)"
proof -
  let ?cfg = "[9, 2, 27, 0, 2, 1, 0, 128, 50] :: u8 list"
  let ?i = "[9, 4, 0, 0, 0, 255, 66, 1, 0] :: u8 list"
  let ?j = "[9, 4, 1, 0, 0, 255, 66, 1, 0] :: u8 list"
  have "header_ok ?cfg ([] @ ?i # [] @ [] @ ?j # [])" "one_interface [] ?i [] []"
    "descriptor_ok ?j"
    by (simp_all add: header_ok_def one_interface_def descriptor_ok_def le16_def)
  then show ?thesis
    using parse_descriptor_second_overruns [where h = "\<lparr>mem = Map.empty, fresh = 7\<rparr>"
        and d = idle, OF _ located_known_all, of ?cfg "[]" ?i "[]" "[]" ?j "[]"]
    by simp
qed

text \<open>
  A device descriptor is parsed into one new block with its 18 bytes, which releasing frees;
  when there is no memory for it, the bytes are written through the null pointer.
\<close>

lemma parse_device_descriptor_allocation:
  assumes "heap_ok h" and "located src 0 dd" and "length dd = 18" and "dd ! 1 = 1"
    and "h' = \<lparr>mem = (mem h)(fresh h \<mapsto> Device_block (known dd)), fresh = fresh h + 1\<rparr>"
  shows "parse_descriptor E src (w, h) =
      (if fst (sys_malloc E 18 w)
       then Some (Inr (Addr (fresh h), (snd (sys_malloc E 18 w), h')))
       else Some (Inl Null_pointer)) \<and>
    release_descriptor (Addr (fresh h)) (w', h') =
      Some (Inr ((), (w', \<lparr>mem = mem h, fresh = fresh h + 1\<rparr>)))"
proof -
  have "load8 src (Suc 0) = Inr 1"
    using located_nth [OF assms(2), of 1] assms(3,4) by simp
  moreover have "parse_stream src 0 18 = Inr (known dd)"
    using parse_stream_located [OF assms(2), of 18] assms(3) by simp
  moreover have "mem h (fresh h) = None" using assms(1) by (simp add: heap_ok_def)
  ultimately show ?thesis
    using assms(3,4,5)
    by (simp add: parse_descriptor_def parse_device_descriptor_def release_descriptor_def
        release_device_descriptor_def heap_steps fun_upd_idem)
qed

lemma parse_device_descriptor_allocation_witness:
  "parse_descriptor device_env
      (known [18, 1, 0, 2, 0, 0, 0, 64, 209, 24, 226, 78, 0, 1, 1, 2, 3, 1])
      (idle, \<lparr>mem = Map.empty, fresh = 7\<rparr>) =
    Some (Inr (Addr 7, (idle, \<lparr>mem = [7 \<mapsto> Device_block
      (known [18, 1, 0, 2, 0, 0, 0, 64, 209, 24, 226, 78, 0, 1, 1, 2, 3, 1])], fresh = 8\<rparr>)))"
  using parse_device_descriptor_allocation [where h = "\<lparr>mem = Map.empty, fresh = 7\<rparr>"
      and dd = "[18, 1, 0, 2, 0, 0, 0, 64, 209, 24, 226, 78, 0, 1, 1, 2, 3, 1]"
      and src = "known [18, 1, 0, 2, 0, 0, 0, 64, 209, 24, 226, 78, 0, 1, 1, 2, 3, 1]"
      and E = device_env and w = idle and w' = idle, OF _ _ _ _ refl]
  by (simp add: located_def)

end
