(* ===== verification/Parse_Safety.thy ===== *)
theory Parse_Safety
  imports Parse_Props
begin

text \<open>
  The invariant of the descriptor parser, as long as it does not stop: the blocks that were
  allocated before are not touched, and what is built is well typed, each pointer leading to a
  block of its kind. It is kept by each step of the walk on any input and hence, by induction on
  the iterations, by the loop. When the walk stops is the subject of \<open>Parse_Walk\<close>.
\<close>

section \<open>The invariant\<close>

text \<open>The blocks below \<open>n\<close> are as they were, and addresses from \<open>fresh\<close> on are free.\<close>

definition framed :: "heap \<Rightarrow> heap \<Rightarrow> bool" where
  "framed h h' \<longleftrightarrow> heap_ok h' \<and> fresh h \<le> fresh h' \<and> (\<forall>a < fresh h. mem h' a = mem h a)"

fun is_endpoints :: "block option \<Rightarrow> bool" where
  "is_endpoints (Some (Endpoint_block _)) = True"
| "is_endpoints _ = False"

text \<open>Pointer members of an interface: not assigned, null, or new memory for endpoints.\<close>

fun endpoint_pointer :: "heap \<Rightarrow> heap \<Rightarrow> pointer \<Rightarrow> bool" where
  "endpoint_pointer h h' (Addr a) \<longleftrightarrow> fresh h \<le> a \<and> is_endpoints (mem h' a)"
| "endpoint_pointer h h' _ \<longleftrightarrow> True"

definition interface_typed :: "heap \<Rightarrow> heap \<Rightarrow> idescriptor \<Rightarrow> bool" where
  "interface_typed h h' i \<longleftrightarrow> length (uid i) = 9 \<and> endpoint_pointer h h' (ued i)"

fun interfaces_typed :: "heap \<Rightarrow> heap \<Rightarrow> nat \<Rightarrow> pointer \<Rightarrow> bool" where
  "interfaces_typed h h' n (Addr a) \<longleftrightarrow>
     fresh h \<le> a \<and> (\<exists>ids. mem h' a = Some (Interface_block ids) \<and> length ids = n \<and>
       (\<forall>i \<in> set ids. interface_typed h h' i))"
| "interfaces_typed h h' n Null \<longleftrightarrow> True"
| "interfaces_typed h h' n Unset \<longleftrightarrow> False"

definition config_typed :: "heap \<Rightarrow> heap \<Rightarrow> nat \<Rightarrow> bool" where
  "config_typed h h' a \<longleftrightarrow>
     fresh h \<le> a \<and> (\<exists>c i n. mem h' a = Some (Config_block c i) \<and> length c = 9 \<and>
       load8 c 4 = Inr n \<and> interfaces_typed h h' (unat n) i)"

text \<open>What \<^verbatim>\<open>parse_descriptor\<close> may return.\<close>

fun descriptor_typed :: "heap \<Rightarrow> heap \<Rightarrow> pointer \<Rightarrow> bool" where
  "descriptor_typed h h' (Addr a) \<longleftrightarrow>
     fresh h \<le> a \<and> (\<exists>d. mem h' a = Some (Device_block d) \<and> length d = 18) \<or> config_typed h h' a"
| "descriptor_typed h h' Null \<longleftrightarrow> True"
| "descriptor_typed h h' Unset \<longleftrightarrow> False"

section \<open>The steps keep the invariant\<close>

lemma framed_refl: "heap_ok h \<Longrightarrow> framed h h"
  by (simp add: framed_def)

lemma framed_alloc:
  "framed h h' \<Longrightarrow> framed h \<lparr>mem = (mem h')(fresh h' \<mapsto> b), fresh = fresh h' + 1\<rparr>"
  by (auto simp: framed_def heap_ok_def)

lemma framed_assign:
  "framed h h' \<Longrightarrow> fresh h \<le> a \<Longrightarrow> a < fresh h' \<Longrightarrow>
   framed h \<lparr>mem = (mem h')(a \<mapsto> b), fresh = fresh h'\<rparr>"
  by (auto simp: framed_def heap_ok_def)

lemma framed_allocated: "framed h h' \<Longrightarrow> mem h' a = Some b \<Longrightarrow> a < fresh h'"
  by (metis framed_def heap_ok_def not_less option.distinct(1))

text \<open>
  The rules of the heap operations for \<open>runs\<close>.
\<close>

lemma runs_alloc [cmd_simps]:
  "runs D F Q (alloc E n b) (w, h) \<longleftrightarrow>
     (if fst (sys_malloc E n w)
      then Q (Addr (fresh h)) (snd (sys_malloc E n w),
             \<lparr>mem = (mem h)(fresh h \<mapsto> b), fresh = fresh h + 1\<rparr>)
      else Q Null (snd (sys_malloc E n w), h))"
  by (simp add: runs_def alloc_apply)

lemma runs_assign [cmd_simps]:
  "runs D F Q (assign (Addr a) b) (w, h) \<longleftrightarrow>
     Q () (w, \<lparr>mem = (mem h)(a \<mapsto> b), fresh = fresh h\<rparr>)"
  by (simp add: runs_def assign_apply)

lemma runs_bnd_alloc:
  "runs D F Q (bnd (alloc E n b) k) (w, h) \<longleftrightarrow>
     (if fst (sys_malloc E n w)
      then runs D F Q (k (Addr (fresh h))) (snd (sys_malloc E n w),
             \<lparr>mem = (mem h)(fresh h \<mapsto> b), fresh = fresh h + 1\<rparr>)
      else runs D F Q (k Null) (snd (sys_malloc E n w), h))"
  by (simp add: runs_bnd runs_alloc)

lemma runs_bnd_assign:
  "runs D F Q (bnd (assign (Addr a) b) k) (w, h) \<longleftrightarrow>
     runs D F Q (k ()) (w, \<lparr>mem = (mem h)(a \<mapsto> b), fresh = fresh h\<rparr>)"
  by (simp add: runs_bnd runs_assign)

lemma runs_fetch:
  assumes "\<And>a b. p = Addr a \<Longrightarrow> mem h a = Some b \<Longrightarrow> Q b (w, h)"
  shows "runs D pointer_fault Q (fetch p) (w, h)"
  using assms by (auto simp: runs_def fetch_def halt_def ret_def split: pointer.splits option.splits)

lemma runs_fetch_interfaces:
  assumes "\<And>a is. p = Addr a \<Longrightarrow> mem h a = Some (Interface_block is) \<Longrightarrow>
    runs D pointer_fault Q (k is) (w, h)"
  shows "runs D pointer_fault Q (bnd (fetch_interfaces p) k) (w, h)"
  unfolding fetch_interfaces_def bnd_assoc
  by (rule runs_bndI [where P = "\<lambda>b s. s = (w, h) \<and> (\<exists>a. p = Addr a \<and> mem h a = Some b)"])
    (auto intro!: runs_fetch assms simp: cmd_simps split: block.splits)

lemma runs_fetch_endpoints:
  assumes "\<And>a e. p = Addr a \<Longrightarrow> mem h a = Some (Endpoint_block e) \<Longrightarrow>
    runs D pointer_fault Q (k e) (w, h)"
  shows "runs D pointer_fault Q (bnd (fetch_endpoints p) k) (w, h)"
  unfolding fetch_endpoints_def bnd_assoc
  by (rule runs_bndI [where P = "\<lambda>b s. s = (w, h) \<and> (\<exists>a. p = Addr a \<and> mem h a = Some b)"])
    (auto intro!: runs_fetch assms simp: cmd_simps split: block.splits)

lemma runs_bnd_fetch_config:
  "mem h a = Some (Config_block c i) \<Longrightarrow>
   runs D F Q (bnd (fetch_config (Addr a)) k) (w, h) \<longleftrightarrow> runs D F Q (k (c, i)) (w, h)"
  "runs D F Q (bnd (fetch_config Null) k) s \<longleftrightarrow> F Null_pointer"
  by (simp_all add: runs_def bnd_def fetch_config_def fetch_apply ret_def)

lemma runs_parse_stream:
  assumes "\<And>x. length x = n \<Longrightarrow> runs D pointer_fault Q (k x) s"
  shows "runs D pointer_fault Q (bnd (lift (parse_stream b i n)) k) s"
  unfolding parse_stream_def by (rule runs_memcpy, rule assms) (auto dest: memcpy_length)


definition keeps_endpoints :: "heap \<Rightarrow> heap \<Rightarrow> bool" where
  "keeps_endpoints h h' \<longleftrightarrow> (\<forall>a. is_endpoints (mem h a) \<longrightarrow> is_endpoints (mem h' a))"

lemma interface_typed_mono:
  "interface_typed h h1 i \<Longrightarrow> keeps_endpoints h1 h2 \<Longrightarrow> interface_typed h h2 i"
  by (cases "ued i") (auto simp: interface_typed_def keeps_endpoints_def)

lemma is_endpoints_iff: "is_endpoints b \<longleftrightarrow> (\<exists>e. b = Some (Endpoint_block e))"
  by (cases b rule: is_endpoints.cases) auto

text \<open>The state of the walk: the configuration at \<open>a\<close> and its \<open>n\<close> interfaces.\<close>

definition parsing :: "heap \<Rightarrow> nat \<Rightarrow> buf \<Rightarrow> pointer \<Rightarrow> nat \<Rightarrow> heap \<Rightarrow> bool" where
  "parsing h a c p n h' \<longleftrightarrow>
     framed h h' \<and> fresh h \<le> a \<and> mem h' a = Some (Config_block c p) \<and>
     interfaces_typed h h' n p"

lemma parse_interface_parsing:
  assumes "parsing h a c p n h'"
  shows "runs D pointer_fault (\<lambda>_ s. parsing h a c p n (snd s))
    (parse_interface E src p i ifo) (w, h')"
  unfolding parse_interface_def
proof (rule runs_fetch_interfaces)
  fix q ids
  assume p: "p = Addr q" and ids: "mem h' q = Some (Interface_block ids)"
  from assms p ids have inv: "framed h h'" "fresh h \<le> a" "mem h' a = Some (Config_block c p)"
    "fresh h \<le> q" "length ids = n" "\<forall>i \<in> set ids. interface_typed h h' i"
    by (auto simp: parsing_def)
  have q: "q < fresh h'" "a < fresh h'" "q \<noteq> a"
    using framed_allocated [OF inv(1)] ids inv(3) by auto
  have built: "parsing h a c p n \<lparr>mem = m(q \<mapsto> Interface_block (ids[ifo := j])), fresh = f\<rparr>"
    if "framed h \<lparr>mem = m, fresh = f\<rparr>" and "q < f" and "m a = Some (Config_block c p)"
      and keeps: "\<forall>e. is_endpoints (mem h' e) \<longrightarrow> is_endpoints (m e)"
      and "length (uid j) = 9" "endpoint_pointer h \<lparr>mem = m, fresh = f\<rparr> (ued j)"
      and mq: "\<not> is_endpoints (m q)" for m f j
  proof -
    let ?h = "\<lparr>mem = m(q \<mapsto> Interface_block (ids[ifo := j])), fresh = f\<rparr>"
    have "keeps_endpoints h' ?h"
      using keeps mq by (auto simp: keeps_endpoints_def)
    moreover have "endpoint_pointer h ?h (ued j)"
      using that(6) mq by (cases "ued j") auto
    ultimately have "\<forall>i \<in> set (ids[ifo := j]). interface_typed h ?h i"
      using inv(6) that(5) set_update_subset_insert [of ids ifo j] interface_typed_mono
      by (fastforce simp: interface_typed_def)
    then show ?thesis
      using framed_assign [OF that(1) inv(4)] that(2,3) q(3) inv(2,4,5) p by (auto simp: parsing_def)
  qed
  show "runs D pointer_fault (\<lambda>_ s. parsing h a c p n (snd s))
    (if length ids \<le> ifo then halt Out_of_bounds
     else bnd (lift (parse_stream src i 9)) (\<lambda>b.
       let ids = ids[ifo := (ids ! ifo)\<lparr>uid := b\<rparr>] in
       bnd (assign p (Interface_block ids)) (\<lambda>_.
       bnd (lift (load8 (uid (ids ! 0)) 4)) (\<lambda>n_endp.
       bnd (alloc E (unat n_endp * 8) (Endpoint_block (uninit (unat n_endp * 8)))) (\<lambda>p'.
       assign p (Interface_block (ids[ifo := (ids ! ifo)\<lparr>ued := p'\<rparr>]))))))) (w, h')"
  proof (cases "length ids \<le> ifo")
    case False
    show ?thesis
      unfolding if_not_P [OF False]
    proof (rule runs_parse_stream)
      fix b :: buf assume b: "length b = 9"
      let ?j = "(ids ! ifo)\<lparr>uid := b\<rparr>"
      let ?m = "(mem h')(q \<mapsto> Interface_block (ids[ifo := ?j]))"
      have f: "framed h \<lparr>mem = ?m, fresh = fresh h'\<rparr>"
        using framed_assign [OF inv(1,4) q(1)] .
      have null: "parsing h a c p n
          \<lparr>mem = ?m(q \<mapsto> Interface_block (ids[ifo := ?j\<lparr>ued := Null\<rparr>])), fresh = fresh h'\<rparr>"
        by (rule built [OF f q(1)]) (use inv(3) q(3) ids b in auto)
      have new: "parsing h a c p n
          \<lparr>mem = (?m(fresh h' \<mapsto> Endpoint_block e))(q \<mapsto> Interface_block
             (ids[ifo := ?j\<lparr>ued := Addr (fresh h')\<rparr>])), fresh = fresh h' + 1\<rparr>" for e
        using framed_alloc [OF f, of "Endpoint_block e"]
        by (intro built) (use inv(1,3) q ids b in \<open>auto simp: framed_def\<close>)
      show "runs D pointer_fault (\<lambda>_ s. parsing h a c p n (snd s))
        (let ids = ids[ifo := ?j] in
         bnd (assign p (Interface_block ids)) (\<lambda>_.
         bnd (lift (load8 (uid (ids ! 0)) 4)) (\<lambda>n_endp.
         bnd (alloc E (unat n_endp * 8) (Endpoint_block (uninit (unat n_endp * 8)))) (\<lambda>p'.
         assign p (Interface_block (ids[ifo := (ids ! ifo)\<lparr>ued := p'\<rparr>])))))) (w, h')"
        using False null new
        by (simp add: Let_def p runs_bnd_assign) (auto intro!: runs_load8 simp: runs_bnd_alloc runs_assign)
    qed
  qed (simp add: cmd_simps)
qed


lemma parse_endpoint_parsing:
  assumes "parsing h a c p n h'"
  shows "runs D pointer_fault (\<lambda>_ s. parsing h a c p n (snd s))
    (parse_endpoint src p i ifo epo) (w, h')"
  unfolding parse_endpoint_def
proof (rule runs_fetch_interfaces)
  fix q ids
  assume p: "p = Addr q" and ids: "mem h' q = Some (Interface_block ids)"
  let ?k = "size_of_int (int ifo - int 9)"
  from assms p ids have inv: "framed h h'" "fresh h \<le> a" "mem h' a = Some (Config_block c p)"
    "fresh h \<le> q" "length ids = n" "\<forall>i \<in> set ids. interface_typed h h' i"
    by (auto simp: parsing_def)
  have built: "parsing h a c p n \<lparr>mem = (mem h')(r \<mapsto> Endpoint_block e'), fresh = fresh h'\<rparr>"
    if k: "\<not> length ids \<le> ?k" and r: "ued (ids ! ?k) = Addr r" "mem h' r = Some (Endpoint_block e)"
    for r e e'
  proof -
    have "interface_typed h h' (ids ! ?k)" using inv(6) k by simp
    then have "fresh h \<le> r" using r(1) by (simp add: interface_typed_def)
    moreover have "r < fresh h'" using framed_allocated [OF inv(1) r(2)] .
    moreover have "r \<noteq> a" "r \<noteq> q" using inv(3) ids r(2) by auto
    moreover have "keeps_endpoints h' \<lparr>mem = (mem h')(r \<mapsto> Endpoint_block e'), fresh = fresh h'\<rparr>"
      by (simp add: keeps_endpoints_def)
    ultimately show ?thesis
      using framed_assign [OF inv(1)] inv(2-6) ids p interface_typed_mono
      by (fastforce simp: parsing_def)
  qed
  show "runs D pointer_fault (\<lambda>_ s. parsing h a c p n (snd s))
    (let k = ?k in
     if length ids \<le> k then halt Out_of_bounds
     else bnd (fetch_endpoints (ued (ids ! k))) (\<lambda>e.
       bnd (lift (memcpy e (epo * 9) src i 7)) (\<lambda>e.
       assign (ued (ids ! k)) (Endpoint_block e)))) (w, h')"
  proof (cases "length ids \<le> ?k")
    case False
    then show ?thesis
      by (simp add: Let_def)
        (auto intro!: runs_fetch_endpoints runs_memcpy built simp: runs_assign)
  qed (simp add: cmd_simps Let_def)
qed

section \<open>The loop and the whole parser\<close>

lemma parse_loop_parsing:
  assumes "parsing h a c p n (snd s)"
  shows "runs True pointer_fault (\<lambda>_ s. parsing h a c p n (snd s))
    (parse_loop E src p N i ifo epo) s"
proof (rule runs_partial_fixp)
  fix r assume r: "parse_loop E src p N i ifo epo s = Some r"
  let ?Q = "\<lambda>_ :: unit. \<lambda>s. parsing h a c p n (snd s)"
  let ?post = "\<lambda>r. case r of Inl t \<Rightarrow> pointer_fault t | Inr (u, s') \<Rightarrow> ?Q u s'"
  let ?P = "\<lambda>E' src' p' (N :: nat) (i :: nat) (ifo :: u16) (epo :: u16) s r.
    p' = p \<and> parsing h a c p n (snd s) \<longrightarrow> ?post r"
  have "?P E src p N i ifo epo s r"
  proof (rule parse_loop.raw_induct [where P = ?P, OF _ r])
    fix f :: "'a env \<Rightarrow> buf \<Rightarrow> pointer \<Rightarrow> nat \<Rightarrow> nat \<Rightarrow> u16 \<Rightarrow> u16 \<Rightarrow> 'a \<times> heap \<Rightarrow>
      (unit \<times> 'a \<times> heap) checked option"
    fix E src p' N i ifo epo s r
    assume IH: "\<And>E src p' N i ifo epo s r. f E src p' N i ifo epo s = Some r \<Longrightarrow>
        ?P E src p' N i ifo epo s r"
      and step: "(if i < N then
          bnd (lift (load8 src (i + 1))) (\<lambda>dt.
          bnd (if dt = 4 then parse_interface E src p' i (unat ifo)
               else if dt = 5 then parse_endpoint src p' i (unat ifo) (unat epo)
               else ret ()) (\<lambda>_.
          bnd (lift (load8 src i)) (\<lambda>offset.
          f E src p' N (i + unat offset)
            (if dt = 4 then ifo + of_nat 9 else ifo)
            (if dt = 4 then 0 else if dt = 5 then epo + of_nat 7 else epo))))
        else ret ()) s = Some r"
    show "?P E src p' N i ifo epo s r"
    proof
      assume *: "p' = p \<and> parsing h a c p n (snd s)"
      have rec: "runs True pointer_fault ?Q (f E src p N i ifo epo) s"
        if "parsing h a c p n (snd s)" for i ifo epo s
        by (rule runs_partial_fixp) (use IH that in blast)
      have "runs True pointer_fault ?Q (if i < N then
          bnd (lift (load8 src (i + 1))) (\<lambda>dt.
          bnd (if dt = 4 then parse_interface E src p' i (unat ifo)
               else if dt = 5 then parse_endpoint src p' i (unat ifo) (unat epo)
               else ret ()) (\<lambda>_.
          bnd (lift (load8 src i)) (\<lambda>offset.
          f E src p' N (i + unat offset)
            (if dt = 4 then ifo + of_nat 9 else ifo)
            (if dt = 4 then 0 else if dt = 5 then epo + of_nat 7 else epo))))
        else ret ()) s"
      proof (cases "i < N")
        case True
        have "runs True pointer_fault ?Q
            (if dt = 4 then parse_interface E src p' i (unat ifo)
             else if dt = 5 then parse_endpoint src p' i (unat ifo) (unat epo)
             else ret ()) s" for dt :: u8
          using * by (cases s) (simp add: runs_ret parse_interface_parsing parse_endpoint_parsing)
        then show ?thesis
          unfolding if_P [OF True] using *
          by (auto intro!: runs_load8 runs_bndI [where P = ?Q] rec split del: if_split)
      qed (use * in \<open>simp add: runs_ret\<close>)
      then show "?post r" using step by (auto simp: runs_def)
    qed
  qed
  with assms show "?post r" by blast
qed


lemma parse_config_descriptor_typed:
  assumes "heap_ok h"
  shows "runs True pointer_fault (\<lambda>p s. framed h (snd s) \<and> descriptor_typed h (snd s) p)
    (parse_config_descriptor E src) (w, h)"
proof -
  let ?Q = "\<lambda>p s. framed h (snd s) \<and> descriptor_typed h (snd s) p"
  let ?none = "\<lparr>uid = uninit 9, ued = Unset\<rparr>"
  have walk: "runs True pointer_fault ?Q
      (bnd (parse_loop E src q N 9 0 0) (\<lambda>_. ret (Addr (fresh h)))) (w', h')"
    if "parsing h (fresh h) b q n h'" "length b = 9" "load8 b 4 = Inr m" "unat m = n" for q N b n m w' h'
    by (rule runs_bndI [OF parse_loop_parsing [where s = "(w', h')"]])
      (use that in \<open>auto simp: runs_ret parsing_def config_typed_def\<close>)
  have alloc_ifaced: "runs True pointer_fault ?Q
      (bnd (alloc E k (Interface_block (replicate (unat n) ?none))) (\<lambda>ifaced.
       bnd (assign (Addr (fresh h)) (Config_block b ifaced)) (\<lambda>_.
       bnd (parse_loop E src ifaced N 9 0 0) (\<lambda>_. ret (Addr (fresh h)))))) (w', h')"
    if "framed h h'" "fresh h < fresh h'" "length b = 9" "load8 b 4 = Inr n" for k n b w' h' N
  proof -
    let ?ids = "Interface_block (replicate (unat n) ?none)"
    let ?new = "\<lparr>mem = (mem h')(fresh h' \<mapsto> ?ids), fresh = fresh h' + 1\<rparr>"
    have "parsing h (fresh h) b (Addr (fresh h')) (unat n)
        \<lparr>mem = (mem ?new)(fresh h \<mapsto> Config_block b (Addr (fresh h'))), fresh = fresh ?new\<rparr>"
      using framed_assign [OF framed_alloc [OF that(1)], of "fresh h"] that(2)
      by (auto simp: parsing_def interface_typed_def)
    moreover have "parsing h (fresh h) b Null (unat n)
        \<lparr>mem = (mem h')(fresh h \<mapsto> Config_block b Null), fresh = fresh h'\<rparr>"
      using framed_assign [OF that(1), of "fresh h"] that(2) by (auto simp: parsing_def)
    ultimately show ?thesis
      using walk [OF _ that(3,4) refl] by (auto simp: runs_bnd_alloc runs_bnd_assign)
  qed
  let ?h = "\<lparr>mem = (mem h)(fresh h \<mapsto> Config_block (uninit 9) Unset), fresh = fresh h + 1\<rparr>"
  have "framed h \<lparr>mem = (mem ?h)(fresh h \<mapsto> Config_block b Unset), fresh = fresh ?h\<rparr>" for b
    by (rule framed_assign) (use framed_alloc [OF framed_refl [OF assms]] in auto)
  then have after: "framed h \<lparr>mem = (mem h)(fresh h \<mapsto> Config_block b Unset), fresh = Suc (fresh h)\<rparr>"
    for b by simp
  show ?thesis
    unfolding parse_config_descriptor_def
    by (auto simp: runs_bnd_alloc runs_bnd_fetch_config runs_bnd_assign
        intro!: runs_parse_stream runs_load8 runs_load_le16 alloc_ifaced after)
qed


lemma runs_fetch_strict:
  "mem h a = Some b \<Longrightarrow>
   runs D F Q (bnd (fetch (Addr a)) k) (w, h) \<longleftrightarrow> runs D F Q (k b) (w, h)"
  "runs D F Q (bnd (fetch Null) k) s \<longleftrightarrow> F Null_pointer"
  by (simp_all add: runs_def bnd_def fetch_apply)

lemma parse_device_descriptor_typed:
  assumes "heap_ok h"
  shows "runs True pointer_fault (\<lambda>p s. framed h (snd s) \<and> descriptor_typed h (snd s) p)
    (parse_device_descriptor E src) (w, h)"
proof -
  let ?h = "\<lparr>mem = (mem h)(fresh h \<mapsto> Device_block (uninit 18)), fresh = fresh h + 1\<rparr>"
  have "framed h \<lparr>mem = (mem ?h)(fresh h \<mapsto> Device_block b), fresh = fresh ?h\<rparr>" for b
    by (rule framed_assign) (use framed_alloc [OF framed_refl [OF assms]] in auto)
  then show ?thesis
    unfolding parse_device_descriptor_def
    by (auto simp: runs_bnd_alloc runs_fetch_strict runs_bnd_assign runs_ret
        intro!: runs_parse_stream)
qed

text \<open>Freeing a block that was not there before.\<close>

lemma framed_free:
  "framed h h' \<Longrightarrow> fresh h \<le> a \<Longrightarrow> framed h \<lparr>mem = (mem h')(a := None), fresh = fresh h'\<rparr>"
  by (auto simp: framed_def heap_ok_def)

lemma runs_bnd_c_free:
  "mem h a = Some b \<Longrightarrow> runs D F Q (bnd (c_free (Addr a)) k) (w, h) \<longleftrightarrow>
     runs D F Q (k ()) (w, \<lparr>mem = (mem h)(a := None), fresh = fresh h\<rparr>)"
  "runs D F Q (bnd (c_free Null) k) (w, h) \<longleftrightarrow> runs D F Q (k ()) (w, h)"
  "runs D F Q (bnd (c_free Unset) k) (w, h) \<longleftrightarrow> F Uninitialised"
  by (simp_all add: runs_def bnd_def c_free_def ret_def halt_def)

lemma runs_c_free:
  "mem h a = Some b \<Longrightarrow> runs D F Q (c_free (Addr a)) (w, h) \<longleftrightarrow>
     Q () (w, \<lparr>mem = (mem h)(a := None), fresh = fresh h\<rparr>)"
  by (simp add: runs_def c_free_apply)

lemma release_config_descriptor_frame:
  assumes "framed h h'" and "config_typed h h' a"
  shows "runs False pointer_fault (\<lambda>_ s. framed h (snd s))
    (release_config_descriptor (Addr a)) (w, h')"
proof -
  from assms(2) obtain c p n where a: "fresh h \<le> a" "mem h' a = Some (Config_block c p)"
    "interfaces_typed h h' n p"
    by (auto simp: config_typed_def)
  show ?thesis
    unfolding release_config_descriptor_def runs_bnd_fetch_config(1) [OF a(2)] prod.case
  proof (rule runs_fetch_interfaces)
    fix q ids
    assume p: "p = Addr q" and q: "mem h' q = Some (Interface_block ids)"
    have "q \<noteq> a" using a(2) q by auto
    have typed: "fresh h \<le> q" "\<forall>i \<in> set ids. interface_typed h h' i" using a(3) p q by auto
    have rest: "runs False pointer_fault (\<lambda>_ s. framed h (snd s))
        (bnd (c_free (Addr q)) (\<lambda>_. c_free (Addr a))) (w, h'')"
      if "framed h h''" "mem h'' q = mem h' q" "mem h'' a = mem h' a" for h''
      using that a(1,2) q typed(1) \<open>q \<noteq> a\<close>
        framed_free [OF framed_free [OF that(1) typed(1)] a(1)]
      by (simp add: runs_bnd_c_free(1) [where b = "Interface_block ids"]
          runs_c_free [where b = "Config_block c p"])
    show "runs False pointer_fault (\<lambda>_ s. framed h (snd s))
      (if ids = [] then halt Out_of_bounds
       else bnd (c_free (ued (ids ! 0))) (\<lambda>_. bnd (c_free p) (\<lambda>_. c_free (Addr a)))) (w, h')"
    proof (cases "ids = []")
      case False
      then have "interface_typed h h' (ids ! 0)" using typed(2) by simp
      then show ?thesis
        using False p rest [OF assms(1)] framed_free [OF assms(1)] q a(2)
        by (cases "ued (ids ! 0)")
          (auto simp: runs_bnd_c_free(2,3) interface_typed_def is_endpoints_iff
            runs_bnd_c_free(1) intro!: rest)
    qed (simp add: runs_halt)
  qed
qed

lemma release_descriptor_frame:
  assumes "framed h h'" and "descriptor_typed h h' p"
  shows "runs False pointer_fault (\<lambda>_ s. framed h (snd s)) (release_descriptor p) (w, h')"
proof (cases p)
  case (Addr a)
  with assms(2) consider (device) d where "fresh h \<le> a" "mem h' a = Some (Device_block d)"
    | (config) c i where "config_typed h h' a" "mem h' a = Some (Config_block c i)"
    by (auto simp: config_typed_def)
  then show ?thesis
  proof cases
    case device
    have "framed h \<lparr>mem = (mem h')(a := None), fresh = fresh h'\<rparr>"
      by (rule framed_free [OF assms(1) device(1)])
    then show ?thesis
      unfolding release_descriptor_def Addr runs_fetch_strict(1) [OF device(2)]
      using assms(1) device(2)
      by (auto simp: release_device_descriptor_def runs_c_free runs_ret release_config_descriptor_def fetch_config_def bnd_assoc
          runs_fetch_strict runs_halt intro!: runs_load8)
  next
    case config
    have "runs False pointer_fault (\<lambda>_ s. framed h (snd s)) (c_free (Addr a)) (w, h')"
      using config framed_free [OF assms(1)] by (auto simp: runs_c_free config_typed_def)
    then show ?thesis
      unfolding release_descriptor_def Addr runs_fetch_strict(1) [OF config(2)]
      using assms(1) release_config_descriptor_frame [OF assms(1) config(1)]
      by (auto simp: runs_ret release_device_descriptor_def intro!: runs_load8)
  qed
qed (use assms in \<open>auto simp: release_descriptor_def runs_fetch_strict\<close>)


text \<open>
  A parse that returns, on any input and for every allocator: no block that was allocated before
  is touched, and what it returns is well typed. Releasing it then frees new blocks only, and
  never a block that is not allocated. On the way the parse may leave a block, use a pointer that
  is null or not assigned, or go on for ever.
\<close>

lemma parse_descriptor_returned:
  assumes "heap_ok h"
  shows "runs True pointer_fault
    (\<lambda>p s. framed h (snd s) \<and> descriptor_typed h (snd s) p \<and>
       runs False pointer_fault (\<lambda>_ s'. framed h (snd s')) (release_descriptor p) s)
    (parse_descriptor E src) (w, h)"
proof -
  have "runs True pointer_fault (\<lambda>p s. framed h (snd s) \<and> descriptor_typed h (snd s) p)
      (parse_descriptor E src) (w, h)"
    unfolding parse_descriptor_def
    using parse_device_descriptor_typed [OF assms] parse_config_descriptor_typed [OF assms]
      framed_refl [OF assms]
    by (auto intro!: runs_load8 simp: runs_ret)
  then show ?thesis
    by (rule runs_mono) (auto intro: release_descriptor_frame split: prod.splits)
qed

lemma parse_descriptor_returned_example:
  "runs True pointer_fault
    (\<lambda>p s. framed \<lparr>mem = Map.empty, fresh = 7\<rparr> (snd s) \<and>
       descriptor_typed \<lparr>mem = Map.empty, fresh = 7\<rparr> (snd s) p \<and>
       runs False pointer_fault (\<lambda>_ s'. framed \<lparr>mem = Map.empty, fresh = 7\<rparr> (snd s'))
         (release_descriptor p) s)
    (parse_descriptor device_env (known [18, 1, 0, 2, 0, 0, 0, 64, 209, 24, 226, 78, 0, 1, 1, 2, 3, 1]))
    (idle, \<lparr>mem = Map.empty, fresh = 7\<rparr>)"
  by (rule parse_descriptor_returned) simp

end
