(* ===== verification/Parse_Walk.thy ===== *)
theory Parse_Walk
  imports Parse_Safety
begin

text \<open>
  When the descriptor parser stays in its memory: on every well-formed configuration, for every
  allocator. The walk stores the interface number \<open>k\<close> at index \<open>9 * k\<close> of the array and the
  endpoint number \<open>m\<close> of an interface \<open>63 * m\<close> bytes into its memory, so a predicate on the
  descriptors decides whether it returns or leaves its blocks.
\<close>

section \<open>The room the walk has\<close>

text \<open>The allocator never runs out of memory.\<close>

definition mallocs :: "'w env \<Rightarrow> bool" where
  "mallocs E \<longleftrightarrow> (\<forall>n w. fst (sys_malloc E n w))"

lemma mallocsD [simp]: "mallocs E \<Longrightarrow> fst (sys_malloc E n w)"
  by (simp add: mallocs_def)

text \<open>
  \<open>n\<close> interfaces are announced, \<open>b\<close> bytes are allocated for the endpoints of an interface (eight
  for each endpoint the first interface announces), \<open>k\<close> interfaces were walked over, and \<open>m\<close>
  endpoints since the last.
\<close>

fun room :: "nat \<Rightarrow> nat \<Rightarrow> nat \<Rightarrow> nat \<Rightarrow> u8 list list \<Rightarrow> bool" where
  "room n b k m [] \<longleftrightarrow> True"
| "room n b k m (d # ds) \<longleftrightarrow>
     (if d ! 1 = USB_DT_INTERFACE
      then 9 * k < n \<and> room n (if k = 0 then 8 * unat (d ! 4) else b) (k + 1) 0 ds
      else if d ! 1 = USB_DT_ENDPOINT then 0 < k \<and> 63 * m + 7 \<le> b \<and> room n b k (m + 1) ds
      else room n b k m ds)"

section \<open>The invariant of the walk\<close>

text \<open>Memory for \<open>b\<close> bytes of endpoints, unless there was none.\<close>

fun endpoint_room :: "'w env \<Rightarrow> heap \<Rightarrow> nat \<Rightarrow> pointer \<Rightarrow> bool" where
  "endpoint_room E h b Unset \<longleftrightarrow> False"
| "endpoint_room E h b Null \<longleftrightarrow> \<not> mallocs E"
| "endpoint_room E h b (Addr a) \<longleftrightarrow> (\<exists>e. mem h a = Some (Endpoint_block e) \<and> length e = b)"

text \<open>What the first \<open>k\<close> interfaces have left in the array.\<close>

definition walked :: "'w env \<Rightarrow> heap \<Rightarrow> nat \<Rightarrow> nat \<Rightarrow> idescriptor list \<Rightarrow> bool" where
  "walked E h b k ids \<longleftrightarrow>
     (0 < k \<longrightarrow>
        9 * (k - 1) < length ids \<and> ued (ids ! 0) \<noteq> Unset \<and>
        (\<exists>x. load8 (uid (ids ! 0)) 4 = Inr x \<and> b = 8 * unat x) \<and>
        endpoint_room E h b (ued (ids ! (9 * (k - 1)))))"

definition walking ::
    "'w env \<Rightarrow> heap \<Rightarrow> u8 list \<Rightarrow> pointer \<Rightarrow> nat \<Rightarrow> nat \<Rightarrow> heap \<Rightarrow> bool" where
  "walking E h cfg p b k h' \<longleftrightarrow>
     parsing h (fresh h) (known cfg) p (unat (cfg ! 4)) h' \<and> (p = Null \<longrightarrow> \<not> mallocs E) \<and>
     (\<forall>q ids. p = Addr q \<longrightarrow> mem h' q = Some (Interface_block ids) \<longrightarrow> walked E h' b k ids)"

text \<open>What may stop it.\<close>

definition walk_fault :: "'w env \<Rightarrow> bool \<Rightarrow> stop \<Rightarrow> bool" where
  "walk_fault E fits s \<longleftrightarrow> s = Null_pointer \<and> \<not> mallocs E \<or> s = Out_of_bounds \<and> \<not> fits"

lemma runs_walk_interfaces:
  assumes "walking E h cfg p b k h'"
    and "\<And>q ids. p = Addr q \<Longrightarrow> mem h' q = Some (Interface_block ids) \<Longrightarrow>
      length ids = unat (cfg ! 4) \<Longrightarrow> walked E h' b k ids \<Longrightarrow> runs D (walk_fault E f) Q (g ids) (w, h')"
  shows "runs D (walk_fault E f) Q (bnd (fetch_interfaces p) g) (w, h')"
proof (cases p)
  case Null
  then have "\<not> mallocs E" using assms(1) by (simp add: walking_def)
  with Null show ?thesis
    by (simp add: fetch_interfaces_def bnd_assoc runs_fetch_strict walk_fault_def)
next
  case (Addr q)
  then obtain ids where "mem h' q = Some (Interface_block ids)" "length ids = unat (cfg ! 4)"
    using assms(1) by (auto simp: walking_def parsing_def)
  with Addr show ?thesis
    using assms by (simp add: fetch_interfaces_def bnd_assoc runs_fetch_strict walking_def)
next
  case Unset
  with assms(1) show ?thesis by (simp add: walking_def parsing_def)
qed

lemma walking_run:
  assumes "walking E h cfg p b k h'"
    and "runs D pointer_fault (\<lambda>_ s. parsing h (fresh h) (known cfg) p (unat (cfg ! 4)) (snd s)) m (w, h')"
    and "runs False (walk_fault E f) (\<lambda>_ s. R \<and>
      (\<forall>q ids. p = Addr q \<longrightarrow> mem (snd s) q = Some (Interface_block ids) \<longrightarrow> walked E (snd s) b' k' ids)) m (w, h')"
  shows "runs False (walk_fault E f) (\<lambda>_ s. R \<and> walking E h cfg p b' k' (snd s)) m (w, h')"
  by (rule runs_mono [OF runs_conj [OF assms(2,3)]]) (use assms(1) in \<open>auto simp: walking_def\<close>)

section \<open>The steps\<close>

text \<open>The memory of the endpoints behind the interface array at \<open>q\<close>.\<close>

lemma walked_stored:
  assumes "walked E h' b k ids" and "9 * k < length ids"
    and "load8 (uid (ids[9 * k := j] ! 0)) 4 = Inr x" and "ued j \<noteq> Unset"
    and "endpoint_room E h'' (8 * unat x) (ued j)"
  shows "walked E h'' (8 * unat x) (k + 1) (ids[9 * k := j])"
  using assms by (cases "k = 0") (auto simp: walked_def nth_list_update)

lemma walking_interface:
  assumes inv: "walking E h cfg p b k h'" and d: "located src j d" "9 \<le> length d"
  shows "runs False (walk_fault E (9 * k < unat (cfg ! 4)))
    (\<lambda>_ s. 9 * k < unat (cfg ! 4) \<and>
       walking E h cfg p (if k = 0 then 8 * unat (d ! 4) else b) (k + 1) (snd s))
    (parse_interface E src p j (9 * k)) (w, h')"
proof (rule walking_run [OF inv parse_interface_parsing], goal_cases)
  case 1
  then show ?case using inv by (simp add: walking_def)
next
  case 2
  have stream: "parse_stream src j 9 = Inr (known (take 9 d))"
    by (rule parse_stream_located [OF d]) simp
  show ?case
    unfolding parse_interface_def
  proof (rule runs_walk_interfaces [OF inv], goal_cases)
    case (1 q ids)
    let ?j = "(ids ! (9 * k))\<lparr>uid := known (take 9 d)\<rparr>"
    let ?ids = "ids[9 * k := ?j]"
    have q: "fresh h' \<noteq> q"
      using framed_allocated [of h h' q] inv 1(2) by (auto simp: walking_def parsing_def)
    define x where "x = (if k = 0 then d ! 4 else word_of_nat (b div 8))"
    have x: "load8 (uid (?ids ! 0)) 4 = Inr x" "(if k = 0 then 8 * unat (d ! 4) else b) = 8 * unat x"
      if "9 * k < length ids"
      using 1(4) that d(2) by (cases "k = 0"; auto simp: walked_def x_def nth_list_update)+
    show ?case
    proof (cases "9 * k < length ids")
      case True
      have "uid (ids[9 * k := ?j\<lparr>ued := p'\<rparr>] ! 0) = uid (?ids ! 0)" for p'
        using True by (cases "k = 0") auto
      then have stored: "walked E h'' (8 * unat x) (k + 1) (ids[9 * k := ?j\<lparr>ued := p'\<rparr>])"
        if "p' \<noteq> Unset" "endpoint_room E h'' (8 * unat x) p'" for p' h''
        using walked_stored [OF 1(4) True, of "?j\<lparr>ued := p'\<rparr>" x h''] that x(1) [OF True] by simp
      show ?thesis
        using True x [OF True] 1(1-3)
        by (simp add: stream Let_def runs_bnd_assign runs_bnd_alloc runs_assign mallocs_def
            mult.commute [of _ 8])
          (use q in \<open>auto simp: uninit_def intro!: stored [simplified]\<close>)
    next
      case False
      then show ?thesis using 1(3) by (simp add: cmd_simps walk_fault_def)
    qed
  qed
qed

lemma endpoint_room_write:
  assumes "endpoint_room E h b (Addr a)" and "length e = b"
  shows "walked E h b k ids \<Longrightarrow>
    walked E \<lparr>mem = (mem h)(a \<mapsto> Endpoint_block e), fresh = f\<rparr> b k ids"
  using assms by (cases "ued (ids ! (9 * (k - 1)))") (auto simp: walked_def)

lemma memcpy_located:
  assumes "located src i d" and "n \<le> length d" and "0 < n"
  shows "memcpy e k src i n =
    (if k + n \<le> length e then Inr (take k e @ known (take n d) @ drop (k + n) e) else Inl Out_of_bounds)"
  using parse_stream_located [OF assms] assms(3)
  by (auto simp: parse_stream_def memcpy_def split: if_splits)

lemma walking_endpoint:
  assumes inv: "walking E h cfg p b k h'" and d: "located src j d" "7 \<le> length d"
  shows "runs False (walk_fault E (0 < k \<and> 63 * m + 7 \<le> b))
    (\<lambda>_ s. (0 < k \<and> 63 * m + 7 \<le> b) \<and> walking E h cfg p b k (snd s))
    (parse_endpoint src p j (9 * k) (7 * m)) (w, h')"
proof (rule walking_run [OF inv parse_endpoint_parsing], goal_cases)
  case 1
  then show ?case using inv by (simp add: walking_def)
next
  case 2
  show ?case
    unfolding parse_endpoint_def Let_def
  proof (rule runs_walk_interfaces [OF inv], goal_cases)
    case (1 q ids)
    have n: "length ids < 256" using 1(3) unsigned_less [of "cfg ! 4", where 'a = nat] by simp
    show ?case
    proof (cases "0 < k")
      case False
      then have "length ids \<le> size_of_int (int (9 * k) - int 9)" using n by (simp add: size_of_int_def)
      with False show ?thesis by (simp add: cmd_simps walk_fault_def)
    next
      case True
      then have i: "9 * (k - 1) < length ids" and room: "endpoint_room E h' b (ued (ids ! (9 * (k - 1))))"
        using 1(4) by (simp_all add: walked_def)
      have idx: "size_of_int (int (9 * k) - int 9) = 9 * (k - 1)"
        using True i n by (simp add: size_of_int_def)
      show ?thesis
      proof (cases "ued (ids ! (9 * (k - 1)))")
        case Null
        with room i idx show ?thesis
          by (simp add: fetch_endpoints_def bnd_assoc runs_fetch_strict walk_fault_def)
      next
        case (Addr a)
        then obtain e where e: "mem h' a = Some (Endpoint_block e)" "length e = b" using room by auto
        have copy: "memcpy e (63 * m) src j 7 = (if 63 * m + 7 \<le> b
          then Inr (take (63 * m) e @ known (take 7 d) @ drop (63 * m + 7) e) else Inl Out_of_bounds)"
          using memcpy_located [OF d zero_less_numeral, of e "63 * m"] e(2) by simp
        note stored = endpoint_room_write [OF room [unfolded Addr]]
        have "a \<noteq> q" using e(1) 1(2) by auto
        show ?thesis
          using 1 i True e idx Addr \<open>a \<noteq> q\<close> stored d(2)
          by (auto simp: fetch_endpoints_def bnd_assoc runs_fetch_strict copy runs_bnd_assign
              runs_assign runs_halt walk_fault_def)
      qed (use room in simp)
    qed
  qed
qed

section \<open>The walk\<close>

lemma runs_parse_loop:
  assumes "located src i d" and "descriptor_ok d" and "i < N"
  shows "runs D F Q (parse_loop E src p N i ifo epo) s \<longleftrightarrow>
    runs D F Q (bnd (if d ! 1 = 4 then parse_interface E src p i (unat ifo)
         else if d ! 1 = 5 then parse_endpoint src p i (unat ifo) (unat epo)
         else ret ()) (\<lambda>_.
    parse_loop E src p N (i + length d)
      (if d ! 1 = 4 then ifo + 9 else ifo)
      (if d ! 1 = 4 then 0 else if d ! 1 = 5 then epo + 7 else epo))) s"
  unfolding runs_def parse_loop_step [OF assms] ..

lemma walk_fault_mono: "walk_fault E f s \<Longrightarrow> (f' \<Longrightarrow> f) \<Longrightarrow> walk_fault E f' s"
  by (auto simp: walk_fault_def)

text \<open>One step and the rest of the walk.\<close>

lemma walk_step:
  assumes "runs False (walk_fault E f) (\<lambda>_ s. f \<and> P (snd s)) m s"
    and "\<And>w h'. P h' \<Longrightarrow> runs False (walk_fault E g) (\<lambda>_ s. g \<and> Q (snd s)) (l ()) (w, h')"
    and "f' \<longleftrightarrow> f \<and> g"
  shows "runs False (walk_fault E f') (\<lambda>_ s. f' \<and> Q (snd s)) (bnd m l) s"
proof (rule runs_bndI)
  show "runs False (walk_fault E f') (\<lambda>_ s. f \<and> P (snd s)) m s"
    by (rule runs_mono [OF assms(1)]) (auto elim: walk_fault_mono simp: assms(3))
  show "runs False (walk_fault E f') (\<lambda>_ s. f' \<and> Q (snd s)) (l u) s'"
    if "f \<and> P (snd s')" for u s'
    using runs_mono [OF assms(2) [of "snd s'" "fst s'"]] that
    by (auto elim!: walk_fault_mono simp: assms(3))
qed

lemma parse_loop_walking:
  assumes "walking E h cfg p b k h'" and "\<forall>d \<in> set ds. descriptor_ok d"
    and "located src j (concat ds)" and "9 * k + 7 * m \<le> j" and "j + length (concat ds) < 2 ^ 16"
  shows "runs False (walk_fault E (room (unat (cfg ! 4)) b k m ds))
    (\<lambda>_ s. room (unat (cfg ! 4)) b k m ds \<and>
      (\<exists>b' k'. walking E h cfg p b' k' (snd s) \<and> (0 < k' \<longleftrightarrow> 0 < k \<or> (\<exists>d \<in> set ds. d ! 1 = 4))))
    (parse_loop E src p (j + length (concat ds)) j (of_nat (9 * k)) (of_nat (7 * m))) (w, h')"
  using assms
proof (induction ds arbitrary: j b k m w h')
  case Nil
  then show ?case by (auto simp: runs_def parse_loop_end ret_def)
next
  case (Cons d ds)
  let ?n = "unat (cfg ! 4)" and ?N = "j + length (concat (d # ds))"
  from Cons.prems have d: "descriptor_ok d" "located src j d" "located src (j + length d) (concat ds)"
    by simp_all
  have "2 \<le> length d" using d(1) by (simp add: descriptor_ok_def)
  then have j: "j < ?N" by (cases d) simp_all
  have counters: "unat (of_nat (9 * k) :: u16) = 9 * k" "unat (of_nat (7 * m) :: u16) = 7 * m"
    unfolding unat_of_nat by (rule mod_less; use Cons.prems(4,5) in simp)+
  note step = runs_parse_loop [OF d(2,1) j, where ifo = "of_nat (9 * k)" and epo = "of_nat (7 * m)",
      unfolded counters]
  have IH: "runs False (walk_fault E (room ?n b k m ds))
    (\<lambda>_ s. room ?n b k m ds \<and>
      (\<exists>b' k'. walking E h cfg p b' k' (snd s) \<and> (0 < k' \<longleftrightarrow> 0 < k \<or> (\<exists>d \<in> set ds. d ! 1 = 4))))
    (parse_loop E src p ?N (j + length d) (of_nat (9 * k)) (of_nat (7 * m))) (w, h')"
    if "walking E h cfg p b k h'" "9 * k + 7 * m \<le> j + length d" for b k m w h'
    using Cons.IH [OF that(1) _ d(3) that(2)] Cons.prems(2,5) by (simp add: add.assoc)
  consider "d ! 1 = 4" | "d ! 1 = 5" | "d ! 1 \<noteq> 4" "d ! 1 \<noteq> 5" by blast
  then show ?case
  proof cases
    case 1
    then have "9 \<le> length d" using d(1) by (simp add: descriptor_ok_def)
    from walk_step [OF walking_interface [OF Cons.prems(1) d(2) this] IH [where k = "k + 1" and m = 0]]
    show ?thesis
      using 1 Cons.prems(4) \<open>9 \<le> length d\<close> unfolding step
      by (simp add: algebra_simps)
  next
    case 2
    then have "7 \<le> length d" using d(1) by (simp add: descriptor_ok_def)
    from walk_step [OF walking_endpoint [OF Cons.prems(1) d(2) this] IH [where k = k and m = "m + 1"]]
    show ?thesis
      using 2 Cons.prems(4) \<open>7 \<le> length d\<close> unfolding step
      by (simp add: algebra_simps)
  next
    case 3
    then show ?thesis
      using IH [OF Cons.prems(1)] Cons.prems(4) unfolding step by simp
  qed
qed

section \<open>The whole parser\<close>

text \<open>The heap when the walk begins, with or without memory for the interfaces.\<close>

definition walk_heap :: "heap \<Rightarrow> u8 list \<Rightarrow> bool \<Rightarrow> heap" where
  "walk_heap h cfg ok =
     (if ok then config_heap h cfg
      else \<lparr>mem = (mem h)(fresh h \<mapsto> Config_block (known cfg) Null), fresh = fresh h + 1\<rparr>)"

lemma walking_start:
  assumes "heap_ok h" and "length cfg = 9" and "ok \<or> \<not> mallocs E"
  shows "walking E h cfg (if ok then Addr (fresh h + 1) else Null) 0 0 (walk_heap h cfg ok)"
  using assms
  by (auto simp: walking_def parsing_def walk_heap_def config_heap_def framed_def heap_ok_def
      interface_typed_def no_interface_def walked_def)

lemma parse_descriptor_walking:
  assumes "heap_ok h" and "header_ok cfg ds" and "located src 0 (cfg @ concat ds)"
    and "\<forall>d \<in> set ds. descriptor_ok d"
  shows "runs False (walk_fault E (room (unat (cfg ! 4)) 0 0 0 ds))
    (\<lambda>r s. r = Addr (fresh h) \<and> room (unat (cfg ! 4)) 0 0 0 ds \<and>
      (\<exists>p b k. walking E h cfg p b k (snd s) \<and> (0 < k \<longleftrightarrow> (\<exists>d \<in> set ds. d ! 1 = 4))))
    (parse_descriptor E src) (w, h)"
proof -
  let ?F = "walk_fault E (room (unat (cfg ! 4)) 0 0 0 ds)" and ?N = "9 + length (concat ds)"
  let ?Q = "\<lambda>r s. r = Addr (fresh h) \<and> room (unat (cfg ! 4)) 0 0 0 ds \<and>
      (\<exists>p b k. walking E h cfg p b k (snd s) \<and> (0 < k \<longleftrightarrow> (\<exists>d \<in> set ds. d ! 1 = 4)))"
  have cfg: "length cfg = 9" "cfg ! 1 = 2" "located src 0 cfg" "located src 9 (concat ds)"
    "unat (le16 (cfg ! 2) (cfg ! 3)) = ?N"
    using assms(2,3) by (simp_all add: header_ok_def)
  have short: "?N < 2 ^ 16"
    using unsigned_less [of "le16 (cfg ! 2) (cfg ! 3)", where 'a = nat] cfg(5) by simp
  have ty: "load8 src 1 = Inr 2" using located_nth [OF cfg(3), of 1] cfg(1,2) by simp
  have stream: "parse_stream src 0 9 = Inr (known cfg)"
    using parse_stream_located [OF cfg(3), of 9] cfg(1) by simp
  have fields: "load_le16 (known cfg) 2 = Inr (le16 (cfg ! 2) (cfg ! 3))"
    "load8 (known cfg) 4 = Inr (cfg ! 4)"
    using cfg(1) by (simp_all add: load_le16_def)
  have walk: "runs False ?F ?Q (bnd (parse_loop E src (if ok then Addr (fresh h + 1) else Null) ?N 9 0 0)
      (\<lambda>_. ret (Addr (fresh h)))) (w', walk_heap h cfg ok)" if "ok \<or> \<not> mallocs E" for w' ok
  proof (rule runs_bndI)
    let ?p = "if ok then Addr (fresh h + 1) else Null"
    show "runs False ?F (\<lambda>_ s. room (unat (cfg ! 4)) 0 0 0 ds \<and>
        (\<exists>b k. walking E h cfg ?p b k (snd s) \<and> (0 < k \<longleftrightarrow> (\<exists>d \<in> set ds. d ! 1 = 4))))
      (parse_loop E src ?p ?N 9 0 0) (w', walk_heap h cfg ok)"
      using parse_loop_walking [where k = 0 and m = 0 and j = 9 and b = 0,
          OF walking_start [OF assms(1) cfg(1) that] assms(4) cfg(4) _ short] by simp
  qed (auto simp: runs_ret)
  note walks = walk [of True, simplified walk_heap_def config_heap_def no_interface_def, simplified]
    walk [of False, simplified walk_heap_def, simplified]
  show ?thesis
    using ty
    by (auto intro!: walks simp: parse_descriptor_def parse_config_descriptor_def runs_bnd_alloc runs_bnd_assign
        runs_bnd_fetch_config stream fields cfg(5) fun_upd_twist
        walk_fault_def)
qed

lemma walking_typed:
  assumes "walking E h cfg p b k h'" and "length cfg = 9"
  shows "framed h h'" and "descriptor_typed h h' (Addr (fresh h))"
  using assms by (auto simp: walking_def parsing_def config_typed_def)

section \<open>Releasing\<close>

text \<open>
  The blocks the release of a configuration gives back: its own, the array of its interfaces and
  the memory of the endpoints of the first interface.
\<close>

fun first_endpoints :: "block option \<Rightarrow> nat set" where
  "first_endpoints (Some (Interface_block (i # _))) = (case ued i of Addr e \<Rightarrow> {e} | _ \<Rightarrow> {})"
| "first_endpoints _ = {}"

fun released :: "heap \<Rightarrow> pointer \<Rightarrow> nat set" where
  "released h (Addr a) =
     (case mem h a of
        Some (Config_block _ (Addr q)) \<Rightarrow> {a, q} \<union> first_endpoints (mem h q)
      | _ \<Rightarrow> {a})"
| "released h _ = {}"

text \<open>What may stop it: memory that was refused, no announced interface, or none described.\<close>

definition release_fault :: "'w env \<Rightarrow> u8 list \<Rightarrow> u8 list list \<Rightarrow> stop \<Rightarrow> bool" where
  "release_fault E cfg ds s \<longleftrightarrow>
     s = Null_pointer \<and> \<not> mallocs E \<or> s = Out_of_bounds \<and> cfg ! 4 = 0 \<or>
     s = Uninitialised \<and> (\<forall>d \<in> set ds. d ! 1 \<noteq> USB_DT_INTERFACE)"

lemma runs_free:
  assumes "mem h a \<noteq> None"
  shows "runs D F Q (bnd (c_free (Addr a)) k) (w, h) \<longleftrightarrow>
      runs D F Q (k ()) (w, \<lparr>mem = (mem h)(a := None), fresh = fresh h\<rparr>)"
    and "runs D F P (c_free (Addr a)) (w, h) \<longleftrightarrow>
      P () (w, \<lparr>mem = (mem h)(a := None), fresh = fresh h\<rparr>)"
  using assms by (auto simp: runs_bnd_c_free runs_c_free)

lemma release_walking:
  assumes inv: "walking E h cfg p b k h'" and cfg: "length cfg = 9" "cfg ! 1 = 2"
    and k: "0 < k \<longleftrightarrow> (\<exists>d \<in> set ds. d ! 1 = 4)"
  shows "runs False (release_fault E cfg ds)
    (\<lambda>_ s. mem (snd s) = mem h' |` (- released h' (Addr (fresh h))))
    (release_descriptor (Addr (fresh h))) (w, h')"
proof -
  have a: "mem h' (fresh h) = Some (Config_block (known cfg) p)" and "p \<noteq> Unset"
    using inv by (auto simp: walking_def parsing_def)
  note config = release_descriptor_def release_config_descriptor_def runs_fetch_strict(1) [OF a]
    runs_bnd_fetch_config(1) [OF a]
  show ?thesis
  proof (cases p)
    case Null
    then have "\<not> mallocs E" using inv by (simp add: walking_def)
    with Null show ?thesis
      using cfg by (simp add: config fetch_interfaces_def bnd_assoc runs_fetch_strict release_fault_def)
  next
    case (Addr q)
    then obtain ids where q: "mem h' q = Some (Interface_block ids)" "length ids = unat (cfg ! 4)"
        "\<forall>i \<in> set ids. interface_typed h h' i" and walked: "walked E h' b k ids"
      using inv by (auto simp: walking_def parsing_def)
    show ?thesis
    proof (cases ids)
      case Nil
      then have "cfg ! 4 = 0" using q(2) by (simp add: unat_eq_zero)
      with Nil show ?thesis
        using cfg Addr q(1)
        by (simp add: config fetch_interfaces_def bnd_assoc runs_fetch_strict release_fault_def runs_halt)
    next
      case (Cons i rest)
      have unset: "\<forall>d \<in> set ds. d ! 1 \<noteq> 4" if "ued i = Unset"
        using walked k that Cons by (cases "k = 0") (auto simp: walked_def)
      have "q \<noteq> fresh h" using a q(1) by auto
      moreover have "mem h' e \<noteq> None \<and> e \<noteq> q \<and> e \<noteq> fresh h" if "ued i = Addr e" for e
        using q(1,3) that Cons a by (auto simp: interface_typed_def is_endpoints_iff)
      ultimately show ?thesis
        using cfg Addr q(1) a Cons unset
        by (cases "ued i")
          (auto simp: config fetch_interfaces_def bnd_assoc runs_fetch_strict release_fault_def
            runs_free runs_bnd_c_free(2,3) restrict_map_def fun_eq_iff)
    qed
  qed (use \<open>p \<noteq> Unset\<close> in simp)
qed

section \<open>The property\<close>

text \<open>
  C20: on every well-formed configuration, with any number of interfaces and endpoints and for
  every allocator, the parser ends. It returns only if the walk has room for each interface and
  each endpoint at the place it computes, and leaves its blocks only if it has not; a null pointer
  is used only if memory was refused, and nothing is used that was not assigned. When it returns,
  the older blocks are as they were, and the configuration is a new block that leads to new blocks
  of the right kinds, as many interfaces as announced. Releasing it frees exactly its own block,
  the array and the endpoints of the first interface, once each; it can stop only if memory was
  refused, or no interface was announced or described.
\<close>

theorem parse_descriptor_invariant:
  assumes "heap_ok h" and "header_ok cfg ds" and "located src 0 (cfg @ concat ds)"
    and "\<forall>d \<in> set ds. descriptor_ok d"
  shows "runs False (walk_fault E (room (unat (cfg ! 4)) 0 0 0 ds))
    (\<lambda>p s. p = Addr (fresh h) \<and> room (unat (cfg ! 4)) 0 0 0 ds \<and>
       framed h (snd s) \<and> descriptor_typed h (snd s) p \<and>
       runs False (release_fault E cfg ds)
         (\<lambda>_ s'. mem (snd s') = mem (snd s) |` (- released (snd s) p)) (release_descriptor p) s)
    (parse_descriptor E src) (w, h)"
proof (rule runs_mono [OF parse_descriptor_walking [OF assms]], goal_cases)
  case (1 p s)
  have cfg: "length cfg = 9" "cfg ! 1 = 2" using assms(2) by (simp_all add: header_ok_def)
  from 1 obtain q b k where inv: "walking E h cfg q b k (snd s)"
    and k: "0 < k \<longleftrightarrow> (\<exists>d \<in> set ds. d ! 1 = 4)" by blast
  show ?case
    using 1 walking_typed [OF inv cfg(1)] release_walking [OF inv cfg k, of "fst s"]
    by (simp del: released.simps descriptor_typed.simps)
qed simp_all

lemma mallocs_device [simp]: "mallocs device_env"
  by (simp add: mallocs_def)

theorem parse_descriptor_invariant_witness:
  "runs False never
    (\<lambda>p s. p = Addr 7 \<and> descriptor_typed \<lparr>mem = Map.empty, fresh = 7\<rparr> (snd s) p \<and>
       runs False never (\<lambda>_ s'. mem (snd s') = mem (snd s) |` (- released (snd s) p))
         (release_descriptor p) s)
    (parse_descriptor device_env
      (known [9, 2, 25, 0, 1, 1, 0, 128, 50, 9, 4, 0, 0, 1, 255, 66, 1, 0, 7, 5, 129, 2, 64, 0, 0]))
    (idle, \<lparr>mem = Map.empty, fresh = 7\<rparr>)" (is "runs _ _ ?Q _ _")
proof -
  let ?cfg = "[9, 2, 25, 0, 1, 1, 0, 128, 50] :: u8 list"
  let ?ds = "[[9, 4, 0, 0, 1, 255, 66, 1, 0], [7, 5, 129, 2, 64, 0, 0]] :: u8 list list"
  have "header_ok ?cfg ?ds" "\<forall>d \<in> set ?ds. descriptor_ok d"
    by (simp_all add: header_ok_def descriptor_ok_def le16_def)
  note run = parse_descriptor_invariant [where h = "\<lparr>mem = Map.empty, fresh = 7\<rparr>" and E = device_env
      and w = idle, OF heap_ok_empty this(1) located_known_all this(2)]
  have "runs False never ?Q (parse_descriptor device_env (known (?cfg @ concat ?ds)))
      (idle, \<lparr>mem = Map.empty, fresh = 7\<rparr>)"
    by (rule runs_mono [OF run])
      (auto simp: walk_fault_def release_fault_def elim!: runs_mono simp del: released.simps descriptor_typed.simps)
  then show ?thesis by simp
qed

end
