(* ===== verification/Ptp.thy ===== *)
theory Ptp
  imports Usb
begin

text \<open>
  The picture transfer protocol of \<^verbatim>\<open>lib/ptp/ptp.c\<close>: containers with a packed header, the
  request and response exchange over bulk transfers, and the operations. The functions take the
  bulk operations \<open>B\<close> (\<open>usb_ops E\<close> in the program) and the environment \<open>E\<close> for
  \<^verbatim>\<open>rand\<close>. What a debug build prints is not modelled.
\<close>

section \<open>Containers\<close>

record ptp_header =
  ContaierLength :: u32
  ContainerType :: u16
  Code :: u16
  TransacionID :: u32

record ptp_cmd_payload =
  Parameter1 :: u32
  Parameter2 :: u32
  Parameter3 :: u32
  Parameter4 :: u32
  Parameter5 :: u32

record ptp_cmd_container =
  cmd_header :: ptp_header
  cmd_payload :: ptp_cmd_payload

text \<open>The payload member of a data container is a pointer: eight bytes, an address.\<close>

record ptp_data_container =
  data_header :: ptp_header
  data_payload :: "u8 list"

record ptp_dev =
  ptp_fd :: int
  ptp_endp :: int

record ptp_res =
  ptp_length :: u32
  ptp_code :: u16

abbreviation (input) PTP_CONTAINER_TYPE_UNDEFINED :: u16 where
  "PTP_CONTAINER_TYPE_UNDEFINED \<equiv> 0"
abbreviation (input) PTP_CONTAINER_TYPE_COMMAND_BLOCK :: u16 where
  "PTP_CONTAINER_TYPE_COMMAND_BLOCK \<equiv> 1"
abbreviation (input) PTP_CONTAINER_TYPE_DATA_BLOCK :: u16 where
  "PTP_CONTAINER_TYPE_DATA_BLOCK \<equiv> 2"
abbreviation (input) PTP_CONTAINER_TYPE_RESPONSE_BLOCK :: u16 where
  "PTP_CONTAINER_TYPE_RESPONSE_BLOCK \<equiv> 3"
abbreviation (input) PTP_CONTAINER_TYPE_EVENT_BLOCK :: u16 where
  "PTP_CONTAINER_TYPE_EVENT_BLOCK \<equiv> 4"

abbreviation (input) PTP_HEADER_LEN :: nat where "PTP_HEADER_LEN \<equiv> 0x0C"
abbreviation (input) PTP_PARAM_LEN :: nat where "PTP_PARAM_LEN \<equiv> 0x04"
abbreviation (input) PTP_RESPONSE_BUFFER_LEN :: nat where "PTP_RESPONSE_BUFFER_LEN \<equiv> 2048"

datatype phase = RESPONSE_PHASE | DATA_PHASE | EVENT_PHASE

definition PTP_REQUEST_LEN :: "nat \<Rightarrow> u32" where
  "PTP_REQUEST_LEN nparams = of_nat (PTP_HEADER_LEN + nparams * PTP_PARAM_LEN)"

definition PTP_DATA_REQUEST_LEN :: "u32 \<Rightarrow> u32" where
  "PTP_DATA_REQUEST_LEN payload_len = of_nat PTP_HEADER_LEN + payload_len"

text \<open>
  \<^verbatim>\<open>struct object_info2\<close> is packed: its members and their sizes in bytes, in order, and
  \<^verbatim>\<open>sizeof\<close> of it.
\<close>

definition object_info2 :: "(string \<times> nat) list" where
  "object_info2 =
     [(''StorageID'', 4), (''ObjectFormat'', 2), (''ProtectionStatus'', 2),
      (''ObjectCompressedSize'', 4), (''ThumbFormat'', 2), (''ThumbCompressedSize'', 4),
      (''ThumbPixWidth'', 4), (''ThumbPixHeight'', 4), (''ImagePixWidth'', 4),
      (''ImagePixHeight'', 4), (''ImageBitDepth'', 4), (''ParentObject'', 4),
      (''AssociationType'', 2), (''AssociationDesc'', 4), (''SequenceNumber'', 4),
      (''flen'', 1), (''f'', 2), (''clen'', 1), (''c'', 2), (''mlen'', 1), (''m'', 2),
      (''klen'', 1), (''k'', 2)]"

definition OBJECT_INFO2_SIZE :: nat where
  "OBJECT_INFO2_SIZE = sum_list (map snd object_info2)"

lemma OBJECT_INFO2_SIZE [simp]: "OBJECT_INFO2_SIZE = 64"
  by (simp add: OBJECT_INFO2_SIZE_def object_info2_def)

definition enc64 :: "64 word \<Rightarrow> u8 list" where
  "enc64 x = enc32 (ucast x) @ enc32 (ucast (drop_bit 32 x))"

definition ptp_header_bytes :: "ptp_header \<Rightarrow> u8 list" where
  "ptp_header_bytes h =
     enc32 (ContaierLength h) @ enc16 (ContainerType h) @ enc16 (Code h) @ enc32 (TransacionID h)"

definition ptp_cmd_bytes :: "ptp_cmd_container \<Rightarrow> u8 list" where
  "ptp_cmd_bytes c =
     ptp_header_bytes (cmd_header c) @
     enc32 (Parameter1 (cmd_payload c)) @ enc32 (Parameter2 (cmd_payload c)) @
     enc32 (Parameter3 (cmd_payload c)) @ enc32 (Parameter4 (cmd_payload c)) @
     enc32 (Parameter5 (cmd_payload c))"

definition ptp_data_bytes :: "ptp_data_container \<Rightarrow> u8 list" where
  "ptp_data_bytes c = ptp_header_bytes (data_header c) @ data_payload c"

text \<open>The three fields read out of a received container.\<close>

definition RESPONSE_LENGTH_MASK :: "buf \<Rightarrow> u32 checked" where
  "RESPONSE_LENGTH_MASK stream = load_le32 stream 0"

definition RESPONSE_TYPE_MASK :: "buf \<Rightarrow> u16 checked" where
  "RESPONSE_TYPE_MASK stream = load_le16 stream 4"

definition RESPONSE_CODE_MASK :: "buf \<Rightarrow> u16 checked" where
  "RESPONSE_CODE_MASK stream = load_le16 stream 6"

section \<open>The exchange\<close>

text \<open>
  The inner loop of \<^verbatim>\<open>__send_request\<close> collects a data container at \<open>data + offset\<close> until
  exactly the announced number of bytes has come. It has no other exit.
\<close>

partial_function (option) ptp_data_loop ::
    "'w usb_ops \<Rightarrow> int \<Rightarrow> u16 \<Rightarrow> int \<Rightarrow> int \<Rightarrow> nat \<Rightarrow> buf \<Rightarrow> buf \<Rightarrow> 'w \<Rightarrow>
     ((buf \<times> buf \<times> nat) \<times> 'w) checked option" where
  "ptp_data_loop B fd endpoint recv_bytes data_len offset rbuffer data w =
     bnd (lift (memcpy data offset rbuffer 0 (size_of_int recv_bytes))) (\<lambda>data.
     if cint (data_len - recv_bytes) = 0 then ret (rbuffer, data, offset + nat recv_bytes)
     else
       bnd (bulk_recv B fd endpoint rbuffer 512) (\<lambda>r.
       ptp_data_loop B fd endpoint (fst r) (cint (data_len - recv_bytes))
         (offset + nat recv_bytes) (snd r) data)) w"

text \<open>
  The outer loop reads containers until a response block. A parameter block of the caller,
  \<open>rparams\<close>, is the twelve bytes of the three parameters.
\<close>

definition ptp_set_length :: "ptp_res option \<Rightarrow> buf \<Rightarrow> ('w, ptp_res option) cmd" where
  "ptp_set_length res data =
     (case res of
        None \<Rightarrow> ret None
      | Some r \<Rightarrow>
          bnd (lift (RESPONSE_LENGTH_MASK data)) (\<lambda>l. ret (Some (r\<lparr>ptp_length := l\<rparr>))))"

definition ptp_set_code :: "ptp_res option \<Rightarrow> buf \<Rightarrow> ('w, ptp_res option) cmd" where
  "ptp_set_code res rbuffer =
     (case res of
        None \<Rightarrow> ret None
      | Some r \<Rightarrow>
          bnd (lift (RESPONSE_CODE_MASK rbuffer)) (\<lambda>c. ret (Some (r\<lparr>ptp_code := c\<rparr>))))"

definition ptp_copy_params :: "buf option \<Rightarrow> buf \<Rightarrow> ('w, buf option) cmd" where
  "ptp_copy_params rparams rbuffer =
     (case rparams of
        None \<Rightarrow> ret None
      | Some p \<Rightarrow>
          bnd (lift (RESPONSE_LENGTH_MASK rbuffer)) (\<lambda>l.
          bnd (lift (memcpy p 0 rbuffer PTP_HEADER_LEN
                      (size_of_int (cint (sint l - int PTP_HEADER_LEN)))))
            (\<lambda>p. ret (Some p))))"

partial_function (option) ptp_recv_loop ::
    "'w usb_ops \<Rightarrow> int \<Rightarrow> u16 \<Rightarrow> nat \<Rightarrow> buf \<Rightarrow> buf \<Rightarrow> ptp_res option \<Rightarrow> buf option \<Rightarrow> 'w \<Rightarrow>
     ((buf \<times> ptp_res option \<times> buf option) \<times> 'w) checked option" where
  "ptp_recv_loop B fd endpoint offset rbuffer data res rparams w =
     bnd (bulk_recv B fd endpoint rbuffer 512) (\<lambda>r.
     bnd (lift (RESPONSE_LENGTH_MASK (snd r))) (\<lambda>data_len.
     bnd (lift (RESPONSE_TYPE_MASK (snd r))) (\<lambda>ty.
     if ty = PTP_CONTAINER_TYPE_DATA_BLOCK then
       bnd (ptp_data_loop B fd endpoint (fst r) (sint data_len) offset (snd r) data) (\<lambda>s.
       bnd (ptp_set_length res (fst (snd s))) (\<lambda>res.
       ptp_recv_loop B fd endpoint (snd (snd s)) (fst s) (fst (snd s)) res rparams))
     else if ty = PTP_CONTAINER_TYPE_RESPONSE_BLOCK then
       bnd (ptp_set_code res (snd r)) (\<lambda>res.
       bnd (ptp_copy_params rparams (snd r)) (\<lambda>rparams.
       ret (data, res, rparams)))
     else ptp_recv_loop B fd endpoint offset (snd r) data res rparams))) w"

text \<open>
  \<^verbatim>\<open>__send_request\<close>: with \<open>DATA_PHASE\<close> next, nothing is received.
\<close>

type_synonym ptp_reply = "int \<times> buf option \<times> ptp_res option \<times> buf option"

definition ptp_send_request ::
    "'w usb_ops \<Rightarrow> int \<Rightarrow> int \<Rightarrow> buf \<Rightarrow> u32 \<Rightarrow> buf \<Rightarrow> ptp_res option \<Rightarrow> buf option \<Rightarrow> phase \<Rightarrow>
     ('w, int \<times> buf \<times> ptp_res option \<times> buf option) cmd" where
  "ptp_send_request B fd endpoint req len data res rparams next_phase =
     bnd (bulk_send B fd (word_of_int endpoint) req len) (\<lambda>(sent_bytes, _).
     if sent_bytes < 0 then ret (-1, data, res, rparams)
     else if next_phase \<noteq> DATA_PHASE then
       bnd (ptp_recv_loop B fd (word_of_int endpoint) 0 (uninit 512) data res rparams)
         (\<lambda>(data, res, rparams). ret (0, data, res, rparams))
     else ret (0, data, res, rparams))"

text \<open>
  The end of \<^verbatim>\<open>__handle_request\<close>: the received data is cut to the caller's buffer.
\<close>

definition ptp_copy_data ::
    "buf option \<Rightarrow> u32 \<Rightarrow> int \<times> buf \<times> ptp_res option \<times> buf option \<Rightarrow> ('w, ptp_reply) cmd" where
  "ptp_copy_data data len r =
     (case r of (n, rstream, res, rparams) \<Rightarrow>
        case data of
          None \<Rightarrow> ret (n, None, res, rparams)
        | Some d \<Rightarrow>
            if n = 0
            then (case res of
                    None \<Rightarrow> halt Null_pointer
                  | Some rs \<Rightarrow>
                      let k = (if len < ptp_length rs then len else ptp_length rs) in
                      bnd (lift (memcpy d 0 rstream 0 (unat k)))
                        (\<lambda>d. ret (n, Some d, res, rparams)))
            else ret (n, Some d, res, rparams))"

text \<open>
  \<^verbatim>\<open>__handle_request\<close>: the container is passed as the memory it occupies, and as many
  bytes of it are sent as its length field says.
\<close>

definition ptp_handle_request ::
    "'w usb_ops \<Rightarrow> int \<Rightarrow> int \<Rightarrow> u8 list \<Rightarrow> buf option \<Rightarrow> u32 \<Rightarrow> ptp_res option \<Rightarrow> buf option \<Rightarrow>
     phase \<Rightarrow> ('w, ptp_reply) cmd" where
  "ptp_handle_request B fd endpoint container data len res rparams next_phase =
     bnd (lift (load_le32 (known container) 0)) (\<lambda>bytes_len.
     bnd (ptp_send_request B fd endpoint (known container) bytes_len
           (uninit PTP_RESPONSE_BUFFER_LEN) res rparams next_phase)
       (ptp_copy_data data len))"

section \<open>The operations\<close>

abbreviation (input) PTP_REQUEST_UNDEFINED :: u16 where "PTP_REQUEST_UNDEFINED \<equiv> 0x1000"
abbreviation (input) PTP_REQUEST_GET_DEVICE_INFO :: u16 where "PTP_REQUEST_GET_DEVICE_INFO \<equiv> 0x1001"
abbreviation (input) PTP_REQUEST_OPEN_SESSION :: u16 where "PTP_REQUEST_OPEN_SESSION \<equiv> 0x1002"
abbreviation (input) PTP_REQUEST_CLOSE_SESSION :: u16 where "PTP_REQUEST_CLOSE_SESSION \<equiv> 0x1003"
abbreviation (input) PTP_REQUEST_GET_STORAGE_ID :: u16 where "PTP_REQUEST_GET_STORAGE_ID \<equiv> 0x1004"
abbreviation (input) PTP_REQUEST_GET_STORAGE_INFO :: u16 where "PTP_REQUEST_GET_STORAGE_INFO \<equiv> 0x1005"
abbreviation (input) PTP_REQUEST_GET_NUM_OBJECTS :: u16 where "PTP_REQUEST_GET_NUM_OBJECTS \<equiv> 0x1006"
abbreviation (input) PTP_REQUEST_GET_OBJECT_HANDLES :: u16 where "PTP_REQUEST_GET_OBJECT_HANDLES \<equiv> 0x1007"
abbreviation (input) PTP_REQUEST_GET_OBJECT_INFO :: u16 where "PTP_REQUEST_GET_OBJECT_INFO \<equiv> 0x1008"
abbreviation (input) PTP_REQUEST_GET_OBJECT :: u16 where "PTP_REQUEST_GET_OBJECT \<equiv> 0x1009"
abbreviation (input) PTP_REQUEST_GET_THUMB :: u16 where "PTP_REQUEST_GET_THUMB \<equiv> 0x100A"
abbreviation (input) PTP_REQUEST_DELETE_OBJECT :: u16 where "PTP_REQUEST_DELETE_OBJECT \<equiv> 0x100B"
abbreviation (input) PTP_REQUEST_SEND_OBJECT_INFO :: u16 where "PTP_REQUEST_SEND_OBJECT_INFO \<equiv> 0x100C"
abbreviation (input) PTP_REQUEST_SEND_OBJECT :: u16 where "PTP_REQUEST_SEND_OBJECT \<equiv> 0x100D"
abbreviation (input) PTP_REQUEST_INITIATE_CAPTURE :: u16 where "PTP_REQUEST_INITIATE_CAPTURE \<equiv> 0x100E"
abbreviation (input) PTP_REQUEST_FORMAT_STORE :: u16 where "PTP_REQUEST_FORMAT_STORE \<equiv> 0x100F"
abbreviation (input) PTP_REQUEST_RESET_DEVICE :: u16 where "PTP_REQUEST_RESET_DEVICE \<equiv> 0x1010"
abbreviation (input) PTP_REQUEST_SELF_TEST :: u16 where "PTP_REQUEST_SELF_TEST \<equiv> 0x1011"
abbreviation (input) PTP_REQUEST_SET_OBJECT_PROTECTION :: u16 where "PTP_REQUEST_SET_OBJECT_PROTECTION \<equiv> 0x1012"
abbreviation (input) PTP_REQUEST_POWER_DOWN :: u16 where "PTP_REQUEST_POWER_DOWN \<equiv> 0x1013"
abbreviation (input) PTP_REQUEST_GET_DEVICE_PROP_DESC :: u16 where "PTP_REQUEST_GET_DEVICE_PROP_DESC \<equiv> 0x1014"
abbreviation (input) PTP_REQUEST_GET_DEVICE_PROP_VALUE :: u16 where "PTP_REQUEST_GET_DEVICE_PROP_VALUE \<equiv> 0x1015"
abbreviation (input) PTP_REQUEST_SET_DEVICE_PROP_VALUE :: u16 where "PTP_REQUEST_SET_DEVICE_PROP_VALUE \<equiv> 0x1016"
abbreviation (input) PTP_REQUEST_RESET_DEVICE_PROP_VALUE :: u16 where "PTP_REQUEST_RESET_DEVICE_PROP_VALUE \<equiv> 0x1017"
abbreviation (input) PTP_REQUEST_TERMINATE_OPEN_CAPTURE :: u16 where "PTP_REQUEST_TERMINATE_OPEN_CAPTURE \<equiv> 0x1018"
abbreviation (input) PTP_REQUEST_MOVE_OBJECT :: u16 where "PTP_REQUEST_MOVE_OBJECT \<equiv> 0x1019"
abbreviation (input) PTP_REQUEST_COPY_OBJECT :: u16 where "PTP_REQUEST_COPY_OBJECT \<equiv> 0x101A"
abbreviation (input) PTP_REQUEST_GET_PARTIAL_OBJECT :: u16 where "PTP_REQUEST_GET_PARTIAL_OBJECT \<equiv> 0x101B"
abbreviation (input) PTP_REQUEST_INITIAL_OPEN_CAPTURE :: u16 where "PTP_REQUEST_INITIAL_OPEN_CAPTURE \<equiv> 0x101C"

text \<open>\<^verbatim>\<open>__get_transaction_id\<close>; \<^verbatim>\<open>RAND_MAX\<close> of the GNU C library.\<close>

abbreviation (input) RAND_MAX :: int where "RAND_MAX \<equiv> 2147483647"

definition get_transaction_id :: "'w env \<Rightarrow> ('w, u32) cmd" where
  "get_transaction_id E =
     (\<lambda>w. let (r, w') = sys_rand E w in Some (Inr (word_of_int (1 + r mod (RAND_MAX - 1)), w')))"

text \<open>A command block with a number of parameters; the payload starts as zeros.\<close>

definition no_params :: ptp_cmd_payload where
  "no_params = \<lparr>Parameter1 = 0, Parameter2 = 0, Parameter3 = 0, Parameter4 = 0, Parameter5 = 0\<rparr>"

definition command_header :: "nat \<Rightarrow> u16 \<Rightarrow> u32 \<Rightarrow> ptp_header" where
  "command_header nparams code tid =
     \<lparr>ContaierLength = PTP_REQUEST_LEN nparams, ContainerType = PTP_CONTAINER_TYPE_COMMAND_BLOCK,
      Code = code, TransacionID = tid\<rparr>"

definition ptp_get_device_info ::
    "'w usb_ops \<Rightarrow> 'w env \<Rightarrow> ptp_dev \<Rightarrow> buf option \<Rightarrow> u32 \<Rightarrow> ptp_res option \<Rightarrow>
     ('w, ptp_reply) cmd" where
  "ptp_get_device_info B E dev data len res =
     bnd (get_transaction_id E) (\<lambda>tid.
     ptp_handle_request B (ptp_fd dev) (ptp_endp dev)
       (ptp_header_bytes (command_header 0 PTP_REQUEST_GET_DEVICE_INFO tid))
       data len res None RESPONSE_PHASE)"

definition ptp_open_session ::
    "'w usb_ops \<Rightarrow> 'w env \<Rightarrow> ptp_dev \<Rightarrow> u32 \<Rightarrow> ptp_res option \<Rightarrow>
     ('w, ptp_reply) cmd" where
  "ptp_open_session B E dev session_id res =
     ptp_handle_request B (ptp_fd dev) (ptp_endp dev)
       (ptp_cmd_bytes
         \<lparr>cmd_header = command_header 1 PTP_REQUEST_OPEN_SESSION 0,
          cmd_payload = no_params\<lparr>Parameter1 := session_id\<rparr>\<rparr>)
       None 0 res None RESPONSE_PHASE"

definition ptp_close_session ::
    "'w usb_ops \<Rightarrow> 'w env \<Rightarrow> ptp_dev \<Rightarrow> ptp_res option \<Rightarrow>
     ('w, ptp_reply) cmd" where
  "ptp_close_session B E dev res =
     bnd (get_transaction_id E) (\<lambda>tid.
     ptp_handle_request B (ptp_fd dev) (ptp_endp dev)
       (ptp_header_bytes (command_header 0 PTP_REQUEST_CLOSE_SESSION tid))
       None 0 res None RESPONSE_PHASE)"

definition ptp_get_storage_id ::
    "'w usb_ops \<Rightarrow> 'w env \<Rightarrow> ptp_dev \<Rightarrow> buf option \<Rightarrow> u32 \<Rightarrow> ptp_res option \<Rightarrow>
     ('w, ptp_reply) cmd" where
  "ptp_get_storage_id B E dev data len res =
     bnd (get_transaction_id E) (\<lambda>tid.
     ptp_handle_request B (ptp_fd dev) (ptp_endp dev)
       (ptp_header_bytes (command_header 0 PTP_REQUEST_GET_STORAGE_ID tid))
       data len res None RESPONSE_PHASE)"

definition ptp_get_storage_info ::
    "'w usb_ops \<Rightarrow> 'w env \<Rightarrow> ptp_dev \<Rightarrow> u32 \<Rightarrow> buf option \<Rightarrow> u32 \<Rightarrow> ptp_res option \<Rightarrow>
     ('w, ptp_reply) cmd" where
  "ptp_get_storage_info B E dev storage_id data len res =
     bnd (get_transaction_id E) (\<lambda>tid.
     ptp_handle_request B (ptp_fd dev) (ptp_endp dev)
       (ptp_cmd_bytes
         \<lparr>cmd_header = command_header 1 PTP_REQUEST_GET_STORAGE_INFO tid,
          cmd_payload = no_params\<lparr>Parameter1 := storage_id\<rparr>\<rparr>)
       data len res None RESPONSE_PHASE)"

definition ptp_get_num_objects ::
    "'w usb_ops \<Rightarrow> 'w env \<Rightarrow> ptp_dev \<Rightarrow> u32 \<Rightarrow> u32 \<Rightarrow> u32 \<Rightarrow> ptp_res option \<Rightarrow> buf option \<Rightarrow>
     ('w, ptp_reply) cmd" where
  "ptp_get_num_objects B E dev storage_id object_format_code object_handle res rparams =
     bnd (get_transaction_id E) (\<lambda>tid.
     ptp_handle_request B (ptp_fd dev) (ptp_endp dev)
       (ptp_cmd_bytes
         \<lparr>cmd_header = command_header 3 PTP_REQUEST_GET_NUM_OBJECTS tid,
          cmd_payload = no_params\<lparr>Parameter1 := storage_id, Parameter2 := object_format_code, Parameter3 := object_handle\<rparr>\<rparr>)
       None 0 res rparams RESPONSE_PHASE)"

definition ptp_get_object_handles ::
    "'w usb_ops \<Rightarrow> 'w env \<Rightarrow> ptp_dev \<Rightarrow> u32 \<Rightarrow> u32 \<Rightarrow> u32 \<Rightarrow> buf option \<Rightarrow> u32 \<Rightarrow> ptp_res option \<Rightarrow>
     ('w, ptp_reply) cmd" where
  "ptp_get_object_handles B E dev storage_id object_format_code object_handle data len res =
     bnd (get_transaction_id E) (\<lambda>tid.
     ptp_handle_request B (ptp_fd dev) (ptp_endp dev)
       (ptp_cmd_bytes
         \<lparr>cmd_header = command_header 3 PTP_REQUEST_GET_OBJECT_HANDLES tid,
          cmd_payload = no_params\<lparr>Parameter1 := storage_id, Parameter2 := object_format_code, Parameter3 := object_handle\<rparr>\<rparr>)
       data len res None RESPONSE_PHASE)"

definition ptp_get_object_info ::
    "'w usb_ops \<Rightarrow> 'w env \<Rightarrow> ptp_dev \<Rightarrow> u32 \<Rightarrow> buf option \<Rightarrow> u32 \<Rightarrow> ptp_res option \<Rightarrow>
     ('w, ptp_reply) cmd" where
  "ptp_get_object_info B E dev object_handle data len res =
     bnd (get_transaction_id E) (\<lambda>tid.
     ptp_handle_request B (ptp_fd dev) (ptp_endp dev)
       (ptp_cmd_bytes
         \<lparr>cmd_header = command_header 1 PTP_REQUEST_GET_OBJECT_INFO tid,
          cmd_payload = no_params\<lparr>Parameter1 := object_handle\<rparr>\<rparr>)
       data len res None RESPONSE_PHASE)"

definition ptp_get_object ::
    "'w usb_ops \<Rightarrow> 'w env \<Rightarrow> ptp_dev \<Rightarrow> u32 \<Rightarrow> buf option \<Rightarrow> u32 \<Rightarrow> ptp_res option \<Rightarrow>
     ('w, ptp_reply) cmd" where
  "ptp_get_object B E dev object_handle data len res =
     bnd (get_transaction_id E) (\<lambda>tid.
     ptp_handle_request B (ptp_fd dev) (ptp_endp dev)
       (ptp_cmd_bytes
         \<lparr>cmd_header = command_header 1 PTP_REQUEST_GET_OBJECT tid,
          cmd_payload = no_params\<lparr>Parameter1 := object_handle\<rparr>\<rparr>)
       data len res None RESPONSE_PHASE)"

definition ptp_get_thumb ::
    "'w usb_ops \<Rightarrow> 'w env \<Rightarrow> ptp_dev \<Rightarrow> u32 \<Rightarrow> buf option \<Rightarrow> u32 \<Rightarrow> ptp_res option \<Rightarrow>
     ('w, ptp_reply) cmd" where
  "ptp_get_thumb B E dev object_handle data len res =
     bnd (get_transaction_id E) (\<lambda>tid.
     ptp_handle_request B (ptp_fd dev) (ptp_endp dev)
       (ptp_cmd_bytes
         \<lparr>cmd_header = command_header 1 PTP_REQUEST_GET_THUMB tid,
          cmd_payload = no_params\<lparr>Parameter1 := object_handle\<rparr>\<rparr>)
       data len res None RESPONSE_PHASE)"

definition ptp_delete_object ::
    "'w usb_ops \<Rightarrow> 'w env \<Rightarrow> ptp_dev \<Rightarrow> u32 \<Rightarrow> u32 \<Rightarrow> buf option \<Rightarrow> u32 \<Rightarrow> ptp_res option \<Rightarrow>
     ('w, ptp_reply) cmd" where
  "ptp_delete_object B E dev object_handle object_format_code data len res =
     bnd (get_transaction_id E) (\<lambda>tid.
     ptp_handle_request B (ptp_fd dev) (ptp_endp dev)
       (ptp_cmd_bytes
         \<lparr>cmd_header = command_header 2 PTP_REQUEST_DELETE_OBJECT tid,
          cmd_payload = no_params\<lparr>Parameter1 := object_handle, Parameter2 := object_format_code\<rparr>\<rparr>)
       data len res None RESPONSE_PHASE)"

text \<open>
  The two sending operations. \<open>oi2\<close> is the address of the local variable the payload member of
  the data container is set to; the container itself is what is sent. Neither the object
  information nor the object of the caller is used.
\<close>

definition ptp_send_object_info ::
    "'w usb_ops \<Rightarrow> 'w env \<Rightarrow> ptp_dev \<Rightarrow> 64 word \<Rightarrow> u32 \<Rightarrow> u32 \<Rightarrow> 'oi \<Rightarrow> u32 \<Rightarrow> ptp_res option \<Rightarrow>
     buf option \<Rightarrow> ('w, ptp_reply) cmd" where
  "ptp_send_object_info B E dev oi2 storage_id object_handle obj_info len res rparams =
     bnd (get_transaction_id E) (\<lambda>tid.
     bnd (ptp_handle_request B (ptp_fd dev) (ptp_endp dev)
           (ptp_cmd_bytes
             \<lparr>cmd_header = command_header 2 PTP_REQUEST_SEND_OBJECT_INFO tid,
              cmd_payload = no_params\<lparr>Parameter1 := storage_id, Parameter2 := object_handle\<rparr>\<rparr>)
           None 0 None rparams DATA_PHASE) (\<lambda>(r, _, _, rparams).
     if r < 0 then ret (-1, None, res, rparams)
     else
       ptp_handle_request B (ptp_fd dev) (ptp_endp dev)
         (ptp_data_bytes
           \<lparr>data_header =
              \<lparr>ContaierLength = PTP_DATA_REQUEST_LEN (of_nat OBJECT_INFO2_SIZE),
               ContainerType = PTP_CONTAINER_TYPE_DATA_BLOCK,
               Code = PTP_REQUEST_SEND_OBJECT_INFO, TransacionID = tid\<rparr>,
            data_payload = enc64 oi2\<rparr>)
         None 0 res rparams RESPONSE_PHASE))"

definition ptp_send_object ::
    "'w usb_ops \<Rightarrow> 'w env \<Rightarrow> ptp_dev \<Rightarrow> 64 word \<Rightarrow> 'object \<Rightarrow> u32 \<Rightarrow> ptp_res option \<Rightarrow>
     ('w, ptp_reply) cmd" where
  "ptp_send_object B E dev oi2 object len res =
     bnd (get_transaction_id E) (\<lambda>tid.
     bnd (ptp_handle_request B (ptp_fd dev) (ptp_endp dev)
           (ptp_cmd_bytes
             \<lparr>cmd_header = command_header 0 PTP_REQUEST_SEND_OBJECT tid, cmd_payload = no_params\<rparr>)
           None 0 None None DATA_PHASE) (\<lambda>(r, _).
     if r \<noteq> 0 then ret (-1, None, res, None)
     else
       ptp_handle_request B (ptp_fd dev) (ptp_endp dev)
         (ptp_data_bytes
           \<lparr>data_header =
              \<lparr>ContaierLength = PTP_DATA_REQUEST_LEN len,
               ContainerType = PTP_CONTAINER_TYPE_DATA_BLOCK,
               Code = PTP_REQUEST_SEND_OBJECT, TransacionID = tid\<rparr>,
            data_payload = enc64 oi2\<rparr>)
         None 0 res None RESPONSE_PHASE))"

text \<open>Left unimplemented in the code: it returns success without a request.\<close>

definition ptp_initiate_capture ::
    "ptp_dev \<Rightarrow> u32 \<Rightarrow> u32 \<Rightarrow> ptp_res option \<Rightarrow> ('w, ptp_reply) cmd" where
  "ptp_initiate_capture dev storage_id object_format_code res = ret (0, None, res, None)"

definition ptp_format_store ::
    "'w usb_ops \<Rightarrow> 'w env \<Rightarrow> ptp_dev \<Rightarrow> u32 \<Rightarrow> u32 \<Rightarrow> ptp_res option \<Rightarrow>
     ('w, ptp_reply) cmd" where
  "ptp_format_store B E dev storage_id fs_format res =
     bnd (get_transaction_id E) (\<lambda>tid.
     ptp_handle_request B (ptp_fd dev) (ptp_endp dev)
       (ptp_cmd_bytes
         \<lparr>cmd_header = command_header 2 PTP_REQUEST_DELETE_OBJECT tid,
          cmd_payload = no_params\<lparr>Parameter1 := storage_id, Parameter2 := fs_format\<rparr>\<rparr>)
       None 0 res None RESPONSE_PHASE)"

definition ptp_reset_device ::
    "'w usb_ops \<Rightarrow> 'w env \<Rightarrow> ptp_dev \<Rightarrow> ptp_res option \<Rightarrow>
     ('w, ptp_reply) cmd" where
  "ptp_reset_device B E dev res =
     bnd (get_transaction_id E) (\<lambda>tid.
     ptp_handle_request B (ptp_fd dev) (ptp_endp dev)
       (ptp_header_bytes (command_header 0 PTP_REQUEST_RESET_DEVICE tid))
       None 0 res None RESPONSE_PHASE)"

definition ptp_self_test ::
    "'w usb_ops \<Rightarrow> 'w env \<Rightarrow> ptp_dev \<Rightarrow> u32 \<Rightarrow> ptp_res option \<Rightarrow>
     ('w, ptp_reply) cmd" where
  "ptp_self_test B E dev self_test_type res =
     bnd (get_transaction_id E) (\<lambda>tid.
     ptp_handle_request B (ptp_fd dev) (ptp_endp dev)
       (ptp_cmd_bytes
         \<lparr>cmd_header = command_header 1 PTP_REQUEST_SELF_TEST tid,
          cmd_payload = no_params\<lparr>Parameter1 := self_test_type\<rparr>\<rparr>)
       None 0 res None RESPONSE_PHASE)"

definition ptp_set_object_protection ::
    "'w usb_ops \<Rightarrow> 'w env \<Rightarrow> ptp_dev \<Rightarrow> u32 \<Rightarrow> u32 \<Rightarrow> ptp_res option \<Rightarrow>
     ('w, ptp_reply) cmd" where
  "ptp_set_object_protection B E dev object_handle protection_status res =
     bnd (get_transaction_id E) (\<lambda>tid.
     ptp_handle_request B (ptp_fd dev) (ptp_endp dev)
       (ptp_cmd_bytes
         \<lparr>cmd_header = command_header 2 PTP_REQUEST_SET_OBJECT_PROTECTION tid,
          cmd_payload = no_params\<lparr>Parameter1 := object_handle, Parameter2 := protection_status\<rparr>\<rparr>)
       None 0 res None RESPONSE_PHASE)"

definition ptp_power_down ::
    "'w usb_ops \<Rightarrow> 'w env \<Rightarrow> ptp_dev \<Rightarrow> ptp_res option \<Rightarrow>
     ('w, ptp_reply) cmd" where
  "ptp_power_down B E dev res =
     bnd (get_transaction_id E) (\<lambda>tid.
     ptp_handle_request B (ptp_fd dev) (ptp_endp dev)
       (ptp_header_bytes (command_header 0 PTP_REQUEST_POWER_DOWN tid))
       None 0 res None RESPONSE_PHASE)"

definition ptp_get_device_prop_desc ::
    "'w usb_ops \<Rightarrow> 'w env \<Rightarrow> ptp_dev \<Rightarrow> u32 \<Rightarrow> buf option \<Rightarrow> u32 \<Rightarrow> ptp_res option \<Rightarrow>
     ('w, ptp_reply) cmd" where
  "ptp_get_device_prop_desc B E dev device_prop_code data len res =
     bnd (get_transaction_id E) (\<lambda>tid.
     ptp_handle_request B (ptp_fd dev) (ptp_endp dev)
       (ptp_cmd_bytes
         \<lparr>cmd_header = command_header 1 PTP_REQUEST_GET_DEVICE_PROP_DESC tid,
          cmd_payload = no_params\<lparr>Parameter1 := device_prop_code\<rparr>\<rparr>)
       data len res None RESPONSE_PHASE)"

definition ptp_get_device_prop_value ::
    "'w usb_ops \<Rightarrow> 'w env \<Rightarrow> ptp_dev \<Rightarrow> u32 \<Rightarrow> buf option \<Rightarrow> u32 \<Rightarrow> ptp_res option \<Rightarrow>
     ('w, ptp_reply) cmd" where
  "ptp_get_device_prop_value B E dev device_prop_code data len res =
     bnd (get_transaction_id E) (\<lambda>tid.
     ptp_handle_request B (ptp_fd dev) (ptp_endp dev)
       (ptp_cmd_bytes
         \<lparr>cmd_header = command_header 1 PTP_REQUEST_GET_DEVICE_PROP_VALUE tid,
          cmd_payload = no_params\<lparr>Parameter1 := device_prop_code\<rparr>\<rparr>)
       data len res None RESPONSE_PHASE)"

definition ptp_set_device_prop_value ::
    "'w usb_ops \<Rightarrow> 'w env \<Rightarrow> ptp_dev \<Rightarrow> u32 \<Rightarrow> buf option \<Rightarrow> u32 \<Rightarrow> ptp_res option \<Rightarrow>
     ('w, ptp_reply) cmd" where
  "ptp_set_device_prop_value B E dev device_prop_code data len res =
     bnd (get_transaction_id E) (\<lambda>tid.
     ptp_handle_request B (ptp_fd dev) (ptp_endp dev)
       (ptp_cmd_bytes
         \<lparr>cmd_header = command_header 1 PTP_REQUEST_SET_DEVICE_PROP_VALUE tid,
          cmd_payload = no_params\<lparr>Parameter1 := device_prop_code\<rparr>\<rparr>)
       data len res None RESPONSE_PHASE)"

definition ptp_reset_device_prop_value ::
    "'w usb_ops \<Rightarrow> 'w env \<Rightarrow> ptp_dev \<Rightarrow> u32 \<Rightarrow> ptp_res option \<Rightarrow>
     ('w, ptp_reply) cmd" where
  "ptp_reset_device_prop_value B E dev device_prop_code res =
     bnd (get_transaction_id E) (\<lambda>tid.
     ptp_handle_request B (ptp_fd dev) (ptp_endp dev)
       (ptp_cmd_bytes
         \<lparr>cmd_header = command_header 1 PTP_REQUEST_RESET_DEVICE_PROP_VALUE tid,
          cmd_payload = no_params\<lparr>Parameter1 := device_prop_code\<rparr>\<rparr>)
       None 0 res None RESPONSE_PHASE)"

definition ptp_terminate_open_capture ::
    "'w usb_ops \<Rightarrow> 'w env \<Rightarrow> ptp_dev \<Rightarrow> u32 \<Rightarrow> ptp_res option \<Rightarrow>
     ('w, ptp_reply) cmd" where
  "ptp_terminate_open_capture B E dev transaction_id res =
     bnd (get_transaction_id E) (\<lambda>tid.
     ptp_handle_request B (ptp_fd dev) (ptp_endp dev)
       (ptp_cmd_bytes
         \<lparr>cmd_header = command_header 1 PTP_REQUEST_TERMINATE_OPEN_CAPTURE tid,
          cmd_payload = no_params\<lparr>Parameter1 := transaction_id\<rparr>\<rparr>)
       None 0 res None RESPONSE_PHASE)"

definition ptp_move_object ::
    "'w usb_ops \<Rightarrow> 'w env \<Rightarrow> ptp_dev \<Rightarrow> u32 \<Rightarrow> u32 \<Rightarrow> u32 \<Rightarrow> ptp_res option \<Rightarrow>
     ('w, ptp_reply) cmd" where
  "ptp_move_object B E dev storage_id object_handle object_handle_parent res =
     bnd (get_transaction_id E) (\<lambda>tid.
     ptp_handle_request B (ptp_fd dev) (ptp_endp dev)
       (ptp_cmd_bytes
         \<lparr>cmd_header = command_header 3 PTP_REQUEST_MOVE_OBJECT tid,
          cmd_payload = no_params\<lparr>Parameter1 := object_handle, Parameter2 := storage_id, Parameter3 := object_handle_parent\<rparr>\<rparr>)
       None 0 res None RESPONSE_PHASE)"

definition ptp_copy_object ::
    "'w usb_ops \<Rightarrow> 'w env \<Rightarrow> ptp_dev \<Rightarrow> u32 \<Rightarrow> u32 \<Rightarrow> u32 \<Rightarrow> ptp_res option \<Rightarrow> buf option \<Rightarrow>
     ('w, ptp_reply) cmd" where
  "ptp_copy_object B E dev storage_id object_handle object_handle_parent res rparams =
     bnd (get_transaction_id E) (\<lambda>tid.
     ptp_handle_request B (ptp_fd dev) (ptp_endp dev)
       (ptp_cmd_bytes
         \<lparr>cmd_header = command_header 3 PTP_REQUEST_COPY_OBJECT tid,
          cmd_payload = no_params\<lparr>Parameter1 := object_handle, Parameter2 := storage_id, Parameter3 := object_handle_parent\<rparr>\<rparr>)
       None 0 res rparams RESPONSE_PHASE)"

definition ptp_get_partial_object ::
    "'w usb_ops \<Rightarrow> 'w env \<Rightarrow> ptp_dev \<Rightarrow> u32 \<Rightarrow> u32 \<Rightarrow> u32 \<Rightarrow> buf option \<Rightarrow> u32 \<Rightarrow> ptp_res option \<Rightarrow> buf option \<Rightarrow>
     ('w, ptp_reply) cmd" where
  "ptp_get_partial_object B E dev object_handle offset max_bytes data len res rparams =
     bnd (get_transaction_id E) (\<lambda>tid.
     ptp_handle_request B (ptp_fd dev) (ptp_endp dev)
       (ptp_cmd_bytes
         \<lparr>cmd_header = command_header 3 PTP_REQUEST_GET_PARTIAL_OBJECT tid,
          cmd_payload = no_params\<lparr>Parameter1 := object_handle, Parameter2 := offset, Parameter3 := max_bytes\<rparr>\<rparr>)
       data len res rparams RESPONSE_PHASE)"

definition ptp_initiate_open_capture ::
    "'w usb_ops \<Rightarrow> 'w env \<Rightarrow> ptp_dev \<Rightarrow> u32 \<Rightarrow> u32 \<Rightarrow> ptp_res option \<Rightarrow>
     ('w, ptp_reply) cmd" where
  "ptp_initiate_open_capture B E dev storage_id object_format_code res =
     bnd (get_transaction_id E) (\<lambda>tid.
     ptp_handle_request B (ptp_fd dev) (ptp_endp dev)
       (ptp_cmd_bytes
         \<lparr>cmd_header = command_header 2 PTP_REQUEST_INITIAL_OPEN_CAPTURE tid,
          cmd_payload = no_params\<lparr>Parameter1 := storage_id, Parameter2 := object_format_code\<rparr>\<rparr>)
       None 0 res None RESPONSE_PHASE)"

end
