(* ===== verification/Ptp_Safe.thy ===== *)
theory Ptp_Safe
  imports Ptp Device
begin

text \<open>
  What a transaction of \<^verbatim>\<open>lib/ptp\<close> keeps on every transport that honours the contract of
  \<open>Transport\<close>, whatever the device answers: the sizes of all buffers, the part of the caller's
  buffer behind the length it states, and everything of the caller if the transaction fails.
\<close>

section \<open>The receive loops\<close>

text \<open>What the outer loop keeps of its buffer, the result and the parameters.\<close>

definition sizes_kept ::
    "buf \<Rightarrow> ptp_res option \<Rightarrow> buf option \<Rightarrow> buf \<times> ptp_res option \<times> buf option \<Rightarrow> bool" where
  "sizes_kept data res rparams r \<longleftrightarrow>
     (case r of (data', res', rparams') \<Rightarrow>
        length data' = length data \<and> (res' = None \<longleftrightarrow> res = None) \<and>
        map_option length rparams' = map_option length rparams)"

lemma sizes_keptI:
  "length data' = length data \<Longrightarrow> res' = None \<longleftrightarrow> res = None \<Longrightarrow>
   map_option length rparams' = map_option length rparams \<Longrightarrow>
   sizes_kept data res rparams (data', res', rparams')"
  by (simp add: sizes_kept_def)

lemma runs_ptp_set_length:
  assumes "\<And>res'. res' = None \<longleftrightarrow> res = None \<Longrightarrow> runs D pointer_fault Q (k res') w"
  shows "runs D pointer_fault Q (bnd (ptp_set_length res data) k) w"
  using assms
  by (cases res) (auto simp: ptp_set_length_def RESPONSE_LENGTH_MASK_def bnd_assoc intro!: runs_load_le32)

lemma runs_ptp_set_code:
  assumes "\<And>res'. res' = None \<longleftrightarrow> res = None \<Longrightarrow> runs D pointer_fault Q (k res') w"
  shows "runs D pointer_fault Q (bnd (ptp_set_code res rb) k) w"
  using assms
  by (cases res) (auto simp: ptp_set_code_def RESPONSE_CODE_MASK_def bnd_assoc intro!: runs_load_le16)

lemma runs_ptp_copy_params:
  assumes "\<And>p'. map_option length p' = map_option length p \<Longrightarrow> runs D pointer_fault Q (k p') w"
  shows "runs D pointer_fault Q (bnd (ptp_copy_params p rb) k) w"
proof (cases p)
  case None
  then show ?thesis using assms by (simp add: ptp_copy_params_def)
next
  case (Some b)
  then show ?thesis
    using assms
    by (auto simp: ptp_copy_params_def RESPONSE_LENGTH_MASK_def bnd_assoc
        intro!: runs_load_le32 runs_memcpy dest: memcpy_length)
qed

context bulk_transport
begin

lemma recv_512_runs:
  assumes "ok e" and "length b = 512"
    and k: "\<And>n b' w'. length b' = 512 \<Longrightarrow> runs True F Q (k (n, b')) w'"
  shows "runs True F Q (bnd (bulk_recv (ops e) fd ep b 512) k) w"
proof (rule runs_bndI [where P = "\<lambda>r w'. received 512 b r"])
  show "runs True F (\<lambda>r w'. received 512 b r) (bulk_recv (ops e) fd ep b 512) w"
    using recv_law [OF assms(1), of 512 b fd ep w] assms(2) by (auto elim!: runs_mono)
qed (use assms in \<open>auto simp: received_def\<close>)

text \<open>
  The loop rules: a loop may go on for ever, stops only at an access, and leaves a buffer of the
  same size.
\<close>

lemma ptp_data_loop_runs:
  assumes "ok e" and "length rb = 512"
  shows "runs True pointer_fault (\<lambda>(rb', data', _) w'. length rb' = 512 \<and> length data' = length data)
    (ptp_data_loop (ops e) fd ep n len offset rb data) w"
proof (rule runs_partial_fixp)
  fix r assume r: "ptp_data_loop (ops e) fd ep n len offset rb data w = Some r"
  let ?Q = "\<lambda>n (rb' :: buf, data' :: buf, off :: nat) (w' :: 'w). length rb' = 512 \<and> length data' = n"
  let ?post = "\<lambda>n r. case r of Inl t \<Rightarrow> pointer_fault t | Inr (u, w') \<Rightarrow> ?Q n u w'"
  let ?P = "\<lambda>B (fd :: int) (ep :: u16) (n :: int) (len :: int) (offset :: nat) (rb :: buf)
    (data :: buf) (w :: 'w) r. B = ops e \<and> length rb = 512 \<longrightarrow> ?post (length data) r"
  have "?P (ops e) fd ep n len offset rb data w r"
  proof (rule ptp_data_loop.raw_induct [where P = ?P, OF _ r])
    fix f :: "'w usb_ops \<Rightarrow> int \<Rightarrow> u16 \<Rightarrow> int \<Rightarrow> int \<Rightarrow> nat \<Rightarrow> buf \<Rightarrow> buf \<Rightarrow> 'w \<Rightarrow>
      ((buf \<times> buf \<times> nat) \<times> 'w) checked option"
    fix B fd ep n len offset rb data w r
    assume IH: "\<And>B fd ep n len offset rb data w r.
        f B fd ep n len offset rb data w = Some r \<Longrightarrow> ?P B fd ep n len offset rb data w r"
      and step: "bnd (lift (memcpy data offset rb 0 (size_of_int n))) (\<lambda>data.
        if cint (len - n) = 0 then ret (rb, data, offset + nat n)
        else bnd (bulk_recv B fd ep rb 512) (\<lambda>r.
          f B fd ep (fst r) (cint (len - n)) (offset + nat n) (snd r) data)) w = Some r"
    show "?P B fd ep n len offset rb data w r"
    proof
      assume *: "B = ops e \<and> length rb = 512"
      have rec: "runs True pointer_fault (?Q (length data')) (f (ops e) fd ep n len offset rb' data') w'"
        if "length rb' = 512" for n len offset rb' data' w'
        by (rule runs_partial_fixp) (use IH that in blast)
      have recv: "runs True pointer_fault (?Q (length data')) (bnd (bulk_recv (ops e) fd ep rb 512) (\<lambda>r.
          f (ops e) fd ep (fst r) len' off' (snd r) data')) w'" for data' len' off' w'
        by (rule recv_512_runs [OF assms(1)]) (use * rec in auto)
      have "runs True pointer_fault (?Q (length data))
        (bnd (lift (memcpy data offset rb 0 (size_of_int n))) (\<lambda>data.
        if cint (len - n) = 0 then ret (rb, data, offset + nat n)
        else bnd (bulk_recv B fd ep rb 512) (\<lambda>r.
          f B fd ep (fst r) (cint (len - n)) (offset + nat n) (snd r) data))) w"
      proof (rule runs_memcpy)
        fix x assume "memcpy data offset rb 0 (size_of_int n) = Inr x"
        then have "length x = length data" by (rule memcpy_length)
        then show "runs True pointer_fault (?Q (length data))
          (if cint (len - n) = 0 then ret (rb, x, offset + nat n)
           else bnd (bulk_recv B fd ep rb 512) (\<lambda>r.
             f B fd ep (fst r) (cint (len - n)) (offset + nat n) (snd r) x)) w"
          using * recv [of x] by (simp add: runs_ret)
      qed
      then show "?post (length data) r" using step by (auto simp: runs_def)
    qed
  qed
  with assms(2) show "case r of Inl s \<Rightarrow> pointer_fault s
      | Inr (a, w') \<Rightarrow> (case a of (rb', data', _) \<Rightarrow> \<lambda>w'. length rb' = 512 \<and> length data' = length data) w'"
    by simp
qed

lemma ptp_recv_loop_runs:
  assumes "ok e" and "length rb = 512"
  shows "runs True pointer_fault (\<lambda>r w'. sizes_kept data res rparams r)
    (ptp_recv_loop (ops e) fd ep offset rb data res rparams) w"
proof (rule runs_partial_fixp)
  fix r assume r: "ptp_recv_loop (ops e) fd ep offset rb data res rparams w = Some r"
  let ?post = "\<lambda>data res rparams r.
    case r of Inl t \<Rightarrow> pointer_fault t | Inr (u, w' :: 'w) \<Rightarrow> sizes_kept data res rparams u"
  let ?P = "\<lambda>B (fd :: int) (ep :: u16) (offset :: nat) (rb :: buf) data res rparams (w :: 'w) r.
    B = ops e \<and> length rb = 512 \<longrightarrow> ?post data res rparams r"
  have "?P (ops e) fd ep offset rb data res rparams w r"
  proof (rule ptp_recv_loop.raw_induct [where P = ?P, OF _ r])
    fix f :: "'w usb_ops \<Rightarrow> int \<Rightarrow> u16 \<Rightarrow> nat \<Rightarrow> buf \<Rightarrow> buf \<Rightarrow> ptp_res option \<Rightarrow> buf option \<Rightarrow> 'w \<Rightarrow>
      ((buf \<times> ptp_res option \<times> buf option) \<times> 'w) checked option"
    fix B fd ep offset rb data res rparams w r
    let ?body = "bnd (bulk_recv B fd ep rb 512) (\<lambda>r.
        bnd (lift (RESPONSE_LENGTH_MASK (snd r))) (\<lambda>data_len.
        bnd (lift (RESPONSE_TYPE_MASK (snd r))) (\<lambda>ty.
        if ty = PTP_CONTAINER_TYPE_DATA_BLOCK then
          bnd (ptp_data_loop B fd ep (fst r) (sint data_len) offset (snd r) data) (\<lambda>s.
          bnd (ptp_set_length res (fst (snd s))) (\<lambda>res.
          f B fd ep (snd (snd s)) (fst s) (fst (snd s)) res rparams))
        else if ty = PTP_CONTAINER_TYPE_RESPONSE_BLOCK then
          bnd (ptp_set_code res (snd r)) (\<lambda>res.
          bnd (ptp_copy_params rparams (snd r)) (\<lambda>rparams.
          ret (data, res, rparams)))
        else f B fd ep offset (snd r) data res rparams)))"
    assume IH: "\<And>B fd ep offset rb data res rparams w r.
        f B fd ep offset rb data res rparams w = Some r \<Longrightarrow> ?P B fd ep offset rb data res rparams w r"
      and step: "?body w = Some r"
    show "?P B fd ep offset rb data res rparams w r"
    proof
      assume *: "B = ops e \<and> length rb = 512"
      let ?Q = "\<lambda>r (w' :: 'w). sizes_kept data res rparams r"
      have rec: "runs True pointer_fault ?Q (f (ops e) fd ep offset rb' data' res' rparams) w'"
        if "length rb' = 512" "length data' = length data" "res' = None \<longleftrightarrow> res = None"
        for offset rb' data' res' w'
      proof (rule runs_partial_fixp)
        fix r assume "f (ops e) fd ep offset rb' data' res' rparams w' = Some r"
        with IH that(1) have "?post data' res' rparams r" by blast
        with that(2,3) show "case r of Inl t \<Rightarrow> pointer_fault t | Inr (u, w') \<Rightarrow> ?Q u w'"
          by (auto simp: sizes_kept_def split: sum.splits)
      qed
      have data_block: "runs True pointer_fault ?Q
          (bnd (ptp_data_loop (ops e) fd ep n len offset b data) (\<lambda>s.
           bnd (ptp_set_length res (fst (snd s))) (\<lambda>res.
           f (ops e) fd ep (snd (snd s)) (fst s) (fst (snd s)) res rparams))) w'"
        if "length b = 512" for n len b w'
        by (rule runs_bndI [OF ptp_data_loop_runs [OF assms(1) that]])
          (clarify, rule runs_ptp_set_length, rule rec, simp_all)
      have "runs True pointer_fault ?Q ?body w"
        unfolding RESPONSE_LENGTH_MASK_def RESPONSE_TYPE_MASK_def * [THEN conjunct1]
        by (rule recv_512_runs [OF assms(1) * [THEN conjunct2]])
          (auto intro!: runs_load_le32 runs_load_le16 data_block rec runs_ptp_set_code
            runs_ptp_copy_params sizes_keptI simp: runs_ret)
      then show "?post data res rparams r" using step by (auto simp: runs_def)
    qed
  qed
  with assms(2) show "case r of Inl t \<Rightarrow> pointer_fault t | Inr (u, w') \<Rightarrow> sizes_kept data res rparams u"
    by simp
qed

lemma ptp_send_request_runs:
  assumes "ok e" and "unat len \<le> length req" and "unat len < 2 ^ 31"
    and "\<not> bit (word_of_int endpoint :: u16) 7"
  shows "runs True pointer_fault
    (\<lambda>r w'. r = (-1, data, res, rparams) \<or>
       (\<exists>u. r = (0, u) \<and> sizes_kept data res rparams u))
    (ptp_send_request (ops e) fd endpoint req len data res rparams next_phase) w"
proof -
  let ?Q = "\<lambda>r (w' :: 'w). r = (-1 :: int, data, res, rparams) \<or>
    (\<exists>u. r = (0, u) \<and> sizes_kept data res rparams u)"
  have sent: "runs True pointer_fault ?Q
      (if n < 0 then ret (-1, data, res, rparams)
       else if next_phase \<noteq> DATA_PHASE then
         bnd (ptp_recv_loop (ops e) fd (word_of_int endpoint) 0 (uninit 512) data res rparams)
           (\<lambda>(data, res, rparams). ret (0, data, res, rparams))
       else ret (0, data, res, rparams)) w'" for n :: int and w'
    by (auto simp: runs_ret sizes_kept_def
        intro!: runs_bndI [OF ptp_recv_loop_runs [OF assms(1) length_uninit]])
  show ?thesis
    unfolding ptp_send_request_def
  proof (rule runs_bndI [where P = "\<lambda>r w'. True"])
    show "runs True pointer_fault (\<lambda>r w'. True)
        (bulk_send (ops e) fd (word_of_int endpoint) req len) w"
      by (rule runs_mono [OF send_law [OF assms]]) auto
  qed (simp only: split_paired_all prod.case sent)
qed

end

section \<open>The request\<close>

text \<open>
  What the caller of a request gets back: a failure that changed nothing, or buffers of the same
  sizes, the first of them written at most up to the stated length.
\<close>

definition ptp_kept ::
    "buf option \<Rightarrow> u32 \<Rightarrow> ptp_res option \<Rightarrow> buf option \<Rightarrow> ptp_reply \<Rightarrow> bool" where
  "ptp_kept data len res rparams r \<longleftrightarrow>
     r = (-1, data, res, rparams) \<or>
     (\<exists>data' res' rparams'. r = (0, data', res', rparams') \<and>
        map_option length data' = map_option length data \<and>
        map_option (drop (unat len)) data' = map_option (drop (unat len)) data \<and>
        (res' = None \<longleftrightarrow> res = None) \<and>
        map_option length rparams' = map_option length rparams)"

lemma runs_ptp_copy_data:
  assumes "r = (-1, rs, res, rparams) \<or> (\<exists>u. r = (0, u) \<and> sizes_kept rs res rparams u)"
    and "\<And>d. data = Some d \<Longrightarrow> unat len \<le> length d \<and> res \<noteq> None"
  shows "runs D pointer_fault (\<lambda>r w'. ptp_kept data len res rparams r) (ptp_copy_data data len r) w"
proof (cases data)
  case None
  then show ?thesis
    using assms(1) by (auto simp: ptp_copy_data_def runs_ret ptp_kept_def sizes_kept_def)
next
  case (Some d)
  with assms(2) have d: "unat len \<le> length d" "res \<noteq> None" by auto
  from assms(1) consider (failure) "r = (-1, rs, res, rparams)"
    | (success) b res' rparams' where "r = (0, b, Some res', rparams')"
      "map_option length rparams' = map_option length rparams"
    using d(2) by (cases r) (auto simp: sizes_kept_def)
  then show ?thesis
  proof cases
    case failure
    then show ?thesis by (simp add: Some ptp_copy_data_def runs_ret ptp_kept_def)
  next
    case success
    let ?k = "if len < ptp_length res' then len else ptp_length res'"
    have k: "unat ?k \<le> unat len" by (simp add: word_less_nat_alt)
    have "drop (unat len) x = drop (unat len) d" "length x = length d"
      if "memcpy d 0 b 0 (unat ?k) = Inr x" for x
      using that k d(1) by (auto simp: memcpy_Inr_iff min_def)
    then show ?thesis
      unfolding Some success(1) ptp_copy_data_def
      using success(2) d(2)
      by (auto simp: Let_def ptp_kept_def runs_ret intro!: runs_memcpy split del: if_split)
  qed
qed

text \<open>
  C7: on every kernel that keeps the usbdevfs contract, and whatever the device answers, a
  transaction either fails and leaves all memory of its caller as it was, or returns with the
  buffer of the caller unchanged behind the stated length and every buffer of its old size. The
  other outcomes are a stop at the first access beyond a buffer or to a byte never written, and a
  loop that goes on for ever.
\<close>

theorem ptp_request_keeps:
  assumes "usbdevfs_ok E" and "load_le32 (known container) 0 = Inr n"
    and "unat n \<le> length container" and "unat n < 2 ^ 31"
    and "\<not> bit (word_of_int endpoint :: u16) 7"
    and "\<And>d. data = Some d \<Longrightarrow> unat len \<le> length d \<and> res \<noteq> None"
  shows "runs True pointer_fault (\<lambda>r w'. ptp_kept data len res rparams r)
    (ptp_handle_request (usb_ops E) fd endpoint container data len res rparams next_phase) w"
  unfolding ptp_handle_request_def assms(2) lift_simps ret_bnd
  by (rule runs_bndI [OF usb.ptp_send_request_runs [OF assms(1)]])
    (use assms(3-6) in \<open>simp, simp, simp, blast intro: runs_ptp_copy_data\<close>)

theorem ptp_request_keeps_witness:
  "runs True pointer_fault
    (\<lambda>r w'. ptp_kept (Some (uninit 64)) 16 (Some \<lparr>ptp_length = 0, ptp_code = 0\<rparr>) None r)
    (ptp_handle_request (usb_ops device_env) 3 1
      (enc32 12 @ enc16 1 @ enc16 0x1001 @ enc32 1) (Some (uninit 64)) 16
      (Some \<lparr>ptp_length = 0, ptp_code = 0\<rparr>) None RESPONSE_PHASE) (idle\<lparr>inbox := [[1, 2, 3]]\<rparr>)"
  by (rule ptp_request_keeps [where n = 12]) simp_all

end
