(* ===== verification/Ptp_Link.thy ===== *)
theory Ptp_Link
  imports Ptp Reactive
begin

text \<open>
  The exchange of \<^verbatim>\<open>lib/ptp/ptp.c\<close> with a device that answers as the protocol prescribes,
  over every transport that delivers packets: what is sent, how the receive loops collect a data
  container from its transfers, and what reaches the caller.
\<close>

section \<open>A well-formed answer\<close>

text \<open>
  The data phase of an answer, in transfers of at most 512 bytes, none of them empty: nothing,
  or a data container that fits the response buffer. Then the response block.
\<close>

definition ptp_data_phase :: "u8 list list \<Rightarrow> bool" where
  "ptp_data_phase cs \<longleftrightarrow>
     (\<forall>c \<in> set cs. c \<noteq> [] \<and> length c \<le> 512) \<and> length (concat cs) \<le> 2048 \<and>
     (cs \<noteq> [] \<longrightarrow> 12 \<le> length (hd cs) \<and> load_le16 (known (hd cs)) 4 = Inr 2 \<and>
        load_le32 (known (hd cs)) 0 = Inr (of_nat (length (concat cs))))"

definition ptp_response :: "u8 list \<Rightarrow> bool" where
  "ptp_response r \<longleftrightarrow>
     12 \<le> length r \<and> length r \<le> 24 \<and> load_le16 (known r) 4 = Inr 3 \<and>
     load_le32 (known r) 0 = Inr (of_nat (length r))"

definition ptp_response_code :: "u8 list \<Rightarrow> u16" where
  "ptp_response_code r = le16 (r ! 6) (r ! 7)"

text \<open>What a transaction reports.\<close>

definition ptp_report :: "u8 list list \<Rightarrow> u8 list \<Rightarrow> ptp_res \<Rightarrow> ptp_res" where
  "ptp_report cs r x =
     x\<lparr>ptp_length := (if cs = [] then ptp_length x else of_nat (length (concat cs))),
       ptp_code := ptp_response_code r\<rparr>"

text \<open>
  What a caller owes: buffers of the length given, and with a buffer a place for the report,
  whose length is zero unless a data container will come.
\<close>

definition ptp_call ::
    "u8 list list \<Rightarrow> u8 list \<Rightarrow> buf option \<Rightarrow> u32 \<Rightarrow> ptp_res option \<Rightarrow> buf option \<Rightarrow> bool" where
  "ptp_call cs r data len res rparams \<longleftrightarrow>
     (\<forall>b. data = Some b \<longrightarrow> unat len \<le> length b \<and>
        (\<exists>x. res = Some x \<and> (cs \<noteq> [] \<or> ptp_length x = 0))) \<and>
     (\<forall>p. rparams = Some p \<longrightarrow> length r \<le> length p + 12)"

lemma ptp_copy_data_device:
  assumes "ptp_call cs r data len res rparams" and "length (concat cs) \<le> 2048"
  shows "ptp_copy_data data len (0, overwrite (concat cs) (uninit 2048),
      map_option (ptp_report cs r) res, rp) w =
    Some (Inr ((0, map_option (overwrite (take (unat len) (concat cs))) data,
      map_option (ptp_report cs r) res, rp), w))"
proof (cases data)
  case None
  then show ?thesis by (simp add: ptp_copy_data_def ret_def)
next
  case (Some b)
  with assms(1) obtain x where x: "res = Some x" "cs \<noteq> [] \<or> ptp_length x = 0"
    and b: "unat len \<le> length b"
    by (auto simp: ptp_call_def)
  have len: "ptp_length (ptp_report cs r x) = of_nat (length (concat cs))"
    using x(2) by (auto simp: ptp_report_def)
  let ?k = "if len < of_nat (length (concat cs)) then len else of_nat (length (concat cs))"
  have "unat (of_nat (length (concat cs)) :: u32) = length (concat cs)"
    by (rule unat_of_nat_u32) (use assms(2) in simp)
  then have k: "unat ?k = min (unat len) (length (concat cs))"
    by (simp add: word_less_nat_alt min_def del: length_concat)
  have "memcpy b 0 (overwrite (concat cs) (uninit 2048)) 0 (unat ?k) =
      Inr (overwrite (take (unat len) (concat cs)) b)"
    unfolding k using b assms(2)
    by (auto simp: memcpy_def overwrite_def min_def simp del: length_concat)
  with Some x(1) show ?thesis
    by (simp add: ptp_copy_data_def lift_def ret_def Let_def len del: length_concat
        split del: if_split cong: if_cong)
qed

text \<open>The command blocks: a header, and as many parameters as its length announces.\<close>

definition ptp_command :: "u16 \<Rightarrow> u32 \<Rightarrow> u32 list \<Rightarrow> u8 list" where
  "ptp_command code tid params =
     enc32 (of_nat (12 + 4 * length params)) @ enc16 1 @ enc16 code @ enc32 tid @
     concat (map enc32 params)"

lemma length_ptp_command: "length (ptp_command code tid params) = 12 + 4 * length params"
proof -
  have "length (concat (map enc32 params)) = 4 * length params" by (induction params) auto
  then show ?thesis by (simp add: ptp_command_def del: length_concat)
qed

text \<open>The containers of the operations are command blocks, followed by unused parameters.\<close>

lemma ptp_header_command:
  "ptp_header_bytes (command_header 0 code tid) = ptp_command code tid [] @ []"
  by (simp add: ptp_header_bytes_def command_header_def ptp_command_def PTP_REQUEST_LEN_def)

lemma ptp_cmd_command:
  "ptp_cmd_bytes \<lparr>cmd_header = command_header 0 code tid, cmd_payload = p\<rparr> =
    ptp_command code tid [] @ enc32 (Parameter1 p) @ enc32 (Parameter2 p) @
      enc32 (Parameter3 p) @ enc32 (Parameter4 p) @ enc32 (Parameter5 p)"
  "ptp_cmd_bytes \<lparr>cmd_header = command_header (Suc 0) code tid, cmd_payload = p\<rparr> =
    ptp_command code tid [Parameter1 p] @ enc32 (Parameter2 p) @
      enc32 (Parameter3 p) @ enc32 (Parameter4 p) @ enc32 (Parameter5 p)"
  "ptp_cmd_bytes \<lparr>cmd_header = command_header 2 code tid, cmd_payload = p\<rparr> =
    ptp_command code tid [Parameter1 p, Parameter2 p] @
      enc32 (Parameter3 p) @ enc32 (Parameter4 p) @ enc32 (Parameter5 p)"
  "ptp_cmd_bytes \<lparr>cmd_header = command_header 3 code tid, cmd_payload = p\<rparr> =
    ptp_command code tid [Parameter1 p, Parameter2 p, Parameter3 p] @
      enc32 (Parameter4 p) @ enc32 (Parameter5 p)"
  by (simp_all add: ptp_cmd_bytes_def ptp_header_bytes_def command_header_def ptp_command_def
      PTP_REQUEST_LEN_def)

lemma no_params_simps [simp]:
  "Parameter1 no_params = 0" "Parameter2 no_params = 0" "Parameter3 no_params = 0"
  "Parameter4 no_params = 0" "Parameter5 no_params = 0"
  by (simp_all add: no_params_def)

text \<open>The transaction id the simulated device draws.\<close>

definition ptp_tid :: "device \<Rightarrow> u32" where
  "ptp_tid d = word_of_int (1 + seed d mod 2147483648 mod 2147483646)"

lemma get_transaction_id_device:
  "get_transaction_id device_env d = Some (Inr (ptp_tid d, d\<lparr>seed := seed d + 1\<rparr>))"
  by (simp add: get_transaction_id_def ptp_tid_def)

text \<open>A block that is neither data nor a response: an event, or anything else of six bytes or more.\<close>

definition ptp_other_block :: "u8 list \<Rightarrow> bool" where
  "ptp_other_block p \<longleftrightarrow>
     6 \<le> length p \<and> length p \<le> 512 \<and> load_le16 (known p) 4 \<noteq> Inr 2 \<and> load_le16 (known p) 4 \<noteq> Inr 3"

section \<open>The receive loops\<close>

lemma length_foldl_overwrite:
  "\<forall>c \<in> set cs. length c \<le> length rb \<Longrightarrow>
   length (foldl (\<lambda>rb c. overwrite c rb) rb cs) = length rb"
  by (induction cs arbitrary: rb) auto

context packet_transport
begin

declare queue_set_queue [simp] set_queue_set_queue [simp]

lemma data_loop_packets:
  assumes "\<forall>c' \<in> set (c # cs). c' \<noteq> [] \<and> length c' \<le> 512" and "length rb = 512"
    and "offset + length (concat (c # cs)) \<le> length data" and "length data \<le> 2048"
  shows "ptp_data_loop ops fd ep (int (length c))
      (int (length (concat (c # cs)))) offset (overwrite c rb) data (set_queue (cs @ ps) w) =
    Some (Inr ((foldl (\<lambda>rb c. overwrite c rb) rb (c # cs),
      take offset data @ known (concat (c # cs)) @
        drop (offset + length (concat (c # cs))) data,
      offset + length (concat (c # cs))), set_queue ps w))"
  using assms
proof (induction cs arbitrary: c rb offset data)
  case Nil
  then have "memcpy data offset (overwrite c rb) 0 (length c) =
      Inr (take offset data @ known c @ drop (offset + length c) data)"
    by (intro memcpy_from_overwrite) auto
  then show ?case
    using Nil by (simp add: ptp_data_loop.simps ret_def)
next
  case (Cons c' cs)
  let ?data = "take offset data @ known c @ drop (offset + length c) data"
  let ?n = "length (concat (c' # cs))"
  have copy: "memcpy data offset (overwrite c rb) 0 (length c) = Inr ?data"
    using Cons.prems by (intro memcpy_from_overwrite) auto
  have "0 < length c'" using Cons.prems(1) by simp
  then have "int (length c') + int (length (concat cs)) \<noteq> 0" by linarith
  have "?n \<le> 2048" "length c \<le> 512" using Cons.prems by auto
  then have left: "cint (int (length (concat (c # c' # cs))) - int (length c)) = int ?n"
    by simp
  have recv: "bulk_recv ops fd ep (overwrite c rb) 512 (set_queue ((c' # cs) @ ps) w) =
      Some (Inr ((int (length c'), overwrite c' (overwrite c rb)), set_queue (cs @ ps) w))"
    using recv_packet [of "set_queue ((c' # cs) @ ps) w" c' "cs @ ps" "overwrite c rb" fd ep] Cons.prems by simp
  have "ptp_data_loop ops fd ep (int (length c))
      (int (length (concat (c # c' # cs)))) offset (overwrite c rb) data (set_queue ((c' # cs) @ ps) w) =
    ptp_data_loop ops fd ep (int (length c')) (int ?n) (offset + length c)
      (overwrite c' (overwrite c rb)) ?data (set_queue (cs @ ps) w)"
    using \<open>int (length c') + int (length (concat cs)) \<noteq> 0\<close> left recv copy \<open>length c \<le> 512\<close>
    by (subst ptp_data_loop.simps) simp
  also have "\<dots> = Some (Inr ((foldl (\<lambda>rb c. overwrite c rb) (overwrite c rb) (c' # cs),
      take (offset + length c) ?data @ known (concat (c' # cs)) @
        drop (offset + length c + ?n) ?data,
      offset + length c + ?n), set_queue ps w))"
    by (rule Cons.IH) (use Cons.prems in auto)
  finally show ?case using Cons.prems(3) by (simp add: ac_simps)
qed

text \<open>The outer loop on the two kinds of block.\<close>

lemma recv_response_packet:
  assumes r: "ptp_response r" and "queue w = r # ps" and "length rb = 512"
    and rp: "\<And>p. rparams = Some p \<Longrightarrow> length r \<le> length p + 12"
  shows "ptp_recv_loop ops fd ep offset rb data res rparams w =
    Some (Inr ((data, map_option (\<lambda>x. x\<lparr>ptp_code := ptp_response_code r\<rparr>) res,
      map_option (overwrite (drop 12 r)) rparams), set_queue ps w))"
proof -
  from r have len: "12 \<le> length r" "length r \<le> 24"
    and ty: "load_le16 (overwrite r rb) 4 = Inr 3"
    and n: "load_le32 (overwrite r rb) 0 = Inr (of_nat (length r))"
    using assms(3) by (auto simp: ptp_response_def load_le16_overwrite load_le32_overwrite)
  have code: "load_le16 (overwrite r rb) 6 = Inr (ptp_response_code r)"
    using len assms(3)
    by (simp add: load_le16_def load8_overwrite ptp_response_code_def)
  have recv: "bulk_recv ops fd ep rb 512 w =
      Some (Inr ((int (length r), overwrite r rb), set_queue ps w))"
    by (rule recv_packet) (use assms len in auto)
  have "uint (word_of_nat (length r) :: u32) = int (length r)"
    using len by (simp add: uint_nat unat_of_nat_u32)
  moreover have "sint (word_of_nat (length r) :: u32) = uint (word_of_nat (length r) :: u32)"
    using len by (intro sint_eq_uint) (simp add: unat_of_nat_u32)
  ultimately have size: "size_of_int (cint (sint (word_of_nat (length r) :: u32) - 12)) =
      length r - 12"
    using len by (simp add: size_of_int_def)
  have copy: "memcpy p 0 (overwrite r rb) 12 (length r - 12) = Inr (overwrite (drop 12 r) p)"
    if "rparams = Some p" for p
    using rp [OF that] len assms(3) by (simp add: memcpy_def overwrite_def)
  show ?thesis
    by (subst ptp_recv_loop.simps)
      (simp add: recv n ty code RESPONSE_LENGTH_MASK_def RESPONSE_TYPE_MASK_def
        RESPONSE_CODE_MASK_def ptp_set_code_def ptp_copy_params_def size copy ret_def
        split: option.splits)
qed

text \<open>Other blocks are skipped, wherever the outer loop stands.\<close>

lemma recv_loop_other:
  assumes p: "ptp_other_block p" and "queue w = p # ps" and "length rb = 512"
  shows "ptp_recv_loop ops fd ep offset rb data res rparams w =
    ptp_recv_loop ops fd ep offset (overwrite p rb) data res rparams (set_queue ps w)"
proof -
  from p have len: "6 \<le> length p" "length p \<le> 512" by (simp_all add: ptp_other_block_def)
  then obtain l ty where l: "load_le32 (overwrite p rb) 0 = Inr l" and t: "load_le16 (known p) 4 = Inr ty"
    using assms(3) by (simp add: load_le32_overwrite load_le32_known load_le16_def)
  have t': "load_le16 (overwrite p rb) 4 = Inr ty"
    using len assms(3) t by (simp add: load_le16_overwrite)
  have "ty \<noteq> 2" "ty \<noteq> 3" using p t by (auto simp: ptp_other_block_def)
  moreover have "bulk_recv ops fd ep rb 512 w =
      Some (Inr ((int (length p), overwrite p rb), set_queue ps w))"
    by (rule recv_packet) (use assms len in auto)
  ultimately show ?thesis
    using l t' by (subst ptp_recv_loop.simps) (simp add: RESPONSE_LENGTH_MASK_def RESPONSE_TYPE_MASK_def)
qed

lemma recv_loop_others:
  assumes "\<forall>p \<in> set es. ptp_other_block p" and "queue w = es @ ps" and "length rb = 512"
  shows "\<exists>rb' w'. length rb' = 512 \<and> queue w' = ps \<and> (\<forall>qs. set_queue qs w' = set_queue qs w) \<and>
    ptp_recv_loop ops fd ep offset rb data res rparams w =
    ptp_recv_loop ops fd ep offset rb' data res rparams w'"
  using assms
proof (induction es arbitrary: rb w)
  case Nil
  then show ?case by auto
next
  case (Cons p es)
  let ?w = "set_queue (es @ ps) w"
  have p: "ptp_other_block p" "length p \<le> 512" using Cons.prems by (auto simp: ptp_other_block_def)
  obtain rb' w' where *: "length rb' = 512" "queue w' = ps"
    "\<forall>qs. set_queue qs w' = set_queue qs ?w"
    "ptp_recv_loop ops fd ep offset (overwrite p rb) data res rparams ?w =
      ptp_recv_loop ops fd ep offset rb' data res rparams w'"
    using Cons.IH [of ?w "overwrite p rb"] Cons.prems p by auto
  have "ptp_recv_loop ops fd ep offset rb data res rparams w =
      ptp_recv_loop ops fd ep offset (overwrite p rb) data res rparams ?w"
    by (rule recv_loop_other [OF p(1)]) (use Cons.prems in auto)
  with * show ?case by auto
qed

lemma recv_response_events:
  assumes "ptp_response r" and "\<forall>p \<in> set fs. ptp_other_block p" and "queue w = fs @ r # ps"
    and "length rb = 512" and "\<And>p. rparams = Some p \<Longrightarrow> length r \<le> length p + 12"
  shows "ptp_recv_loop ops fd ep offset rb data res rparams w =
    Some (Inr ((data, map_option (\<lambda>x. x\<lparr>ptp_code := ptp_response_code r\<rparr>) res,
      map_option (overwrite (drop 12 r)) rparams), set_queue ps w))"
proof -
  obtain rb' w' where *: "length rb' = 512" "queue w' = r # ps" "\<forall>qs. set_queue qs w' = set_queue qs w"
    "ptp_recv_loop ops fd ep offset rb data res rparams w =
      ptp_recv_loop ops fd ep offset rb' data res rparams w'"
    using recv_loop_others [OF assms(2-4)] by blast
  show ?thesis
    unfolding *(4) using recv_response_packet [OF assms(1) *(2,1) assms(5)] *(3) by simp
qed

lemma recv_loop_packets:
  assumes cs: "ptp_data_phase cs" and r: "ptp_response r" and fs: "\<forall>p \<in> set fs. ptp_other_block p"
    and inbox: "queue w = cs @ fs @ r # ps"
    and len: "length rb = 512" "length data = 2048"
    and rp: "\<And>p. rparams = Some p \<Longrightarrow> length r \<le> length p + 12"
  shows "ptp_recv_loop ops fd ep 0 rb data res rparams w =
    Some (Inr ((overwrite (concat cs) data, map_option (ptp_report cs r) res,
      map_option (overwrite (drop 12 r)) rparams), set_queue ps w))"
proof (cases cs)
  case Nil
  then show ?thesis
    using recv_response_events [OF r fs _ len(1) rp] inbox
    by (cases res) (simp_all add: ptp_report_def)
next
  case (Cons c cs')
  let ?w = "set_queue (cs' @ fs @ r # ps) w"
  let ?n = "length (concat cs)"
  let ?rb = "foldl (\<lambda>rb c. overwrite c rb) rb cs"
  let ?data = "overwrite (concat cs) data"
  from cs Cons have c: "12 \<le> length c" "length c \<le> 512"
    and total: "length c + length (concat cs') \<le> 2048"
    and small: "\<forall>c' \<in> set (c # cs'). c' \<noteq> [] \<and> length c' \<le> 512"
    and ty: "load_le16 (overwrite c rb) 4 = Inr 2"
    and n: "load_le32 (overwrite c rb) 0 = Inr (of_nat ?n)"
    and n': "load_le32 ?data 0 = Inr (of_nat ?n)"
    using len
    by (auto simp: ptp_data_phase_def load_le16_overwrite load_le32_overwrite load_le32_front)
  have recv: "bulk_recv ops fd ep rb 512 w =
      Some (Inr ((int (length c), overwrite c rb), ?w))"
    by (rule recv_packet) (use inbox Cons c len in auto)
  have "?n \<le> 2048" using total Cons by simp
  then have "unat (word_of_nat ?n :: u32) = ?n"
    by (intro unat_of_nat_u32) simp
  with \<open>?n \<le> 2048\<close> have sn: "sint (word_of_nat ?n :: u32) = int ?n"
    using sint_eq_uint [of "word_of_nat ?n"] by (simp only: uint_nat) simp
  have "ptp_data_loop ops fd ep (int (length c)) (int ?n) 0 (overwrite c rb)
      data ?w = Some (Inr ((?rb, ?data, ?n), set_queue (fs @ r # ps) w))"
    using data_loop_packets [OF small, of rb 0 data fd ep "fs @ r # ps" w] total len Cons
    by (simp add: overwrite_def)
  note loop = this [folded sn]
  have "ptp_recv_loop ops fd ep 0 rb data res rparams w =
    ptp_recv_loop ops fd ep ?n ?rb ?data
      (map_option (\<lambda>x. x\<lparr>ptp_length := of_nat ?n\<rparr>) res) rparams (set_queue (fs @ r # ps) w)"
    by (subst ptp_recv_loop.simps)
      (simp add: recv n ty n' RESPONSE_LENGTH_MASK_def RESPONSE_TYPE_MASK_def loop
        ptp_set_length_def ret_apply split: option.splits)
  also have "\<dots> = Some (Inr ((?data,
      map_option (\<lambda>x. x\<lparr>ptp_code := ptp_response_code r\<rparr>)
        (map_option (\<lambda>x. x\<lparr>ptp_length := of_nat ?n\<rparr>) res),
      map_option (overwrite (drop 12 r)) rparams), set_queue ps w))"
    using recv_response_events [OF r fs _ _ rp, of "set_queue (fs @ r # ps) w" ps ?rb]
      length_foldl_overwrite [of cs rb] small len Cons by simp
  finally show ?thesis
    using Cons by (cases res) (simp_all add: ptp_report_def)
qed

section \<open>A transaction\<close>

lemma handle_request_events:
  assumes cs: "ptp_data_phase cs" and r: "ptp_response r"
    and es: "\<forall>p \<in> set es. ptp_other_block p" and fs: "\<forall>p \<in> set fs. ptp_other_block p"
    and sent: "sent = known (take (unat n) container)"
    and inbox: "queue (deliver sent w) = es @ cs @ fs @ r # ps"
    and n: "load_le32 (known container) 0 = Inr n" "unat n \<le> length container" "unat n < 2 ^ 31"
    and ep: "\<not> bit (word_of_int ep :: u16) 7"
    and call: "ptp_call cs r data len res rparams"
  shows "ptp_handle_request ops fd ep container data len res rparams
      RESPONSE_PHASE w =
    Some (Inr ((0, map_option (overwrite (take (unat len) (concat cs))) data,
      map_option (ptp_report cs r) res, map_option (overwrite (drop 12 r)) rparams),
      set_queue ps (deliver sent w)))"
proof -
  have send: "bulk_send ops fd (word_of_int ep) (known container) n w =
      Some (Inr ((uint n, known container), deliver sent w))"
    using send_packet [OF ep, of n "known container" fd w] n sent by simp
  obtain rb w' where skip: "length rb = 512" "queue w' = cs @ fs @ r # ps"
    "\<forall>qs. set_queue qs w' = set_queue qs (deliver sent w)"
    "ptp_recv_loop ops fd (word_of_int ep) 0 (uninit 512) (uninit 2048) res rparams (deliver sent w) =
      ptp_recv_loop ops fd (word_of_int ep) 0 rb (uninit 2048) res rparams w'"
    using recv_loop_others [OF es inbox, of "uninit 512", where fd = fd and ep = "word_of_int ep"
        and offset = 0 and data = "uninit 2048" and res = res and rparams = rparams]
    by (auto simp: uninit_def)
  have recv: "ptp_recv_loop ops fd (word_of_int ep) 0 (uninit 512) (uninit 2048) res rparams
      (deliver sent w) =
    Some (Inr ((overwrite (concat cs) (uninit 2048), map_option (ptp_report cs r) res,
      map_option (overwrite (drop 12 r)) rparams), set_queue ps (deliver sent w)))"
    unfolding skip(4) skip(3) [rule_format, symmetric]
    by (rule recv_loop_packets [OF cs r fs skip(2,1)]) (use call in \<open>auto simp: ptp_call_def uninit_def\<close>)
  have "length (concat cs) \<le> 2048" using cs by (simp add: ptp_data_phase_def)
  note copy = ptp_copy_data_device [OF call this]
  show ?thesis
    using n(1) send recv
    by (simp add: copy ptp_handle_request_def ptp_send_request_def ret_def del: length_concat)
qed

lemmas handle_request_packets =
  handle_request_events [where es = "[]" and fs = "[]",
    simplified list.set(1) ball_empty append_Nil True_implies_equals]

text \<open>An operation: the transaction id is drawn, then its command block is exchanged.\<close>

lemma command_events:
  assumes "ptp_data_phase cs" and "ptp_response r"
    and "\<forall>p \<in> set es. ptp_other_block p" and "\<forall>p \<in> set fs. ptp_other_block p"
    and sent: "sent = known (ptp_command code tid params)" and "queue (deliver sent w) = es @ cs @ fs @ r # ps"
    and "\<not> bit (word_of_int ep :: u16) 7" and "ptp_call cs r data len res rparams"
    and "length params \<le> 5"
  shows "ptp_handle_request ops fd ep (ptp_command code tid params @ pad)
      data len res rparams RESPONSE_PHASE w =
    Some (Inr ((0, map_option (overwrite (take (unat len) (concat cs))) data,
      map_option (ptp_report cs r) res, map_option (overwrite (drop 12 r)) rparams),
      set_queue ps (deliver sent w)))"
proof -
  let ?n = "of_nat (12 + 4 * length params) :: u32"
  have n: "load_le32 (known (ptp_command code tid params @ pad)) 0 = Inr ?n"
    by (simp add: ptp_command_def)
  have "unat ?n = 12 + 4 * length params"
    using assms(9) by (intro unat_of_nat_u32) simp
  then show ?thesis
    using handle_request_events [OF assms(1-4) _ assms(6) n _ _ assms(7,8), where fd = fd] assms(5,9)
    by (simp add: length_ptp_command)
qed

lemmas command_packets = command_events [where es = "[]" and fs = "[]",
    simplified list.set(1) ball_empty append_Nil True_implies_equals]

lemma operation_packets:
  assumes "ptp_data_phase cs" and "ptp_response r"
    and tid: "get_transaction_id E w = Some (Inr (tid, w'))"
    and "sent = known (ptp_command code tid params)" and "queue (deliver sent w') = cs @ r # ps"
    and "\<not> bit (word_of_int ep :: u16) 7" and "ptp_call cs r data len res rparams"
    and "length params \<le> 5" and "container tid = ptp_command code tid params @ pad"
  shows "bnd (get_transaction_id E) (\<lambda>tid.
      ptp_handle_request ops fd ep (container tid) data len res rparams RESPONSE_PHASE) w =
    Some (Inr ((0, map_option (overwrite (take (unat len) (concat cs))) data,
      map_option (ptp_report cs r) res, map_option (overwrite (drop 12 r)) rparams),
      set_queue ps (deliver sent w')))"
  using command_packets [OF assms(1,2,4-8)] assms(9)
  by (simp add: bnd_def tid)

end

end
