(* ===== verification/Ptp_Props.thy ===== *)
theory Ptp_Props
  imports Ptp_Link
begin

text \<open>
  What the transactions of \<^verbatim>\<open>lib/ptp\<close> do: the exact exchange with a device that answers
  as the protocol prescribes, for every operation, and what happens when it does not.
\<close>

section \<open>A transaction\<close>

text \<open>
  The effect of a transaction: one container is sent, the answer is consumed, the received data
  is cut to the caller's buffer, and the response's code and parameters are reported.
\<close>

definition ptp_transaction ::
    "u8 list \<Rightarrow> u8 list list \<Rightarrow> u8 list \<Rightarrow> u8 list list \<Rightarrow> buf option \<Rightarrow> u32 \<Rightarrow> ptp_res option \<Rightarrow>
     buf option \<Rightarrow> device \<Rightarrow> (ptp_reply \<times> device) checked option" where
  "ptp_transaction sent cs r ps data len res rparams d =
     Some (Inr
       ((0, map_option (overwrite (take (unat len) (concat cs))) data,
         map_option (ptp_report cs r) res, map_option (overwrite (drop 12 r)) rparams),
        d\<lparr>signals := 0, inbox := ps, outbox := outbox d @ [known sent]\<rparr>))"

text \<open>The exchange over the simulated device.\<close>

lemma ptp_recv_512:
  assumes "inbox d = p # ps" and "length p \<le> 512" and "length b = 512"
  shows "usb_bulk_recv device_env fd ep b 512 d =
    Some (Inr ((int (length p), overwrite p b), d\<lparr>signals := 0, inbox := ps\<rparr>))"
  using sim.recv_packet [OF assms] by simp

lemma ptp_recv_response_device:
  assumes "ptp_response r" and "inbox d = r # ps" and "length rb = 512"
    and "\<And>p. rparams = Some p \<Longrightarrow> length r \<le> length p + 12"
  shows "ptp_recv_loop (usb_ops device_env) fd ep offset rb data res rparams d =
    Some (Inr ((data, map_option (\<lambda>x. x\<lparr>ptp_code := ptp_response_code r\<rparr>) res,
      map_option (overwrite (drop 12 r)) rparams), d\<lparr>signals := 0, inbox := ps\<rparr>))"
  using assms by (rule sim.recv_response_packet)

lemma ptp_handle_request_device:
  assumes "ptp_data_phase cs" and "ptp_response r" and "inbox d = cs @ r # ps"
    and "load_le32 (known container) 0 = Inr n" and "unat n \<le> length container"
    and "unat n < 2 ^ 31" and "\<not> bit (word_of_int ep :: u16) 7"
    and "ptp_call cs r data len res rparams"
  shows "ptp_handle_request (usb_ops device_env) fd ep container data len res rparams
      RESPONSE_PHASE d =
    ptp_transaction (take (unat n) container) cs r ps data len res rparams d"
  using sim.handle_request_packets [OF assms(1,2) refl _ assms(4-8), of d ps fd] assms(3)
  by (simp add: ptp_transaction_def)

lemma ptp_command_transaction:
  assumes "ptp_data_phase cs" and "ptp_response r" and "inbox d = cs @ r # ps"
    and "\<not> bit (word_of_int ep :: u16) 7" and "ptp_call cs r data len res rparams"
    and "length params \<le> 5"
  shows "ptp_handle_request (usb_ops device_env) fd ep (ptp_command code tid params @ pad)
      data len res rparams RESPONSE_PHASE d =
    ptp_transaction (ptp_command code tid params) cs r ps data len res rparams d"
  using sim.command_packets [OF assms(1,2) refl _ assms(4-6),
      where code = code and tid = tid and w = d and ps = ps and fd = fd and pad = pad] assms(3)
  by (simp add: ptp_transaction_def)

lemma ptp_operation_device:
  assumes "ptp_data_phase cs" and "ptp_response r" and "inbox d = cs @ r # ps"
    and "\<not> bit (word_of_int ep :: u16) 7" and "ptp_call cs r data len res rparams"
    and "length params \<le> 5" and "container (ptp_tid d) = ptp_command code (ptp_tid d) params @ pad"
  shows "bnd (get_transaction_id device_env) (\<lambda>tid.
      ptp_handle_request (usb_ops device_env) fd ep (container tid) data len res rparams
        RESPONSE_PHASE) d =
    ptp_transaction (ptp_command code (ptp_tid d) params) cs r ps data len res rparams
      (d\<lparr>seed := seed d + 1\<rparr>)"
  using sim.operation_packets [where container = container and code = code and pad = pad,
      OF assms(1,2) get_transaction_id_device refl _ assms(4-7), of ps fd] assms(3)
  by (simp add: ptp_transaction_def)

section \<open>Properties\<close>

text \<open>
  C1: the operations that read a dataset send the command block of their operation code with
  their arguments as parameters, in order, under a fresh transaction id, take the data and the
  response the device answers with, and deliver the data cut to the caller's buffer.
\<close>

theorem ptp_dataset_operations:
  assumes "ptp_data_phase cs" and "ptp_response r" and "inbox d = cs @ r # ps"
    and "\<not> bit (word_of_int (ptp_endp dev) :: u16) 7" and "ptp_call cs r data len res None"
    and "transact = (\<lambda>code params. ptp_transaction (ptp_command code (ptp_tid d) params) cs r ps
      data len res None (d\<lparr>seed := seed d + 1\<rparr>))"
  shows "ptp_get_device_info (usb_ops device_env) device_env dev data len res d =
      transact 0x1001 [] \<and>
    ptp_get_storage_id (usb_ops device_env) device_env dev data len res d =
      transact 0x1004 [] \<and>
    ptp_get_storage_info (usb_ops device_env) device_env dev x data len res d =
      transact 0x1005 [x] \<and>
    ptp_get_object_handles (usb_ops device_env) device_env dev x y z data len res d =
      transact 0x1007 [x, y, z] \<and>
    ptp_get_object_info (usb_ops device_env) device_env dev x data len res d =
      transact 0x1008 [x] \<and>
    ptp_get_object (usb_ops device_env) device_env dev x data len res d =
      transact 0x1009 [x] \<and>
    ptp_get_thumb (usb_ops device_env) device_env dev x data len res d =
      transact 0x100A [x] \<and>
    ptp_get_device_prop_desc (usb_ops device_env) device_env dev x data len res d =
      transact 0x1014 [x] \<and>
    ptp_get_device_prop_value (usb_ops device_env) device_env dev x data len res d =
      transact 0x1015 [x]"
  unfolding assms(6) ptp_get_device_info_def ptp_get_storage_id_def ptp_get_storage_info_def
    ptp_get_object_handles_def ptp_get_object_info_def ptp_get_object_def ptp_get_thumb_def
    ptp_get_device_prop_desc_def ptp_get_device_prop_value_def
  by (intro conjI ptp_operation_device [OF assms(1-5)])
    (simp_all add: ptp_header_command ptp_cmd_command)

text \<open>A response block without parameters, and an answer with two bytes of data.\<close>

definition ok_response :: "u8 list" where
  "ok_response = [12, 0, 0, 0, 3, 0, 1, 0x20, 1, 0, 0, 0]"

definition two_bytes :: "u8 list" where
  "two_bytes = [14, 0, 0, 0, 2, 0, 1, 0x10, 1, 0, 0, 0, 7, 8]"

lemma ptp_response_ok: "ptp_response ok_response"
  by (simp add: ptp_response_def ok_response_def load_le16_def load_le32_def le16_def le32_def
      known_def)

lemma ptp_data_phase_two_bytes: "ptp_data_phase [two_bytes]"
  by (simp add: ptp_data_phase_def two_bytes_def load_le16_def load_le32_def le16_def le32_def
      known_def)

lemma ptp_data_phase_Nil: "ptp_data_phase []"
  by (simp add: ptp_data_phase_def)

theorem ptp_dataset_operations_witness:
  "ptp_get_thumb (usb_ops device_env) device_env \<lparr>ptp_fd = 3, ptp_endp = 1\<rparr> 9 (Some (uninit 64)) 64
      (Some \<lparr>ptp_length = 0, ptp_code = 0\<rparr>) (idle\<lparr>inbox := [two_bytes, ok_response]\<rparr>) =
    ptp_transaction (ptp_command 0x100A 1 [9]) [two_bytes] ok_response [] (Some (uninit 64)) 64
      (Some \<lparr>ptp_length = 0, ptp_code = 0\<rparr>) None
      (idle\<lparr>inbox := [two_bytes, ok_response], seed := 1\<rparr>)"
proof -
  have call: "ptp_call [two_bytes] ok_response (Some (uninit 64)) 64
      (Some \<lparr>ptp_length = 0, ptp_code = 0\<rparr>) None"
    by (simp add: ptp_call_def)
  show ?thesis
    using ptp_dataset_operations [OF ptp_data_phase_two_bytes ptp_response_ok _ _ call refl,
        where d = "idle\<lparr>inbox := [two_bytes, ok_response]\<rparr>" and ps = "[]"
          and dev = "\<lparr>ptp_fd = 3, ptp_endp = 1\<rparr>" and x = 9]
    by (simp add: idle_def ptp_tid_def)
qed

text \<open>
  The operations without data send the command block of their operation code with their
  arguments as parameters and report the response. A session is opened under transaction id 0;
  MOVE_OBJECT names the object before the storage.
\<close>

lemma ptp_control_operations:
  assumes "ptp_response r" and "inbox d = r # ps"
    and "\<not> bit (word_of_int (ptp_endp dev) :: u16) 7"
    and "transact = (\<lambda>code params. ptp_transaction (ptp_command code (ptp_tid d) params) [] r ps
      None 0 res None (d\<lparr>seed := seed d + 1\<rparr>))"
  shows "ptp_open_session (usb_ops device_env) device_env dev x res d =
      ptp_transaction (ptp_command 0x1002 0 [x]) [] r ps None 0 res None d \<and>
    ptp_close_session (usb_ops device_env) device_env dev res d = transact 0x1003 [] \<and>
    ptp_reset_device (usb_ops device_env) device_env dev res d = transact 0x1010 [] \<and>
    ptp_self_test (usb_ops device_env) device_env dev x res d = transact 0x1011 [x] \<and>
    ptp_set_object_protection (usb_ops device_env) device_env dev x y res d =
      transact 0x1012 [x, y] \<and>
    ptp_power_down (usb_ops device_env) device_env dev res d = transact 0x1013 [] \<and>
    ptp_reset_device_prop_value (usb_ops device_env) device_env dev x res d =
      transact 0x1017 [x] \<and>
    ptp_terminate_open_capture (usb_ops device_env) device_env dev x res d =
      transact 0x1018 [x] \<and>
    ptp_move_object (usb_ops device_env) device_env dev x y z res d =
      transact 0x1019 [y, x, z] \<and>
    ptp_initiate_open_capture (usb_ops device_env) device_env dev x y res d =
      transact 0x101C [x, y]"
proof -
  have call: "ptp_call [] r None 0 res None" by (simp add: ptp_call_def)
  have inbox: "inbox d = [] @ r # ps" using assms(2) by simp
  note operation = ptp_operation_device [OF ptp_data_phase_Nil assms(1) inbox assms(3) call]
  note command = ptp_command_transaction [OF ptp_data_phase_Nil assms(1) inbox assms(3) call]
  have "ptp_open_session (usb_ops device_env) device_env dev x res d =
      ptp_transaction (ptp_command 0x1002 0 [x]) [] r ps None 0 res None d"
    using command [where params = "[x]" and code = "0x1002" and tid = 0]
    by (simp add: ptp_open_session_def ptp_cmd_command)
  then show ?thesis
    unfolding assms(4) ptp_close_session_def ptp_reset_device_def ptp_self_test_def
      ptp_set_object_protection_def ptp_power_down_def ptp_reset_device_prop_value_def
      ptp_terminate_open_capture_def ptp_move_object_def ptp_initiate_open_capture_def
    by (intro conjI operation) (simp_all add: ptp_header_command ptp_cmd_command)
qed

lemma ptp_control_operations_example:
  "ptp_open_session (usb_ops device_env) device_env \<lparr>ptp_fd = 3, ptp_endp = 1\<rparr> 5
      (Some \<lparr>ptp_length = 0, ptp_code = 0\<rparr>) (idle\<lparr>inbox := [ok_response]\<rparr>) =
    Some (Inr ((0, None, Some \<lparr>ptp_length = 0, ptp_code = 0x2001\<rparr>, None),
      idle\<lparr>outbox := [known (ptp_command 0x1002 0 [5])]\<rparr>))"
  using ptp_control_operations [OF ptp_response_ok _ _ refl,
      where d = "idle\<lparr>inbox := [ok_response]\<rparr>" and ps = "[]"
        and dev = "\<lparr>ptp_fd = 3, ptp_endp = 1\<rparr>" and x = 5
        and res = "Some \<lparr>ptp_length = 0, ptp_code = 0\<rparr>"]
  by (simp add: idle_def ptp_transaction_def ptp_report_def ptp_response_code_def ok_response_def
      le16_def)

text \<open>
  The operations whose response carries parameters deliver them at the front of the block
  the caller gives: at most three, as the response announces.
\<close>

lemma ptp_parameter_operations:
  assumes "ptp_data_phase cs" and "ptp_response r" and "inbox d = cs @ r # ps"
    and "\<not> bit (word_of_int (ptp_endp dev) :: u16) 7" and "length p = 12"
    and "ptp_call cs r data len res (Some p)"
  shows "ptp_get_num_objects (usb_ops device_env) device_env dev x y z res (Some p) d =
      ptp_transaction (ptp_command 0x1006 (ptp_tid d) [x, y, z]) cs r ps None 0 res (Some p)
        (d\<lparr>seed := seed d + 1\<rparr>) \<and>
    ptp_copy_object (usb_ops device_env) device_env dev x y z res (Some p) d =
      ptp_transaction (ptp_command 0x101A (ptp_tid d) [y, x, z]) cs r ps None 0 res (Some p)
        (d\<lparr>seed := seed d + 1\<rparr>) \<and>
    ptp_get_partial_object (usb_ops device_env) device_env dev x y z data len res (Some p) d =
      ptp_transaction (ptp_command 0x101B (ptp_tid d) [x, y, z]) cs r ps data len res (Some p)
        (d\<lparr>seed := seed d + 1\<rparr>)"
proof -
  have call: "ptp_call cs r None 0 res (Some p)"
    using assms(2,5) by (simp add: ptp_call_def ptp_response_def)
  show ?thesis
    unfolding ptp_get_num_objects_def ptp_copy_object_def ptp_get_partial_object_def
    by (intro conjI ptp_operation_device [OF assms(1-4)] call assms(6))
      (simp_all add: ptp_cmd_command)
qed

lemma ptp_parameter_operations_example:
  "ptp_get_num_objects (usb_ops device_env) device_env \<lparr>ptp_fd = 3, ptp_endp = 1\<rparr> 5 0 0
      (Some \<lparr>ptp_length = 0, ptp_code = 0\<rparr>) (Some (uninit 12))
      (idle\<lparr>inbox := [[16, 0, 0, 0, 3, 0, 1, 0x20, 1, 0, 0, 0, 9, 0, 0, 0]]\<rparr>) =
    Some (Inr ((0, None, Some \<lparr>ptp_length = 0, ptp_code = 0x2001\<rparr>,
        Some (known [9, 0, 0, 0] @ uninit 8)),
      idle\<lparr>outbox := [known (ptp_command 0x1006 1 [5, 0, 0])], seed := 1\<rparr>))"
proof -
  let ?r = "[16, 0, 0, 0, 3, 0, 1, 0x20, 1, 0, 0, 0, 9, 0, 0, 0] :: u8 list"
  have r: "ptp_response ?r"
    by (simp add: ptp_response_def load_le16_def load_le32_def le16_def le32_def known_def)
  have call: "ptp_call [] ?r None 0 (Some \<lparr>ptp_length = 0, ptp_code = 0\<rparr>) (Some (uninit 12))"
    by (simp add: ptp_call_def)
  have "overwrite [9, 0, 0, 0] (uninit 12) = known [9, 0, 0, 0] @ uninit 8"
    by (simp add: overwrite_def uninit_def)
  then show ?thesis
    using ptp_parameter_operations [OF ptp_data_phase_Nil r _ _ _ call,
        where d = "idle\<lparr>inbox := [?r]\<rparr>" and ps = "[]"
          and dev = "\<lparr>ptp_fd = 3, ptp_endp = 1\<rparr>" and x = 5 and y = 0 and z = 0]
    by (simp add: idle_def ptp_transaction_def ptp_report_def ptp_response_code_def
        le16_def ptp_tid_def)
qed

text \<open>
  DELETE_OBJECT and SET_DEVICE_PROP_VALUE send their command block only. The second receives
  into the buffer it is given where the protocol has the initiator send it: the value to set is
  not part of any transfer, and the buffer comes back unchanged.
\<close>

lemma ptp_set_device_prop_value_sends_no_data:
  assumes "ptp_response r" and "inbox d = r # ps"
    and "\<not> bit (word_of_int (ptp_endp dev) :: u16) 7" and "unat len \<le> length b"
    and "ptp_length x = 0"
  shows "ptp_delete_object (usb_ops device_env) device_env dev h f None 0 res d =
      ptp_transaction (ptp_command 0x100B (ptp_tid d) [h, f]) [] r ps None 0 res None
        (d\<lparr>seed := seed d + 1\<rparr>) \<and>
    ptp_set_device_prop_value (usb_ops device_env) device_env dev c (Some b) len (Some x) d =
      Some (Inr ((0, Some b, Some (x\<lparr>ptp_code := ptp_response_code r\<rparr>), None),
        d\<lparr>signals := 0, inbox := ps, seed := seed d + 1,
          outbox := outbox d @ [known (ptp_command 0x1016 (ptp_tid d) [c])]\<rparr>))"
proof -
  have inbox: "inbox d = [] @ r # ps" using assms(2) by simp
  note operation = ptp_operation_device [OF ptp_data_phase_Nil assms(1) inbox assms(3)]
  have "ptp_delete_object (usb_ops device_env) device_env dev h f None 0 res d =
      ptp_transaction (ptp_command 0x100B (ptp_tid d) [h, f]) [] r ps None 0 res None
        (d\<lparr>seed := seed d + 1\<rparr>)"
    unfolding ptp_delete_object_def
    by (rule operation) (simp_all add: ptp_cmd_command ptp_call_def)
  moreover have "ptp_set_device_prop_value (usb_ops device_env) device_env dev c (Some b) len
      (Some x) d =
    ptp_transaction (ptp_command 0x1016 (ptp_tid d) [c]) [] r ps (Some b) len (Some x) None
        (d\<lparr>seed := seed d + 1\<rparr>)"
    unfolding ptp_set_device_prop_value_def
    by (rule operation) (use assms(4,5) in \<open>simp_all add: ptp_cmd_command ptp_call_def\<close>)
  ultimately show ?thesis
    by (simp add: ptp_transaction_def ptp_report_def)
qed

lemma ptp_set_device_prop_value_sends_no_data_example:
  "ptp_set_device_prop_value (usb_ops device_env) device_env \<lparr>ptp_fd = 3, ptp_endp = 1\<rparr> 0x5001
      (Some (known [80])) 1 (Some \<lparr>ptp_length = 0, ptp_code = 0\<rparr>)
      (idle\<lparr>inbox := [ok_response]\<rparr>) =
    Some (Inr ((0, Some (known [80]), Some \<lparr>ptp_length = 0, ptp_code = 0x2001\<rparr>, None),
      idle\<lparr>outbox := [known (ptp_command 0x1016 1 [0x5001])], seed := 1\<rparr>))"
  using ptp_set_device_prop_value_sends_no_data [OF ptp_response_ok, where b = "known [80]"
      and d = "idle\<lparr>inbox := [ok_response]\<rparr>" and ps = "[]" and len = 1
      and dev = "\<lparr>ptp_fd = 3, ptp_endp = 1\<rparr>" and x = "\<lparr>ptp_length = 0, ptp_code = 0\<rparr>"]
  by (simp add: idle_def ptp_response_code_def ok_response_def le16_def ptp_tid_def)

text \<open>
  On every transport and in every state, formatting a store is deleting an object: the
  request sent has the operation code of DELETE_OBJECT, with the storage as the object handle.
\<close>

lemma ptp_format_store_deletes:
  shows "ptp_format_store B E dev storage_id fs_format res =
    ptp_delete_object B E dev storage_id fs_format None 0 res"
  by (simp add: ptp_format_store_def ptp_delete_object_def)

text \<open>
  With a random number as the C library documents it, a transaction id is never 0 (the id
  reserved for opening a session) and never has its top bit set; every value in between can be
  drawn.
\<close>

lemma ptp_transaction_id_range:
  assumes "sys_rand E w = (n, w')" and "0 \<le> n" and "n \<le> 2147483647"
  shows "\<exists>tid. get_transaction_id E w = Some (Inr (tid, w')) \<and> tid \<noteq> 0 \<and>
    1 \<le> uint tid \<and> uint tid \<le> 2147483646 \<and>
    (n < 2147483646 \<longrightarrow> uint tid = n + 1)"
proof -
  let ?m = "1 + n mod 2147483646"
  define tid :: u32 where "tid = word_of_int ?m"
  have m: "1 \<le> ?m" "?m \<le> 2147483646" by simp_all
  then have tid: "uint tid = ?m"
    unfolding tid_def uint_word_of_int by (intro mod_pos_pos_trivial) simp_all
  then have "tid \<noteq> 0" using m by force
  moreover have "n < 2147483646 \<Longrightarrow> ?m = n + 1" using assms(2) by simp
  moreover have "get_transaction_id E w = Some (Inr (tid, w'))"
    using assms(1) by (simp only: get_transaction_id_def tid_def) simp
  ultimately show ?thesis
    using m tid by simp
qed

lemma ptp_transaction_id_range_witness:
  "\<exists>tid. get_transaction_id device_env (idle\<lparr>seed := 41\<rparr>) =
      Some (Inr (tid, idle\<lparr>seed := 42\<rparr>)) \<and> tid \<noteq> 0 \<and>
    1 \<le> uint tid \<and> uint tid \<le> 2147483646 \<and> uint tid = 42"
  using ptp_transaction_id_range [of device_env "idle\<lparr>seed := 41\<rparr>" 41 "idle\<lparr>seed := 42\<rparr>"] by simp

end
