(* ===== verification/Ptp_Faults.thy ===== *)
theory Ptp_Faults
  imports Ptp_Props
begin

text \<open>
  Where the transactions of \<^verbatim>\<open>lib/ptp\<close> go wrong: the two operations that send an object,
  and answers the receive loops do not expect.
\<close>

section \<open>Sending an object\<close>

lemma ptp_command_sent:
  assumes "\<not> bit (word_of_int ep :: u16) 7" and "length params \<le> 5"
  shows "ptp_handle_request (usb_ops device_env) fd ep (ptp_command code tid params @ pad)
      None len res rparams DATA_PHASE d =
    Some (Inr ((0, None, res, rparams),
      d\<lparr>signals := 0, outbox := outbox d @ [known (ptp_command code tid params)]\<rparr>))"
proof -
  let ?c = "ptp_command code tid params @ pad"
  let ?n = "of_nat (12 + 4 * length params) :: u32"
  have n: "load_le32 (known ?c) 0 = Inr ?n"
    by (simp add: ptp_command_def)
  have len: "unat ?n = 12 + 4 * length params"
    using assms(2) by (intro unat_of_nat_u32) simp
  have "usb_bulk_send device_env fd (word_of_int ep) (known ?c) ?n d =
      Some (Inr ((uint ?n, known ?c),
        d\<lparr>signals := 0, outbox := outbox d @ [known (ptp_command code tid params)]\<rparr>))"
    using device_send [OF assms(1), of ?n "known ?c" fd d] assms(2) len
    by (simp add: length_ptp_command)
  then show ?thesis
    using n by (simp add: ptp_handle_request_def ptp_send_request_def ptp_copy_data_def ret_def)
qed

text \<open>A send that claims more than the buffer holds.\<close>

lemma usb_bulk_send_overrun:
  assumes "\<not> bit ep 7" and "length data < unat len" and "unat len < 2 ^ 31"
  shows "usb_bulk_send E fd ep data len w = Some (Inl Out_of_bounds)"
proof -
  have "int (length data) < sint len"
    unfolding sint_eq_uint [OF assms(3)] uint_nat using assms(2) by (simp only: of_nat_less_iff)
  then show ?thesis
    using assms(1) by (simp add: usb_bulk_send_def usb_bulk_msg_def bit_simps halt_bnd halt_def)
qed

lemma ptp_handle_overrun:
  assumes "load_le32 (known container) 0 = Inr n" and "\<not> bit (word_of_int ep :: u16) 7"
    and "length container < unat n" and "unat n < 2 ^ 31"
  shows "ptp_handle_request (usb_ops E) fd ep container data len res rparams next_phase w =
    Some (Inl Out_of_bounds)"
  using assms usb_bulk_send_overrun [OF assms(2), of "known container" n E fd w]
  by (simp add: ptp_handle_request_def ptp_send_request_def)

text \<open>
  C23: sending an object never sends the object. After the command block, up to eight bytes of
  payload are the bytes of the address \<open>a\<close> of a local variable; a longer payload is read from
  beyond the container.
\<close>

theorem ptp_send_object_sends_address:
  assumes "ptp_response r" and "inbox d = r # ps"
    and "\<not> bit (word_of_int (ptp_endp dev) :: u16) 7" and "unat len + 12 < 2 ^ 31"
  shows "ptp_send_object (usb_ops device_env) device_env dev a object len res d =
    (if 8 < unat len then Some (Inl Out_of_bounds)
     else Some (Inr ((0, None, map_option (ptp_report [] r) res, None),
       d\<lparr>signals := 0, inbox := ps, seed := seed d + 1,
         outbox := outbox d @
           [known (ptp_command 0x100D (ptp_tid d) []),
            known (enc32 (12 + len) @ enc16 2 @ enc16 0x100D @ enc32 (ptp_tid d) @
              take (unat len) (enc64 a))]\<rparr>)))"
proof -
  let ?h = "enc32 (12 + len) @ enc16 2 @ enc16 0x100D @ enc32 (ptp_tid d)"
  let ?d = "d\<lparr>seed := seed d + 1, signals := 0,
    outbox := outbox d @ [known (ptp_command 0x100D (ptp_tid d) [])]\<rparr>"
  have eight: "length (enc64 a) = 8" by (simp add: enc64_def)
  have n: "unat (12 + len) = 12 + unat len"
    using assms(4) by (simp add: unat_word_ariths)
  have load: "load_le32 (known (?h @ enc64 a)) 0 = Inr (12 + len)" by simp
  have command: "ptp_send_object (usb_ops device_env) device_env dev a object len res d =
      ptp_handle_request (usb_ops device_env) (ptp_fd dev) (ptp_endp dev) (?h @ enc64 a)
        None 0 res None RESPONSE_PHASE ?d"
    using ptp_command_sent [OF assms(3), of "[]"]
    by (simp add: ptp_send_object_def bnd_apply(3) [OF get_transaction_id_device]
        ptp_cmd_command ptp_data_bytes_def ptp_header_bytes_def PTP_DATA_REQUEST_LEN_def)
  show ?thesis
  proof (cases "8 < unat len")
    case True
    then show ?thesis
      unfolding command
      using ptp_handle_overrun [OF load assms(3)] assms(4) n eight by simp
  next
    case False
    have "take (unat (12 + len)) (?h @ enc64 a) = ?h @ take (unat len) (enc64 a)"
      by (simp add: n)
    moreover have "ptp_call [] r None 0 res None" by (simp add: ptp_call_def)
    ultimately show ?thesis
      unfolding command
      using ptp_handle_request_device [OF ptp_data_phase_Nil assms(1) _ load _ _ assms(3),
          of ?d ps None 0 res None "ptp_fd dev"] False assms(2,4) n eight
      by (simp add: ptp_transaction_def)
  qed
qed

theorem ptp_send_object_sends_address_witness:
  "ptp_send_object (usb_ops device_env) device_env \<lparr>ptp_fd = 3, ptp_endp = 1\<rparr> 0x7FFE0010 [1, 2, 3 :: u8] 9
      None (idle\<lparr>inbox := [ok_response]\<rparr>) = Some (Inl Out_of_bounds) \<and>
   ptp_send_object (usb_ops device_env) device_env \<lparr>ptp_fd = 3, ptp_endp = 1\<rparr> 0x7FFE0010 [1, 2, 3 :: u8] 3
      None (idle\<lparr>inbox := [ok_response]\<rparr>) =
    Some (Inr ((0, None, None, None),
      idle\<lparr>seed := 1, outbox := [known (ptp_command 0x100D 1 []),
        known (enc32 15 @ enc16 2 @ enc16 0x100D @ enc32 1 @ take 3 (enc64 0x7FFE0010))]\<rparr>))"
  using ptp_send_object_sends_address [OF ptp_response_ok, of "idle\<lparr>inbox := [ok_response]\<rparr>" "[]"
      "\<lparr>ptp_fd = 3, ptp_endp = 1\<rparr>" 9 "0x7FFE0010" "[1, 2, 3 :: u8]" None]
    ptp_send_object_sends_address [OF ptp_response_ok, of "idle\<lparr>inbox := [ok_response]\<rparr>" "[]"
      "\<lparr>ptp_fd = 3, ptp_endp = 1\<rparr>" 3 "0x7FFE0010" "[1, 2, 3 :: u8]" None]
  by (simp add: idle_def ptp_tid_def)

text \<open>
  On every kernel that keeps the usbdevfs contract, sending object information cannot
  succeed: either a transfer fails and the result is -1, or the data container, whose length
  counts an object information that it does not hold, is read beyond its end.
\<close>

lemma ptp_send_object_info_fails:
  assumes "usbdevfs_ok E" and "\<not> bit (word_of_int (ptp_endp dev) :: u16) 7"
  shows "runs (\<not> usbdevfs_live E) (\<lambda>s. s = Out_of_bounds)
    (\<lambda>(r, data, res', rparams') w'. r = -1 \<and> res' = res \<and> rparams' = rparams)
    (ptp_send_object_info (usb_ops E) E dev a storage_id handle info len res rparams) w"
proof -
  obtain n w1 where tid: "get_transaction_id E w = Some (Inr (n, w1))"
    by (cases "sys_rand E w") (simp add: get_transaction_id_def)
  let ?Q = "\<lambda>(r, data, res', rparams') w'. r = -1 \<and> res' = res \<and> rparams' = rparams"
  let ?c = "ptp_command 0x100C n [storage_id, handle] @ enc32 0 @ enc32 0 @ enc32 0"
  have load: "load_le32 (known ?c) 0 = Inr 20" by (simp add: ptp_command_def)
  have overrun: "ptp_handle_request (usb_ops E) fd (ptp_endp dev)
      (enc32 76 @ enc16 2 @ enc16 0x100C @ enc32 n @ enc64 a) None 0 res rparams RESPONSE_PHASE w' =
    Some (Inl Out_of_bounds)" for fd w'
    by (rule ptp_handle_overrun [where n = 76]) (simp_all add: assms(2) enc64_def)
  have first: "runs (\<not> usbdevfs_live E) (\<lambda>s. s = Out_of_bounds)
      (\<lambda>(r, data, res', rparams') w'. (r = -1 \<or> r = 0) \<and> rparams' = rparams)
      (ptp_handle_request (usb_ops E) (ptp_fd dev) (ptp_endp dev) ?c None 0 None rparams DATA_PHASE) w1"
    unfolding ptp_handle_request_def ptp_send_request_def load lift_simps ret_bnd bnd_assoc
    by (rule usb.send_runs [OF assms(1) _ _ assms(2)])
      (auto simp: length_ptp_command ptp_copy_data_def cmd_simps)
  have step: "runs D F Q (bnd (get_transaction_id E) k) w = runs D F Q (k n) w1"
    for D F and Q :: "ptp_reply \<Rightarrow> 'a \<Rightarrow> bool" and k
    by (simp add: runs_def tid)
  show ?thesis
    unfolding ptp_send_object_info_def step
  proof (rule runs_bndI)
    show "runs (\<not> usbdevfs_live E) (\<lambda>s. s = Out_of_bounds)
      (\<lambda>(r, data, res', rparams') w'. (r = -1 \<or> r = 0) \<and> rparams' = rparams)
      (ptp_handle_request (usb_ops E) (ptp_fd dev) (ptp_endp dev)
        (ptp_cmd_bytes \<lparr>cmd_header = command_header 2 0x100C n,
          cmd_payload = no_params\<lparr>Parameter1 := storage_id, Parameter2 := handle\<rparr>\<rparr>)
        None 0 None rparams DATA_PHASE) w1"
      using first by (simp add: ptp_cmd_command)
  next
    fix r :: ptp_reply and w' :: 'a
    assume "(\<lambda>(r, data, res', rparams') w'. (r = -1 \<or> r = 0) \<and> rparams' = rparams) r w'"
    then show "runs (\<not> usbdevfs_live E) (\<lambda>s. s = Out_of_bounds) ?Q
      (case r of (r, _, _, rparams) \<Rightarrow>
        if r < 0 then ret (- 1, None, res, rparams)
        else ptp_handle_request (usb_ops E) (ptp_fd dev) (ptp_endp dev)
          (ptp_data_bytes \<lparr>data_header = \<lparr>ContaierLength = PTP_DATA_REQUEST_LEN (of_nat OBJECT_INFO2_SIZE),
            ContainerType = 2, Code = 0x100C, TransacionID = n\<rparr>, data_payload = enc64 a\<rparr>)
          None 0 res rparams RESPONSE_PHASE) w'"
      using overrun
      by (auto simp: ptp_data_bytes_def ptp_header_bytes_def PTP_DATA_REQUEST_LEN_def runs_def
          ret_def split: prod.splits)
  qed
qed

lemma ptp_send_object_info_fails_example:
  "runs False (\<lambda>s. s = Out_of_bounds)
    (\<lambda>(r, data, res', rparams') w'. r = -1 \<and> res' = None \<and> rparams' = None)
    (ptp_send_object_info (usb_ops device_env) device_env \<lparr>ptp_fd = 3, ptp_endp = 1\<rparr> 0 1 0 () 0
      None None) idle"
  using ptp_send_object_info_fails [of device_env "\<lparr>ptp_fd = 3, ptp_endp = 1\<rparr>" None None] by simp

section \<open>Unexpected answers\<close>



text \<open>A receive from a device that has nothing to send keeps the buffer as it was.\<close>

lemma ptp_recv_nothing:
  "inbox d = [] \<Longrightarrow>
   usb_bulk_recv device_env fd ep b 512 d = Some (Inr ((-1, b), d\<lparr>signals := 0\<rparr>))"
  by (rule device_recv_empty) simp_all

lemma ptp_handle_request_failed:
  assumes n: "load_le32 (known container) 0 = Inr n" "unat n \<le> length container" "unat n < 2 ^ 31"
    and ep: "\<not> bit (word_of_int ep :: u16) 7"
    and recv: "\<And>d'. inbox d' = inbox d \<Longrightarrow> signals d' = 0 \<Longrightarrow>
      ptp_recv_loop (usb_ops device_env) fd (word_of_int ep) 0 (uninit 512) (uninit 2048) res
        rparams d' = stuck" "stuck = None \<or> (\<exists>s. stuck = Some (Inl s))"
  shows "ptp_handle_request (usb_ops device_env) fd ep container data len res rparams
      RESPONSE_PHASE d = map_option (map_sum id undefined) stuck"
proof -
  let ?d = "d\<lparr>signals := 0, outbox := outbox d @ [known (take (unat n) container)]\<rparr>"
  have send: "usb_bulk_send device_env fd (word_of_int ep) (known container) n d =
      Some (Inr ((uint n, known container), ?d))"
    using device_send [OF ep, of n "known container" fd d] n by simp
  have "ptp_recv_loop (usb_ops device_env) fd (word_of_int ep) 0 (uninit 512) (uninit 2048) res
      rparams ?d = stuck"
    by (rule recv(1)) simp_all
  with n(1) send recv(2) show ?thesis
    by (auto simp: ptp_handle_request_def ptp_send_request_def)
qed

lemma ptp_recv_loop_unanswered:
  assumes "inbox d = []"
  shows "ptp_recv_loop (usb_ops device_env) fd ep 0 (uninit 512) data res rparams d =
    Some (Inl Uninitialised)"
  using ptp_recv_nothing [OF assms, of fd ep "uninit 512"]
  by (subst ptp_recv_loop.simps) (simp add: RESPONSE_LENGTH_MASK_def load_le32_def halt_def)

lemma ptp_recv_loop_broken_off:
  assumes "inbox d = [c]" and c: "16 \<le> length c" "length c \<le> 512" "load_le16 (known c) 4 = Inr 2"
    and total: "load_le32 (known c) 0 = Inr m" "length c < unat m" "unat m < 2 ^ 31"
  shows "ptp_recv_loop (usb_ops device_env) fd ep 0 (uninit 512) (uninit 2048) res rparams d =
    Some (Inl Out_of_bounds)"
proof -
  let ?rb = "overwrite c (uninit 512)"
  let ?e = "d\<lparr>signals := 0, inbox := []\<rparr>"
  have first: "usb_bulk_recv device_env fd (ep) (uninit 512) 512 d =
      Some (Inr ((int (length c), ?rb), ?e))"
    by (rule ptp_recv_512) (use assms(1) c in auto)
  have ty: "load_le16 ?rb 4 = Inr 2" and len: "load_le32 ?rb 0 = Inr m"
    using c total by (simp_all add: load_le16_overwrite load_le32_overwrite)
  have "int (length c) < sint m" "sint m < 2 ^ 31"
    using total(2) uint_bound [OF total(3)] int_le_uint [of "Suc (length c)" m]
    by (simp_all add: sint_eq_uint [OF total(3)])
  then have more: "cint (sint m - int (length c)) \<noteq> 0"
    by simp
  have copy: "memcpy (uninit 2048) 0 ?rb 0 (length c) = Inr (overwrite c (uninit 2048))"
    using c by (intro memcpy_from_overwrite_front) simp_all
  have quiet: "usb_bulk_recv device_env fd (ep) ?rb 512 ?e =
      Some (Inr ((-1, ?rb), ?e))"
    using ptp_recv_nothing [of ?e fd "ep" ?rb] by simp
  have "ptp_data_loop (usb_ops device_env) fd (ep) (int (length c)) (sint m) 0 ?rb
      (uninit 2048) ?e =
    ptp_data_loop (usb_ops device_env) fd (ep) (-1)
      (cint (sint m - int (length c))) (length c) ?rb (overwrite c (uninit 2048)) ?e"
    using quiet copy more c(2)
    by (subst ptp_data_loop.simps) simp
  also have "\<dots> = Some (Inl Out_of_bounds)"
    using c(2)
    by (subst ptp_data_loop.simps) (simp add: size_of_int_minus_one memcpy_def halt_def)
  finally show ?thesis
    using first ty len
    by (subst ptp_recv_loop.simps)
      (simp add: RESPONSE_LENGTH_MASK_def RESPONSE_TYPE_MASK_def)
qed

text \<open>
  C24: the result of a receive is not checked. A receive that fails after a request makes the
  code interpret a buffer that nothing has written; one that fails in the middle of a data
  container makes it copy as many bytes as -1 converts to.
\<close>

theorem ptp_unanswered_request:
  assumes n: "load_le32 (known container) 0 = Inr n" "unat n \<le> length container" "unat n < 2 ^ 31"
    and ep: "\<not> bit (word_of_int ep :: u16) 7"
    and c: "16 \<le> length c" "length c \<le> 512" "load_le16 (known c) 4 = Inr 2"
    and total: "load_le32 (known c) 0 = Inr m" "length c < unat m" "unat m < 2 ^ 31"
  shows "(inbox d = [] \<longrightarrow>
      ptp_handle_request (usb_ops device_env) fd ep container data len res rparams
        RESPONSE_PHASE d = Some (Inl Uninitialised)) \<and>
    (inbox d = [c] \<longrightarrow>
      ptp_handle_request (usb_ops device_env) fd ep container data len res rparams
        RESPONSE_PHASE d = Some (Inl Out_of_bounds))"
  using ptp_recv_loop_unanswered ptp_recv_loop_broken_off [OF _ c total]
    ptp_handle_request_failed [OF n ep, where stuck = "Some (Inl Uninitialised)"]
    ptp_handle_request_failed [OF n ep, where stuck = "Some (Inl Out_of_bounds)"]
  by simp

theorem ptp_unanswered_request_witness:
  "ptp_handle_request (usb_ops device_env) 3 1 (ptp_command 0x1002 0 [5]) None 0 None None
      RESPONSE_PHASE idle = Some (Inl Uninitialised) \<and>
   ptp_handle_request (usb_ops device_env) 3 1 (ptp_command 0x1002 0 [5]) None 0 None None
      RESPONSE_PHASE (idle\<lparr>inbox := [[17, 0, 0, 0, 2, 0, 1, 0x10, 1, 0, 0, 0, 1, 2, 3, 4]]\<rparr>) =
    Some (Inl Out_of_bounds)"
proof -
  let ?c = "[17, 0, 0, 0, 2, 0, 1, 0x10, 1, 0, 0, 0, 1, 2, 3, 4] :: u8 list"
  have n: "load_le32 (known (ptp_command 0x1002 0 [5])) 0 = Inr 16"
    by (simp add: ptp_command_def)
  have c: "load_le16 (known ?c) 4 = Inr 2" "load_le32 (known ?c) 0 = Inr 17"
    by (simp_all add: load_le16_def load_le32_def le16_def le32_def known_def)
  show ?thesis
    using ptp_unanswered_request [OF n _ _ _ _ _ c(1) c(2), where ep = 1 and d = idle]
      ptp_unanswered_request [OF n _ _ _ _ _ c(1) c(2), where ep = 1
        and d = "idle\<lparr>inbox := [?c]\<rparr>"]
    by (simp add: length_ptp_command idle_def)
qed

lemma ptp_recv_loop_stale:
  assumes "inbox d = []" and "load_le32 rb 0 = Inr n" and "load_le16 rb 4 = Inr ty"
    and "ty \<noteq> 2" and "ty \<noteq> 3"
  shows "ptp_recv_loop (usb_ops device_env) fd ep offset rb data res rparams d = None"
proof (rule ccontr)
  let ?P = "\<lambda>B fd ep offset rb data res rparams d r. \<not> (B = usb_ops device_env \<and> inbox d = [] \<and>
    (\<exists>n. load_le32 rb 0 = Inr n) \<and> (\<exists>ty. load_le16 rb 4 = Inr ty \<and> ty \<noteq> 2 \<and> ty \<noteq> 3))"
  assume "ptp_recv_loop (usb_ops device_env) fd ep offset rb data res rparams d \<noteq> None"
  then obtain r where
    r: "ptp_recv_loop (usb_ops device_env) fd ep offset rb data res rparams d = Some r"
    by auto
  have "?P (usb_ops device_env) fd ep offset rb data res rparams d r"
  proof (rule ptp_recv_loop.raw_induct [where P = ?P, OF _ r])
    fix f B fd ep offset rb data res rparams d r
    assume IH: "\<And>B fd ep offset rb data res rparams d r.
        f B fd ep offset rb data res rparams d = Some r \<Longrightarrow>
        ?P B fd ep offset rb data res rparams d r"
      and step: "bnd (bulk_recv B fd ep rb 512) (\<lambda>r.
       bnd (lift (RESPONSE_LENGTH_MASK (snd r))) (\<lambda>data_len.
       bnd (lift (RESPONSE_TYPE_MASK (snd r))) (\<lambda>ty.
       if ty = PTP_CONTAINER_TYPE_DATA_BLOCK then
         bnd (ptp_data_loop B fd ep (fst r) (sint data_len) offset (snd r) data) (\<lambda>s.
         bnd (ptp_set_length res (fst (snd s))) (\<lambda>res.
         f B fd ep (snd (snd s)) (fst s) (fst (snd s)) res rparams))
       else if ty = PTP_CONTAINER_TYPE_RESPONSE_BLOCK then
         bnd (ptp_set_code res (snd r)) (\<lambda>res.
         bnd (ptp_copy_params rparams (snd r)) (\<lambda>rparams.
         ret (data, res, rparams)))
       else f B fd ep offset (snd r) data res rparams))) d = Some r"
    show "?P B fd ep offset rb data res rparams d r"
    proof
      assume *: "B = usb_ops device_env \<and> inbox d = [] \<and> (\<exists>n. load_le32 rb 0 = Inr n) \<and>
        (\<exists>ty. load_le16 rb 4 = Inr ty \<and> ty \<noteq> 2 \<and> ty \<noteq> 3)"
      then have "f B fd ep offset rb data res rparams (d\<lparr>signals := 0\<rparr>) = Some r"
        using step ptp_recv_nothing [of d fd ep rb]
        by (auto simp: RESPONSE_LENGTH_MASK_def RESPONSE_TYPE_MASK_def)
      from IH [OF this] * show False by simp
    qed
  qed
  with assms show False by blast
qed

text \<open>
  C25: a container that is neither data nor response, such as an event, is skipped; if every
  receive after it fails, the request never returns, as failed receives leave the last container in place.
\<close>

theorem ptp_unknown_block_diverges:
  assumes n: "load_le32 (known container) 0 = Inr n" "unat n \<le> length container" "unat n < 2 ^ 31"
    and ep: "\<not> bit (word_of_int ep :: u16) 7"
    and c: "8 \<le> length c" "length c \<le> 512" "load_le16 (known c) 4 = Inr ty" "ty \<noteq> 2" "ty \<noteq> 3"
    and inbox: "inbox d = [c]"
  shows "ptp_handle_request (usb_ops device_env) fd ep container data len res rparams
    RESPONSE_PHASE d = None"
proof -
  have "ptp_recv_loop (usb_ops device_env) fd (word_of_int ep) 0 (uninit 512) (uninit 2048) res
      rparams d' = None" if "inbox d' = inbox d" for d'
  proof -
    let ?rb = "overwrite c (uninit 512)"
    have first: "usb_bulk_recv device_env fd (word_of_int ep) (uninit 512) 512 d' =
        Some (Inr ((int (length c), ?rb), d'\<lparr>signals := 0, inbox := []\<rparr>))"
      by (rule ptp_recv_512) (use inbox that c in auto)
    obtain m where m: "load_le32 ?rb 0 = Inr m"
      using c load_le32_known [of 0 c] by (simp add: load_le32_overwrite)
    have ty: "load_le16 ?rb 4 = Inr ty"
      using c by (simp add: load_le16_overwrite)
    show ?thesis
      using first m ty c(4,5) ptp_recv_loop_stale [OF _ m ty c(4,5)]
      by (subst ptp_recv_loop.simps)
        (simp add: RESPONSE_LENGTH_MASK_def RESPONSE_TYPE_MASK_def)
  qed
  then show ?thesis
    using ptp_handle_request_failed [OF n ep, where stuck = None] by simp
qed

theorem ptp_unknown_block_diverges_witness:
  "ptp_handle_request (usb_ops device_env) 3 1 (ptp_command 0x1002 0 [5]) None 0 None None
      RESPONSE_PHASE (idle\<lparr>inbox := [[12, 0, 0, 0, 4, 0, 2, 0x40, 0, 0, 0, 0]]\<rparr>) = None"
proof -
  let ?c = "[12, 0, 0, 0, 4, 0, 2, 0x40, 0, 0, 0, 0] :: u8 list"
  have n: "load_le32 (known (ptp_command 0x1002 0 [5])) 0 = Inr 16"
    by (simp add: ptp_command_def)
  have c: "load_le16 (known ?c) 4 = Inr 4"
    by (simp add: load_le16_def le16_def known_def)
  show ?thesis
    using ptp_unknown_block_diverges [OF n _ _ _ _ _ c, where ep = 1
        and d = "idle\<lparr>inbox := [?c]\<rparr>"]
    by (simp add: length_ptp_command)
qed

lemma ptp_data_loop_overrun:
  assumes "\<forall>c' \<in> set (c # cs). c' \<noteq> [] \<and> length c' \<le> 512" and "signals d = 0"
    and "inbox d = cs @ ps" and "length rb = 512"
    and "length data < offset + length (concat (c # cs))"
    and "length (concat (c # cs)) < 2 ^ 31"
  shows "ptp_data_loop (usb_ops device_env) fd ep (int (length c))
      (int (length (concat (c # cs)))) offset (overwrite c rb) data d = Some (Inl Out_of_bounds)"
  using assms
proof (induction cs arbitrary: c d rb offset data)
  case Nil
  then have "memcpy data offset (overwrite c rb) 0 (length c) = Inl Out_of_bounds"
    by (intro memcpy_overflow) simp
  then show ?case
    using Nil by (subst ptp_data_loop.simps) (simp add: halt_def)
next
  case (Cons c' cs)
  show ?case
  proof (cases "length data < offset + length c")
    case True
    then have "memcpy data offset (overwrite c rb) 0 (length c) = Inl Out_of_bounds"
      by (rule memcpy_overflow)
    then show ?thesis
      using Cons.prems by (subst ptp_data_loop.simps) (simp add: halt_def)
  next
    case False
    let ?data = "take offset data @ known c @ drop (offset + length c) data"
    let ?n = "length (concat (c' # cs))"
    have copy: "memcpy data offset (overwrite c rb) 0 (length c) = Inr ?data"
      using Cons.prems False by (intro memcpy_from_overwrite) auto
    have "0 < length c'" using Cons.prems(1) by simp
    then have more: "int (length c') + int (length (concat cs)) \<noteq> 0" by linarith
    have left: "cint (int (length (concat (c # c' # cs))) - int (length c)) = int ?n"
      using Cons.prems(6) by simp
    have recv: "usb_bulk_recv device_env fd ep (overwrite c rb) 512 d =
        Some (Inr ((int (length c'), overwrite c' (overwrite c rb)), d\<lparr>inbox := cs @ ps\<rparr>))"
      using ptp_recv_512 [of d c' "cs @ ps" "overwrite c rb" fd ep] Cons.prems by simp
    have "ptp_data_loop (usb_ops device_env) fd ep (int (length c))
        (int (length (concat (c # c' # cs)))) offset (overwrite c rb) data d =
      ptp_data_loop (usb_ops device_env) fd ep (int (length c')) (int ?n) (offset + length c)
        (overwrite c' (overwrite c rb)) ?data (d\<lparr>inbox := cs @ ps\<rparr>)"
      using more left recv copy Cons.prems(1)
      by (subst ptp_data_loop.simps) simp
    also have "\<dots> = Some (Inl Out_of_bounds)"
      by (rule Cons.IH) (use Cons.prems False in auto)
    finally show ?thesis .
  qed
qed

lemma ptp_recv_loop_big_data:
  assumes "inbox d = c # cs @ ps"
    and cs: "\<forall>c' \<in> set (c # cs). c' \<noteq> [] \<and> length c' \<le> 512" "12 \<le> length c"
      "load_le16 (known c) 4 = Inr 2" "load_le32 (known c) 0 = Inr (of_nat (length (concat (c # cs))))"
      "2048 < length (concat (c # cs))" "length (concat (c # cs)) < 2 ^ 31"
  shows "ptp_recv_loop (usb_ops device_env) fd ep 0 (uninit 512) (uninit 2048) res rparams d =
    Some (Inl Out_of_bounds)"
proof -
  let ?n = "length (concat (c # cs))"
  have "unat (of_nat ?n :: u32) = ?n"
    by (rule unat_of_nat_u32) (use cs(6) in simp)
  then have sn: "sint (of_nat ?n :: u32) = int ?n"
    using sint_eq_uint [of "of_nat ?n"] cs(6) by (simp only: uint_nat)
  let ?e = "d\<lparr>signals := 0, inbox := cs @ ps\<rparr>"
  have first: "usb_bulk_recv device_env fd (ep) (uninit 512) 512 d =
      Some (Inr ((int (length c), overwrite c (uninit 512)), ?e))"
    by (rule ptp_recv_512) (use assms(1) cs in auto)
  have ty: "load_le16 (overwrite c (uninit 512)) 4 = Inr 2"
    and len: "load_le32 (overwrite c (uninit 512)) 0 = Inr (of_nat ?n)"
    using cs by (simp_all add: load_le16_overwrite load_le32_overwrite)
  have "ptp_data_loop (usb_ops device_env) fd (ep) (int (length c)) (int ?n) 0
      (overwrite c (uninit 512)) (uninit 2048) ?e = Some (Inl Out_of_bounds)"
    by (rule ptp_data_loop_overrun) (use cs in auto)
  note loop = this [folded sn]
  show ?thesis
    using loop
    by (subst ptp_recv_loop.simps)
      (simp add: first ty len RESPONSE_LENGTH_MASK_def RESPONSE_TYPE_MASK_def)
qed

lemma ptp_recv_loop_long_response:
  assumes "inbox d = r # ps"
    and r: "24 < length r" "length r \<le> 512" "load_le16 (known r) 4 = Inr 3"
      "load_le32 (known r) 0 = Inr (of_nat (length r))" "length p = 12"
  shows "ptp_recv_loop (usb_ops device_env) fd ep 0 (uninit 512) data res (Some p) d =
    Some (Inl Out_of_bounds)"
proof -
  have "unat (of_nat (length r) :: u32) = length r"
    by (rule unat_of_nat_u32) (use r(2) in simp)
  then have sn: "sint (of_nat (length r) :: u32) = int (length r)"
    using sint_eq_uint [of "of_nat (length r)"] r(2) by (simp only: uint_nat) simp
  let ?rb = "overwrite r (uninit 512)"
  have first: "usb_bulk_recv device_env fd (ep) (uninit 512) 512 d =
      Some (Inr ((int (length r), ?rb), d\<lparr>signals := 0, inbox := ps\<rparr>))"
    by (rule ptp_recv_512) (use assms(1) r in auto)
  have ty: "load_le16 ?rb 4 = Inr 3" and len: "load_le32 ?rb 0 = Inr (of_nat (length r))"
    and code: "load_le16 ?rb 6 = Inr (ptp_response_code r)"
    using r by (simp_all add: load_le16_overwrite load_le32_overwrite)
      (simp add: load_le16_def ptp_response_code_def)
  have size: "size_of_int (cint (sint (word_of_nat (length r) :: u32) - 12)) = length r - 12"
    using r by (simp add: sn size_of_int_def)
  have copy: "memcpy p 0 ?rb 12 (length r - 12) = Inl Out_of_bounds"
    using r by (intro memcpy_overflow) simp
  show ?thesis
    by (subst ptp_recv_loop.simps)
      (simp add: first ty len code size copy RESPONSE_LENGTH_MASK_def RESPONSE_TYPE_MASK_def
        RESPONSE_CODE_MASK_def ptp_set_code_def ptp_copy_params_def ret_def halt_def
        split: option.splits)
qed

text \<open>
  C26: a data container whose transfers are as announced but that is longer than the 2048 bytes
  of the response buffer is written past its end; so is a response with more than three
  parameters past the caller's parameter block. Neither length is compared with the space.
\<close>

theorem ptp_answer_overruns_buffers:
  assumes n: "load_le32 (known container) 0 = Inr n" "unat n \<le> length container" "unat n < 2 ^ 31"
    and ep: "\<not> bit (word_of_int ep :: u16) 7"
    and cs: "\<forall>c' \<in> set (c # cs). c' \<noteq> [] \<and> length c' \<le> 512" "12 \<le> length c"
      "load_le16 (known c) 4 = Inr 2" "load_le32 (known c) 0 = Inr (of_nat (length (concat (c # cs))))"
      "2048 < length (concat (c # cs))" "length (concat (c # cs)) < 2 ^ 31"
    and r: "24 < length r" "length r \<le> 512" "load_le16 (known r) 4 = Inr 3"
      "load_le32 (known r) 0 = Inr (of_nat (length r))" "length p = 12"
  shows "(inbox d = c # cs @ ps \<longrightarrow>
      ptp_handle_request (usb_ops device_env) fd ep container data len res rparams
        RESPONSE_PHASE d = Some (Inl Out_of_bounds)) \<and>
    (inbox d = r # ps \<longrightarrow>
      ptp_handle_request (usb_ops device_env) fd ep container data len res (Some p)
        RESPONSE_PHASE d = Some (Inl Out_of_bounds))"
  using ptp_recv_loop_big_data [OF _ cs, of _ ps] ptp_recv_loop_long_response [OF _ r, of _ ps]
    ptp_handle_request_failed [OF n ep, where stuck = "Some (Inl Out_of_bounds)"]
  by simp

definition big_block :: "u8 list" where
  "big_block = [0, 10, 0, 0, 2, 0] @ replicate 506 0"

definition big_rest :: "u8 list list" where
  "big_rest = replicate 4 (replicate 512 0)"

definition long_response :: "u8 list" where
  "long_response = [28, 0, 0, 0, 3, 0, 1, 0x20] @ replicate 20 0"

lemma big_answer:
  "length (concat (big_block # big_rest)) = 2560"
  "\<forall>c' \<in> set (big_block # big_rest). c' \<noteq> [] \<and> length c' \<le> 512" "length big_block = 512"
  "load_le16 (known big_block) 4 = Inr 2" "load_le32 (known big_block) 0 = Inr 2560"
proof -
  show "length (concat (big_block # big_rest)) = 2560"
    by (simp add: big_block_def big_rest_def length_concat sum_list_replicate)
  show "\<forall>c' \<in> set (big_block # big_rest). c' \<noteq> [] \<and> length c' \<le> 512"
    by (auto simp: big_block_def big_rest_def)
  show "length big_block = 512" by (simp add: big_block_def)
  show "load_le16 (known big_block) 4 = Inr 2" "load_le32 (known big_block) 0 = Inr 2560"
    by (simp_all add: big_block_def load_le16_def load_le32_def le16_def le32_def)
qed

lemma long_response:
  "length long_response = 28" "load_le16 (known long_response) 4 = Inr 3"
  "load_le32 (known long_response) 0 = Inr 28"
  by (simp_all add: long_response_def load_le16_def load_le32_def le16_def le32_def)

theorem ptp_answer_overruns_buffers_witness:
  "ptp_handle_request (usb_ops device_env) 3 1 (ptp_command 0x1009 1 [5]) (Some (uninit 4096)) 4096
      None None RESPONSE_PHASE (idle\<lparr>inbox := big_block # big_rest\<rparr>) =
    Some (Inl Out_of_bounds) \<and>
   ptp_handle_request (usb_ops device_env) 3 1 (ptp_command 0x1009 1 [5]) (Some (uninit 4096)) 4096
      None (Some (uninit 12)) RESPONSE_PHASE (idle\<lparr>inbox := [long_response]\<rparr>) =
    Some (Inl Out_of_bounds)"
proof -
  have n: "load_le32 (known (ptp_command 0x1009 1 [5])) 0 = Inr 16"
    by (simp add: ptp_command_def)
  note overrun = ptp_answer_overruns_buffers [OF n _ _ _ big_answer(2) _ big_answer(4) _ _ _ _ _
      long_response(2), where ep = 1 and ps = "[]" and p = "uninit 12",
      unfolded big_answer(1,3,5) long_response(1,3)]
  have "ptp_handle_request (usb_ops device_env) 3 1 (ptp_command 0x1009 1 [5]) (Some (uninit 4096))
      4096 None None RESPONSE_PHASE (idle\<lparr>inbox := big_block # big_rest\<rparr>) =
    Some (Inl Out_of_bounds)"
    by (rule overrun [THEN conjunct1, THEN mp]) (simp_all add: length_ptp_command)
  moreover have "ptp_handle_request (usb_ops device_env) 3 1 (ptp_command 0x1009 1 [5])
      (Some (uninit 4096)) 4096 None (Some (uninit 12)) RESPONSE_PHASE
      (idle\<lparr>inbox := [long_response]\<rparr>) = Some (Inl Out_of_bounds)"
    by (rule overrun [THEN conjunct2, THEN mp]) (simp_all add: length_ptp_command)
  ultimately show ?thesis by simp
qed

text \<open>
  C12: an answer without a data container, such as an error response, leaves the length of the
  report as the caller set it. If it is at most the length of the caller's buffer and the 2048 bytes
  of the response buffer, as many bytes that nothing has written replace the front of the caller's
  buffer.
\<close>

theorem ptp_stale_length_copied:
  assumes n: "load_le32 (known container) 0 = Inr n" "unat n \<le> length container" "unat n < 2 ^ 31"
    and ep: "\<not> bit (word_of_int ep :: u16) 7"
    and r: "ptp_response r" "inbox d = r # ps"
    and b: "unat len \<le> length b" "ptp_length x \<le> len" "unat (ptp_length x) \<le> 2048"
  shows "ptp_handle_request (usb_ops device_env) fd ep container (Some b) len (Some x) None
      RESPONSE_PHASE d =
    Some (Inr ((0, Some (uninit (unat (ptp_length x)) @ drop (unat (ptp_length x)) b),
        Some (x\<lparr>ptp_code := ptp_response_code r\<rparr>), None),
      d\<lparr>signals := 0, inbox := ps, outbox := outbox d @ [known (take (unat n) container)]\<rparr>))"
proof -
  let ?k = "unat (ptp_length x)"
  let ?d = "d\<lparr>signals := 0, outbox := outbox d @ [known (take (unat n) container)]\<rparr>"
  have send: "usb_bulk_send device_env fd (word_of_int ep) (known container) n d =
      Some (Inr ((uint n, known container), ?d))"
    using device_send [OF ep, of n "known container" fd d] n by simp
  have recv: "ptp_recv_loop (usb_ops device_env) fd (word_of_int ep) 0 (uninit 512)
      (uninit 2048) (Some x) None ?d =
    Some (Inr ((uninit 2048, Some (x\<lparr>ptp_code := ptp_response_code r\<rparr>), None),
      ?d\<lparr>inbox := ps\<rparr>))"
    using ptp_recv_response_device [OF r(1), of ?d ps "uninit 512" None] r(2) by simp
  have "\<not> len < ptp_length x" using b(2) by simp
  moreover have "?k \<le> unat len" using b(2) by (simp add: word_le_nat_alt)
  then have "memcpy b 0 (uninit 2048) 0 ?k = Inr (uninit ?k @ drop ?k b)"
    using b by (simp add: memcpy_def uninit_def)
  ultimately show ?thesis
    using n(1) send recv
    by (simp add: ptp_handle_request_def ptp_send_request_def ptp_copy_data_def ret_def Let_def)
qed

theorem ptp_stale_length_copied_witness:
  "ptp_handle_request (usb_ops device_env) 3 1 (ptp_command 0x1009 1 [5]) (Some (known [1, 2, 3])) 3
      (Some \<lparr>ptp_length = 2, ptp_code = 0\<rparr>) None RESPONSE_PHASE (idle\<lparr>inbox := [ok_response]\<rparr>) =
    Some (Inr ((0, Some (uninit 2 @ known [3]), Some \<lparr>ptp_length = 2, ptp_code = 0x2001\<rparr>, None),
      idle\<lparr>outbox := [known (ptp_command 0x1009 1 [5])]\<rparr>))"
proof -
  have n: "load_le32 (known (ptp_command 0x1009 1 [5])) 0 = Inr 16"
    by (simp add: ptp_command_def)
  have code: "ptp_response_code ok_response = 0x2001"
    by (simp add: ptp_response_code_def ok_response_def le16_def)
  show ?thesis
    using ptp_stale_length_copied [OF n _ _ _ ptp_response_ok, where ep = 1
        and d = "idle\<lparr>inbox := [ok_response]\<rparr>" and ps = "[]" and len = 3
        and b = "known [1, 2, 3]" and x = "\<lparr>ptp_length = 2, ptp_code = 0\<rparr>" and fd = 3]
    by (simp add: length_ptp_command idle_def code)
qed

end
