(* ===== verification/Ptp_Remote.thy ===== *)
theory Ptp_Remote
  imports Ptp_Link
begin

text \<open>
  The operations of \<^verbatim>\<open>lib/ptp/ptp.c\<close> as remote calls. A responder is a machine over any
  state that answers an operation code, a transaction id and parameters with data, a response
  code and response parameters; the device it runs in speaks the containers of the protocol. Over
  every responder an operation of the library is one step of it, and a sequence of operations is
  the sequence of its steps.
\<close>

section \<open>A responder behind the bus\<close>

record ptp_answer =
  answer_data :: "u8 list option"
  answer_code :: u16
  answer_params :: "u32 list"

type_synonym 's responder = "'s \<Rightarrow> u16 \<Rightarrow> u32 \<Rightarrow> u32 list \<Rightarrow> ptp_answer \<times> 's"

text \<open>What fits the buffers of the library: 2048 bytes with the header, and three parameters.\<close>

definition answer_ok :: "ptp_answer \<Rightarrow> bool" where
  "answer_ok a \<longleftrightarrow>
     (case answer_data a of None \<Rightarrow> True | Some p \<Rightarrow> length p \<le> 2036) \<and> length (answer_params a) \<le> 3"

text \<open>The containers of the device, and the transfers they are cut into.\<close>

definition container_bytes :: "u16 \<Rightarrow> u16 \<Rightarrow> u32 \<Rightarrow> u8 list \<Rightarrow> u8 list" where
  "container_bytes ty code tid p =
     enc32 (of_nat (12 + length p)) @ enc16 ty @ enc16 code @ enc32 tid @ p"

definition data_container :: "u16 \<Rightarrow> u32 \<Rightarrow> ptp_answer \<Rightarrow> u8 list" where
  "data_container code tid a =
     (case answer_data a of None \<Rightarrow> [] | Some p \<Rightarrow> container_bytes PTP_CONTAINER_TYPE_DATA_BLOCK code tid p)"

definition enc32s :: "u32 list \<Rightarrow> u8 list" where
  "enc32s xs = concat (map enc32 xs)"

definition response_container :: "u32 \<Rightarrow> ptp_answer \<Rightarrow> u8 list" where
  "response_container tid a =
     container_bytes PTP_CONTAINER_TYPE_RESPONSE_BLOCK (answer_code a) tid (enc32s (answer_params a))"

fun transfers :: "'a list \<Rightarrow> 'a list list" where
  "transfers [] = []"
| "transfers (x # xs) = take 512 (x # xs) # transfers (drop 511 xs)"

lemma concat_transfers [simp]: "concat (transfers xs) = xs"
  by (induction xs rule: transfers.induct) simp_all

lemma transfers_bound: "c \<in> set (transfers xs) \<Longrightarrow> c \<noteq> [] \<and> length c \<le> 512"
  by (induction xs rule: transfers.induct) auto

lemma hd_transfers: "xs \<noteq> [] \<Longrightarrow> hd (transfers xs) = take 512 xs"
  by (cases xs) simp_all

lemma transfers_Nil [simp]: "transfers xs = [] \<longleftrightarrow> xs = []"
  by (cases xs) simp_all

text \<open>The device reads a command block with its parameters and ignores any other transfer.\<close>

fun dec32s :: "buf \<Rightarrow> u32 list" where
  "dec32s (Some a # Some b # Some c # Some d # r) = le32 a b c d # dec32s r"
| "dec32s _ = []"

definition ptp_machine :: "'s responder \<Rightarrow> 's machine" where
  "ptp_machine respond s b =
     (case sbind (load_le16 b 4) (\<lambda>ty. sbind (load_le16 b 6) (\<lambda>code. sbind (load_le32 b 8) (\<lambda>tid.
        Inr (ty, code, tid)))) of
        Inl _ \<Rightarrow> ([], s)
      | Inr (ty, code, tid) \<Rightarrow>
          if ty = PTP_CONTAINER_TYPE_COMMAND_BLOCK
          then (case respond s code tid (dec32s (drop 12 b)) of
                  (a, s') \<Rightarrow> (transfers (data_container code tid a) @ [response_container tid a], s'))
          else ([], s))"

lemma length_enc32s [simp]: "length (enc32s xs) = 4 * length xs"
  by (induction xs) (simp_all add: enc32s_def)

lemma dec32s_enc32s [simp]: "dec32s (known (enc32s xs)) = xs"
proof (induction xs)
  case (Cons x xs)
  then show ?case using le32_enc32 [of x] by (simp add: enc32s_def enc32_def known_def)
qed (simp add: enc32s_def known_def)

lemma length_container_bytes [simp]: "length (container_bytes ty code tid p) = 12 + length p"
  by (simp add: container_bytes_def)

lemma container_bytes_nonempty [simp]: "container_bytes ty code tid p \<noteq> []"
  by (simp add: container_bytes_def enc32_def)

text \<open>The fields of a container read back.\<close>

lemma load_container:
  "load_le32 (known (container_bytes ty code tid p) @ b) 0 = Inr (of_nat (12 + length p))"
  "load_le16 (known (container_bytes ty code tid p) @ b) 4 = Inr ty"
  "load_le16 (known (container_bytes ty code tid p) @ b) 6 = Inr code"
  "load_le32 (known (container_bytes ty code tid p) @ b) 8 = Inr tid"
proof -
  let ?n = "of_nat (12 + length p) :: u32"
  show "load_le32 (known (container_bytes ty code tid p) @ b) 0 = Inr ?n"
    by (simp add: container_bytes_def)
  show "load_le16 (known (container_bytes ty code tid p) @ b) 4 = Inr ty"
    using load_le16_skip [of "enc32 ?n" _ 0] by (simp add: container_bytes_def)
  show "load_le16 (known (container_bytes ty code tid p) @ b) 6 = Inr code"
    using load_le16_skip [of "enc32 ?n @ enc16 ty" _ 0] by (simp add: container_bytes_def)
  show "load_le32 (known (container_bytes ty code tid p) @ b) 8 = Inr tid"
    using load_le32_skip [of "enc32 ?n @ enc16 ty @ enc16 code" _ 0] by (simp add: container_bytes_def)
qed

lemmas load_container_known = load_container [where b = "[]", simplified]


lemma ptp_command_container: "ptp_command code tid params = container_bytes 1 code tid (enc32s params)"
  by (simp add: ptp_command_def container_bytes_def flip: enc32s_def)

lemma ptp_machine_command:
  "ptp_machine respond s (known (ptp_command code tid params)) =
     (case respond s code tid params of
        (a, s') \<Rightarrow> (transfers (data_container code tid a) @ [response_container tid a], s'))"
proof -
  let ?c = "container_bytes 1 code tid (enc32s params)"
  have "drop 12 (known ?c) = known (enc32s params)"
    by (simp add: container_bytes_def drop_known)
  then show ?thesis
    by (simp add: ptp_command_container ptp_machine_def load_container_known)
qed

lemma load_le16_front:
  "i + 2 \<le> length bs \<Longrightarrow> load_le16 (known bs @ b) i = load_le16 (known bs) i"
  by (simp add: load_le16_def)

lemma ptp_data_phase_answer:
  assumes "answer_ok a"
  shows "ptp_data_phase (transfers (data_container code tid a))"
proof (cases "answer_data a")
  case None
  then show ?thesis by (simp add: ptp_data_phase_def data_container_def)
next
  case (Some p)
  let ?c = "container_bytes 2 code tid p"
  have p: "length p \<le> 2036" using assms Some by (simp add: answer_ok_def)
  have c: "data_container code tid a = ?c" using Some by (simp add: data_container_def)
  have split: "known ?c = known (take 512 ?c) @ known (drop 512 ?c)"
    by (simp flip: known_append)
  have front: "load_le32 (known (take 512 ?c)) 0 = load_le32 (known ?c) 0"
      "load_le16 (known (take 512 ?c)) 4 = load_le16 (known ?c) 4"
    using load_le32_front [of 0 "take 512 ?c" "known (drop 512 ?c)"]
      load_le16_front [of 4 "take 512 ?c" "known (drop 512 ?c)"]
    by (simp_all flip: known_append)
  show ?thesis
    unfolding c ptp_data_phase_def concat_transfers
    using p transfers_bound [of _ ?c]
    by (auto simp: hd_transfers front load_container_known)
qed

lemma ptp_response_answer:
  assumes "answer_ok a"
  shows "ptp_response (response_container tid a)"
    and "ptp_response_code (response_container tid a) = answer_code a"
    and "drop 12 (response_container tid a) = enc32s (answer_params a)"
proof -
  let ?c = "container_bytes 3 (answer_code a) tid (enc32s (answer_params a))"
  have c: "response_container tid a = ?c" by (simp add: response_container_def)
  show "ptp_response (response_container tid a)"
    using assms unfolding c by (simp add: ptp_response_def load_container_known answer_ok_def)
  have "load_le16 (known ?c) 6 = Inr (le16 (?c ! 6) (?c ! 7))"
    by (simp add: load_le16_def)
  then show "ptp_response_code (response_container tid a) = answer_code a"
    unfolding c ptp_response_code_def by (simp add: load_container_known)
  show "drop 12 (response_container tid a) = enc32s (answer_params a)"
    unfolding c by (simp add: container_bytes_def)
qed


section \<open>The operations\<close>

text \<open>
  The operations that make one request without a data phase from the host, as a datatype with the
  arguments of the C functions; the caller's buffers come separately. Setting a device property is
  one of them in the code, though not in the protocol. Left out are \<^verbatim>\<open>ptp_send_object_info\<close> and
  \<^verbatim>\<open>ptp_send_object\<close>, which make two requests, and \<^verbatim>\<open>ptp_initiate_capture\<close>, which makes
  none.
\<close>

datatype ptp_operation =
  Get_device_info
| Open_session u32
| Close_session
| Get_storage_ids
| Get_storage_info u32
| Get_num_objects u32 u32 u32
| Get_object_handles u32 u32 u32
| Get_object_info u32
| Get_object u32
| Get_thumb u32
| Delete_object u32 u32
| Format_store u32 u32
| Reset_device
| Self_test u32
| Set_object_protection u32 u32
| Power_down
| Get_device_prop_desc u32
| Get_device_prop_value u32
| Set_device_prop_value u32
| Reset_device_prop_value u32
| Terminate_open_capture u32
| Move_object u32 u32 u32
| Copy_object u32 u32 u32
| Get_partial_object u32 u32 u32
| Initiate_open_capture u32 u32

record ptp_caller =
  caller_data :: "buf option"
  caller_len :: u32
  caller_res :: "ptp_res option"
  caller_params :: "buf option"

fun ptp_invoke ::
    "'w usb_ops \<Rightarrow> 'w env \<Rightarrow> ptp_dev \<Rightarrow> ptp_operation \<Rightarrow> ptp_caller \<Rightarrow> ('w, ptp_reply) cmd" where
  "ptp_invoke B E dev Get_device_info c =
     ptp_get_device_info B E dev (caller_data c) (caller_len c) (caller_res c)"
| "ptp_invoke B E dev (Open_session i) c = ptp_open_session B E dev i (caller_res c)"
| "ptp_invoke B E dev Close_session c = ptp_close_session B E dev (caller_res c)"
| "ptp_invoke B E dev Get_storage_ids c =
     ptp_get_storage_id B E dev (caller_data c) (caller_len c) (caller_res c)"
| "ptp_invoke B E dev (Get_storage_info x) c =
     ptp_get_storage_info B E dev x (caller_data c) (caller_len c) (caller_res c)"
| "ptp_invoke B E dev (Get_num_objects x y z) c =
     ptp_get_num_objects B E dev x y z (caller_res c) (caller_params c)"
| "ptp_invoke B E dev (Get_object_handles x y z) c =
     ptp_get_object_handles B E dev x y z (caller_data c) (caller_len c) (caller_res c)"
| "ptp_invoke B E dev (Get_object_info x) c =
     ptp_get_object_info B E dev x (caller_data c) (caller_len c) (caller_res c)"
| "ptp_invoke B E dev (Get_object x) c =
     ptp_get_object B E dev x (caller_data c) (caller_len c) (caller_res c)"
| "ptp_invoke B E dev (Get_thumb x) c =
     ptp_get_thumb B E dev x (caller_data c) (caller_len c) (caller_res c)"
| "ptp_invoke B E dev (Delete_object x y) c =
     ptp_delete_object B E dev x y (caller_data c) (caller_len c) (caller_res c)"
| "ptp_invoke B E dev (Format_store x y) c = ptp_format_store B E dev x y (caller_res c)"
| "ptp_invoke B E dev Reset_device c = ptp_reset_device B E dev (caller_res c)"
| "ptp_invoke B E dev (Self_test x) c = ptp_self_test B E dev x (caller_res c)"
| "ptp_invoke B E dev (Set_object_protection x y) c =
     ptp_set_object_protection B E dev x y (caller_res c)"
| "ptp_invoke B E dev Power_down c = ptp_power_down B E dev (caller_res c)"
| "ptp_invoke B E dev (Get_device_prop_desc x) c =
     ptp_get_device_prop_desc B E dev x (caller_data c) (caller_len c) (caller_res c)"
| "ptp_invoke B E dev (Get_device_prop_value x) c =
     ptp_get_device_prop_value B E dev x (caller_data c) (caller_len c) (caller_res c)"
| "ptp_invoke B E dev (Set_device_prop_value x) c =
     ptp_set_device_prop_value B E dev x (caller_data c) (caller_len c) (caller_res c)"
| "ptp_invoke B E dev (Reset_device_prop_value x) c =
     ptp_reset_device_prop_value B E dev x (caller_res c)"
| "ptp_invoke B E dev (Terminate_open_capture x) c =
     ptp_terminate_open_capture B E dev x (caller_res c)"
| "ptp_invoke B E dev (Move_object x y z) c = ptp_move_object B E dev x y z (caller_res c)"
| "ptp_invoke B E dev (Copy_object x y z) c =
     ptp_copy_object B E dev x y z (caller_res c) (caller_params c)"
| "ptp_invoke B E dev (Get_partial_object x y z) c =
     ptp_get_partial_object B E dev x y z (caller_data c) (caller_len c) (caller_res c)
       (caller_params c)"
| "ptp_invoke B E dev (Initiate_open_capture x y) c =
     ptp_initiate_open_capture B E dev x y (caller_res c)"

section \<open>The remote calls they are\<close>

text \<open>
  The operation code and the parameters of the request each operation makes, and which of the
  caller's buffers it fills. The codes are the ones the header of \<^verbatim>\<open>lib/ptp\<close> gives the
  operation, except that formatting a store deletes an object.
\<close>

fun operation_request :: "ptp_operation \<Rightarrow> u16 \<times> u32 list" where
  "operation_request Get_device_info = (PTP_REQUEST_GET_DEVICE_INFO, [])"
| "operation_request (Open_session i) = (PTP_REQUEST_OPEN_SESSION, [i])"
| "operation_request Close_session = (PTP_REQUEST_CLOSE_SESSION, [])"
| "operation_request Get_storage_ids = (PTP_REQUEST_GET_STORAGE_ID, [])"
| "operation_request (Get_storage_info x) = (PTP_REQUEST_GET_STORAGE_INFO, [x])"
| "operation_request (Get_num_objects x y z) = (PTP_REQUEST_GET_NUM_OBJECTS, [x, y, z])"
| "operation_request (Get_object_handles x y z) = (PTP_REQUEST_GET_OBJECT_HANDLES, [x, y, z])"
| "operation_request (Get_object_info x) = (PTP_REQUEST_GET_OBJECT_INFO, [x])"
| "operation_request (Get_object x) = (PTP_REQUEST_GET_OBJECT, [x])"
| "operation_request (Get_thumb x) = (PTP_REQUEST_GET_THUMB, [x])"
| "operation_request (Delete_object x y) = (PTP_REQUEST_DELETE_OBJECT, [x, y])"
| "operation_request (Format_store x y) = (PTP_REQUEST_DELETE_OBJECT, [x, y])"
| "operation_request Reset_device = (PTP_REQUEST_RESET_DEVICE, [])"
| "operation_request (Self_test x) = (PTP_REQUEST_SELF_TEST, [x])"
| "operation_request (Set_object_protection x y) = (PTP_REQUEST_SET_OBJECT_PROTECTION, [x, y])"
| "operation_request Power_down = (PTP_REQUEST_POWER_DOWN, [])"
| "operation_request (Get_device_prop_desc x) = (PTP_REQUEST_GET_DEVICE_PROP_DESC, [x])"
| "operation_request (Get_device_prop_value x) = (PTP_REQUEST_GET_DEVICE_PROP_VALUE, [x])"
| "operation_request (Set_device_prop_value x) = (PTP_REQUEST_SET_DEVICE_PROP_VALUE, [x])"
| "operation_request (Reset_device_prop_value x) = (PTP_REQUEST_RESET_DEVICE_PROP_VALUE, [x])"
| "operation_request (Terminate_open_capture x) = (PTP_REQUEST_TERMINATE_OPEN_CAPTURE, [x])"
| "operation_request (Move_object x y z) = (PTP_REQUEST_MOVE_OBJECT, [y, x, z])"
| "operation_request (Copy_object x y z) = (PTP_REQUEST_COPY_OBJECT, [y, x, z])"
| "operation_request (Get_partial_object x y z) = (PTP_REQUEST_GET_PARTIAL_OBJECT, [x, y, z])"
| "operation_request (Initiate_open_capture x y) = (PTP_REQUEST_INITIAL_OPEN_CAPTURE, [x, y])"

fun fills_data :: "ptp_operation \<Rightarrow> bool" where
  "fills_data Get_device_info = True"
| "fills_data Get_storage_ids = True"
| "fills_data (Get_storage_info x) = True"
| "fills_data (Get_object_handles x y z) = True"
| "fills_data (Get_object_info x) = True"
| "fills_data (Get_object x) = True"
| "fills_data (Get_thumb x) = True"
| "fills_data (Delete_object x y) = True"
| "fills_data (Get_device_prop_desc x) = True"
| "fills_data (Get_device_prop_value x) = True"
| "fills_data (Set_device_prop_value x) = True"
| "fills_data (Get_partial_object x y z) = True"
| "fills_data _ = False"

fun fills_params :: "ptp_operation \<Rightarrow> bool" where
  "fills_params (Get_num_objects x y z) = True"
| "fills_params (Copy_object x y z) = True"
| "fills_params (Get_partial_object x y z) = True"
| "fills_params _ = False"

text \<open>A caller's buffers: as long as announced, with a cleared result for data to be reported in.\<close>

definition caller_ok :: "ptp_caller \<Rightarrow> bool" where
  "caller_ok c \<longleftrightarrow>
     (case caller_data c of None \<Rightarrow> True
      | Some b \<Rightarrow> unat (caller_len c) \<le> length b \<and>
          (case caller_res c of None \<Rightarrow> False | Some x \<Rightarrow> ptp_length x = 0)) \<and>
     (case caller_params c of None \<Rightarrow> True | Some p \<Rightarrow> length p = 12)"

text \<open>The abstract state is the responder's and the number of random numbers drawn so far.\<close>

definition drawn_tid :: "int \<Rightarrow> u32" where
  "drawn_tid n = word_of_int (1 + n mod 2147483648 mod 2147483646)"

fun draws :: "ptp_operation \<Rightarrow> bool" where
  "draws (Open_session i) = False"
| "draws _ = True"

definition operation_tid :: "ptp_operation \<Rightarrow> int \<Rightarrow> u32" where
  "operation_tid x n = (if draws x then drawn_tid n else 0)"

definition answer_report :: "u16 \<Rightarrow> u32 \<Rightarrow> ptp_answer \<Rightarrow> ptp_res \<Rightarrow> ptp_res" where
  "answer_report code tid a rs =
     (let data = data_container code tid a in
      rs\<lparr>ptp_length := (if data = [] then ptp_length rs else of_nat (length data)),
        ptp_code := answer_code a\<rparr>)"

definition remote_reply :: "ptp_operation \<Rightarrow> u32 \<Rightarrow> ptp_caller \<Rightarrow> ptp_answer \<Rightarrow> ptp_reply" where
  "remote_reply x tid c a =
     (let code = fst (operation_request x) in
      (0,
       if fills_data x
       then map_option (overwrite (take (unat (caller_len c)) (data_container code tid a))) (caller_data c)
       else None,
       map_option (answer_report code tid a) (caller_res c),
       if fills_params x then map_option (overwrite (enc32s (answer_params a))) (caller_params c)
       else None))"

definition remote_step ::
    "'s responder \<Rightarrow> ptp_operation \<Rightarrow> ptp_caller \<Rightarrow> 's \<times> int \<Rightarrow> ptp_reply \<times> 's \<times> int" where
  "remote_step respond x c st =
     (case st of (s, n) \<Rightarrow>
        let tid = operation_tid x n in
        case respond s (fst (operation_request x)) tid (snd (operation_request x)) of
          (a, s') \<Rightarrow> (remote_reply x tid c a, s', if draws x then n + 1 else n))"


section \<open>One operation is one step\<close>

text \<open>In the states of an invariant the responder gives answers the library has room for.\<close>

definition responder_ok :: "('s \<Rightarrow> bool) \<Rightarrow> 's responder \<Rightarrow> bool" where
  "responder_ok I respond \<longleftrightarrow>
     (\<forall>s code tid ps. I s \<longrightarrow>
        answer_ok (fst (respond s code tid ps)) \<and> I (snd (respond s code tid ps)))"

lemma responder_okD:
  assumes "responder_ok I respond" and "I s" and "respond s code tid ps = (a, s')"
  shows "answer_ok a" and "I s'"
  using assms by (metis responder_ok_def fst_conv, metis responder_ok_def snd_conv)

lemma react_to_command:
  assumes "respond s code tid params = (a, s')"
  shows "react_to (ptp_machine respond) (known (ptp_command code tid params)) (s, d) =
    (s', d\<lparr>signals := 0,
      inbox := inbox d @ transfers (data_container code tid a) @ [response_container tid a],
      outbox := outbox d @ [known (ptp_command code tid params)]\<rparr>)"
  by (simp add: react_to_def ptp_machine_command assms)

lemma ptp_call_answer:
  assumes "answer_ok a"
    and "\<And>b. data = Some b \<Longrightarrow> unat len \<le> length b \<and> (\<exists>x. res = Some x \<and> ptp_length x = 0)"
    and "\<And>p. rparams = Some p \<Longrightarrow> length p = 12"
  shows "ptp_call cs (response_container tid a) data len res rparams"
  using assms by (auto simp: ptp_call_def response_container_def answer_ok_def)

lemma ptp_report_answer:
  assumes "answer_ok a"
  shows "ptp_report (transfers (data_container code tid a)) (response_container tid a) =
    answer_report code tid a"
  by (simp add: fun_eq_iff ptp_report_def answer_report_def Let_def ptp_response_answer(2) [OF assms]
      del: length_concat)

lemma drawn_tid_reactive:
  "get_transaction_id (reactive_env react) (s, d) =
    Some (Inr (drawn_tid (seed d), s, d\<lparr>seed := seed d + 1\<rparr>))"
  by (simp add: get_transaction_id_def drawn_tid_def)


text \<open>What the caller sees after a step, and what the bus has seen.\<close>

definition exchanged :: "buf \<Rightarrow> device \<Rightarrow> device" where
  "exchanged b d = d\<lparr>signals := 0, inbox := [], outbox := outbox d @ [b]\<rparr>"

lemma remote_command:
  assumes "responder_ok I respond" and "I s" and "respond s code tid params = (a, s')"
    and "\<not> bit (word_of_int ep :: u16) 7" and "inbox d = []"
    and "\<And>b. data = Some b \<Longrightarrow> unat len \<le> length b \<and> (\<exists>x. res = Some x \<and> ptp_length x = 0)"
    and "\<And>p. rparams = Some p \<Longrightarrow> length p = 12" and "length params \<le> 5"
  shows "ptp_handle_request (usb_ops (reactive_env (ptp_machine respond))) fd ep
      (ptp_command code tid params @ pad) data len res rparams RESPONSE_PHASE (s, d) =
    Some (Inr ((0, map_option (overwrite (take (unat len) (data_container code tid a))) data,
      map_option (answer_report code tid a) res,
      map_option (overwrite (enc32s (answer_params a))) rparams),
      s', exchanged (known (ptp_command code tid params)) d))"
proof -
  note a = responder_okD(1) [OF assms(1-3)]
  have "inbox (snd (react_to (ptp_machine respond) (known (ptp_command code tid params)) (s, d))) =
      transfers (data_container code tid a) @ response_container tid a # []"
    by (simp add: react_to_command [of respond s code tid params a s', OF assms(3)] assms(5))
  from reactive.command_packets [OF ptp_data_phase_answer [OF a] ptp_response_answer(1) [OF a] refl
      this assms(4) ptp_call_answer [OF a assms(6,7)] assms(8), where fd = fd and pad = pad]
  show ?thesis
    by (simp add: react_to_command [of respond s code tid params a s', OF assms(3)] assms(5)
        ptp_report_answer [OF a] ptp_response_answer(3) [OF a] exchanged_def del: length_concat)
qed

text \<open>
  Over every transport the operations are the exchange of their command block; the parameters that
  are not announced are zeros behind it.
\<close>

definition unannounced :: "u32 list \<Rightarrow> u8 list" where
  "unannounced params = (if params = [] then [] else enc32s (drop (length params) [0, 0, 0, 0, 0]))"

definition ptp_exchange ::
    "'w usb_ops \<Rightarrow> ptp_dev \<Rightarrow> ptp_operation \<Rightarrow> ptp_caller \<Rightarrow> u32 \<Rightarrow> ('w, ptp_reply) cmd" where
  "ptp_exchange B dev x c tid =
     (case operation_request x of (code, params) \<Rightarrow>
        ptp_handle_request B (ptp_fd dev) (ptp_endp dev)
          (ptp_command code tid params @ unannounced params)
          (if fills_data x then caller_data c else None) (if fills_data x then caller_len c else 0)
          (caller_res c) (if fills_params x then caller_params c else None) RESPONSE_PHASE)"

lemmas ptp_control_defs =
  ptp_open_session_def ptp_close_session_def ptp_reset_device_def ptp_self_test_def
  ptp_set_object_protection_def ptp_power_down_def ptp_reset_device_prop_value_def
  ptp_terminate_open_capture_def ptp_move_object_def ptp_initiate_open_capture_def
  ptp_format_store_def

lemmas ptp_dataset_defs =
  ptp_get_device_info_def ptp_get_storage_id_def ptp_get_storage_info_def
  ptp_get_object_handles_def ptp_get_object_info_def ptp_get_object_def ptp_get_thumb_def
  ptp_get_device_prop_desc_def ptp_get_device_prop_value_def ptp_delete_object_def
  ptp_get_num_objects_def ptp_copy_object_def ptp_get_partial_object_def
  ptp_set_device_prop_value_def

lemma ptp_invoke_exchange:
  "ptp_invoke B E dev x c =
    (if draws x then bnd (get_transaction_id E) (ptp_exchange B dev x c) else ptp_exchange B dev x c 0)"
  by (cases x)
    (simp_all add: ptp_control_defs ptp_dataset_defs ptp_exchange_def [abs_def] ptp_header_command
      ptp_cmd_command unannounced_def enc32s_def)


lemma caller_okD:
  assumes "caller_ok c"
  shows "(if f then caller_data c else None) = Some b \<Longrightarrow>
      unat (if f then caller_len c else 0) \<le> length b \<and>
      (\<exists>x. caller_res c = Some x \<and> ptp_length x = 0)"
    and "(if g then caller_params c else None) = Some p \<Longrightarrow> length p = 12"
  using assms by (auto simp: caller_ok_def split: if_splits option.splits)

lemma length_operation_request: "length (snd (operation_request x)) \<le> 5"
  by (cases x) simp_all

text \<open>One operation is one step of the responder, whatever the responder is.\<close>

lemma ptp_invoke_remote:
  assumes "responder_ok I respond" and "I s" and "caller_ok c"
    and "\<not> bit (word_of_int (ptp_endp dev) :: u16) 7" and "inbox d = []"
    and "remote_step respond x c (s, seed d) = (r, s', n)"
  shows "ptp_invoke (usb_ops (reactive_env (ptp_machine respond))) (reactive_env (ptp_machine respond))
      dev x c (s, d) =
    Some (Inr (r, s', exchanged (known (ptp_command (fst (operation_request x))
      (operation_tid x (seed d)) (snd (operation_request x)))) (d\<lparr>seed := n\<rparr>)))"
proof -
  obtain code params where req: "operation_request x = (code, params)"
    by (cases "operation_request x")
  obtain a s1 where ans: "respond s code (operation_tid x (seed d)) params = (a, s1)"
    by (cases "respond s code (operation_tid x (seed d)) params")
  have n: "s' = s1" "n = (if draws x then seed d + 1 else seed d)"
      "r = remote_reply x (operation_tid x (seed d)) c a"
    using assms(6) ans req by (auto simp: remote_step_def Let_def)
  have params: "length params \<le> 5" using length_operation_request [of x] req by simp
  have reply: "r = (0, map_option (overwrite (take (unat (if fills_data x then caller_len c else 0))
        (data_container code (operation_tid x (seed d)) a))) (if fills_data x then caller_data c else None),
      map_option (answer_report code (operation_tid x (seed d)) a) (caller_res c),
      map_option (overwrite (enc32s (answer_params a))) (if fills_params x then caller_params c else None))"
    unfolding n remote_reply_def Let_def req by simp
  note exchange = remote_command [OF assms(1,2) ans assms(4) _
      caller_okD(1) [where f = "fills_data x", OF assms(3)]
      caller_okD(2) [where g = "fills_params x", OF assms(3)] params]
  have tid: "get_transaction_id (reactive_env (ptp_machine respond)) (s, d) =
      Some (Inr (drawn_tid (seed d), s, d\<lparr>seed := seed d + 1\<rparr>))"
    by (rule drawn_tid_reactive)
  show ?thesis
    using exchange [where d = "d\<lparr>seed := n\<rparr>"
        and fd = "ptp_fd dev" and pad = "unannounced params"] assms(5)
    by (cases "draws x")
      (simp_all add: ptp_invoke_exchange ptp_exchange_def req reply bnd_def tid operation_tid_def n(1,2))
qed

end
