(* ===== verification/Ptp_Events.thy ===== *)
theory Ptp_Events
  imports Ptp_Remote Ptp_Props
begin

text \<open>
  Events among the answers: the receive loop of \<^verbatim>\<open>lib/ptp/ptp.c\<close> has no case for them and
  reads on, so they change nothing for any operation.
\<close>

section \<open>Event containers\<close>

text \<open>An event is a container of its own type, with up to three parameters.\<close>

definition ptp_event :: "u16 \<Rightarrow> u32 \<Rightarrow> u32 list \<Rightarrow> u8 list" where
  "ptp_event code tid ps = container_bytes PTP_CONTAINER_TYPE_EVENT_BLOCK code tid (enc32s ps)"

lemma ptp_event_other: "length ps \<le> 3 \<Longrightarrow> ptp_other_block (ptp_event code tid ps)"
  by (simp add: ptp_other_block_def ptp_event_def load_container_known)

text \<open>An operation over the simulated device, with other blocks around the data phase.\<close>

lemma caller_ok_call:
  assumes "caller_ok c" and "ptp_response r"
  shows "ptp_call cs r (if f then caller_data c else None) (if f then caller_len c else 0)
    (caller_res c) (if g then caller_params c else None)"
  using caller_okD(1) [OF assms(1), where f = f] caller_okD(2) [OF assms(1), where g = g] assms(2)
  unfolding ptp_call_def ptp_response_def by fastforce

lemma ptp_exchange_events:
  assumes "ptp_data_phase cs" and "ptp_response r"
    and "\<forall>p \<in> set es. ptp_other_block p" and "\<forall>p \<in> set fs. ptp_other_block p"
    and "inbox d = es @ cs @ fs @ r # ps"
    and "\<not> bit (word_of_int (ptp_endp dev) :: u16) 7" and "caller_ok c"
  shows "ptp_exchange (usb_ops device_env) dev x c tid d =
    ptp_transaction (ptp_command (fst (operation_request x)) tid (snd (operation_request x))) cs r ps
      (if fills_data x then caller_data c else None) (if fills_data x then caller_len c else 0)
      (caller_res c) (if fills_params x then caller_params c else None) d"
  using sim.command_events [OF assms(1-4) refl _ assms(6) caller_ok_call
        [where f = "fills_data x" and g = "fills_params x", OF assms(7,2)]
      length_operation_request [of x], where fd = "ptp_fd dev" and tid = tid
        and code = "fst (operation_request x)" and w = d and ps = ps] assms(5)
  by (simp add: ptp_exchange_def ptp_transaction_def case_prod_beta del: length_concat split del: if_split)

section \<open>Properties\<close>

text \<open>
  C8: events, and any other blocks that are neither data nor a response, before the data phase and
  between it and the response change nothing: every operation that makes one request sends its command block and delivers the data and the response that come with them.
\<close>

theorem ptp_events_skipped:
  assumes "ptp_data_phase cs" and "ptp_response r"
    and "\<forall>p \<in> set es. ptp_other_block p" and "\<forall>p \<in> set fs. ptp_other_block p"
    and "inbox d = es @ cs @ fs @ r # ps"
    and "\<not> bit (word_of_int (ptp_endp dev) :: u16) 7" and "caller_ok c"
  shows "ptp_invoke (usb_ops device_env) device_env dev x c d =
    ptp_transaction
      (ptp_command (fst (operation_request x)) (if draws x then ptp_tid d else 0)
        (snd (operation_request x))) cs r ps
      (if fills_data x then caller_data c else None) (if fills_data x then caller_len c else 0)
      (caller_res c) (if fills_params x then caller_params c else None)
      (if draws x then d\<lparr>seed := seed d + 1\<rparr> else d)"
proof (cases "draws x")
  case True
  have "inbox (d\<lparr>seed := seed d + 1\<rparr>) = es @ cs @ fs @ r # ps" using assms(5) by simp
  from ptp_exchange_events [OF assms(1-4) this assms(6,7)] True show ?thesis
    by (simp add: ptp_invoke_exchange bnd_def get_transaction_id_device)
next
  case False
  with ptp_exchange_events [OF assms] show ?thesis by (simp add: ptp_invoke_exchange)
qed

theorem ptp_events_skipped_witness:
  "ptp_invoke (usb_ops device_env) device_env \<lparr>ptp_fd = 3, ptp_endp = 1\<rparr> (Get_thumb 9)
      \<lparr>caller_data = Some (uninit 64), caller_len = 64,
       caller_res = Some \<lparr>ptp_length = 0, ptp_code = 0\<rparr>, caller_params = None\<rparr>
      (idle\<lparr>inbox := [ptp_event 0x4002 1 [9], two_bytes, ptp_event 0x4004 1 [5], ok_response]\<rparr>) =
    ptp_transaction (ptp_command 0x100A 1 [9]) [two_bytes] ok_response [] (Some (uninit 64)) 64
      (Some \<lparr>ptp_length = 0, ptp_code = 0\<rparr>) None
      (idle\<lparr>inbox := [ptp_event 0x4002 1 [9], two_bytes, ptp_event 0x4004 1 [5], ok_response],
        seed := 1\<rparr>)"
  using ptp_events_skipped [where es = "[ptp_event 0x4002 1 [9]]" and fs = "[ptp_event 0x4004 1 [5]]"
      and x = "Get_thumb 9" and ps = "[]" and dev = "\<lparr>ptp_fd = 3, ptp_endp = 1\<rparr>"
      and d = "idle\<lparr>inbox := [ptp_event 0x4002 1 [9], two_bytes, ptp_event 0x4004 1 [5], ok_response]\<rparr>"
      and c = "\<lparr>caller_data = Some (uninit 64), caller_len = 64,
       caller_res = Some \<lparr>ptp_length = 0, ptp_code = 0\<rparr>, caller_params = None\<rparr>",
      OF ptp_data_phase_two_bytes ptp_response_ok]
  by (simp add: ptp_event_other caller_ok_def uninit_def ptp_tid_def idle_def)

end
