(* ===== verification/Ptp_Datasets.thy ===== *)
theory Ptp_Datasets
  imports Ptp
begin

text \<open>
  The datasets and code tables of \<^verbatim>\<open>lib/ptp\<close>: the packed structures of
  \<^verbatim>\<open>object.h\<close>, \<^verbatim>\<open>storage.h\<close> and \<^verbatim>\<open>dataset.h\<close> as layouts,
  and the enumerations as datatypes with their codes. Callers use them to read what the operations
  deliver and to choose arguments; no function of the repository interprets them.
\<close>

section \<open>Layouts\<close>

text \<open>
  The members of a packed structure with their sizes, in order. Pointers have eight bytes, as
  on the 64-bit machines the sizes of the library are computed for.
\<close>

type_synonym layout = "(string \<times> nat) list"

abbreviation (input) POINTER_SIZE :: nat where "POINTER_SIZE \<equiv> 8"

definition layout_size :: "layout \<Rightarrow> nat" where
  "layout_size l = sum_list (map snd l)"

fun member_offset :: "layout \<Rightarrow> string \<Rightarrow> nat option" where
  "member_offset [] m = None"
| "member_offset ((n, k) # l) m =
     (if n = m then Some 0 else map_option (\<lambda>i. k + i) (member_offset l m))"

definition object_info :: layout where
  "object_info =
     [(''StorageID'', 4), (''ObjectFormat'', 2), (''ProtectionStatus'', 2),
      (''ObjectCompressedSize'', 4), (''ThumbFormat'', 2), (''ThumbCompressedSize'', 4),
      (''ThumbPixWidth'', 4), (''ThumbPixHeight'', 4), (''ImagePixWidth'', 4),
      (''ImagePixHeight'', 4), (''ImageBitDepth'', 4), (''ParentObject'', 4),
      (''AssociationType'', 2), (''AssociationDesc'', 4), (''SequenceNumber'', 4),
      (''Filename'', POINTER_SIZE), (''CaptureDate'', POINTER_SIZE),
      (''ModificationDate'', POINTER_SIZE), (''Keywords'', POINTER_SIZE)]"

definition storage_info :: layout where
  "storage_info =
     [(''StorageType'', 2), (''FilesystemType'', 2), (''AccessCapability'', 2),
      (''MaxCapacity'', 8), (''FreeSpaceInBytes'', 8), (''FreeSpaceInImages'', 4),
      (''StorageDescription'', POINTER_SIZE), (''VolumeLabel'', POINTER_SIZE)]"

definition device_info :: layout where
  "device_info =
     [(''StandardVersion'', 2), (''VendorExtensionID'', 4), (''VendorExtensionVersion'', 2),
      (''VendorExtensionDesc'', POINTER_SIZE), (''FunctionalMode'', 2),
      (''OperationsSupported'', POINTER_SIZE), (''EventsSupported'', POINTER_SIZE),
      (''DevicePropertiesSupported'', POINTER_SIZE), (''CaptureFormats'', POINTER_SIZE),
      (''ImageFormats'', POINTER_SIZE), (''Manufacturer'', POINTER_SIZE),
      (''Model'', POINTER_SIZE), (''DeviceVersion'', POINTER_SIZE),
      (''SerialNumber'', POINTER_SIZE)]"

section \<open>Object formats\<close>

text \<open>The formats in the order of the header.\<close>

datatype object_format =
  FORMAT_UNDEFINED_NON_IMAGE
| FORMAT_ASSOCIATION
| FORMAT_SCRIPT
| FORMAT_EXECUTABLE
| FORMAT_TEXT
| FORMAT_HTML
| FORMAT_DPOF
| FORMAT_AIFF
| FORMAT_WAV
| FORMAT_MP3
| FORMAT_AVI
| FORMAT_MPEG
| FORMAT_ASF
| FORMAT_UNKNOWN_IMAGE
| FORMAT_EXIF_JPEG
| FORMAT_TIFF_EP
| FORMAT_FLASHPIX
| FORMAT_BMP
| FORMAT_CIFF
| FORMAT_UNDEFINED_RESERVED
| FORMAT_GIF
| FORMAT_JFIF
| FORMAT_PCD
| FORMAT_PICT
| FORMAT_PNG
| FORMAT_UNDEFINED_RESERVED2
| FORMAT_TIFF
| FORMAT_TIFF_IT
| FORMAT_JP2
| FORMAT_JPX

fun object_format_code :: "object_format \<Rightarrow> u16" where
  "object_format_code FORMAT_UNDEFINED_NON_IMAGE = 0x3000"
| "object_format_code FORMAT_ASSOCIATION = 0x3001"
| "object_format_code FORMAT_SCRIPT = 0x3002"
| "object_format_code FORMAT_EXECUTABLE = 0x3003"
| "object_format_code FORMAT_TEXT = 0x3004"
| "object_format_code FORMAT_HTML = 0x3005"
| "object_format_code FORMAT_DPOF = 0x3006"
| "object_format_code FORMAT_AIFF = 0x3007"
| "object_format_code FORMAT_WAV = 0x3008"
| "object_format_code FORMAT_MP3 = 0x3009"
| "object_format_code FORMAT_AVI = 0x300A"
| "object_format_code FORMAT_MPEG = 0x300B"
| "object_format_code FORMAT_ASF = 0x300C"
| "object_format_code FORMAT_UNKNOWN_IMAGE = 0x3800"
| "object_format_code FORMAT_EXIF_JPEG = 0x3801"
| "object_format_code FORMAT_TIFF_EP = 0x3802"
| "object_format_code FORMAT_FLASHPIX = 0x3803"
| "object_format_code FORMAT_BMP = 0x3804"
| "object_format_code FORMAT_CIFF = 0x3805"
| "object_format_code FORMAT_UNDEFINED_RESERVED = 0x3806"
| "object_format_code FORMAT_GIF = 0x3807"
| "object_format_code FORMAT_JFIF = 0x3808"
| "object_format_code FORMAT_PCD = 0x3809"
| "object_format_code FORMAT_PICT = 0x380A"
| "object_format_code FORMAT_PNG = 0x380B"
| "object_format_code FORMAT_UNDEFINED_RESERVED2 = 0x380C"
| "object_format_code FORMAT_TIFF = 0x380D"
| "object_format_code FORMAT_TIFF_IT = 0x380E"
| "object_format_code FORMAT_JP2 = 0x380F"
| "object_format_code FORMAT_JPX = 0x3810"

text \<open>
  The comment of each format says whether it is an image (\<^verbatim>\<open>I\<close>) or accompanies
  images (\<^verbatim>\<open>A\<close>).
\<close>

fun is_image_format :: "object_format \<Rightarrow> bool" where
  "is_image_format FORMAT_UNDEFINED_NON_IMAGE = False"
| "is_image_format FORMAT_ASSOCIATION = False"
| "is_image_format FORMAT_SCRIPT = False"
| "is_image_format FORMAT_EXECUTABLE = False"
| "is_image_format FORMAT_TEXT = False"
| "is_image_format FORMAT_HTML = False"
| "is_image_format FORMAT_DPOF = False"
| "is_image_format FORMAT_AIFF = False"
| "is_image_format FORMAT_WAV = False"
| "is_image_format FORMAT_MP3 = False"
| "is_image_format FORMAT_AVI = False"
| "is_image_format FORMAT_MPEG = False"
| "is_image_format FORMAT_ASF = False"
| "is_image_format FORMAT_UNKNOWN_IMAGE = True"
| "is_image_format FORMAT_EXIF_JPEG = True"
| "is_image_format FORMAT_TIFF_EP = True"
| "is_image_format FORMAT_FLASHPIX = True"
| "is_image_format FORMAT_BMP = True"
| "is_image_format FORMAT_CIFF = True"
| "is_image_format FORMAT_UNDEFINED_RESERVED = True"
| "is_image_format FORMAT_GIF = True"
| "is_image_format FORMAT_JFIF = True"
| "is_image_format FORMAT_PCD = True"
| "is_image_format FORMAT_PICT = True"
| "is_image_format FORMAT_PNG = True"
| "is_image_format FORMAT_UNDEFINED_RESERVED2 = True"
| "is_image_format FORMAT_TIFF = True"
| "is_image_format FORMAT_TIFF_IT = True"
| "is_image_format FORMAT_JP2 = True"
| "is_image_format FORMAT_JPX = True"

definition object_formats :: "object_format list" where
  "object_formats =
     [FORMAT_UNDEFINED_NON_IMAGE, FORMAT_ASSOCIATION, FORMAT_SCRIPT, FORMAT_EXECUTABLE,
      FORMAT_TEXT, FORMAT_HTML, FORMAT_DPOF, FORMAT_AIFF, FORMAT_WAV, FORMAT_MP3, FORMAT_AVI,
      FORMAT_MPEG, FORMAT_ASF, FORMAT_UNKNOWN_IMAGE, FORMAT_EXIF_JPEG, FORMAT_TIFF_EP,
      FORMAT_FLASHPIX, FORMAT_BMP, FORMAT_CIFF, FORMAT_UNDEFINED_RESERVED, FORMAT_GIF,
      FORMAT_JFIF, FORMAT_PCD, FORMAT_PICT, FORMAT_PNG, FORMAT_UNDEFINED_RESERVED2, FORMAT_TIFF,
      FORMAT_TIFF_IT, FORMAT_JP2, FORMAT_JPX]"

definition object_format_of :: "u16 \<Rightarrow> object_format option" where
  "object_format_of c = find (\<lambda>f. object_format_code f = c) object_formats"

section \<open>The other enumerations\<close>

datatype storage_type =
  STORAGE_UNDEFINED
| STORAGE_FIXED_ROM
| STORAGE_REMOVABLE_ROM
| STORAGE_FIXED_RAM
| STORAGE_REMOVABLE_RAM

fun storage_type_code :: "storage_type \<Rightarrow> u16" where
  "storage_type_code STORAGE_UNDEFINED = 0x0000"
| "storage_type_code STORAGE_FIXED_ROM = 0x0001"
| "storage_type_code STORAGE_REMOVABLE_ROM = 0x0002"
| "storage_type_code STORAGE_FIXED_RAM = 0x0003"
| "storage_type_code STORAGE_REMOVABLE_RAM = 0x0004"

datatype storage_filesystem =
  STORAGE_FS_UNDEFINED
| STORAGE_FS_GENERIC_FLAT
| STORAGE_FS_GENERIC_HIERARCHICAL
| STORAGE_FS_DCF

fun storage_filesystem_code :: "storage_filesystem \<Rightarrow> u16" where
  "storage_filesystem_code STORAGE_FS_UNDEFINED = 0x0000"
| "storage_filesystem_code STORAGE_FS_GENERIC_FLAT = 0x0001"
| "storage_filesystem_code STORAGE_FS_GENERIC_HIERARCHICAL = 0x0002"
| "storage_filesystem_code STORAGE_FS_DCF = 0x0003"

datatype access_capability =
  ACCESS_RW
| ACCESS_RO_WITHOUT_OD
| ACCESS_RO_WITH_OD

fun access_capability_code :: "access_capability \<Rightarrow> u16" where
  "access_capability_code ACCESS_RW = 0x0000"
| "access_capability_code ACCESS_RO_WITHOUT_OD = 0x0001"
| "access_capability_code ACCESS_RO_WITH_OD = 0x0002"

datatype file_system =
  FS_UNDEFINED
| FS_GENERIC_FLAT
| FS_GENERIC_HIERARCHICAL
| FS_DCF

fun file_system_code :: "file_system \<Rightarrow> u16" where
  "file_system_code FS_UNDEFINED = 0x0000"
| "file_system_code FS_GENERIC_FLAT = 0x0001"
| "file_system_code FS_GENERIC_HIERARCHICAL = 0x0002"
| "file_system_code FS_DCF = 0x0003"

datatype association_type =
  ASSOCIATION_UNDEFINED
| ASSOCIATION_GENERIC_FOLDER
| ASSOCIATION_ALBUM
| ASSOCIATION_TIME_SEQUENCE
| ASSOCIATION_HORIZONTAL_PANORAMIC
| ASSOCIATION_VERTICAL_PANORAMIC
| ASSOCIATION_2D_PANORAMIC
| ASSOCIATION_ANCILLARY_DATA

fun association_type_code :: "association_type \<Rightarrow> u16" where
  "association_type_code ASSOCIATION_UNDEFINED = 0x0000"
| "association_type_code ASSOCIATION_GENERIC_FOLDER = 0x0001"
| "association_type_code ASSOCIATION_ALBUM = 0x0002"
| "association_type_code ASSOCIATION_TIME_SEQUENCE = 0x0003"
| "association_type_code ASSOCIATION_HORIZONTAL_PANORAMIC = 0x0004"
| "association_type_code ASSOCIATION_VERTICAL_PANORAMIC = 0x0005"
| "association_type_code ASSOCIATION_2D_PANORAMIC = 0x0006"
| "association_type_code ASSOCIATION_ANCILLARY_DATA = 0x0007"

datatype object_protection =
  NO_PROTECTION
| READ_ONLY

fun object_protection_code :: "object_protection \<Rightarrow> u16" where
  "object_protection_code NO_PROTECTION = 0x0000"
| "object_protection_code READ_ONLY = 0x0001"

datatype functional_mode =
  MODE_STANDARD
| MODE_SLEEP_STATE

fun functional_mode_code :: "functional_mode \<Rightarrow> u16" where
  "functional_mode_code MODE_STANDARD = 0x0000"
| "functional_mode_code MODE_SLEEP_STATE = 0x0001"

section \<open>Arguments with a meaning of their own\<close>

abbreviation (input) PTP_OBJECT_AGGREGATED_STORES :: u32 where "PTP_OBJECT_AGGREGATED_STORES \<equiv> 0xFFFFFFFF"
abbreviation (input) PTP_OBJECT_FORMAT_CODE_IMAGE :: u32 where "PTP_OBJECT_FORMAT_CODE_IMAGE \<equiv> 0xFFFFFFFF"
abbreviation (input) PTP_OBJECT_FORMAT_CODE_UNUSED :: u32 where "PTP_OBJECT_FORMAT_CODE_UNUSED \<equiv> 0x00000000"
abbreviation (input) PTP_OBJECT_ASSOCIATION_ROOT :: u32 where "PTP_OBJECT_ASSOCIATION_ROOT \<equiv> 0xFFFFFFFF"
abbreviation (input) PTP_OBJECT_ASSOCIATION_UNUSED :: u32 where "PTP_OBJECT_ASSOCIATION_UNUSED \<equiv> 0x00000000"
abbreviation (input) PTP_OBJECT_AGGREGATED_HANDLES :: u32 where "PTP_OBJECT_AGGREGATED_HANDLES \<equiv> 0xFFFFFFFF"
abbreviation (input) PTP_OBJECT_FORMAT_CODE_HANDLES_IMAGE :: u32 where "PTP_OBJECT_FORMAT_CODE_HANDLES_IMAGE \<equiv> 0xFFFFFFFF"
abbreviation (input) PTP_OBJECT_FORMAT_CODE_HANDLES_UNUSED :: u32 where "PTP_OBJECT_FORMAT_CODE_HANDLES_UNUSED \<equiv> 0x00000000"
abbreviation (input) PTP_OBJECT_ASSOCIATION_HANDLES_ROOT :: u32 where "PTP_OBJECT_ASSOCIATION_HANDLES_ROOT \<equiv> 0xFFFFFFFF"
abbreviation (input) PTP_OBJECT_ASSOCIATION_HANDLES_UNUSED :: u32 where "PTP_OBJECT_ASSOCIATION_HANDLES_UNUSED \<equiv> 0x00000000"
abbreviation (input) PTP_OBJECT_DELETE_ALL_HANDLES :: u32 where "PTP_OBJECT_DELETE_ALL_HANDLES \<equiv> 0xFFFFFFFF"
abbreviation (input) PTP_OBJECT_FORMAT_CODE_IMAGE_DELETE :: u32 where "PTP_OBJECT_FORMAT_CODE_IMAGE_DELETE \<equiv> 0xFFFFFFFF"
abbreviation (input) PTP_OBJECT_NO_PARENT :: u32 where "PTP_OBJECT_NO_PARENT \<equiv> 0x00000000"
abbreviation (input) PTP_OBJECT_NO_SEQ_NUMBER :: u32 where "PTP_OBJECT_NO_SEQ_NUMBER \<equiv> 0x00000000"
abbreviation (input) PTP_DEVICE_RESET_PROP_VALUES_ALL :: u32 where "PTP_DEVICE_RESET_PROP_VALUES_ALL \<equiv> 0xFFFFFFFF"
abbreviation (input) PTP_STORAGE_MAX_CAPACITY_UNUSED :: "64 word" where "PTP_STORAGE_MAX_CAPACITY_UNUSED \<equiv> 0xFFFFFFFFFFFFFFFF"
abbreviation (input) PTP_STORAGE_FREE_SPACE_IN_BYTES_UNUSED :: "64 word" where "PTP_STORAGE_FREE_SPACE_IN_BYTES_UNUSED \<equiv> 0xFFFFFFFFFFFFFFFF"
abbreviation (input) PTP_STORAGE_FREE_SPACE_IN_IMAGES_UNUSED :: u32 where "PTP_STORAGE_FREE_SPACE_IN_IMAGES_UNUSED \<equiv> 0xFFFFFFFF"
abbreviation (input) PTP_STORAGE_ID_UNUSED :: u32 where "PTP_STORAGE_ID_UNUSED \<equiv> 0x00000000"
abbreviation (input) PTP_STORAGE_HANDLE_ROOT :: u32 where "PTP_STORAGE_HANDLE_ROOT \<equiv> 0xFFFFFFFF"
abbreviation (input) PTP_STORAGE_HANDLE_UNUSED :: u32 where "PTP_STORAGE_HANDLE_UNUSED \<equiv> 0x00000000"


section \<open>Layouts tile their structure\<close>

lemma layout_size_simps [simp]:
  "layout_size [] = 0" "layout_size ((n, k) # l) = k + layout_size l"
  by (simp_all add: layout_size_def)

lemma layout_size_append [simp]: "layout_size (l @ l') = layout_size l + layout_size l'"
  by (simp add: layout_size_def)

text \<open>A member lies behind the members before it, and inside the structure.\<close>

lemma member_offset_append:
  "member_offset (l @ (m, k) # l') m = Some (layout_size l)" if "m \<notin> fst ` set l"
  using that by (induction l) auto

lemma member_offset_prefix:
  "(m, k) \<in> set l \<Longrightarrow> member_offset (l @ l') m = member_offset (l @ l'') m"
  by (induction l) auto

lemma member_offset_inside:
  assumes "distinct (map fst l)" and "(m, k) \<in> set l"
  shows "\<exists>i. member_offset l m = Some i \<and> i + k \<le> layout_size l"
proof -
  from assms(2) obtain l1 l2 where l: "l = l1 @ (m, k) # l2" by (meson split_list)
  with assms(1) have "m \<notin> fst ` set l1" by auto
  from member_offset_append [OF this, of k l2] show ?thesis by (simp add: l)
qed

text \<open>Two different members do not share a byte.\<close>

lemma members_disjoint:
  assumes "distinct (map fst l)" and "(m, k) \<in> set l" and "(m', k') \<in> set l" and "m \<noteq> m'"
    and "member_offset l m = Some i" and "member_offset l m' = Some i'"
  shows "i + k \<le> i' \<or> i' + k' \<le> i"
  using assms
proof (induction l arbitrary: i i')
  case Nil
  then show ?case by simp
next
  case (Cons x l)
  obtain n j where x: "x = (n, j)" by (cases x)
  show ?case
  proof (cases "n = m \<or> n = m'")
    case True
    then show ?thesis using Cons.prems x by (auto simp: rev_image_eqI)
  next
    case False
    with Cons.prems x obtain a a' where a: "member_offset l m = Some a" "member_offset l m' = Some a'"
      and "i = j + a" "i' = j + a'" by auto
    moreover have "a + k \<le> a' \<or> a' + k' \<le> a"
      by (rule Cons.IH) (use Cons.prems False x a in auto)
    ultimately show ?thesis by auto
  qed
qed

section \<open>Formats are ordered by their codes\<close>

lemma object_formats_codes:
  "map object_format_code object_formats =
    map (\<lambda>i. 0x3000 + of_nat i) [0..<13] @ map (\<lambda>i. 0x3800 + of_nat i) [0..<17]"
  by (simp add: object_formats_def upt_conv_Cons)

lemma object_formats_all: "f \<in> set object_formats"
  by (cases f) (simp_all add: object_formats_def)

lemma distinct_object_format_codes: "distinct (map object_format_code object_formats)"
  by (simp add: object_formats_def)

lemma object_format_code_inject [simp]:
  "object_format_code f = object_format_code g \<longleftrightarrow> f = g"
  using distinct_object_format_codes object_formats_all [of f] object_formats_all [of g]
  by (auto simp: distinct_map inj_on_def)

instantiation object_format :: linorder
begin

definition less_eq_object_format :: "object_format \<Rightarrow> object_format \<Rightarrow> bool" where
  "less_eq_object_format f g \<longleftrightarrow> object_format_code f \<le> object_format_code g"

definition less_object_format :: "object_format \<Rightarrow> object_format \<Rightarrow> bool" where
  "less_object_format f g \<longleftrightarrow> object_format_code f < object_format_code g"

instance
  by standard (auto simp: less_eq_object_format_def less_object_format_def
      simp del: object_format_code_inject simp flip: object_format_code_inject)

end

section \<open>The layouts and the formats\<close>

text \<open>
  The structures of the datasets are packed without overlap, with the members where the
  protocol puts them up to the first string; the two layouts of object information agree on
  their first 52 bytes and on none of the strings behind them. Sending object information announces
  the size of the second layout behind a header.
\<close>

lemma dataset_layouts:
  shows "list_all (\<lambda>l. distinct (map fst l)) [object_info, object_info2, storage_info, device_info] \<and>
    map layout_size [object_info, object_info2, storage_info, device_info] = [84, 64, 42, 90] \<and>
    take 15 object_info = take 15 object_info2 \<and> layout_size (take 15 object_info) = 52 \<and>
    map (\<lambda>(m, k). member_offset object_info m) (take 15 object_info) =
      map (\<lambda>(m, k). member_offset object_info2 m) (take 15 object_info) \<and>
    map (\<lambda>(m, k). (member_offset object_info2 m, k)) (drop 15 object_info) =
      [(None, POINTER_SIZE), (None, POINTER_SIZE), (None, POINTER_SIZE), (None, POINTER_SIZE)] \<and>
    layout_size object_info2 = OBJECT_INFO2_SIZE \<and>
    unat (PTP_DATA_REQUEST_LEN (of_nat OBJECT_INFO2_SIZE)) = PTP_HEADER_LEN + layout_size object_info2"
proof (intro conjI)
  let ?c = "take 15 object_info"
  have common: "?c = take 15 object_info2" by (simp add: object_info_def object_info2_def)
  then show "take 15 object_info = take 15 object_info2" .
  have "member_offset object_info m = member_offset object_info2 m" if "(m, k) \<in> set ?c" for m k
    using member_offset_prefix [OF that, of "drop 15 object_info" "drop 15 object_info2"]
    by (metis append_take_drop_id common)
  then show "map (\<lambda>(m, k). member_offset object_info m) ?c =
      map (\<lambda>(m, k). member_offset object_info2 m) ?c"
    by (intro map_cong) auto
qed (simp_all add: object_info_def object_info2_def storage_info_def device_info_def
    PTP_DATA_REQUEST_LEN_def)

text \<open>
  The object formats round-trip through their codes, no other code is a format, images are
  the formats with bit 11 of the code set, and so come after all others in the order of the
  codes.
\<close>

lemma object_formats_roundtrip:
  shows "object_format_of (object_format_code f) = Some f \<and>
    {c. object_format_of c \<noteq> None} = object_format_code ` UNIV \<and>
    object_format_code ` UNIV =
      set (map (\<lambda>i. 0x3000 + of_nat i) [0..<13] @ map (\<lambda>i. 0x3800 + of_nat i) [0..<17]) \<and>
    (is_image_format f \<longleftrightarrow> bit (object_format_code f) 11) \<and>
    (is_image_format f \<longleftrightarrow> FORMAT_UNKNOWN_IMAGE \<le> f) \<and> sorted_wrt (<) object_formats"
proof (intro conjI)
  have find: "object_format_of c = Some g \<longleftrightarrow> object_format_code g = c" for c g
  proof
    assume "object_format_of c = Some g"
    then show "object_format_code g = c" by (auto simp: object_format_of_def find_Some_iff)
  next
    assume g: "object_format_code g = c"
    obtain g' where "object_format_of c = Some g'"
      using g object_formats_all [of g]
      by (cases "object_format_of c") (auto simp: object_format_of_def find_None_iff)
    moreover from this g have "g' = g"
      by (auto simp: object_format_of_def find_Some_iff dest: sym)
    ultimately show "object_format_of c = Some g" by simp
  qed
  then show "object_format_of (object_format_code f) = Some f" by simp
  show "{c. object_format_of c \<noteq> None} = object_format_code ` UNIV"
    using find by auto
  have UNIV: "(UNIV :: object_format set) = set object_formats"
    using object_formats_all by auto
  show "object_format_code ` UNIV =
      set (map (\<lambda>i. 0x3000 + of_nat i) [0..<13] @ map (\<lambda>i. 0x3800 + of_nat i) [0..<17])"
    unfolding UNIV object_formats_codes [symmetric] by simp
  show "is_image_format f \<longleftrightarrow> bit (object_format_code f) 11"
    by (cases f) (simp_all add: bit_numeral_rec)
  show "is_image_format f \<longleftrightarrow> FORMAT_UNKNOWN_IMAGE \<le> f"
    by (cases f) (simp_all add: less_eq_object_format_def)
  show "sorted_wrt (<) object_formats"
    by (simp add: object_formats_def less_object_format_def)
qed

end
