(* ===== verification/Ptp_Error.thy ===== *)
theory Ptp_Error
  imports Prelude
begin

text \<open>
  The response codes of \<^verbatim>\<open>lib/ptp/ptp.h\<close> and their messages (\<^verbatim>\<open>lib/ptp/error.c\<close>),
  and the macros of \<^verbatim>\<open>lib/ptp/storage.h\<close> that take a storage id apart.
\<close>

section \<open>Response codes\<close>

abbreviation (input) PTP_RESPONSE_UNDEFINED :: u16 where "PTP_RESPONSE_UNDEFINED \<equiv> 0x2000"
abbreviation (input) PTP_RESPONSE_OK :: u16 where "PTP_RESPONSE_OK \<equiv> 0x2001"
abbreviation (input) PTP_RESPONSE_GENERAL_ERROR :: u16 where "PTP_RESPONSE_GENERAL_ERROR \<equiv> 0x2002"
abbreviation (input) PTP_RESPONSE_SESSION_NOT_OPEN :: u16 where "PTP_RESPONSE_SESSION_NOT_OPEN \<equiv> 0x2003"
abbreviation (input) PTP_RESPONSE_INVALID_TRANSACTION_ID :: u16 where "PTP_RESPONSE_INVALID_TRANSACTION_ID \<equiv> 0x2004"
abbreviation (input) PTP_RESPONSE_OPERATION_NOT_SUPPORTED :: u16 where "PTP_RESPONSE_OPERATION_NOT_SUPPORTED \<equiv> 0x2005"
abbreviation (input) PTP_RESPONSE_PARAMETER_NOT_SUPPORTED :: u16 where "PTP_RESPONSE_PARAMETER_NOT_SUPPORTED \<equiv> 0x2006"
abbreviation (input) PTP_RESPONSE_INCOMPLETE_TRANSFER :: u16 where "PTP_RESPONSE_INCOMPLETE_TRANSFER \<equiv> 0x2007"
abbreviation (input) PTP_RESPONSE_INVALID_STORAGE_ID :: u16 where "PTP_RESPONSE_INVALID_STORAGE_ID \<equiv> 0x2008"
abbreviation (input) PTP_RESPONSE_INVALID_OBJECT_HANDLE :: u16 where "PTP_RESPONSE_INVALID_OBJECT_HANDLE \<equiv> 0x2009"
abbreviation (input) PTP_RESPONSE_DEVICEPROP_NOT_SUPPORTED :: u16 where
  "PTP_RESPONSE_DEVICEPROP_NOT_SUPPORTED \<equiv> 0x200A"
abbreviation (input) PTP_RESPONSE_INVALID_OBJECT_FORMAT_CODE :: u16 where
  "PTP_RESPONSE_INVALID_OBJECT_FORMAT_CODE \<equiv> 0x200B"
abbreviation (input) PTP_RESPONSE_STORE_FULL :: u16 where "PTP_RESPONSE_STORE_FULL \<equiv> 0x200C"
abbreviation (input) PTP_RESPONSE_OBJECT_WRITE_PROTECTED :: u16 where "PTP_RESPONSE_OBJECT_WRITE_PROTECTED \<equiv> 0x200D"
abbreviation (input) PTP_RESPONSE_STORE_READ_ONLY :: u16 where "PTP_RESPONSE_STORE_READ_ONLY \<equiv> 0x200E"
abbreviation (input) PTP_RESPONSE_ACCESS_DENIED :: u16 where "PTP_RESPONSE_ACCESS_DENIED \<equiv> 0x200F"
abbreviation (input) PTP_RESPONSE_NO_THUMBNAIL_PRESENT :: u16 where "PTP_RESPONSE_NO_THUMBNAIL_PRESENT \<equiv> 0x2010"
abbreviation (input) PTP_RESPONSE_SELF_TEST_FAILED :: u16 where "PTP_RESPONSE_SELF_TEST_FAILED \<equiv> 0x2011"
abbreviation (input) PTP_RESPONSE_PARTIAL_DELETION :: u16 where "PTP_RESPONSE_PARTIAL_DELETION \<equiv> 0x2012"
abbreviation (input) PTP_RESPONSE_STORE_NOT_AVAILABLE :: u16 where "PTP_RESPONSE_STORE_NOT_AVAILABLE \<equiv> 0x2013"
abbreviation (input) PTP_RESPONSE_SPECIFICATION_BY_FORMAT_UNSUPPORTED :: u16 where
  "PTP_RESPONSE_SPECIFICATION_BY_FORMAT_UNSUPPORTED \<equiv> 0x2014"
abbreviation (input) PTP_RESPONSE_NO_VALID_OBJECT_INFO :: u16 where "PTP_RESPONSE_NO_VALID_OBJECT_INFO \<equiv> 0x2015"
abbreviation (input) PTP_RESPONSE_INVALID_CODE_FORMAT :: u16 where "PTP_RESPONSE_INVALID_CODE_FORMAT \<equiv> 0x2016"
abbreviation (input) PTP_RESPONSE_UNKNOWN_VENDOR_CODE :: u16 where "PTP_RESPONSE_UNKNOWN_VENDOR_CODE \<equiv> 0x2017"
abbreviation (input) PTP_RESPONSE_CAPTURE_ALREADY_TERMINATED :: u16 where
  "PTP_RESPONSE_CAPTURE_ALREADY_TERMINATED \<equiv> 0x2018"
abbreviation (input) PTP_RESPONSE_DEVICE_BUSY :: u16 where "PTP_RESPONSE_DEVICE_BUSY \<equiv> 0x2019"
abbreviation (input) PTP_RESPONSE_INVALID_PARENT_OBJECT :: u16 where "PTP_RESPONSE_INVALID_PARENT_OBJECT \<equiv> 0x201A"
abbreviation (input) PTP_RESPONSE_INVALID_DEVICEPROP_FORMAT :: u16 where
  "PTP_RESPONSE_INVALID_DEVICEPROP_FORMAT \<equiv> 0x201B"
abbreviation (input) PTP_RESPONSE_INVALID_DEVICEPROP_VALUE :: u16 where
  "PTP_RESPONSE_INVALID_DEVICEPROP_VALUE \<equiv> 0x201C"
abbreviation (input) PTP_RESPONSE_INVALID_PARAMETER :: u16 where "PTP_RESPONSE_INVALID_PARAMETER \<equiv> 0x201D"
abbreviation (input) PTP_RESPONSE_SESSION_ALREADY_OPEN :: u16 where "PTP_RESPONSE_SESSION_ALREADY_OPEN \<equiv> 0x201E"
abbreviation (input) PTP_RESPONSE_TRANSACTION_CANCELLED :: u16 where "PTP_RESPONSE_TRANSACTION_CANCELLED \<equiv> 0x201F"
abbreviation (input) PTP_RESPONSE_SPECIFICATION_OF_DESTINATION_UNSUPPORTED :: u16 where
  "PTP_RESPONSE_SPECIFICATION_OF_DESTINATION_UNSUPPORTED \<equiv> 0x2020"

text \<open>The codes in the order of the header, and the table of messages.\<close>

definition response_codes :: "u16 list" where
  "response_codes =
     [PTP_RESPONSE_UNDEFINED, PTP_RESPONSE_OK, PTP_RESPONSE_GENERAL_ERROR,
      PTP_RESPONSE_SESSION_NOT_OPEN, PTP_RESPONSE_INVALID_TRANSACTION_ID,
      PTP_RESPONSE_OPERATION_NOT_SUPPORTED, PTP_RESPONSE_PARAMETER_NOT_SUPPORTED,
      PTP_RESPONSE_INCOMPLETE_TRANSFER, PTP_RESPONSE_INVALID_STORAGE_ID,
      PTP_RESPONSE_INVALID_OBJECT_HANDLE, PTP_RESPONSE_DEVICEPROP_NOT_SUPPORTED,
      PTP_RESPONSE_INVALID_OBJECT_FORMAT_CODE, PTP_RESPONSE_STORE_FULL,
      PTP_RESPONSE_OBJECT_WRITE_PROTECTED, PTP_RESPONSE_STORE_READ_ONLY,
      PTP_RESPONSE_ACCESS_DENIED, PTP_RESPONSE_NO_THUMBNAIL_PRESENT,
      PTP_RESPONSE_SELF_TEST_FAILED, PTP_RESPONSE_PARTIAL_DELETION,
      PTP_RESPONSE_STORE_NOT_AVAILABLE, PTP_RESPONSE_SPECIFICATION_BY_FORMAT_UNSUPPORTED,
      PTP_RESPONSE_NO_VALID_OBJECT_INFO, PTP_RESPONSE_INVALID_CODE_FORMAT,
      PTP_RESPONSE_UNKNOWN_VENDOR_CODE, PTP_RESPONSE_CAPTURE_ALREADY_TERMINATED,
      PTP_RESPONSE_DEVICE_BUSY, PTP_RESPONSE_INVALID_PARENT_OBJECT,
      PTP_RESPONSE_INVALID_DEVICEPROP_FORMAT, PTP_RESPONSE_INVALID_DEVICEPROP_VALUE,
      PTP_RESPONSE_INVALID_PARAMETER, PTP_RESPONSE_SESSION_ALREADY_OPEN,
      PTP_RESPONSE_TRANSACTION_CANCELLED,
      PTP_RESPONSE_SPECIFICATION_OF_DESTINATION_UNSUPPORTED]"

definition error_msg :: "string list" where
  "error_msg =
     [''Undefined'', ''OK'', ''General Error'', ''Session Not Open'',
      ''Invalid TransactionID'', ''Operation Not Supported'', ''Parameter Not Supported'',
      ''Incomplete Transfer'', ''Invalid StorageID'', ''Invalid ObjectHandle'',
      ''DeviceProp Not Supported'', ''Invalid ObjectFormatCode'', ''Store Full'',
      ''Object WriteProtected'', ''Store Read-Only'', ''Access Denied'',
      ''No Thumbnail Present'', ''SelfTest Failed'', ''Partial Deletion'',
      ''Store Not Available'', ''Specification By Format Unsupported'',
      ''No Valid ObjectInfo'', ''Invalid Code Format'', ''Unknown Vendor Code'',
      ''Capture Already Terminated'', ''Device Busy'', ''Invalid ParentObject'',
      ''Invalid DeviceProp Format'', ''Invalid DeviceProp Value'', ''Invalid Parameter'',
      ''Session Already Open'', ''Transaction Cancelled'',
      ''Specification of Destination Unsupported'']"

text \<open>
  \<^verbatim>\<open>ptp_get_error\<close>: the table is indexed with the low byte of the code, and has no entry
  for most of its values.
\<close>

definition ptp_get_error :: "u16 \<Rightarrow> string checked" where
  "ptp_get_error ecode =
     (let i = unat (ecode AND 0x00FF)
      in if i < length error_msg then Inr (error_msg ! i) else Inl Out_of_bounds)"

section \<open>Storage ids\<close>

definition PTP_STORAGE_PHYSICAL_ID_MASK :: "u32 \<Rightarrow> u32" where
  "PTP_STORAGE_PHYSICAL_ID_MASK storage_id = drop_bit 16 (storage_id OR 0xFFFF0000)"

definition PTP_STORAGE_LOGICAL_ID_MASK :: "u32 \<Rightarrow> u32" where
  "PTP_STORAGE_LOGICAL_ID_MASK storage_id = storage_id OR 0x0000FFFF"

lemma length_error_msg [simp]: "length error_msg = 33"
  by (simp add: error_msg_def)

lemma ptp_get_error_messages: "map ptp_get_error response_codes = map Inr error_msg"
  by (simp add: response_codes_def ptp_get_error_def) (simp add: error_msg_def)

section \<open>Properties\<close>

text \<open>
  C31: every response code of the protocol has its own message, in the order the header lists
  the codes. The message depends on the low byte only, so a vendor's code is reported as the
  standard one that shares it, and every code whose low byte is beyond the table is looked up
  outside it.
\<close>

theorem ptp_get_error_table:
  shows "map ptp_get_error response_codes = map Inr error_msg \<and> distinct error_msg \<and>
    response_codes = map (\<lambda>i. 0x2000 + of_nat i) [0..<33] \<and>
    ptp_get_error (c AND 0xFF) = ptp_get_error c \<and>
    {c. ptp_get_error c = Inl Out_of_bounds} = {c. 33 \<le> unat (c AND 0xFF)}"
proof (intro conjI)
  show "map ptp_get_error response_codes = map Inr error_msg" by (rule ptp_get_error_messages)
  show "distinct error_msg" by (simp add: error_msg_def)
  show "response_codes = map (\<lambda>i. 0x2000 + of_nat i) [0..<33]"
    by (simp add: response_codes_def upt_conv_Cons)
  show "ptp_get_error (c AND 0xFF) = ptp_get_error c"
    by (simp add: ptp_get_error_def and.assoc)
  show "{c. ptp_get_error c = Inl Out_of_bounds} = {c. 33 \<le> unat (c AND 0xFF)}"
    by (auto simp: ptp_get_error_def Let_def split: if_splits)
qed

text \<open>
  The masks that should separate the physical and the logical half of a storage id join
  them with ones instead: the physical id of every storage is 0xFFFF, and so is the low half of
  every logical id.
\<close>

lemma ptp_storage_id_masks_constant:
  shows "PTP_STORAGE_PHYSICAL_ID_MASK storage_id = 0xFFFF \<and>
    PTP_STORAGE_LOGICAL_ID_MASK storage_id AND 0xFFFF = 0xFFFF"
proof
  have bits: "(0xFFFF :: u32) = mask 16" "(0xFFFF0000 :: u32) = push_bit 16 (mask 16)"
    by (simp_all add: mask_eq_exp_minus_1)
  show "PTP_STORAGE_PHYSICAL_ID_MASK storage_id = 0xFFFF"
    unfolding PTP_STORAGE_PHYSICAL_ID_MASK_def bits
    by (rule bit_word_eqI) (auto simp: bit_simps dest: bit_imp_le_length)
  show "PTP_STORAGE_LOGICAL_ID_MASK storage_id AND 0xFFFF = 0xFFFF"
    unfolding PTP_STORAGE_LOGICAL_ID_MASK_def bits
    by (rule bit_word_eqI) (auto simp: bit_simps)
qed

end
