(* ===== verification/Ptp_Session.thy ===== *)
theory Ptp_Session
  imports Ptp_Remote Ptp_Props Ptp_Datasets Ptp_Error
begin

text \<open>
  Sequences of operations of \<^verbatim>\<open>lib/ptp\<close>: they refine the sequence of remote calls over
  every responder. A responder that keeps the session rules of the comments in
  \<^verbatim>\<open>lib/ptp/ptp.h\<close> shows what a client sees of them.
\<close>

section \<open>Scripts\<close>

fun ptp_script ::
    "'w usb_ops \<Rightarrow> 'w env \<Rightarrow> ptp_dev \<Rightarrow> (ptp_operation \<times> ptp_caller) list \<Rightarrow> ('w, ptp_reply list) cmd"
  where
  "ptp_script B E dev [] = ret []"
| "ptp_script B E dev ((x, c) # xs) =
     bnd (ptp_invoke B E dev x c) (\<lambda>r. bnd (ptp_script B E dev xs) (\<lambda>rs. ret (r # rs)))"

fun remote_script ::
    "'s responder \<Rightarrow> (ptp_operation \<times> ptp_caller) list \<Rightarrow> 's \<times> int \<Rightarrow> ptp_reply list \<times> 's \<times> int"
  where
  "remote_script respond [] st = ([], st)"
| "remote_script respond ((x, c) # xs) st =
     (case remote_step respond x c st of (r, st') \<Rightarrow>
      case remote_script respond xs st' of (rs, st'') \<Rightarrow> (r # rs, st''))"

text \<open>The command blocks of a script, under the transaction ids it draws.\<close>

fun script_commands :: "ptp_operation list \<Rightarrow> int \<Rightarrow> u8 list list" where
  "script_commands [] n = []"
| "script_commands (x # xs) n =
     ptp_command (fst (operation_request x)) (operation_tid x n) (snd (operation_request x)) #
     script_commands xs (if draws x then n + 1 else n)"

text \<open>The abstract state of the program's world.\<close>

definition remote_state :: "'s \<times> device \<Rightarrow> 's \<times> int" where
  "remote_state w = (fst w, seed (snd w))"

lemma remote_step_seed:
  "remote_step respond x c (s, n) = (r, s', n') \<Longrightarrow> n' = (if draws x then n + 1 else n)"
  by (auto simp: remote_step_def Let_def split: prod.splits)

lemma remote_step_invariant:
  "responder_ok I respond \<Longrightarrow> I s \<Longrightarrow> remote_step respond x c (s, n) = (r, s', n') \<Longrightarrow> I s'"
  by (auto simp: remote_step_def Let_def dest: responder_okD(2) split: prod.splits)

lemma ptp_script_refines:
  assumes "responder_ok I respond" and "I s" and "\<not> bit (word_of_int (ptp_endp dev) :: u16) 7"
    and "\<forall>(x, c) \<in> set xs. caller_ok c" and "inbox d = []"
  shows "\<exists>d'. ptp_script (usb_ops (reactive_env (ptp_machine respond)))
      (reactive_env (ptp_machine respond)) dev xs (s, d) =
      Some (Inr (fst (remote_script respond xs (s, seed d)),
        fst (snd (remote_script respond xs (s, seed d))), d')) \<and>
    seed d' = snd (snd (remote_script respond xs (s, seed d))) \<and> inbox d' = [] \<and>
    outbox d' = outbox d @ map known (script_commands (map fst xs) (seed d))"
  using assms(2,4,5)
proof (induction xs arbitrary: s d)
  case Nil
  then show ?case by (auto simp: ret_def)
next
  case (Cons xc xs)
  obtain x c where xc: "xc = (x, c)" by (cases xc)
  obtain r s1 n where step: "remote_step respond x c (s, seed d) = (r, s1, n)"
    by (cases "remote_step respond x c (s, seed d)") auto
  let ?cmd = "ptp_command (fst (operation_request x)) (operation_tid x (seed d)) (snd (operation_request x))"
  let ?d = "exchanged (known ?cmd) (d\<lparr>seed := n\<rparr>)"
  have d: "inbox ?d = []" "seed ?d = n" "outbox ?d = outbox d @ [known ?cmd]"
    by (simp_all add: exchanged_def)
  obtain d' where d': "ptp_script (usb_ops (reactive_env (ptp_machine respond)))
        (reactive_env (ptp_machine respond)) dev xs (s1, ?d) =
      Some (Inr (fst (remote_script respond xs (s1, n)),
        fst (snd (remote_script respond xs (s1, n))), d'))"
    "seed d' = snd (snd (remote_script respond xs (s1, n)))" "inbox d' = []"
    "outbox d' = outbox d @ known ?cmd # map known (script_commands (map fst xs) n)"
    using Cons.IH [of s1 ?d] Cons.prems d remote_step_invariant [OF assms(1) _ step] by auto
  have "ptp_invoke (usb_ops (reactive_env (ptp_machine respond)))
      (reactive_env (ptp_machine respond)) dev x c (s, d) = Some (Inr (r, s1, ?d))"
    using ptp_invoke_remote [OF assms(1) _ _ assms(3) _ step] Cons.prems xc by auto
  with d' show ?case
    by (intro exI [where x = d'])
      (simp add: xc step remote_step_seed [OF step] ret_def split: prod.split)
qed


section \<open>The session rules of the header\<close>

text \<open>
  A responder with the rules the comments of \<^verbatim>\<open>lib/ptp/ptp.h\<close> state: only DeviceInfo is
  answered outside of a session, session 0 and a second session are refused, resetting or
  powering down closes the session, objects are found by their handles.
\<close>

record store =
  opened :: "u32 option"
  store_device_info :: "u8 list"
  objects :: "(u32 \<times> u8 list) list"

definition plain :: "u16 \<Rightarrow> ptp_answer" where
  "plain code = \<lparr>answer_data = None, answer_code = code, answer_params = []\<rparr>"

definition with_data :: "u8 list \<Rightarrow> ptp_answer" where
  "with_data p = \<lparr>answer_data = Some p, answer_code = PTP_RESPONSE_OK, answer_params = []\<rparr>"

definition in_session :: "store \<Rightarrow> u16 \<Rightarrow> u32 list \<Rightarrow> ptp_answer \<times> store" where
  "in_session s code ps =
     (if code = PTP_REQUEST_CLOSE_SESSION \<or> code = PTP_REQUEST_RESET_DEVICE \<or>
         code = PTP_REQUEST_POWER_DOWN
      then (plain PTP_RESPONSE_OK, s\<lparr>opened := None\<rparr>)
      else if code = PTP_REQUEST_GET_NUM_OBJECTS
      then (\<lparr>answer_data = None, answer_code = PTP_RESPONSE_OK,
             answer_params = [of_nat (length (objects s))]\<rparr>, s)
      else if code = PTP_REQUEST_GET_OBJECT \<and> ps \<noteq> []
      then (case map_of (objects s) (hd ps) of
              None \<Rightarrow> (plain PTP_RESPONSE_INVALID_OBJECT_HANDLE, s)
            | Some p \<Rightarrow> (with_data p, s))
      else if code = PTP_REQUEST_DELETE_OBJECT \<and> ps \<noteq> []
      then (if hd ps = PTP_OBJECT_DELETE_ALL_HANDLES then (plain PTP_RESPONSE_OK, s\<lparr>objects := []\<rparr>)
            else if map_of (objects s) (hd ps) = None
            then (plain PTP_RESPONSE_INVALID_OBJECT_HANDLE, s)
            else (plain PTP_RESPONSE_OK, s\<lparr>objects := filter (\<lambda>(h, _). h \<noteq> hd ps) (objects s)\<rparr>))
      else (plain PTP_RESPONSE_OPERATION_NOT_SUPPORTED, s))"

definition session_respond :: "store responder" where
  "session_respond s code tid ps =
     (if code = PTP_REQUEST_GET_DEVICE_INFO then (with_data (store_device_info s), s)
      else if code = PTP_REQUEST_OPEN_SESSION \<and> ps \<noteq> []
      then (case opened s of
              Some i \<Rightarrow> (\<lparr>answer_data = None, answer_code = PTP_RESPONSE_SESSION_ALREADY_OPEN,
                          answer_params = [i]\<rparr>, s)
            | None \<Rightarrow>
                if hd ps = 0 then (plain PTP_RESPONSE_INVALID_PARAMETER, s)
                else (plain PTP_RESPONSE_OK, s\<lparr>opened := Some (hd ps)\<rparr>))
      else (case opened s of
              None \<Rightarrow> (plain PTP_RESPONSE_SESSION_NOT_OPEN, s)
            | Some i \<Rightarrow> in_session s code ps))"

text \<open>Its objects fit the buffers of the library.\<close>

definition store_ok :: "store \<Rightarrow> bool" where
  "store_ok s \<longleftrightarrow> length (store_device_info s) \<le> 2036 \<and> (\<forall>(h, p) \<in> set (objects s). length p \<le> 2036)"

lemma store_ok_object: "store_ok s \<Longrightarrow> map_of (objects s) h = Some p \<Longrightarrow> length p \<le> 2036"
  by (auto simp: store_ok_def dest: map_of_SomeD)

lemma answer_ok_simps [simp]:
  "answer_ok (plain code)" "answer_ok (with_data p) \<longleftrightarrow> length p \<le> 2036"
  "answer_ok \<lparr>answer_data = None, answer_code = code, answer_params = [x]\<rparr>"
  by (simp_all add: answer_ok_def plain_def with_data_def)

lemma store_ok_simps [simp]:
  "store_ok s \<Longrightarrow> store_ok (s\<lparr>opened := i\<rparr>)"
  "store_ok s \<Longrightarrow> store_ok (s\<lparr>objects := []\<rparr>)"
  "store_ok s \<Longrightarrow> store_ok (s\<lparr>objects := filter P (objects s)\<rparr>)"
  by (auto simp: store_ok_def)

lemma in_session_ok:
  assumes "store_ok s"
  shows "answer_ok (fst (in_session s code ps)) \<and> store_ok (snd (in_session s code ps))"
  using assms store_ok_object [OF assms, of "hd ps"]
  by (simp add: in_session_def split: if_split option.split)

lemma responder_ok_session: "responder_ok store_ok session_respond"
  unfolding responder_ok_def
proof (intro allI impI)
  fix s code tid ps
  assume s: "store_ok s"
  then have "length (store_device_info s) \<le> 2036" by (simp add: store_ok_def)
  with s in_session_ok [OF s, of code ps]
  show "answer_ok (fst (session_respond s code tid ps)) \<and> store_ok (snd (session_respond s code tid ps))"
    by (simp add: session_respond_def split: if_split option.split)
qed


section \<open>Properties\<close>

text \<open>
  C3: a sequence of operations of the library is the sequence of its remote calls, for every
  responder whose answers fit the buffers: the replies of the calls reach their callers in order,
  the responder ends in the state the calls lead to, exactly the command blocks of the operations
  were sent, each session-opening one under transaction id 0 and the others under ids drawn in
  turn, and nothing is left to be received.
\<close>

theorem ptp_script_remote:
  assumes "responder_ok I respond" and "I s" and "\<not> bit (word_of_int (ptp_endp dev) :: u16) 7"
    and "\<forall>(x, c) \<in> set xs. caller_ok c" and "inbox d = []"
    and "remote_script respond xs (remote_state (s, d)) = (rs, st)"
  shows "\<exists>w'. ptp_script (usb_ops (reactive_env (ptp_machine respond)))
      (reactive_env (ptp_machine respond)) dev xs (s, d) = Some (Inr (rs, w')) \<and>
    remote_state w' = st \<and> inbox (snd w') = [] \<and>
    outbox (snd w') = outbox d @ map known (script_commands (map fst xs) (seed d))"
  using ptp_script_refines [OF assms(1-5)] assms(6) by (auto simp: remote_state_def)

definition cleared :: ptp_caller where
  "cleared = \<lparr>caller_data = None, caller_len = 0, caller_res = Some \<lparr>ptp_length = 0, ptp_code = 0\<rparr>,
     caller_params = None\<rparr>"

lemma caller_ok_cleared [simp]:
  "caller_ok cleared" "caller_ok (cleared\<lparr>caller_data := Some (uninit 16), caller_len := 16\<rparr>)"
  by (simp_all add: caller_ok_def cleared_def)

definition example_store :: store where
  "example_store = \<lparr>opened = None, store_device_info = [], objects = [(7, [1, 2])]\<rparr>"

lemma store_ok_example [simp]: "store_ok example_store"
  by (simp add: store_ok_def example_store_def)

definition ok_reply :: ptp_reply where
  "ok_reply = (0, None, Some \<lparr>ptp_length = 0, ptp_code = 0x2001\<rparr>, None)"

theorem ptp_script_remote_witness:
  "\<exists>w'. ptp_script (usb_ops (reactive_env (ptp_machine session_respond)))
      (reactive_env (ptp_machine session_respond)) \<lparr>ptp_fd = 3, ptp_endp = 1\<rparr>
      [(Open_session 5, cleared), (Get_num_objects 0 0 0, cleared), (Close_session, cleared)]
      (example_store, idle) =
    Some (Inr ([ok_reply, ok_reply, ok_reply], w')) \<and>
    remote_state w' = (example_store, 2) \<and> inbox (snd w') = [] \<and>
    outbox (snd w') = outbox idle @ map known (script_commands
      (map fst [(Open_session 5, cleared), (Get_num_objects 0 0 0, cleared), (Close_session, cleared)])
      (seed idle))"
proof -
  have "remote_script session_respond
      [(Open_session 5, cleared), (Get_num_objects 0 0 0, cleared), (Close_session, cleared)]
      (remote_state (example_store, idle)) = ([ok_reply, ok_reply, ok_reply], example_store, 2)"
    by (simp add: idle_def remote_state_def remote_step_def session_respond_def in_session_def
        plain_def remote_reply_def answer_report_def data_container_def cleared_def
        example_store_def Let_def ok_reply_def enc32s_def)
  from ptp_script_remote [OF responder_ok_session store_ok_example _ _ _ this] show ?thesis
    by (simp add: idle_def)
qed

text \<open>The steps of a responder whose session is closed.\<close>

lemma remote_script_closed:
  assumes "opened s = None"
    and "\<forall>(x, c) \<in> set xs. x \<noteq> Get_device_info \<and> (\<forall>i. x \<noteq> Open_session i)"
  shows "\<exists>n'. remote_script session_respond xs (s, n) =
    (map (\<lambda>(x, c). (0, if fills_data x then caller_data c else None,
       map_option (\<lambda>r. r\<lparr>ptp_code := PTP_RESPONSE_SESSION_NOT_OPEN\<rparr>) (caller_res c),
       if fills_params x then caller_params c else None)) xs, s, n')"
  using assms(2)
proof (induction xs arbitrary: n)
  case Nil
  then show ?case by simp
next
  case (Cons xc xs)
  obtain x c where xc: "xc = (x, c)" by (cases xc)
  have x: "fst (operation_request x) \<noteq> PTP_REQUEST_GET_DEVICE_INFO"
      "fst (operation_request x) \<noteq> PTP_REQUEST_OPEN_SESSION"
    using Cons.prems xc by (cases x; simp)+
  then have "remote_step session_respond x c (s, n) =
    ((0, if fills_data x then caller_data c else None,
       map_option (\<lambda>r. r\<lparr>ptp_code := PTP_RESPONSE_SESSION_NOT_OPEN\<rparr>) (caller_res c),
       if fills_params x then caller_params c else None), s, if draws x then n + 1 else n)"
    by (cases "caller_data c"; cases "caller_res c"; cases "caller_params c")
      (simp_all add: remote_step_def session_respond_def assms(1) remote_reply_def plain_def
        data_container_def answer_report_def enc32s_def)
  moreover obtain n' where "remote_script session_respond xs (s, if draws x then n + 1 else n) =
    (map (\<lambda>(x, c). (0, if fills_data x then caller_data c else None,
       map_option (\<lambda>r. r\<lparr>ptp_code := PTP_RESPONSE_SESSION_NOT_OPEN\<rparr>) (caller_res c),
       if fills_params x then caller_params c else None)) xs, s, n')"
    using Cons by fastforce
  ultimately show ?case by (simp add: xc split del: if_split)
qed

text \<open>
  Without a session nothing but DeviceInfo can be had: over a responder with the rules of the
  header, every other operation comes back with Session_Not_Open, which the library names as
  such, the caller's data and parameters unchanged, and the store keeps its state.
\<close>

lemma ptp_session_required:
  assumes "store_ok s" and "opened s = None" and "\<not> bit (word_of_int (ptp_endp dev) :: u16) 7"
    and "\<forall>(x, c) \<in> set xs. caller_ok c \<and> x \<noteq> Get_device_info \<and> (\<forall>i. x \<noteq> Open_session i)"
    and "inbox d = []"
  shows "\<exists>d'. ptp_script (usb_ops (reactive_env (ptp_machine session_respond)))
      (reactive_env (ptp_machine session_respond)) dev xs (s, d) =
    Some (Inr (map (\<lambda>(x, c). (0, if fills_data x then caller_data c else None,
       map_option (\<lambda>r. r\<lparr>ptp_code := PTP_RESPONSE_SESSION_NOT_OPEN\<rparr>) (caller_res c),
       if fills_params x then caller_params c else None)) xs, s, d')) \<and>
    ptp_get_error PTP_RESPONSE_SESSION_NOT_OPEN = Inr ''Session Not Open''"
proof -
  from assms(4) have "\<forall>(x, c) \<in> set xs. x \<noteq> Get_device_info \<and> (\<forall>i. x \<noteq> Open_session i)" by auto
  from remote_script_closed [OF assms(2) this] obtain n' where
    "remote_script session_respond xs (s, seed d) =
      (map (\<lambda>(x, c). (0, if fills_data x then caller_data c else None,
         map_option (\<lambda>r. r\<lparr>ptp_code := PTP_RESPONSE_SESSION_NOT_OPEN\<rparr>) (caller_res c),
         if fills_params x then caller_params c else None)) xs, s, n')" by blast
  moreover have "ptp_get_error PTP_RESPONSE_SESSION_NOT_OPEN = Inr ''Session Not Open''"
    by (simp add: ptp_get_error_def error_msg_def)
  ultimately show ?thesis
    using ptp_script_refines [OF responder_ok_session assms(1,3) _ assms(5), of xs] assms(4) by auto
qed

lemma ptp_session_required_example:
  "\<exists>d'. ptp_script (usb_ops (reactive_env (ptp_machine session_respond)))
      (reactive_env (ptp_machine session_respond)) \<lparr>ptp_fd = 3, ptp_endp = 1\<rparr>
      [(Delete_object 7 0, cleared)] (example_store, idle) =
    Some (Inr ([(0, None, Some \<lparr>ptp_length = 0, ptp_code = 0x2003\<rparr>, None)], example_store, d')) \<and>
    ptp_get_error 0x2003 = Inr ''Session Not Open''"
proof -
  have closed: "opened example_store = None" by (simp add: example_store_def)
  show ?thesis
    using ptp_session_required [OF store_ok_example closed, of "\<lparr>ptp_fd = 3, ptp_endp = 1\<rparr>"
        "[(Delete_object 7 0, cleared)]" idle]
    by (simp add: idle_def) (simp add: cleared_def)
qed

text \<open>
  C9: a session that is opened, used to get an object and closed delivers the container of
  this object, cut to the caller's buffer, reports its length, and leaves the responder as it was:
  with the session closed and every object in its place.
\<close>

theorem ptp_session_gets_object:
  assumes "store_ok s" and "opened s = None" and "i \<noteq> 0" and "map_of (objects s) h = Some p"
    and "\<not> bit (word_of_int (ptp_endp dev) :: u16) 7" and "inbox d = []"
    and "unat len \<le> length b"
    and "c = cleared\<lparr>caller_data := Some b, caller_len := len\<rparr>"
  shows "\<exists>r d'. ptp_script (usb_ops (reactive_env (ptp_machine session_respond)))
      (reactive_env (ptp_machine session_respond)) dev
      [(Open_session i, cleared), (Get_object h, c), (Close_session, cleared)] (s, d) =
    Some (Inr ([ok_reply, r, ok_reply], s, d')) \<and>
    r = (0, Some (overwrite (take (unat len) (container_bytes 2 0x1009 (drawn_tid (seed d)) p)) b),
      Some \<lparr>ptp_length = of_nat (12 + length p), ptp_code = 0x2001\<rparr>, None)"
proof -
  let ?r = "(0, Some (overwrite (take (unat len) (container_bytes 2 0x1009 (drawn_tid (seed d)) p)) b),
      Some \<lparr>ptp_length = of_nat (12 + length p), ptp_code = 0x2001\<rparr>, None) :: ptp_reply"
  have s: "s\<lparr>opened := None\<rparr> = s" using assms(2) by simp
  have "remote_script session_respond
      [(Open_session i, cleared), (Get_object h, c), (Close_session, cleared)] (s, seed d) =
    ([ok_reply, ?r, ok_reply], s, seed d + 2)"
    using assms(2-4) s
    by (simp add: remote_step_def session_respond_def in_session_def plain_def with_data_def
        remote_reply_def answer_report_def data_container_def cleared_def Let_def ok_reply_def
        operation_tid_def assms(8) enc32s_def)
  moreover have "caller_ok c" using assms(7,8) by (simp add: caller_ok_def cleared_def)
  ultimately show ?thesis
    using ptp_script_refines [OF responder_ok_session assms(1,5) _ assms(6),
        of "[(Open_session i, cleared), (Get_object h, c), (Close_session, cleared)]"] by auto
qed

theorem ptp_session_gets_object_witness:
  "\<exists>r d'. ptp_script (usb_ops (reactive_env (ptp_machine session_respond)))
      (reactive_env (ptp_machine session_respond)) \<lparr>ptp_fd = 3, ptp_endp = 1\<rparr>
      [(Open_session 5, cleared), (Get_object 7, cleared\<lparr>caller_data := Some (uninit 16), caller_len := 16\<rparr>),
       (Close_session, cleared)] (example_store, idle) =
    Some (Inr ([ok_reply, r, ok_reply], example_store, d')) \<and>
    r = (0, Some (known [14, 0, 0, 0, 2, 0, 9, 0x10, 1, 0, 0, 0, 1, 2] @ uninit 2),
      Some \<lparr>ptp_length = 14, ptp_code = 0x2001\<rparr>, None)"
proof -
  have s: "opened example_store = None" "map_of (objects example_store) 7 = Some [1, 2]"
    by (simp_all add: example_store_def)
  have "overwrite (container_bytes 2 0x1009 1 [1, 2]) (uninit 16) =
      known [14, 0, 0, 0, 2, 0, 9, 0x10, 1, 0, 0, 0, 1, 2] @ uninit 2"
    by (simp add: container_bytes_def enc32_def enc16_def overwrite_def uninit_def known_def)
  then show ?thesis
    using ptp_session_gets_object [OF store_ok_example s(1) _ s(2) _ _ _ refl,
        of 5 "\<lparr>ptp_fd = 3, ptp_endp = 1\<rparr>" idle 16 "uninit 16"]
    by (simp add: idle_def drawn_tid_def)
qed


text \<open>
  C10: formatting a store deletes objects. Over a responder with the rules of the header,
  \<^verbatim>\<open>ptp_format_store\<close> with the id of a storage deletes the object whose handle is the
  same number, or every object if the number is 0xFFFFFFFF, and reports success; if there is no
  such object it is refused with Invalid_ObjectHandle. No store is formatted.
\<close>

theorem ptp_format_store_loses_objects:
  assumes "store_ok s" and "opened s = Some i" and "\<not> bit (word_of_int (ptp_endp dev) :: u16) 7"
    and "inbox d = []"
  shows "\<exists>d'. ptp_format_store (usb_ops (reactive_env (ptp_machine session_respond)))
      (reactive_env (ptp_machine session_respond)) dev storage_id fs_format (Some x) (s, d) =
    Some (Inr (if storage_id = 0xFFFFFFFF
      then ((0, None, Some (x\<lparr>ptp_code := 0x2001\<rparr>), None), s\<lparr>objects := []\<rparr>, d')
      else if map_of (objects s) storage_id = None
      then ((0, None, Some (x\<lparr>ptp_code := 0x2009\<rparr>), None), s, d')
      else ((0, None, Some (x\<lparr>ptp_code := 0x2001\<rparr>), None),
        s\<lparr>objects := filter (\<lambda>(h, _). h \<noteq> storage_id) (objects s)\<rparr>, d')))"
proof -
  let ?c = "cleared\<lparr>caller_res := Some x\<rparr>"
  let ?step = "remote_step session_respond (Delete_object storage_id fs_format) ?c (s, seed d)"
  have c: "caller_ok ?c" by (simp add: caller_ok_def cleared_def)
  have step: "?step = (fst ?step, fst (snd ?step), snd (snd ?step))" by simp
  have "ptp_format_store B E dev storage_id fs_format (Some x) =
      ptp_invoke B E dev (Delete_object storage_id fs_format) ?c"
    for B :: "(store \<times> device) usb_ops" and E
    by (simp add: ptp_format_store_deletes cleared_def)
  then show ?thesis
    using ptp_invoke_remote [OF responder_ok_session assms(1) c assms(3,4) step] assms(2)
    by (auto simp: remote_step_def session_respond_def in_session_def plain_def remote_reply_def
        answer_report_def data_container_def cleared_def Let_def split: option.splits)
qed

theorem ptp_format_store_loses_objects_witness:
  "\<exists>d'. ptp_format_store (usb_ops (reactive_env (ptp_machine session_respond)))
      (reactive_env (ptp_machine session_respond)) \<lparr>ptp_fd = 3, ptp_endp = 1\<rparr> 7 0
      (Some \<lparr>ptp_length = 0, ptp_code = 0\<rparr>) (example_store\<lparr>opened := Some 5\<rparr>, idle) =
    Some (Inr ((0, None, Some \<lparr>ptp_length = 0, ptp_code = 0x2001\<rparr>, None),
      example_store\<lparr>opened := Some 5, objects := []\<rparr>, d'))"
proof -
  have s: "store_ok (example_store\<lparr>opened := Some 5\<rparr>)" "opened (example_store\<lparr>opened := Some 5\<rparr>) = Some 5"
    by simp_all
  show ?thesis
    using ptp_format_store_loses_objects [OF s, of "\<lparr>ptp_fd = 3, ptp_endp = 1\<rparr>" idle 7 0
        "\<lparr>ptp_length = 0, ptp_code = 0\<rparr>"]
    by (simp add: idle_def example_store_def)
qed

text \<open>
  C11: setting a device property does not set it. Over every responder whose answers fit the
  buffers, whatever the caller gives as the value, only the command block with the number of the
  property is sent, so that the device and every reply to the operations that follow are the same
  for every value; and the data the device answers with, if any, is written over the value,
  although the operation is documented to send its data to the device.
\<close>

theorem ptp_set_device_prop_value_loses_value:
  assumes "responder_ok I respond" and "I s" and "\<not> bit (word_of_int (ptp_endp dev) :: u16) 7"
    and "inbox d = []" and "caller_ok c" and "caller_ok c'" and "\<forall>(x, c) \<in> set xs. caller_ok c"
    and "respond s 0x1016 (drawn_tid (seed d)) [code] = (a, s1)"
  shows "\<exists>r r' rs w'.
    ptp_script (usb_ops (reactive_env (ptp_machine respond))) (reactive_env (ptp_machine respond)) dev
      ((Set_device_prop_value code, c) # xs) (s, d) = Some (Inr (r # rs, w')) \<and>
    ptp_script (usb_ops (reactive_env (ptp_machine respond))) (reactive_env (ptp_machine respond)) dev
      ((Set_device_prop_value code, c') # xs) (s, d) = Some (Inr (r' # rs, w')) \<and>
    fst (snd r) = map_option (overwrite (take (unat (caller_len c))
      (data_container 0x1016 (drawn_tid (seed d)) a))) (caller_data c) \<and>
    outbox (snd w') = outbox d @ known (ptp_command 0x1016 (drawn_tid (seed d)) [code]) #
      map known (script_commands (map fst xs) (seed d + 1))"
proof -
  let ?E = "reactive_env (ptp_machine respond)" and ?x = "Set_device_prop_value code"
  let ?reply = "\<lambda>c. remote_reply ?x (drawn_tid (seed d)) c a"
  let ?d = "exchanged (known (ptp_command 0x1016 (drawn_tid (seed d)) [code])) (d\<lparr>seed := seed d + 1\<rparr>)"
  have first: "ptp_invoke (usb_ops ?E) ?E dev ?x c (s, d) = Some (Inr (?reply c, s1, ?d))"
    if "caller_ok c" for c
  proof -
    have "remote_step respond ?x c (s, seed d) = (?reply c, s1, seed d + 1)"
      using assms(8) by (simp add: remote_step_def operation_tid_def Let_def)
    from ptp_invoke_remote [OF assms(1,2) that assms(3,4) this] show ?thesis
      by (simp add: operation_tid_def)
  qed
  have "inbox ?d = []" by (simp add: exchanged_def)
  from ptp_script_refines [OF assms(1) responder_okD(2) [OF assms(1,2,8)] assms(3,7) this]
  obtain rs s' d' where rest: "ptp_script (usb_ops ?E) ?E dev xs (s1, ?d) = Some (Inr (rs, s', d'))"
    and bus: "outbox d' = outbox ?d @ map known (script_commands (map fst xs) (seed ?d))"
    by blast
  have "outbox ?d = outbox d @ [known (ptp_command 0x1016 (drawn_tid (seed d)) [code])]"
    and "seed ?d = seed d + 1" by (simp_all add: exchanged_def)
  with first [OF assms(5)] first [OF assms(6)] rest bus show ?thesis
    by (simp add: bnd_def ret_def remote_reply_def)
qed

theorem ptp_set_device_prop_value_loses_value_witness:
  "\<exists>r r' rs w'.
    ptp_script (usb_ops (reactive_env (ptp_machine (\<lambda>s code tid ps. (with_data [1, 2], s)))))
      (reactive_env (ptp_machine (\<lambda>s code tid ps. (with_data [1, 2], s)))) \<lparr>ptp_fd = 3, ptp_endp = 1\<rparr>
      [(Set_device_prop_value 0x5001, cleared\<lparr>caller_data := Some (known [80, 80, 80, 80]), caller_len := 4\<rparr>),
       (Close_session, cleared)] ((), idle) = Some (Inr (r # rs, w')) \<and>
    ptp_script (usb_ops (reactive_env (ptp_machine (\<lambda>s code tid ps. (with_data [1, 2], s)))))
      (reactive_env (ptp_machine (\<lambda>s code tid ps. (with_data [1, 2], s)))) \<lparr>ptp_fd = 3, ptp_endp = 1\<rparr>
      [(Set_device_prop_value 0x5001, cleared\<lparr>caller_data := Some (known [99]), caller_len := 1\<rparr>),
       (Close_session, cleared)] ((), idle) = Some (Inr (r' # rs, w')) \<and>
    fst (snd r) = Some (known [14, 0, 0, 0])"
proof -
  let ?respond = "\<lambda>(s :: unit) (code :: u16) (tid :: u32) (ps :: u32 list). (with_data [1, 2], s)"
  have ok: "responder_ok (\<lambda>_. True) ?respond" by (simp add: responder_ok_def)
  have "overwrite (take 4 (data_container 0x1016 1 (with_data [1, 2]))) (known [80, 80, 80, 80]) =
      known [14, 0, 0, 0]"
    by (simp add: data_container_def with_data_def container_bytes_def enc32_def overwrite_def known_def)
  then show ?thesis
    using ptp_set_device_prop_value_loses_value [OF ok TrueI, where dev = "\<lparr>ptp_fd = 3, ptp_endp = 1\<rparr>"
        and d = idle and xs = "[(Close_session, cleared)]" and code = "0x5001"
        and c = "cleared\<lparr>caller_data := Some (known [80, 80, 80, 80]), caller_len := 4\<rparr>"
        and c' = "cleared\<lparr>caller_data := Some (known [99]), caller_len := 1\<rparr>"]
    by (fastforce simp: idle_def drawn_tid_def caller_ok_def cleared_def)
qed

end
