(* ===== verification/Ptp_Docs.thy ===== *)
theory Ptp_Docs
  imports Ptp_Remote Ptp_Error
begin

text \<open>
  What the comments of \<^verbatim>\<open>lib/ptp/ptp.h\<close> say of each operation: the direction of its data
  and the responses it may have. The tables are compared with what the operations do and with the
  messages of \<^verbatim>\<open>lib/ptp/error.c\<close>.
\<close>

section \<open>The documented operations\<close>

datatype direction = No_data | To_initiator | To_responder

record operation_doc =
  doc_direction :: direction
  doc_responses :: "string list"

definition doc_get_device_info :: operation_doc where
  "doc_get_device_info =
     \<lparr>doc_direction = To_initiator,
      doc_responses =
       [''OK'', ''Parameter_Not_Supported'']\<rparr>"

definition doc_open_session :: operation_doc where
  "doc_open_session =
     \<lparr>doc_direction = No_data,
      doc_responses =
       [''OK'', ''Parameter_Not_Supported'', ''Invalid_Parameter'', ''Session_Already_Open'',
       ''Device_Busy'']\<rparr>"

definition doc_close_session :: operation_doc where
  "doc_close_session =
     \<lparr>doc_direction = No_data,
      doc_responses =
       [''OK'', ''Session_Not_Open'', ''Invalid_TransactionID'', ''Parameter_Not_Supported'']\<rparr>"

definition doc_get_storage_id :: operation_doc where
  "doc_get_storage_id =
     \<lparr>doc_direction = To_initiator,
      doc_responses =
       [''OK'', ''Operation_Not_Supported'', ''Session_Not_Open'', ''Invalid_TransactionID'',
       ''Parameter_Not_Supported'']\<rparr>"

definition doc_get_storage_info :: operation_doc where
  "doc_get_storage_info =
     \<lparr>doc_direction = To_initiator,
      doc_responses =
       [''OK'', ''Session_Not_Open'', ''Invalid_TransactionID'', ''Access_Denied'',
       ''Invalid_StorageID'', ''Store_Not_Available'', ''Parameter_Not_Supported'']\<rparr>"

definition doc_get_num_objects :: operation_doc where
  "doc_get_num_objects =
     \<lparr>doc_direction = No_data,
      doc_responses =
       [''OK'', ''Operation_Not_Supported'', ''Session_Not_Open'', ''Invalid_TransactionID'',
       ''Invalid_StorageID'', ''Store_Not_Available'', ''Specification_By_Format_Unsupported'',
       ''Invalid_Code_Format'', ''Parameter_Not_Supported'', ''Invalid_ParentObject'',
       ''Invalid_ObjectHandle'', ''Invalid_Parameter'']\<rparr>"

definition doc_get_object_handles :: operation_doc where
  "doc_get_object_handles =
     \<lparr>doc_direction = To_initiator,
      doc_responses =
       [''OK'', ''Operation_Not_Supported'', ''Session_Not_Open'', ''Invalid_TransactionID'',
       ''Invalid_StorageID'', ''Store_Not_Available'', ''Invalid_ObjectFormatCode'',
       ''Specification_By_Format_Unsupported'', ''Invalid_Code_Format'', ''Invalid_ObjectHandle'',
       ''Invalid_Parameter'', ''Parameter_Not_Supported'', ''Invalid_ParentObject'',
       ''Invalid_ObjectHandle'']\<rparr>"

definition doc_get_object_info :: operation_doc where
  "doc_get_object_info =
     \<lparr>doc_direction = To_initiator,
      doc_responses =
       [''OK'', ''Operation_Not_Supported'', ''Session_Not_Open'', ''Invalid_TransactionID'',
       ''Invalid_ObjectHandle'', ''Store_Not_Available'', ''Parameter_Not_Supported'']\<rparr>"

definition doc_get_object :: operation_doc where
  "doc_get_object =
     \<lparr>doc_direction = To_initiator,
      doc_responses =
       [''OK'', ''Operation_Not_Supported'', ''Session_Not_Open'', ''Invalid_TransactionID'',
       ''Invalid_ObjectHandle'', ''Invalid_Parameter'', ''Store_Not_Available'',
       ''Parameter_Not_Supported'', ''Incomplete_Transfer'']\<rparr>"

definition doc_get_thumb :: operation_doc where
  "doc_get_thumb =
     \<lparr>doc_direction = To_initiator,
      doc_responses =
       [''OK'', ''Operation_Not_Supported'', ''Session_Not_Open'', ''Invalid_TransactionID'',
       ''Invalid_ObjectHandle'', ''Thumbnail_Not_Present'', ''Invalid_ObjectFormatCode'',
       ''Store_Not_Available'', ''Parameter_Not_Supported'']\<rparr>"

definition doc_delete_object :: operation_doc where
  "doc_delete_object =
     \<lparr>doc_direction = No_data,
      doc_responses =
       [''OK'', ''Operation_Not_Supported'', ''Session_Not_Open'', ''Invalid_TransactionID'',
       ''Invalid_ObjectHandle'', ''Object_WriteProtected'', ''Store_Read_Only'',
       ''Partial_Deletion'', ''Store_Not_Available'', ''Specification_By_Format_Unsupported'',
       ''Invalid_Code_Format'', ''Device_Busy'', ''Parameter_Not_Supported'']\<rparr>"

definition doc_send_object_info :: operation_doc where
  "doc_send_object_info =
     \<lparr>doc_direction = To_responder,
      doc_responses =
       [''OK'', ''Operation_Not_Supported'', ''Session_Not_Open'', ''Invalid_TransactionID'',
       ''Access_Denied'', ''Invalid_StorageID'', ''Store_Read_Only'', ''Store_Full'',
       ''Invalid_ObjectFormatCode'', ''Store_Not_Available'', ''Parameter_Not_Supported'',
       ''Invalid_ParentObject'', ''Invalid_Dataset'']\<rparr>"

definition doc_send_object :: operation_doc where
  "doc_send_object =
     \<lparr>doc_direction = To_responder,
      doc_responses =
       [''OK'', ''Operation_Not_Supported'', ''Session_Not_Open'', ''Invalid_TransactionID'',
       ''Store_Full'', ''Store_Not_Available'', ''No_Valid_ObjectInfo'', ''Device_Busy'',
       ''Parameter_Not_Supported'', ''Incomplete_Transfer'']\<rparr>"

definition doc_initiate_capture :: operation_doc where
  "doc_initiate_capture =
     \<lparr>doc_direction = No_data,
      doc_responses =
       [''OK'', ''Operation_Not_Supported'', ''Session_Not_Open'', ''Invalid_TransactionID'',
       ''Invalid_StorageID'', ''Store_Full'', ''Invalid_ObjectFormatCode'', ''Invalid_Parameter'',
       ''Store_Not_Available'', ''Invalid_Code_Format'', ''Device_Busy'',
       ''Parameter_Not_Supported'']\<rparr>"

definition doc_format_store :: operation_doc where
  "doc_format_store =
     \<lparr>doc_direction = No_data,
      doc_responses =
       [''OK'', ''Operation_Not_Supported'', ''Session_Not_Open'', ''Invalid_TransactionID'',
       ''Invalid_StorageID'', ''Store_Not_Available'', ''Device_Busy'',
       ''Parameter_Not_Supported'', ''Invalid_Parameter'', ''Store_Read_Only'']\<rparr>"

definition doc_reset_device :: operation_doc where
  "doc_reset_device =
     \<lparr>doc_direction = No_data,
      doc_responses =
       [''OK'', ''Operation_Not_Supported'', ''Session_Not_Open'', ''Invalid_TransactionID'',
       ''Device_Busy'']\<rparr>"

definition doc_self_test :: operation_doc where
  "doc_self_test =
     \<lparr>doc_direction = No_data,
      doc_responses =
       [''OK'', ''Operation_Not_Supported'', ''Session_Not_Open'', ''Invalid_TransactionID'',
       ''SelfTest_Failed'', ''Device_Busy'', ''Parameter_Not_Supported'']\<rparr>"

definition doc_set_object_protection :: operation_doc where
  "doc_set_object_protection =
     \<lparr>doc_direction = No_data,
      doc_responses =
       [''OK'', ''Operation_Not_Supported'', ''Session_Not_Open'', ''Invalid_TransactionID'',
       ''Access_Denied'', ''Invalid_ObjectHandle'', ''Invalid_Parameter'',
       ''Store_Not_Available'', ''Parameter_Not_Supported'', ''Store_Read_Only'']\<rparr>"

definition doc_power_down :: operation_doc where
  "doc_power_down =
     \<lparr>doc_direction = No_data,
      doc_responses =
       [''OK'', ''Operation_Not_Supported'', ''Session_Not_Open'', ''Invalid_TransactionID'',
       ''Device_Busy'', ''Parameter_Not_Supported'']\<rparr>"

definition doc_get_device_prop_desc :: operation_doc where
  "doc_get_device_prop_desc =
     \<lparr>doc_direction = To_initiator,
      doc_responses =
       [''OK'', ''Operation_Not_Supported'', ''Session_Not_Open'', ''Invalid_TransactionID'',
       ''Access_Denied'', ''DeviceProp_Not_Supported'', ''Device_Busy'',
       ''Parameter_Not_Supported'']\<rparr>"

definition doc_get_device_prop_value :: operation_doc where
  "doc_get_device_prop_value =
     \<lparr>doc_direction = To_initiator,
      doc_responses =
       [''OK'', ''Operation_Not_Supported'', ''Session_Not_Open'', ''Invalid_TransactionID'',
       ''DeviceProp_Not_Supported'', ''Device_Busy'', ''Parameter_Not_Supported'']\<rparr>"

definition doc_set_device_prop_value :: operation_doc where
  "doc_set_device_prop_value =
     \<lparr>doc_direction = To_responder,
      doc_responses =
       [''OK'', ''Session_Not_Open'', ''Invalid_TransactionID'', ''Access_Denied'',
       ''DeviceProp_Not_Supported'', ''Property_Not_Supported'', ''Invalid_DeviceProp_Format'',
       ''Invalid_DeviceProp_Value'', ''Device_Busy'', ''Parameter_Not_Supported'']\<rparr>"

definition doc_reset_device_prop_value :: operation_doc where
  "doc_reset_device_prop_value =
     \<lparr>doc_direction = No_data,
      doc_responses =
       [''OK'', ''Operation_Not_Supported'', ''Session_Not_Open'', ''Invalid_TransactionID'',
       ''DeviceProp_Not_Supported'', ''Device_Busy'', ''Parameter_Not_Supported'']\<rparr>"

definition doc_terminate_open_capture :: operation_doc where
  "doc_terminate_open_capture =
     \<lparr>doc_direction = No_data,
      doc_responses =
       [''OK'', ''Operation_Not_Supported'', ''Session_Not_Open'', ''Invalid_TransactionID'',
       ''Parameter_Not_Supported'', ''Invalid_Parameter'', ''Capture_Already_Terminated'']\<rparr>"

definition doc_move_object :: operation_doc where
  "doc_move_object =
     \<lparr>doc_direction = No_data,
      doc_responses =
       [''OK'', ''Operation_Not_Supported'', ''Session_Not_Open'', ''Invalid_TransactionID'',
       ''Store_Read_Only'', ''Store_Not_Available'', ''Invalid_ObjectHandle'',
       ''Invalid_ParentObject'', ''Device_Busy'', ''Parameter_Not_Supported'',
       ''Invalid_StorageHandle'']\<rparr>"

definition doc_copy_object :: operation_doc where
  "doc_copy_object =
     \<lparr>doc_direction = No_data,
      doc_responses =
       [''OK'', ''Operation_Not_Supported'', ''Session_Not_Open'', ''Invalid_TransactionID'',
       ''Store_Read_Only'', ''Invalid_ObjectHandle'', ''Invalid_ParentObject'', ''Device_Busy'',
       ''Store_Full'', ''Parameter_Not_Supported'', ''Invalid_StorageID'']\<rparr>"

definition doc_get_partial_object :: operation_doc where
  "doc_get_partial_object =
     \<lparr>doc_direction = To_initiator,
      doc_responses =
       [''OK'', ''Operation_Not_Supported'', ''Session_Not_Open'', ''Invalid_TransactionID'',
       ''Invalid_ObjectHandle'', ''Invalid_ObjectFormatCode'', ''Invalid_Parameter'',
       ''Store_Not_Available'', ''Device_Busy'', ''Parameter_Not_Supported'']\<rparr>"

definition doc_initiate_open_capture :: operation_doc where
  "doc_initiate_open_capture =
     \<lparr>doc_direction = No_data,
      doc_responses =
       [''OK'', ''Operation_Not_Supported'', ''Session_Not_Open'', ''Invalid_TransactionID'',
       ''Invalid_StorageID'', ''Store_Full'', ''Invalid_ObjectFormatCode'', ''Invalid_Parameter'',
       ''Store_Not_Available'', ''Invalid_Code_Format'', ''Device_Busy'']\<rparr>"

text \<open>The documented operations by their codes.\<close>

definition documented :: "(u16 \<times> operation_doc) list" where
  "documented =
     [(PTP_REQUEST_GET_DEVICE_INFO, doc_get_device_info),
      (PTP_REQUEST_OPEN_SESSION, doc_open_session),
      (PTP_REQUEST_CLOSE_SESSION, doc_close_session),
      (PTP_REQUEST_GET_STORAGE_ID, doc_get_storage_id),
      (PTP_REQUEST_GET_STORAGE_INFO, doc_get_storage_info),
      (PTP_REQUEST_GET_NUM_OBJECTS, doc_get_num_objects),
      (PTP_REQUEST_GET_OBJECT_HANDLES, doc_get_object_handles),
      (PTP_REQUEST_GET_OBJECT_INFO, doc_get_object_info),
      (PTP_REQUEST_GET_OBJECT, doc_get_object),
      (PTP_REQUEST_GET_THUMB, doc_get_thumb),
      (PTP_REQUEST_DELETE_OBJECT, doc_delete_object),
      (PTP_REQUEST_SEND_OBJECT_INFO, doc_send_object_info),
      (PTP_REQUEST_SEND_OBJECT, doc_send_object),
      (PTP_REQUEST_INITIATE_CAPTURE, doc_initiate_capture),
      (PTP_REQUEST_FORMAT_STORE, doc_format_store),
      (PTP_REQUEST_RESET_DEVICE, doc_reset_device),
      (PTP_REQUEST_SELF_TEST, doc_self_test),
      (PTP_REQUEST_SET_OBJECT_PROTECTION, doc_set_object_protection),
      (PTP_REQUEST_POWER_DOWN, doc_power_down),
      (PTP_REQUEST_GET_DEVICE_PROP_DESC, doc_get_device_prop_desc),
      (PTP_REQUEST_GET_DEVICE_PROP_VALUE, doc_get_device_prop_value),
      (PTP_REQUEST_SET_DEVICE_PROP_VALUE, doc_set_device_prop_value),
      (PTP_REQUEST_RESET_DEVICE_PROP_VALUE, doc_reset_device_prop_value),
      (PTP_REQUEST_TERMINATE_OPEN_CAPTURE, doc_terminate_open_capture),
      (PTP_REQUEST_MOVE_OBJECT, doc_move_object),
      (PTP_REQUEST_COPY_OBJECT, doc_copy_object),
      (PTP_REQUEST_GET_PARTIAL_OBJECT, doc_get_partial_object),
      (PTP_REQUEST_INITIAL_OPEN_CAPTURE, doc_initiate_open_capture)]"


section \<open>The messages\<close>

text \<open>A name of the documentation and a message, up to the way words are separated.\<close>

definition spelled :: "string \<Rightarrow> string" where
  "spelled s = filter (\<lambda>c. c \<notin> set '' _-'') s"

definition message_named :: "string \<Rightarrow> bool" where
  "message_named n \<longleftrightarrow>
     list_ex (\<lambda>c. case ptp_get_error c of Inl _ \<Rightarrow> False | Inr m \<Rightarrow> spelled n = spelled m) response_codes"

text \<open>The messages as they are compared.\<close>

lemma spelled_messages:
  "map spelled error_msg =
    [''Undefined'', ''OK'', ''GeneralError'', ''SessionNotOpen'', ''InvalidTransactionID'',
     ''OperationNotSupported'', ''ParameterNotSupported'', ''IncompleteTransfer'',
     ''InvalidStorageID'', ''InvalidObjectHandle'', ''DevicePropNotSupported'',
     ''InvalidObjectFormatCode'', ''StoreFull'', ''ObjectWriteProtected'', ''StoreReadOnly'',
     ''AccessDenied'', ''NoThumbnailPresent'', ''SelfTestFailed'', ''PartialDeletion'',
     ''StoreNotAvailable'', ''SpecificationByFormatUnsupported'', ''NoValidObjectInfo'',
     ''InvalidCodeFormat'', ''UnknownVendorCode'', ''CaptureAlreadyTerminated'',
     ''DeviceBusy'', ''InvalidParentObject'', ''InvalidDevicePropFormat'',
     ''InvalidDevicePropValue'', ''InvalidParameter'', ''SessionAlreadyOpen'',
     ''TransactionCancelled'', ''SpecificationofDestinationUnsupported'']"
  by (simp add: error_msg_def spelled_def)

lemma message_named: "message_named n \<longleftrightarrow> spelled n \<in> set (map spelled error_msg)"
proof -
  have "message_named n \<longleftrightarrow>
      list_ex (\<lambda>e. case e of Inl _ \<Rightarrow> False | Inr m \<Rightarrow> spelled n = spelled m) (map ptp_get_error response_codes)"
    by (simp add: message_named_def list.pred_map o_def list_ex_iff)
  also have "\<dots> \<longleftrightarrow> spelled n \<in> set (map spelled error_msg)"
    unfolding ptp_get_error_messages by (auto simp: list_ex_iff image_iff)
  finally show ?thesis .
qed

lemma named_responses:
  "message_named ''OK''"
  "message_named ''Parameter_Not_Supported''"
  "message_named ''Invalid_Parameter''"
  "message_named ''Session_Already_Open''"
  "message_named ''Device_Busy''"
  "message_named ''Session_Not_Open''"
  "message_named ''Invalid_TransactionID''"
  "message_named ''Operation_Not_Supported''"
  "message_named ''Access_Denied''"
  "message_named ''Invalid_StorageID''"
  "message_named ''Store_Not_Available''"
  "message_named ''Specification_By_Format_Unsupported''"
  "message_named ''Invalid_Code_Format''"
  "message_named ''Invalid_ParentObject''"
  "message_named ''Invalid_ObjectHandle''"
  "message_named ''Invalid_ObjectFormatCode''"
  "message_named ''Incomplete_Transfer''"
  "message_named ''Object_WriteProtected''"
  "message_named ''Store_Read_Only''"
  "message_named ''Partial_Deletion''"
  "message_named ''Store_Full''"
  "message_named ''No_Valid_ObjectInfo''"
  "message_named ''SelfTest_Failed''"
  "message_named ''DeviceProp_Not_Supported''"
  "message_named ''Invalid_DeviceProp_Format''"
  "message_named ''Invalid_DeviceProp_Value''"
  "message_named ''Capture_Already_Terminated''"
  unfolding message_named spelled_messages by (simp_all add: spelled_def)

lemma unnamed_responses:
  "\<not> message_named ''Thumbnail_Not_Present''"
  "\<not> message_named ''Invalid_Dataset''"
  "\<not> message_named ''Property_Not_Supported''"
  "\<not> message_named ''Invalid_StorageHandle''"
  unfolding message_named spelled_messages by (simp_all add: spelled_def)

lemmas doc_defs =
  doc_get_device_info_def doc_open_session_def doc_close_session_def doc_get_storage_id_def
  doc_get_storage_info_def doc_get_num_objects_def doc_get_object_handles_def
  doc_get_object_info_def doc_get_object_def doc_get_thumb_def doc_delete_object_def
  doc_send_object_info_def doc_send_object_def doc_initiate_capture_def doc_format_store_def
  doc_reset_device_def doc_self_test_def doc_set_object_protection_def doc_power_down_def
  doc_get_device_prop_desc_def doc_get_device_prop_value_def doc_set_device_prop_value_def
  doc_reset_device_prop_value_def doc_terminate_open_capture_def doc_move_object_def
  doc_copy_object_def doc_get_partial_object_def doc_initiate_open_capture_def

section \<open>The comparison\<close>

text \<open>
  An operation that makes one request takes data into the caller's buffer if it is documented to
  receive data, and otherwise in two cases: deleting an object, which is documented to have no
  data, and setting a property, which is documented to send it.
\<close>

lemma documented_direction:
  "\<exists>doc. map_of documented (fst (operation_request x)) = Some doc \<and>
    (fills_data x \<longleftrightarrow> doc_direction doc = To_initiator \<or> (\<exists>h f. x = Delete_object h f) \<or>
      (\<exists>c. x = Set_device_prop_value c))"
  by (cases x) (simp_all add: documented_def doc_defs)

text \<open>Every documented response has its message, with four exceptions that no response code has.\<close>

lemma documented_messages:
  "(\<Union>(code, doc) \<in> set documented. {n \<in> set (doc_responses doc). \<not> message_named n}) =
    {''Thumbnail_Not_Present'', ''Invalid_Dataset'', ''Property_Not_Supported'',
     ''Invalid_StorageHandle''}" (is "?L = ?R")
proof
  have "\<forall>(code, doc) \<in> set documented. \<forall>n \<in> set (doc_responses doc). message_named n \<or> n \<in> ?R"
    by (simp add: documented_def doc_defs named_responses)
  then show "?L \<subseteq> ?R" by fast
  have docs: "(PTP_REQUEST_GET_THUMB, doc_get_thumb) \<in> set documented"
    "(PTP_REQUEST_SEND_OBJECT_INFO, doc_send_object_info) \<in> set documented"
    "(PTP_REQUEST_SET_DEVICE_PROP_VALUE, doc_set_device_prop_value) \<in> set documented"
    "(PTP_REQUEST_MOVE_OBJECT, doc_move_object) \<in> set documented"
    by (simp_all add: documented_def)
  have named: "''Thumbnail_Not_Present'' \<in> set (doc_responses doc_get_thumb)"
    "''Invalid_Dataset'' \<in> set (doc_responses doc_send_object_info)"
    "''Property_Not_Supported'' \<in> set (doc_responses doc_set_device_prop_value)"
    "''Invalid_StorageHandle'' \<in> set (doc_responses doc_move_object)"
    by (simp_all add: doc_get_thumb_def doc_send_object_info_def doc_set_device_prop_value_def
        doc_move_object_def)
  show "?R \<subseteq> ?L" using docs named unnamed_responses by blast
qed

end
