(* ===== verification/Spec2Isabelle.thy ===== *)
theory Spec2Isabelle
  imports Main_Session Main_Remote Main_Safe Adb_Services Sign_Props Daemon Parse_Walk Ptp_Safe Ptp_Faults Ptp_Events Ptp_Session Ptp_Docs
begin

text \<open>
  A verification library for droidbox, a program in C that talks to Android devices over USB:
  \<^verbatim>\<open>src/lib/usb\<close> makes requests to the Linux usbdevfs driver, \<^verbatim>\<open>src/lib/adb\<close>
  speaks the debug bridge protocol and \<^verbatim>\<open>src/lib/ptp\<close> the picture transfer protocol
  over its bulk transfers, and \<^verbatim>\<open>src/main.c\<close> dumps a device, claims an interface and opens
  a debug bridge stream.

  \<^bold>\<open>Modelling.\<close> A C function is a computation \<open>('w, 'a) cmd\<close> over a world of any type \<open>'w\<close>
  (\<open>Prelude\<close>): it goes on for ever (\<open>None\<close>), stops (\<open>Inl s\<close>, at an access out of bounds, the use
  of memory that was never written, a null pointer or a call of exit), or returns a value and a
  world. Buffers are lists of bytes, \<open>None\<close> for a byte never written; a pointer argument that a
  function writes through is passed and returned; a null pointer is \<open>None\<close>. Integers are words of
  their width; \<^verbatim>\<open>int\<close> is \<open>int\<close>, wrapped by \<open>cint\<close> where it could overflow, and a negative
  length becomes huge in \<open>size_of_int\<close>. Loops are recursive functions; a loop that nothing bounds
  is a \<^theory_text>\<open>partial_function\<close>, so that not returning is a value and is proved or refuted as
  such. No fuel is used. The judgement \<open>runs D F Q\<close> states what a computation may do:
  \<open>runs False never Q\<close> is total correctness.

  \<^bold>\<open>Parameters.\<close> OpenSSL, the device file and the socket calls are records of functions, with the
  documented behaviour of OpenSSL as the hypothesis \<open>openssl_ok\<close>. The kernel, \<^verbatim>\<open>rand\<close> and
  \<^verbatim>\<open>malloc\<close> are the fields of an
  environment \<open>E\<close> (\<open>Usb\<close>). \<open>usbdevfs_ok E\<close> states the documented limits of the kernel's answers,
  \<open>usbdevfs_live E\<close> that calls are not interrupted for ever. \<open>device_env\<close> (\<open>Device\<close>) is a concrete
  environment with one simulated device that satisfies both; exact exchanges are stated in it. A
  device whose receives fail, or that answers too much or the wrong thing, is a state of it. \<open>reactive_env\<close>
  (\<open>Reactive\<close>) has a machine of any kind in the place of the prepared answers, and satisfies the
  same contracts.

  \<^bold>\<open>Theories, and what they model.\<close>
  \<^item> \<open>Prelude\<close>: integers, buffers, \<^verbatim>\<open>memcpy\<close> and \<^verbatim>\<open>strlen\<close>, little-endian
    fields, computations and the rules of \<open>runs\<close>.
  \<^item> \<open>Transport\<close>: the locale \<open>bulk_transport\<close>, the contract of the two bulk operations that the
    protocols are clients of; \<open>Usb\<close> interprets it as \<open>usb\<close> for every environment. The locale
    \<open>packet_transport\<close>: a transport whose device has its answers ready, interpreted as \<open>sim\<close> in
    \<open>Device\<close> and as \<open>reactive\<close> in \<open>Reactive\<close>; exact exchanges are proved once over it.
    \<open>Adb_Link\<close> extends it to \<open>adb_transport\<close>, where memory is available, with the
    interpretations \<open>adb_sim\<close> and \<open>adb_reactive\<close>.
  \<^item> \<open>Usb\<close>: the requests and bulk transfers of \<^verbatim>\<open>lib/usb/usb.c\<close>; \<open>Usb_Props\<close> their
    properties: the requests made, memory safety, the retry loop.
  \<^item> \<open>Usb_Text\<close> and \<open>Usb_Dump\<close>: the printed text, the decoders, \<^verbatim>\<open>usb_get_string\<close> and
    \<^verbatim>\<open>usb_dump_device\<close>; \<open>Dump_Props\<close>: strings are decoded, the walk over a configuration
    visits every descriptor once, and what trusting a length byte leads to.
  \<^item> \<open>Usb_Parse\<close>: \<^verbatim>\<open>parse_descriptor\<close> and \<^verbatim>\<open>release_descriptor\<close> over an
    explicit heap; \<open>Parse_Props\<close>: the tree of a configuration with one interface, and the
    overruns of larger ones; \<open>Parse_Safety\<close>: what a parse that returns has kept, on every input;
    \<open>Parse_Walk\<close>: the walk over every well-formed configuration, which ends, and stays in its
    memory exactly as long as there is room where it stores, and the release of what it built.
  \<^item> \<open>Adb_Checksum\<close>: the checksums of \<^verbatim>\<open>lib/adb/adb.c\<close>, with a shift register as the
    reference of the CRC routines.
  \<^item> \<open>Adb\<close>: messages, \<^verbatim>\<open>__send_request\<close>, \<^verbatim>\<open>__handle_request\<close> and the seven
    operations of \<^verbatim>\<open>lib/adb/adb.c\<close>, with the safety of a request proved in the locale;
    \<open>Adb_Link\<close> and \<open>Adb_Props\<close>: the exact exchange, the safety over every kernel, short and long
    answers.
  \<^item> \<open>Adb_Remote\<close>: the operations as a datatype, and as packets of a daemon, a parameter, behind
    a device that checks what it receives; scripts of operations refine the sequence of their
    packets over every daemon. \<open>Adb_Services\<close>: the constants of \<^verbatim>\<open>lib/adb/adb.h\<close> that no
    function uses.
  \<^item> \<open>Adb_Crypt\<close>: the key of \<^verbatim>\<open>lib/adb/crypt.c\<close>.
  \<^item> \<open>Ptp\<close>: containers, \<^verbatim>\<open>__send_request\<close>, \<^verbatim>\<open>__handle_request\<close> and all
    operations of \<^verbatim>\<open>lib/ptp/ptp.c\<close>; \<open>Ptp_Safe\<close>: what a transaction keeps on every
    transport, proved in the locale; \<open>Ptp_Link\<close> and \<open>Ptp_Props\<close>: the exact transaction of each
    operation with a device that answers as prescribed; \<open>Ptp_Faults\<close>: the two operations that send
    an object, and answers the loops do not expect.
  \<^item> \<open>Ptp_Remote\<close>: the operations as a datatype, and as remote calls of a responder, a
    parameter; \<open>Ptp_Events\<close>: events among the answers change nothing for any operation;
    \<open>Ptp_Session\<close>: scripts of operations refine the sequence of their calls over every
    responder, what a client sees of a responder that keeps the session rules of
    \<^verbatim>\<open>lib/ptp/ptp.h\<close>, and that no responder sees the value a property is set to.
  \<^item> \<open>Ptp_Error\<close>: \<^verbatim>\<open>lib/ptp/error.c\<close> and the storage id macros; \<open>Ptp_Docs\<close>: what
    the comments of \<^verbatim>\<open>lib/ptp/ptp.h\<close> say of the direction of the data and the responses of
    each operation, compared with the operations and the messages; \<open>Ptp_Datasets\<close>: the structures
    of the datasets as layouts, and the enumerations of the headers with their codes.
  \<^item> \<open>Main_Flow\<close>: the whole of \<^verbatim>\<open>src/main.c\<close>; \<open>Main_Link\<close>: an abstract state machine of its
    session, as an inductive step relation, and that the program follows it over every transport
    whose device answers; \<open>Main_Props\<close> and \<open>Main_Session\<close>: what this gives for a device with its
    answers ready, the stream loop, and the use of the first response; \<open>Main_Remote\<close>: the machine
    and a daemon as one system, which the program refines, and its end; \<open>Main_Safe\<close>: the safety of
    the bridge session over every kernel, with the one way in which it leaves a buffer.
  \<^item> \<open>Main_Sign\<close> and \<open>Sign_Props\<close>: \<^verbatim>\<open>load_private_key\<close> and \<^verbatim>\<open>sign_msg\<close> of
    \<^verbatim>\<open>src/main.c\<close>, what they report and which objects they release.
  \<^item> \<open>Daemon\<close>: \<^verbatim>\<open>src/daemon/daemon.c\<close> and the socket it leaves behind.

  \<^bold>\<open>What the properties show.\<close> With devices and kernels that keep to their protocols the requests,
  exchanges, dumps, trees and streams are exactly as specified, end, and stay inside their
  buffers; whatever the kernel answers, the memory of the callers and the blocks of the heap that
  are not theirs are kept. The properties about faults are theorems of the same definitions: which
  inputs make the code read unwritten memory, leave its buffers, never return, or send something
  else than it means to.

  \<^bold>\<open>Bounds.\<close> Response buffers hold 2048 bytes and transfers 512, as in the code; requests are
  shorter than \<open>2 ^ 31\<close> bytes, the largest length the request block can state; strings have up to
  62 characters, what the 126 bytes requested hold.

  \<^bold>\<open>Not modelled.\<close> The text written for debugging and to the standard error stream; \<^verbatim>\<open>free\<close>
  of the message stream of \<^verbatim>\<open>lib/adb\<close> (it is not used after it); the prose of the comments of
  \<^verbatim>\<open>lib/ptp/ptp.h\<close> beyond the tables and the session rules; include lines and prototypes, which
  have nothing to model.
\<close>

end
